(* ===== verification/Prelude.thy ===== *)
theory Prelude
  imports Main "HOL-Library.Multiset"
begin

text \<open>
  Shared vocabulary of the call-signalling development: the identifiers, the values
  that cross component boundaries (media kinds, session descriptions, ICE candidates),
  the outcome type of asynchronous handlers that may throw after having done part of
  their work, and the generic list lemmas the component theories use.
\<close>

section \<open>Named collections\<close>

named_theorems outcome_simps "equations that run handler outcomes"
named_theorems store_simps "equations of the document-store primitives"

section \<open>Identifiers and shared data\<close>

type_synonym uid = string
type_synonym call_id = string
type_synonym chat_id = string
type_synonym seconds = nat
type_synonym timestamp = nat

text \<open>An ICE candidate is an opaque blob; only its identity matters.\<close>
type_synonym ice_candidate = nat

text \<open>\<open>'audio' | 'video'\<close>: the \<open>type\<close> of a call (src/src/lib/data.ts) and the
  \<open>kind\<close> of a media track.\<close>
datatype media_kind = Audio | Video

text \<open>\<open>RTCSessionDescriptionInit\<close>: a discriminator and an opaque SDP body.\<close>
datatype sdp_type = SdpOffer | SdpAnswer

record sdesc =
  desc_type :: sdp_type
  sdp :: string

section \<open>Outcomes of handlers that may throw\<close>

text \<open>
  An \<open>async\<close> handler of the source runs its awaited writes one after the other; a
  rejected promise aborts the rest, but the writes already done stay done. Its model
  returns the state reached and, when it aborted, the error:
  \<open>(None, s')\<close> is a normal return, \<open>(Some e, s')\<close> an exception thrown at \<open>s'\<close>.
\<close>

type_synonym ('e, 's) outcome = "'e option \<times> 's"

definition ok :: "'s \<Rightarrow> ('e, 's) outcome" where
  "ok s = (None, s)"

definition andThen :: "('s \<Rightarrow> ('e, 's) outcome) \<Rightarrow> ('s \<Rightarrow> ('e, 's) outcome) \<Rightarrow> 's \<Rightarrow> ('e, 's) outcome" where
  "andThen f g s = (case f s of (None, s') \<Rightarrow> g s' | (Some e, s') \<Rightarrow> (Some e, s'))"

lemma andThen_ok [simp, outcome_simps]:
  "f s = (None, s') \<Longrightarrow> andThen f g s = g s'"
  by (simp add: andThen_def)

lemma andThen_err [simp, outcome_simps]:
  "f s = (Some e, s') \<Longrightarrow> andThen f g s = (Some e, s')"
  by (simp add: andThen_def)

lemma andThen_ok_left [simp, outcome_simps]: "andThen ok g s = g s"
  by (simp add: andThen_def ok_def)

lemma ok_simps [simp, outcome_simps]: "fst (ok s) = None" "snd (ok s) = s"
  by (simp_all add: ok_def)

section \<open>First match in a list\<close>

text \<open>
  \<open>xs.find(p)\<close> of JavaScript returns the first element satisfying \<open>p\<close>; a program
  that then mutates that element needs its position. \<open>find_idx\<close> is that position.
\<close>

fun find_idx :: "('a \<Rightarrow> bool) \<Rightarrow> 'a list \<Rightarrow> nat option" where
  "find_idx p [] = None"
| "find_idx p (x # xs) = (if p x then Some 0 else map_option Suc (find_idx p xs))"

lemma find_idx_None_iff: "find_idx p xs = None \<longleftrightarrow> (\<forall>x\<in>set xs. \<not> p x)"
  by (induction xs) auto

lemma find_idx_Some:
  "find_idx p xs = Some i \<Longrightarrow> i < length xs \<and> p (xs ! i) \<and> (\<forall>j<i. \<not> p (xs ! j))"
proof (induction xs arbitrary: i)
  case Nil
  then show ?case by simp
next
  case (Cons x xs)
  show ?case
  proof (cases "p x")
    case True
    with Cons.prems show ?thesis by simp
  next
    case False
    with Cons.prems obtain k where k: "find_idx p xs = Some k" and i: "i = Suc k"
      by auto
    from Cons.IH [OF k] False i show ?thesis
      by (auto simp: less_Suc_eq_0_disj)
  qed
qed

lemma find_idx_find: "List.find p xs = map_option (\<lambda>i. xs ! i) (find_idx p xs)"
  by (induction xs) (auto simp: option.map_comp comp_def)

text \<open>Updating the element found, with a value that still satisfies \<open>p\<close> exactly when
  the old one did, leaves the first match where it was.\<close>

lemma find_idx_update_same:
  assumes "find_idx p xs = Some i" and "p y = p (xs ! i)"
  shows "find_idx p (xs[i := y]) = Some i"
  using assms
proof (induction xs arbitrary: i)
  case Nil
  then show ?case by simp
next
  case (Cons x xs)
  show ?case
  proof (cases "p x")
    case True
    with Cons.prems show ?thesis by simp
  next
    case False
    with Cons.prems obtain k where k: "find_idx p xs = Some k" and i: "i = Suc k"
      by auto
    with Cons.prems have "p y = p (xs ! k)" by simp
    from Cons.IH [OF k this] False i show ?thesis by simp
  qed
qed

section \<open>Decimal strings\<close>

text \<open>\<open>n.toString()\<close> of a non-negative integer, and \<open>s.padStart(k, c)\<close>.\<close>

fun dec_string :: "nat \<Rightarrow> string" where
  "dec_string n =
     (if n < 10 then [char_of (48 + n)] else dec_string (n div 10) @ [char_of (48 + n mod 10)])"

declare dec_string.simps [simp del]

definition pad_start :: "nat \<Rightarrow> char \<Rightarrow> string \<Rightarrow> string" where
  "pad_start k c s = replicate (k - length s) c @ s"

section \<open>JavaScript strings\<close>

text \<open>\<open>s.split(c)\<close> for a one-character separator: empty fields are kept, and the
  empty string splits into one empty field.\<close>

fun js_split :: "char \<Rightarrow> string \<Rightarrow> string list" where
  "js_split c [] = [[]]"
| "js_split c (x # xs) =
     (if x = c then [] # js_split c xs else (let ws = js_split c xs in (x # hd ws) # tl ws))"

text \<open>\<open>xs.join(sep)\<close>.\<close>

fun js_join :: "string \<Rightarrow> string list \<Rightarrow> string" where
  "js_join sep [] = []"
| "js_join sep [x] = x"
| "js_join sep (x # y # xs) = x @ sep @ js_join sep (y # xs)"

text \<open>\<open>toLowerCase()\<close> on the ASCII letters.\<close>

definition js_lower_char :: "char \<Rightarrow> char" where
  "js_lower_char c = (if 65 \<le> (of_char c :: nat) \<and> (of_char c :: nat) \<le> 90 then char_of (of_char c + (32::nat)) else c)"

definition js_lower :: "string \<Rightarrow> string" where
  "js_lower s = map js_lower_char s"

text \<open>\<open>trim()\<close>: leading and trailing white space (space, tab, line feed, vertical
  tab, form feed, carriage return) removed.\<close>

definition js_space :: "char \<Rightarrow> bool" where
  "js_space c \<longleftrightarrow> (of_char c :: nat) \<in> set [32, 9, 10, 11, 12, 13]"

definition js_trim :: "string \<Rightarrow> string" where
  "js_trim s = rev (dropWhile js_space (rev (dropWhile js_space s)))"

text \<open>A value that is a string or \<open>undefined\<close> (what indexing past the end of a string
  gives), and how \<open>a + b\<close> prints it: \<open>undefined\<close> concatenates as the word
  \<open>undefined\<close>, and \<open>undefined + undefined\<close> is \<open>NaN\<close>.\<close>

datatype js_val = JStr string | JUndef

fun js_plus :: "js_val \<Rightarrow> js_val \<Rightarrow> string" where
  "js_plus (JStr a) (JStr b) = a @ b"
| "js_plus (JStr a) JUndef = a @ ''undefined''"
| "js_plus JUndef (JStr b) = ''undefined'' @ b"
| "js_plus JUndef JUndef = ''NaN''"

definition js_char0 :: "string \<Rightarrow> js_val" where
  "js_char0 s = (case s of [] \<Rightarrow> JUndef | x # _ \<Rightarrow> JStr [x])"

section \<open>Counting and filtering\<close>

lemma length_filter_append_single [simp]:
  "length (filter P (xs @ [x])) = length (filter P xs) + (if P x then 1 else 0)"
  by simp

lemma mset_fold_append: "mset (fold (\<lambda>c acc. acc @ [c]) cs xs) = mset xs + mset cs"
  by (induction cs arbitrary: xs) auto

text \<open>Under a key function that is injective on the list, at most one element has a
  given key.\<close>

lemma filter_key_at_most_one: "distinct (map f xs) \<Longrightarrow> length (filter (\<lambda>x. f x = a) xs) \<le> 1"
proof (induction xs)
  case (Cons x xs)
  have d: "distinct (map f xs)" and n: "\<forall>y\<in>set xs. f y \<noteq> f x"
    using Cons.prems by (auto simp: image_iff)
  show ?case
  proof (cases "f x = a")
    case True
    with n have "filter (\<lambda>y. f y = a) xs = []" by (simp add: filter_empty_conv)
    with True show ?thesis by simp
  next
    case False
    with Cons.IH [OF d] show ?thesis by simp
  qed
qed simp
text \<open>When at most index \<open>i\<close> satisfies \<open>P\<close>, filtering keeps that element alone.\<close>

lemma filter_none_index: "\<forall>j < length xs. \<not> P (xs ! j) \<Longrightarrow> filter P xs = []"
proof (induction xs)
  case (Cons x xs)
  have "\<not> P x" using Cons.prems by (auto dest: spec [of _ 0])
  moreover have "\<forall>j < length xs. \<not> P (xs ! j)"
  proof (intro allI impI)
    fix j assume "j < length xs"
    then show "\<not> P (xs ! j)" using Cons.prems by (auto dest: spec [of _ "Suc j"])
  qed
  ultimately show ?case using Cons.IH by simp
qed simp

lemma filter_only_index:
  "i < length xs \<Longrightarrow> \<forall>j < length xs. P (xs ! j) \<longrightarrow> j = i \<Longrightarrow>
     filter P xs = (if P (xs ! i) then [xs ! i] else [])"
proof (induction xs arbitrary: i)
  case (Cons x xs)
  have tl: "\<forall>j < length xs. P (xs ! j) \<longrightarrow> Suc j = i"
  proof (intro allI impI)
    fix j assume "j < length xs" "P (xs ! j)"
    then show "Suc j = i" using Cons.prems(2) by (auto dest: spec [of _ "Suc j"])
  qed
  show ?case
  proof (cases i)
    case 0
    with tl have "filter P xs = []" by (intro filter_none_index) simp
    with 0 show ?thesis by simp
  next
    case (Suc k)
    have "\<not> P x" using Cons.prems(2) Suc by (auto dest: spec [of _ 0])
    moreover have "filter P xs = (if P (xs ! k) then [xs ! k] else [])"
      using Cons.prems(1) tl Suc by (intro Cons.IH) auto
    ultimately show ?thesis using Suc by simp
  qed
qed simp

end
