(* ===== verification/Store.thy ===== *)
theory Store
  imports Prelude "HOL-Library.AList"
begin

text \<open>
  The shared document store. The record types are those of src/src/lib/data.ts
  (\<open>Call\<close>, \<open>Message\<close>, \<open>CallInfo\<close>, \<open>Chat\<close>); the store itself (Firestore) is an
  external collaborator, modelled from its interface: \<open>setDoc\<close> overwrites,
  \<open>updateDoc\<close> rejects with \<open>not-found\<close> on a missing document, \<open>addDoc\<close> appends to a
  sub-collection (whether or not the parent document exists), \<open>serverTimestamp()\<close> is
  the store's clock. Only the collections the call path touches are modelled.
\<close>

section \<open>Records of data.ts\<close>

datatype call_status = Ringing | Connected | Declined | Ended | Missed

text \<open>\<open>Call\<close>; \<open>id\<close> is \<open>call_key\<close>.\<close>

record call_doc =
  call_key :: call_id
  chatId :: chat_id
  callerId :: uid
  calleeId :: uid
  members :: "uid list"
  call_type :: media_kind
  status :: call_status
  createdAt :: timestamp
  endedAt :: "timestamp option"
  duration :: "seconds option"
  offer :: "sdesc option"
  answer :: "sdesc option"

datatype msg_type = MsgText | MsgImage | MsgVoice | MsgCall | MsgVideo | MsgDocument

datatype call_outcome = OutcomeMissed | OutcomeEnded

record call_info =
  ci_type :: media_kind
  ci_status :: call_outcome
  ci_duration :: "seconds option"

text \<open>\<open>Message\<close>; \<open>reactions\<close> and \<open>edited\<close> are never written by the sources and are
  left out.\<close>

record message =
  senderId :: uid
  msg_timestamp :: timestamp
  msg_type :: msg_type
  msg_text :: "string option"
  attachmentUrl :: "string option"
  callInfo :: "call_info option"
  fileName :: "string option"
  fileSize :: "nat option"

datatype chat_kind = Direct | Group

text \<open>\<open>Chat\<close>; \<open>name\<close>, \<open>avatar\<close> and \<open>online\<close> are filled in on the client from the
  other member's profile and are not stored fields.\<close>

record chat_doc =
  chat_key :: chat_id
  chat_type :: chat_kind
  chat_members :: "uid list"
  lastMessage :: string
  lastMessageTimestamp :: timestamp
  lastMessageSenderId :: uid
  unreadCount :: nat
  muted :: bool

text \<open>\<open>ThemeSettings\<close> and \<open>User\<close>. \<open>id\<close> and \<open>uid\<close> are always written equal and are one
  field; the optional arrays \<open>friends\<close> and \<open>blockedUsers\<close> are lists, absent being the
  empty list (the sources test \<open>?.includes\<close> and \<open>length === 0\<close>, which do not tell
  the two apart). \<open>friendRequestsSent\<close> and \<open>friendRequestsReceived\<close> are never written
  and are left out.\<close>

datatype theme_mode = ThemeLight | ThemeDark | ThemeSystem

text \<open>\<open>theme\<close> is a map whose keys the settings page writes one by one
  (\<open>'theme.mode'\<close>, \<open>'theme.primaryColor'\<close>, \<open>'theme.ringtoneUrl'\<close>); a key not yet
  written is absent, so each is an option.\<close>

record theme_settings =
  mode :: "theme_mode option"
  primaryColor :: "string option"
  ringtoneUrl :: "string option"

record user_doc =
  user_uid :: uid
  displayName :: string
  email :: string
  photoURL :: string
  handle :: string
  user_createdAt :: "timestamp option"
  theme :: theme_settings
  friends :: "uid list"
  blockedUsers :: "uid list"

text \<open>\<open>FriendRequest\<close>; \<open>fromUser\<close> is joined on the client and not stored.\<close>

datatype request_status = ReqPending | ReqAccepted | ReqDeclined

record friend_request =
  req_from :: uid
  req_to :: uid
  req_status :: request_status
  req_createdAt :: timestamp

type_synonym req_id = string

section \<open>The store\<close>

text \<open>\<open>calls/{id}\<close> with its two candidate sub-collections, \<open>chats/{id}\<close> with its
  \<open>messages\<close> sub-collection, \<open>users/{uid}\<close>, and \<open>friendRequests\<close>. The handlers
  query \<open>users\<close> and \<open>friendRequests\<close> themselves, so these two are lists of documents
  with their ids, in the order the store returns them (an association list for
  \<open>users\<close>, read with \<open>map_of\<close>).\<close>

record store =
  calls :: "call_id \<rightharpoonup> call_doc"
  callerCandidates :: "call_id \<Rightarrow> ice_candidate list"
  calleeCandidates :: "call_id \<Rightarrow> ice_candidate list"
  chats :: "chat_id \<rightharpoonup> chat_doc"
  messages :: "chat_id \<Rightarrow> message list"
  users :: "(uid \<times> user_doc) list"
  friendRequests :: "(req_id \<times> friend_request) list"
  clock :: timestamp

datatype store_error = NotFound

datatype role = CallerRole | CalleeRole

definition set_call :: "call_doc \<Rightarrow> store \<Rightarrow> store" where
  "set_call c s = s\<lparr>calls := (calls s)(call_key c \<mapsto> c)\<rparr>"

definition update_call :: "call_id \<Rightarrow> (call_doc \<Rightarrow> call_doc) \<Rightarrow> store \<Rightarrow> (store_error, store) outcome" where
  "update_call cid f s =
     (case calls s cid of
        None \<Rightarrow> (Some NotFound, s)
      | Some c \<Rightarrow> (None, s\<lparr>calls := (calls s)(cid \<mapsto> f c)\<rparr>))"

definition update_chat :: "chat_id \<Rightarrow> (chat_doc \<Rightarrow> chat_doc) \<Rightarrow> store \<Rightarrow> (store_error, store) outcome" where
  "update_chat cid f s =
     (case chats s cid of
        None \<Rightarrow> (Some NotFound, s)
      | Some c \<Rightarrow> (None, s\<lparr>chats := (chats s)(cid \<mapsto> f c)\<rparr>))"

definition add_message :: "chat_id \<Rightarrow> message \<Rightarrow> store \<Rightarrow> store" where
  "add_message cid m s = s\<lparr>messages := (messages s)(cid := messages s cid @ [m])\<rparr>"

definition add_candidate :: "role \<Rightarrow> call_id \<Rightarrow> ice_candidate \<Rightarrow> store \<Rightarrow> store" where
  "add_candidate r cid c s =
     (case r of
        CallerRole \<Rightarrow> s\<lparr>callerCandidates := (callerCandidates s)(cid := callerCandidates s cid @ [c])\<rparr>
      | CalleeRole \<Rightarrow> s\<lparr>calleeCandidates := (calleeCandidates s)(cid := calleeCandidates s cid @ [c])\<rparr>)"

text \<open>The candidate collection a role writes to.\<close>

definition cand_coll :: "role \<Rightarrow> store \<Rightarrow> call_id \<Rightarrow> ice_candidate list" where
  "cand_coll r s = (case r of CallerRole \<Rightarrow> callerCandidates s | CalleeRole \<Rightarrow> calleeCandidates s)"

text \<open>Call-log entries of a message list: \<open>type: 'call'\<close>.\<close>

definition call_logs :: "message list \<Rightarrow> message list" where
  "call_logs ms = filter (\<lambda>m. msg_type m = MsgCall) ms"

text \<open>A profile holding only its identifier, for the fixtures.\<close>

definition blank_user :: "uid \<Rightarrow> user_doc" where
  "blank_user u = \<lparr>user_uid = u, displayName = [], email = [], photoURL = [], handle = [],
                   user_createdAt = None,
                   theme = \<lparr>mode = None, primaryColor = None, ringtoneUrl = None\<rparr>,
                   friends = [], blockedUsers = []\<rparr>"

text \<open>\<open>updateDoc\<close> and \<open>setDoc\<close> on \<open>users/{uid}\<close>, \<open>deleteDoc\<close> on \<open>chats/{id}\<close>
  (the document only: its \<open>messages\<close> sub-collection stays).\<close>

definition update_user :: "uid \<Rightarrow> (user_doc \<Rightarrow> user_doc) \<Rightarrow> store \<Rightarrow> (store_error, store) outcome" where
  "update_user u f s =
     (case map_of (users s) u of
        None \<Rightarrow> (Some NotFound, s)
      | Some d \<Rightarrow> (None, s\<lparr>users := AList.update u (f d) (users s)\<rparr>))"

definition set_user :: "uid \<Rightarrow> user_doc \<Rightarrow> store \<Rightarrow> store" where
  "set_user u d s = s\<lparr>users := AList.update u d (users s)\<rparr>"

definition delete_chat :: "chat_id \<Rightarrow> store \<Rightarrow> store" where
  "delete_chat cid s = s\<lparr>chats := (chats s)(cid := None)\<rparr>"

text \<open>Documents of \<open>friendRequests\<close>: \<open>addDoc\<close> with a fresh id, \<open>updateDoc\<close> (rejects on a
  missing id), \<open>deleteDoc\<close> (no error on a missing id).\<close>

definition add_request :: "req_id \<Rightarrow> friend_request \<Rightarrow> store \<Rightarrow> store" where
  "add_request k r s = s\<lparr>friendRequests := friendRequests s @ [(k, r)]\<rparr>"

definition update_request :: "req_id \<Rightarrow> (friend_request \<Rightarrow> friend_request) \<Rightarrow> store \<Rightarrow> (store_error, store) outcome" where
  "update_request k f s =
     (if k \<in> fst ` set (friendRequests s)
      then (None, s\<lparr>friendRequests := map (\<lambda>(k', r). if k' = k then (k', f r) else (k', r)) (friendRequests s)\<rparr>)
      else (Some NotFound, s))"

definition delete_request :: "req_id \<Rightarrow> store \<Rightarrow> store" where
  "delete_request k s = s\<lparr>friendRequests := filter (\<lambda>(k', _). k' \<noteq> k) (friendRequests s)\<rparr>"

text \<open>\<open>arrayUnion\<close> appends an element not yet present; \<open>arrayRemove\<close> removes every
  occurrence.\<close>

definition array_union :: "'a list \<Rightarrow> 'a \<Rightarrow> 'a list" where
  "array_union xs x = (if x \<in> set xs then xs else xs @ [x])"

definition array_remove :: "'a list \<Rightarrow> 'a \<Rightarrow> 'a list" where
  "array_remove xs x = filter (\<lambda>y. y \<noteq> x) xs"

text \<open>\<open>writeBatch(...).commit()\<close>: the writes are applied together, or, when one of
  them fails, none is.\<close>

fun batch_commit :: "(store \<Rightarrow> (store_error, store) outcome) list \<Rightarrow> store \<Rightarrow> (store_error, store) outcome" where
  "batch_commit [] s = (None, s)"
| "batch_commit (w # ws) s =
     (case w s of
        (Some e, _) \<Rightarrow> (Some e, s)
      | (None, s1) \<Rightarrow> (case batch_commit ws s1 of (Some e, _) \<Rightarrow> (Some e, s) | (None, s2) \<Rightarrow> (None, s2)))"

section \<open>Lemmas\<close>

lemma update_call_found [store_simps]:
  "calls s cid = Some c \<Longrightarrow> update_call cid f s = (None, s\<lparr>calls := (calls s)(cid \<mapsto> f c)\<rparr>)"
  by (simp add: update_call_def)

lemma update_call_missing [store_simps]:
  "calls s cid = None \<Longrightarrow> update_call cid f s = (Some NotFound, s)"
  by (simp add: update_call_def)

lemma update_chat_found [store_simps]:
  "chats s cid = Some c \<Longrightarrow> update_chat cid f s = (None, s\<lparr>chats := (chats s)(cid \<mapsto> f c)\<rparr>)"
  by (simp add: update_chat_def)

lemma update_chat_missing [store_simps]:
  "chats s cid = None \<Longrightarrow> update_chat cid f s = (Some NotFound, s)"
  by (simp add: update_chat_def)

lemma add_message_fields [simp, store_simps]:
  "calls (add_message cid m s) = calls s"
  "chats (add_message cid m s) = chats s"
  "clock (add_message cid m s) = clock s"
  "users (add_message cid m s) = users s"
  "callerCandidates (add_message cid m s) = callerCandidates s"
  "calleeCandidates (add_message cid m s) = calleeCandidates s"
  "messages (add_message cid m s) = (messages s)(cid := messages s cid @ [m])"
  by (simp_all add: add_message_def)

lemma update_call_frame [simp, store_simps]:
  "chats (snd (update_call cid f s)) = chats s"
  "clock (snd (update_call cid f s)) = clock s"
  "users (snd (update_call cid f s)) = users s"
  "messages (snd (update_call cid f s)) = messages s"
  "callerCandidates (snd (update_call cid f s)) = callerCandidates s"
  "calleeCandidates (snd (update_call cid f s)) = calleeCandidates s"
  by (simp_all add: update_call_def split: option.splits)

lemma update_call_frame_eq:
  "update_call cid f s = (e, s') \<Longrightarrow>
   messages s' = messages s \<and> chats s' = chats s \<and> clock s' = clock s \<and> users s' = users s \<and>
   callerCandidates s' = callerCandidates s \<and> calleeCandidates s' = calleeCandidates s"
  by (auto simp: update_call_def split: option.splits)

lemma update_chat_frame [simp, store_simps]:
  "calls (snd (update_chat cid f s)) = calls s"
  "clock (snd (update_chat cid f s)) = clock s"
  "users (snd (update_chat cid f s)) = users s"
  "messages (snd (update_chat cid f s)) = messages s"
  "callerCandidates (snd (update_chat cid f s)) = callerCandidates s"
  "calleeCandidates (snd (update_chat cid f s)) = calleeCandidates s"
  by (simp_all add: update_chat_def split: option.splits)

lemma update_user_found:
  "map_of (users s) u = Some d \<Longrightarrow> update_user u f s = (None, s\<lparr>users := AList.update u (f d) (users s)\<rparr>)"
  by (simp add: update_user_def)

lemma call_logs_append [simp]: "call_logs (xs @ ys) = call_logs xs @ call_logs ys"
  by (simp add: call_logs_def)

lemma call_logs_single [simp]:
  "call_logs [m] = (if msg_type m = MsgCall then [m] else [])"
  by (simp add: call_logs_def)

end
