(* ===== verification/CallLog.thy ===== *)
theory CallLog
  imports Store
begin

text \<open>
  The Call Log Writer: \<open>createCallMessage\<close> of src/src/app/page.tsx (lines 423--442).
  It appends one message of type \<open>call\<close> to the chat's \<open>messages\<close> sub-collection and
  then updates the chat's last-message summary. The two writes are awaited in order:
  when the chat document is missing, the message is appended and the summary update
  rejects with \<open>not-found\<close>, which the caller of \<open>createCallMessage\<close> does not catch.
\<close>

text \<open>The entry written: sender is the caller, \<open>duration: duration || 0\<close>.\<close>

definition call_log_entry :: "call_doc \<Rightarrow> call_outcome \<Rightarrow> seconds option \<Rightarrow> timestamp \<Rightarrow> message" where
  "call_log_entry c st d ts =
     \<lparr>senderId = callerId c, msg_timestamp = ts, msg_type = MsgCall, msg_text = None,
      attachmentUrl = None,
      callInfo = Some \<lparr>ci_type = call_type c, ci_status = st,
                       ci_duration = Some (case d of None \<Rightarrow> 0 | Some x \<Rightarrow> x)\<rparr>,
      fileName = None, fileSize = None\<rparr>"

definition summary_text :: "call_outcome \<Rightarrow> string" where
  "summary_text st = (if st = OutcomeMissed then ''Missed call'' else ''Call ended'')"

definition createCallMessage :: "call_doc \<Rightarrow> call_outcome \<Rightarrow> seconds option \<Rightarrow> store \<Rightarrow> (store_error, store) outcome" where
  "createCallMessage c st d s =
     (let s1 = add_message (chatId c) (call_log_entry c st d (clock s)) s
      in update_chat (chatId c)
           (\<lambda>ch. ch\<lparr>lastMessage := summary_text st, lastMessageTimestamp := clock s1,
                     lastMessageSenderId := callerId c\<rparr>) s1)"

section \<open>Lemmas\<close>

text \<open>Whatever happens to the summary, exactly the one entry is appended to the
  chat's messages and no other collection changes.\<close>

lemma createCallMessage_messages [simp]:
  "messages (snd (createCallMessage c st d s)) =
     (messages s)(chatId c := messages s (chatId c) @ [call_log_entry c st d (clock s)])"
  by (simp add: createCallMessage_def Let_def)

lemma createCallMessage_frame [simp]:
  "calls (snd (createCallMessage c st d s)) = calls s"
  "clock (snd (createCallMessage c st d s)) = clock s"
  "users (snd (createCallMessage c st d s)) = users s"
  "callerCandidates (snd (createCallMessage c st d s)) = callerCandidates s"
  "calleeCandidates (snd (createCallMessage c st d s)) = calleeCandidates s"
  by (simp_all add: createCallMessage_def Let_def)

lemma createCallMessage_error:
  "fst (createCallMessage c st d s) = (if chats s (chatId c) = None then Some NotFound else None)"
  by (simp add: createCallMessage_def Let_def update_chat_def split: option.splits)

lemma call_log_entry_is_log [simp]: "msg_type (call_log_entry c st d ts) = MsgCall"
  by (simp add: call_log_entry_def)

section \<open>Properties\<close>

text \<open>\<open>createCallMessage\<close> appends exactly one call-log entry to the chat's messages,
  leaves the calls alone, then stamps the chat's summary (\<open>Missed call\<close> or \<open>Call ended\<close>,
  sent by the caller); the summary write fails with not-found when the chat is gone,
  after the entry was appended.\<close>

theorem createCallMessage_one_entry:
  "messages (snd (createCallMessage c st d s)) =
     (messages s)(chatId c := messages s (chatId c) @ [call_log_entry c st d (clock s)]) \<and>
   calls (snd (createCallMessage c st d s)) = calls s \<and>
   chats (snd (createCallMessage c st d s)) (chatId c) =
     map_option (\<lambda>ch. ch\<lparr>lastMessage := summary_text st, lastMessageTimestamp := clock s,
                            lastMessageSenderId := callerId c\<rparr>) (chats s (chatId c)) \<and>
   fst (createCallMessage c st d s) = (if chats s (chatId c) = None then Some NotFound else None)"
  by (cases "chats s (chatId c)") (simp_all add: createCallMessage_def Let_def update_chat_def)

end
