(* ===== verification/Orchestrator.thy ===== *)
theory Orchestrator
  imports CallLog
begin

text \<open>
  The Call Orchestrator: the call handlers and listeners of the \<open>Home\<close> component,
  src/src/app/page.tsx. Its local state is the part of the component state the call
  path uses (\<open>incomingCall\<close>, \<open>activeCall\<close>, \<open>selectedChat\<close>) and the signed-in user.
  Every handler is one function of the local state and the store; it returns the
  local state and the store it leaves and, if an awaited write rejected, the error.
  The user is signed in (the page redirects to /login otherwise), so the
  \<open>if (!user) return\<close> guards are always passed.
\<close>

record page =
  me :: uid
  incomingCall :: "call_doc option"
  activeCall :: "call_doc option"
  selectedChat :: "chat_id option"

type_synonym client = "page \<times> store"

datatype call_action = Accept | Decline

datatype change_type = Added | Modified | Removed

section \<open>Listeners\<close>

text \<open>The incoming-call listener (lines 221--245): the query \<open>calleeId == me,
  status == 'ringing'\<close> delivers its document changes; only the first change is looked
  at, and only if it is an addition; the prompt is raised when the caller's profile
  exists and the call is not the one already surfaced.\<close>

definition incoming_snapshot :: "(change_type \<times> call_doc) list \<Rightarrow> page \<Rightarrow> store \<Rightarrow> page" where
  "incoming_snapshot chs p s =
     (case chs of
        [] \<Rightarrow> p
      | (ty, d) # _ \<Rightarrow>
          (if ty = Added \<and> map_of (users s) (callerId d) \<noteq> None \<and>
              (case incomingCall p of None \<Rightarrow> True | Some ic \<Rightarrow> call_key ic \<noteq> call_key d)
           then p\<lparr>incomingCall := Some d\<rparr> else p))"

text \<open>The result set of that query, in the store's order of call ids.\<close>

definition ringing_for :: "uid \<Rightarrow> store \<Rightarrow> call_id list \<Rightarrow> call_doc list" where
  "ringing_for u s ids =
     List.map_filter (\<lambda>cid. case calls s cid of
                              Some d \<Rightarrow> if calleeId d = u \<and> status d = Ringing then Some d else None
                            | None \<Rightarrow> None) ids"

text \<open>The ongoing-call listener (lines 247--260): a missing document or a status other
  than ringing or connected clears \<open>activeCall\<close>; otherwise the document's fields
  overwrite it.\<close>

definition ongoing_snapshot :: "page \<Rightarrow> store \<Rightarrow> page" where
  "ongoing_snapshot p s =
     (case activeCall p of
        None \<Rightarrow> p
      | Some ac \<Rightarrow>
          (case calls s (call_key ac) of
             None \<Rightarrow> p\<lparr>activeCall := None\<rparr>
           | Some d \<Rightarrow>
               (if status d = Ringing \<or> status d = Connected then p\<lparr>activeCall := Some d\<rparr>
                else p\<lparr>activeCall := None\<rparr>)))"

section \<open>Handlers\<close>

text \<open>\<open>handleCallAction\<close> (lines 444--469). Accepting writes \<open>connected\<close> and makes the
  surfaced call (the copy taken when it was ringing) the active call; declining writes
  \<open>declined\<close> and a missed-call log entry. Neither looks at the current status.\<close>

definition handleCallAction :: "call_doc \<Rightarrow> call_action \<Rightarrow> client \<Rightarrow> (store_error, client) outcome" where
  "handleCallAction c act ps =
     (let (p, s) = ps in
      case act of
        Accept \<Rightarrow>
          (case update_call (call_key c) (\<lambda>d. d\<lparr>status := Connected\<rparr>) s of
             (Some e, s1) \<Rightarrow> (Some e, (p, s1))
           | (None, s1) \<Rightarrow>
               (let p1 = p\<lparr>activeCall := Some c\<rparr>;
                    p2 = (case chats s1 (chatId c) of
                            None \<Rightarrow> p1
                          | Some _ \<Rightarrow> p1\<lparr>selectedChat := Some (chatId c)\<rparr>)
                in (None, (p2\<lparr>incomingCall := None\<rparr>, s1))))
      | Decline \<Rightarrow>
          (case update_call (call_key c) (\<lambda>d. d\<lparr>status := Declined\<rparr>) s of
             (Some e, s1) \<Rightarrow> (Some e, (p, s1))
           | (None, s1) \<Rightarrow>
               (case createCallMessage c OutcomeMissed None s1 of
                  (Some e, s2) \<Rightarrow> (Some e, (p, s2))
                | (None, s2) \<Rightarrow> (None, (p\<lparr>incomingCall := None\<rparr>, s2)))))"

text \<open>\<open>handleInitiateCall\<close> (lines 471--503): the callee is the first member other than
  me; a fresh document id \<open>new_id\<close> (from \<open>doc(collection)\<close>) receives a ringing call,
  which is read back and becomes the active call. Nothing checks for a call already
  active.\<close>

definition new_call :: "chat_doc \<Rightarrow> media_kind \<Rightarrow> call_id \<Rightarrow> uid \<Rightarrow> uid \<Rightarrow> timestamp \<Rightarrow> call_doc" where
  "new_call ch ty new_id caller callee ts =
     \<lparr>call_key = new_id, chatId = chat_key ch, callerId = caller, calleeId = callee,
      members = [caller, callee], call_type = ty, status = Ringing, createdAt = ts,
      endedAt = None, duration = None, offer = None, answer = None\<rparr>"

definition handleInitiateCall :: "chat_doc \<Rightarrow> media_kind \<Rightarrow> call_id \<Rightarrow> client \<Rightarrow> client" where
  "handleInitiateCall ch ty new_id ps =
     (let (p, s) = ps in
      case List.find (\<lambda>m. m \<noteq> me p) (chat_members ch) of
        None \<Rightarrow> (p, s)
      | Some callee \<Rightarrow>
          (let c = new_call ch ty new_id (me p) callee (clock s);
               s1 = set_call c s
           in (case calls s1 new_id of
                 None \<Rightarrow> (p, s1)
               | Some c' \<Rightarrow> (p\<lparr>activeCall := Some c'\<rparr>, s1))))"

text \<open>\<open>handleEndCall\<close> (lines 505--527). It reads the call, decides, and writes; the
  read and the writes are separate awaits, so the decision is its own value.
  \<open>EndRecord missed caller\<close>: the document exists and is not \<open>ended\<close>, was still ringing
  (\<open>missed\<close>), and I am its caller (\<open>caller\<close>).\<close>

datatype end_plan = EndNothing | EndRecord bool bool

definition end_read :: "call_doc \<Rightarrow> uid \<Rightarrow> store \<Rightarrow> end_plan" where
  "end_read ac u s =
     (case calls s (call_key ac) of
        None \<Rightarrow> EndNothing
      | Some d \<Rightarrow>
          (if status d \<noteq> Ended then EndRecord (status d = Ringing) (callerId d = u)
           else EndNothing))"

definition end_log :: "call_doc \<Rightarrow> bool \<Rightarrow> bool \<Rightarrow> seconds \<Rightarrow> store \<Rightarrow> (store_error, store) outcome" where
  "end_log ac missed caller dur s =
     (if caller then
        (if missed then createCallMessage ac OutcomeMissed None s
         else if 0 < dur then createCallMessage ac OutcomeEnded (Some dur) s
         else (None, s))
      else (None, s))"

definition end_mark :: "call_doc \<Rightarrow> store \<Rightarrow> (store_error, store) outcome" where
  "end_mark ac s = update_call (call_key ac) (\<lambda>d. d\<lparr>status := Ended, endedAt := Some (clock s)\<rparr>) s"

definition end_write :: "call_doc \<Rightarrow> end_plan \<Rightarrow> seconds \<Rightarrow> store \<Rightarrow> (store_error, store) outcome" where
  "end_write ac pl dur s =
     (case pl of
        EndNothing \<Rightarrow> (None, s)
      | EndRecord missed caller \<Rightarrow> andThen (end_log ac missed caller dur) (end_mark ac) s)"

text \<open>The whole handler. \<open>ac\<close> is the \<open>activeCall\<close> the invoked closure sees: the
  current one for a button press, the one captured when the call view subscribed for
  an end triggered by a snapshot or a connection-state event.\<close>

definition handleEndCall :: "call_doc option \<Rightarrow> seconds \<Rightarrow> client \<Rightarrow> (store_error, client) outcome" where
  "handleEndCall ac dur ps =
     (let (p, s) = ps in
      case ac of
        None \<Rightarrow> (None, (p, s))
      | Some c \<Rightarrow>
          (case end_write c (end_read c (me p) s) dur s of
             (Some e, s') \<Rightarrow> (Some e, (p, s'))
           | (None, s') \<Rightarrow> (None, (p\<lparr>activeCall := None\<rparr>, s'))))"

section \<open>Fixtures\<close>

text \<open>A direct chat of alice and bob, used by the scenarios and witnesses.\<close>

definition demo_chat :: chat_doc where
  "demo_chat = \<lparr>chat_key = ''c1'', chat_type = Direct, chat_members = [''alice'', ''bob''],
                lastMessage = ''hi'', lastMessageTimestamp = 1, lastMessageSenderId = ''alice'',
                unreadCount = 0, muted = False\<rparr>"

definition demo_store :: store where
  "demo_store = \<lparr>calls = Map.empty, callerCandidates = (\<lambda>_. []), calleeCandidates = (\<lambda>_. []),
                 chats = [''c1'' \<mapsto> demo_chat], messages = (\<lambda>_. []),
                 users = [(''alice'', blank_user ''alice''), (''bob'', blank_user ''bob'')],
                 friendRequests = [], clock = 100\<rparr>"

definition idle_page :: "uid \<Rightarrow> page" where
  "idle_page u = \<lparr>me = u, incomingCall = None, activeCall = None, selectedChat = None\<rparr>"

text \<open>alice's video call \<open>k1\<close> to bob, ringing, connected, and ended.\<close>

definition demo_call :: call_doc where
  "demo_call = new_call demo_chat Video ''k1'' ''alice'' ''bob'' 100"

definition ringing_store :: store where
  "ringing_store = set_call demo_call demo_store"

definition connected_store :: store where
  "connected_store = set_call (demo_call\<lparr>status := Connected\<rparr>) demo_store"

definition ended_store :: store where
  "ended_store = set_call (demo_call\<lparr>status := Ended, endedAt := Some 100\<rparr>) demo_store"

section \<open>Lemmas: the fixtures\<close>

lemma demo_call_fields [simp]:
  "call_key demo_call = ''k1''" "chatId demo_call = ''c1''" "callerId demo_call = ''alice''"
  "calleeId demo_call = ''bob''" "status demo_call = Ringing" "call_type demo_call = Video"
  by (simp_all add: demo_call_def new_call_def demo_chat_def)

lemma demo_pages [simp]: "me (idle_page u) = u" "activeCall (idle_page u) = None"
  by (simp_all add: idle_page_def)

lemma demo_stores [simp]:
  "calls ringing_store ''k1'' = Some demo_call"
  "calls connected_store ''k1'' = Some (demo_call\<lparr>status := Connected\<rparr>)"
  "calls ended_store ''k1'' = Some (demo_call\<lparr>status := Ended, endedAt := Some 100\<rparr>)"
  "chats ringing_store ''c1'' = Some demo_chat" "chats connected_store ''c1'' = Some demo_chat"
  "chats ended_store ''c1'' = Some demo_chat"
  "messages ringing_store ''c1'' = []" "messages connected_store ''c1'' = []"
  "clock ringing_store = 100" "clock connected_store = 100"
  by (simp_all add: ringing_store_def connected_store_def ended_store_def set_call_def demo_store_def)

section \<open>Lemmas: ending a call\<close>

lemma end_log_frame [simp]:
  "calls (snd (end_log ac missed caller dur s)) = calls s"
  "clock (snd (end_log ac missed caller dur s)) = clock s"
  by (simp_all add: end_log_def)

lemma end_read_Ended:
  "calls s (call_key c) = Some d \<Longrightarrow> status d = Ended \<Longrightarrow> end_read c u s = EndNothing"
  by (simp add: end_read_def)

lemma end_read_live:
  "calls s (call_key c) = Some d \<Longrightarrow> status d \<noteq> Ended \<Longrightarrow>
   end_read c u s = EndRecord (status d = Ringing) (callerId d = u)"
  by (simp add: end_read_def)

lemma end_read_missing: "calls s (call_key c) = None \<Longrightarrow> end_read c u s = EndNothing"
  by (simp add: end_read_def)

text \<open>A successful write phase marks the call ended at the store's clock.\<close>

lemma end_write_marks:
  assumes "end_write c (EndRecord missed caller) dur s = (None, s')"
    and "calls s (call_key c) = Some d"
  shows "calls s' (call_key c) = Some (d\<lparr>status := Ended, endedAt := Some (clock s)\<rparr>)"
proof -
  obtain s1 where l: "end_log c missed caller dur s = (None, s1)"
    using assms(1) by (cases "end_log c missed caller dur s") (auto simp: end_write_def andThen_def split: option.splits)
  then have "calls s1 = calls s" "clock s1 = clock s"
    using end_log_frame [of c missed caller dur s] by simp_all
  with assms l show ?thesis
    by (auto simp: end_write_def end_mark_def update_call_def)
qed

lemma handleEndCall_None [simp]: "handleEndCall None dur (p, s) = (None, (p, s))"
  by (simp add: handleEndCall_def)

lemma handleEndCall_nothing:
  "end_read c (me p) s = EndNothing \<Longrightarrow> handleEndCall (Some c) dur (p, s) = (None, (p\<lparr>activeCall := None\<rparr>, s))"
  by (simp add: handleEndCall_def end_write_def)

text \<open>After a normal return the call is either absent or ended.\<close>

lemma handleEndCall_leaves_ended:
  assumes "handleEndCall (Some c) dur (p, s) = (None, (p1, s1))"
  shows "calls s1 (call_key c) = None \<or> (\<exists>d. calls s1 (call_key c) = Some d \<and> status d = Ended)"
proof (cases "calls s (call_key c)")
  case None
  with assms show ?thesis by (simp add: handleEndCall_nothing end_read_missing)
next
  case (Some d)
  show ?thesis
  proof (cases "status d = Ended")
    case True
    with Some assms show ?thesis by (auto simp: handleEndCall_nothing end_read_Ended)
  next
    case False
    let ?pl = "EndRecord (status d = Ringing) (callerId d = me p)"
    from Some False have r: "end_read c (me p) s = ?pl" by (rule end_read_live)
    with assms have "end_write c ?pl dur s = (None, s1)"
      by (auto simp: handleEndCall_def split: prod.splits option.splits)
    from end_write_marks [OF this Some] show ?thesis by simp
  qed
qed

lemma end_idempotent_store:
  assumes "handleEndCall (Some c) dur (p, s) = (None, (p1, s1))"
  shows "handleEndCall (Some c) dur' (q, s1) = (None, (q\<lparr>activeCall := None\<rparr>, s1))"
proof -
  from handleEndCall_leaves_ended [OF assms]
  have "end_read c (me q) s1 = EndNothing"
    by (auto simp: end_read_missing end_read_Ended)
  then show ?thesis by (rule handleEndCall_nothing)
qed

text \<open>Messages written by the handler: at most one call log, in the call's chat.\<close>

lemma end_log_messages:
  "messages (snd (end_log c missed caller dur s)) =
     (if caller \<and> (missed \<or> 0 < dur)
      then (messages s)(chatId c := messages s (chatId c) @
              [call_log_entry c (if missed then OutcomeMissed else OutcomeEnded)
                  (if missed then None else Some dur) (clock s)])
      else messages s)"
  by (simp add: end_log_def)

lemma handleEndCall_messages:
  assumes "handleEndCall ac dur (p, s) = (r, (p1, s1))"
  shows "messages s1 = messages s \<or>
         (\<exists>m. messages s1 = (messages s)(chatId (the ac) := messages s (chatId (the ac)) @ [m]) \<and> msg_type m = MsgCall)"
proof (cases ac)
  case None
  with assms show ?thesis by simp
next
  case (Some c)
  show ?thesis
  proof (cases "end_read c (me p) s")
    case EndNothing
    with assms Some show ?thesis by (simp add: handleEndCall_nothing)
  next
    case (EndRecord missed caller)
    obtain e1 s2 where l: "end_log c missed caller dur s = (e1, s2)" by fastforce
    have m2: "messages s1 = messages s2"
    proof (cases e1)
      case None
      with assms Some EndRecord l show ?thesis
        by (auto simp: handleEndCall_def end_write_def end_mark_def split: prod.splits option.splits
                 dest: update_call_frame_eq)
    next
      case (Some e)
      with assms \<open>ac = Some c\<close> EndRecord l show ?thesis
        by (auto simp: handleEndCall_def end_write_def split: prod.splits option.splits)
    qed
    from end_log_messages [of c missed caller dur s] l m2 Some show ?thesis
      by (auto split: if_splits)
  qed
qed

section \<open>Lemmas: the handlers on every branch\<close>

lemma end_log_ok:
  "chats s (chatId c) \<noteq> None \<Longrightarrow> fst (end_log c missed caller dur s) = None"
  by (cases "chats s (chatId c)") (simp_all add: end_log_def createCallMessage_error)

lemma createCallMessage_chats_None [simp]:
  "(chats (snd (createCallMessage c st d s)) (chatId c) = None) = (chats s (chatId c) = None)"
  by (cases "chats s (chatId c)") (simp_all add: createCallMessage_def Let_def update_chat_def)

lemma handleEndCall_live:
  assumes "calls s (call_key c) = Some d" and "status d \<noteq> Ended" and "chats s (chatId c) \<noteq> None"
  shows "handleEndCall (Some c) dur (p, s) =
     (None, (p\<lparr>activeCall := None\<rparr>,
        (snd (end_log c (status d = Ringing) (callerId d = me p) dur s))
          \<lparr>calls := (calls s)(call_key c \<mapsto> d\<lparr>status := Ended, endedAt := Some (clock s)\<rparr>)\<rparr>))"
proof -
  let ?l = "end_log c (status d = Ringing) (callerId d = me p) dur s"
  have l: "?l = (None, snd ?l)" using end_log_ok [OF assms(3)] by (metis prod.collapse)
  have "calls (snd ?l) = calls s" "clock (snd ?l) = clock s" by simp_all
  with assms l show ?thesis
    by (simp add: handleEndCall_def end_read_live end_write_def end_mark_def update_call_def)
qed

text \<open>C1: Ending a call is idempotent: once an end has returned normally, a second end of
  the same call, by either participant and with any duration, writes nothing; the two
  together add at most one call-log entry.\<close>

theorem end_twice_one_log:
  assumes "handleEndCall (Some c) d1 (p, s) = (None, (p1, s1))"
    and "handleEndCall (Some c) d2 (q, s1) = (r2, (q2, s2))"
  shows "r2 = None \<and> s2 = s1 \<and>
         length (call_logs (messages s2 ch)) \<le> length (call_logs (messages s ch)) + 1"
proof -
  from end_idempotent_store [OF assms(1), of d2 q] assms(2) have "r2 = None" "s2 = s1" by simp_all
  moreover from handleEndCall_messages [OF assms(1)]
  have "length (call_logs (messages s1 ch)) \<le> length (call_logs (messages s ch)) + 1"
    by (auto simp: call_logs_def)
  ultimately show ?thesis by simp
qed

text \<open>C4: A caller cancelling a call that is still ringing appends one missed-call entry (no
  duration), marks the call ended at the store's time and clears the active call.\<close>

theorem end_ringing_by_caller:
  assumes "calls s (call_key c) = Some d" and "status d = Ringing" and "callerId d = me p"
    and "chats s (chatId c) \<noteq> None"
  shows "\<exists>s'. handleEndCall (Some c) dur (p, s) = (None, (p\<lparr>activeCall := None\<rparr>, s')) \<and>
             calls s' (call_key c) = Some (d\<lparr>status := Ended, endedAt := Some (clock s)\<rparr>) \<and>
             messages s' = (messages s)(chatId c := messages s (chatId c) @
                               [call_log_entry c OutcomeMissed None (clock s)])"
  using assms by (simp add: handleEndCall_live end_log_messages)

text \<open>C9: A caller ending a connected call after a positive duration appends one entry
  \<open>ended\<close> with that duration and marks the call ended.\<close>

theorem end_connected_by_caller:
  assumes "calls s (call_key c) = Some d" and "status d = Connected" and "callerId d = me p"
    and "chats s (chatId c) \<noteq> None" and "0 < dur"
  shows "\<exists>s'. handleEndCall (Some c) dur (p, s) = (None, (p\<lparr>activeCall := None\<rparr>, s')) \<and>
             calls s' (call_key c) = Some (d\<lparr>status := Ended, endedAt := Some (clock s)\<rparr>) \<and>
             messages s' = (messages s)(chatId c := messages s (chatId c) @
                               [call_log_entry c OutcomeEnded (Some dur) (clock s)])"
  using assms by (simp add: handleEndCall_live end_log_messages)

text \<open>C10: A connected call ended by its caller with a measured duration of 0 seconds gets no
  call-log entry at all, although the call is marked ended.\<close>

theorem end_zero_duration_no_log:
  assumes "calls s (call_key c) = Some d" and "status d = Connected" and "chats s (chatId c) \<noteq> None"
  shows "\<exists>s'. handleEndCall (Some c) 0 (p, s) = (None, (p\<lparr>activeCall := None\<rparr>, s')) \<and>
             status (the (calls s' (call_key c))) = Ended \<and> messages s' = messages s"
  using assms by (simp add: handleEndCall_live end_log_messages)

text \<open>C5: When the callee ends a connected call, no call-log entry is ever written: the
  callee does not log, and the caller's end that follows sees \<open>ended\<close> and skips.\<close>

theorem callee_hangup_never_logged:
  assumes "calls s (call_key c) = Some d" and "status d = Connected"
    and "callerId d \<noteq> me q" and "chats s (chatId c) \<noteq> None"
    and "handleEndCall (Some c) dq (q, s) = (r1, (q1, s1))"
    and "handleEndCall (Some c) dp (p, s1) = (r2, (p2, s2))"
  shows "messages s2 = messages s \<and> status (the (calls s2 (call_key c))) = Ended"
proof -
  have e: "end_log c False False dq s = (None, s)" by (simp add: end_log_def)
  have "handleEndCall (Some c) dq (q, s) =
     (None, (q\<lparr>activeCall := None\<rparr>,
       s\<lparr>calls := (calls s)(call_key c \<mapsto> d\<lparr>status := Ended, endedAt := Some (clock s)\<rparr>)\<rparr>))"
    using handleEndCall_live [OF assms(1) _ assms(4), of dq q] assms(2,3) e by simp
  with assms(5) have r1: "r1 = None"
    and s1: "s1 = s\<lparr>calls := (calls s)(call_key c \<mapsto> d\<lparr>status := Ended, endedAt := Some (clock s)\<rparr>)\<rparr>"
    by simp_all
  with assms(5) have "handleEndCall (Some c) dq (q, s) = (None, (q1, s1))" by simp
  from end_idempotent_store [OF this, of dp p] assms(6) have "s2 = s1" by simp
  with s1 show ?thesis by simp
qed

lemma decline_ok:
  assumes "calls s (call_key c) = Some d" and "chats s (chatId c) \<noteq> None"
  shows "handleCallAction c Decline (p, s) =
           (None, (p\<lparr>incomingCall := None\<rparr>,
             snd (createCallMessage c OutcomeMissed None (s\<lparr>calls := (calls s)(call_key c \<mapsto> d\<lparr>status := Declined\<rparr>)\<rparr>))))"
proof -
  obtain ch where ch: "chats s (chatId c) = Some ch" using assms(2) by auto
  with assms(1) show ?thesis
    by (simp add: handleCallAction_def update_call_def createCallMessage_def Let_def update_chat_def)
qed

text \<open>C3: Declining a call writes \<open>declined\<close> (never \<open>connected\<close>), appends exactly one
  missed-call entry to the chat and withdraws the prompt.\<close>

theorem decline_writes_missed:
  assumes "calls s (call_key c) = Some d" and "chats s (chatId c) \<noteq> None"
  shows "\<exists>s'. handleCallAction c Decline (p, s) = (None, (p\<lparr>incomingCall := None\<rparr>, s')) \<and>
             calls s' (call_key c) = Some (d\<lparr>status := Declined\<rparr>) \<and>
             messages s' = (messages s)(chatId c := messages s (chatId c) @
                               [call_log_entry c OutcomeMissed None (clock s)])"
  using assms by (simp add: decline_ok)

text \<open>C8: After a decline, the caller's end (whose closure never saw the call connected, so
  its duration is 0) overwrites the terminal \<open>declined\<close> with \<open>ended\<close>; the missed
  entry of the decline stays the only log.\<close>

theorem decline_then_end_overwrites:
  assumes "calls s (call_key c) = Some d" and "chats s (chatId c) \<noteq> None"
    and "handleCallAction c Decline (q, s) = (r1, (q1, s1))"
    and "handleEndCall (Some c) 0 (p, s1) = (r2, (p2, s2))"
  shows "status (the (calls s2 (call_key c))) = Ended \<and>
         length (call_logs (messages s2 (chatId c))) = Suc (length (call_logs (messages s (chatId c))))"
proof -
  from assms(1-3) decline_ok have s1: "s1 = snd (createCallMessage c OutcomeMissed None
      (s\<lparr>calls := (calls s)(call_key c \<mapsto> d\<lparr>status := Declined\<rparr>)\<rparr>))" by simp
  then have c1: "calls s1 (call_key c) = Some (d\<lparr>status := Declined\<rparr>)"
    and ch1: "chats s1 (chatId c) \<noteq> None"
    and m1: "messages s1 = (messages s)(chatId c := messages s (chatId c) @
                               [call_log_entry c OutcomeMissed None (clock s)])"
    using assms(2) by simp_all
  have e: "end_log c False (callerId d = me p) 0 s1 = (None, s1)" by (simp add: end_log_def)
  have "handleEndCall (Some c) 0 (p, s1) =
     (None, (p\<lparr>activeCall := None\<rparr>,
       s1\<lparr>calls := (calls s1)(call_key c \<mapsto> d\<lparr>status := Ended, endedAt := Some (clock s1)\<rparr>)\<rparr>))"
    using handleEndCall_live [OF c1 _ ch1, of 0 p] e by simp
  with assms(4) have "s2 = s1\<lparr>calls := (calls s1)(call_key c \<mapsto> d\<lparr>status := Ended, endedAt := Some (clock s1)\<rparr>)\<rparr>"
    by simp
  with m1 show ?thesis by (simp add: call_logs_def)
qed

text \<open>C7: Accepting does not check the status: accepting a call the caller already ended
  writes \<open>connected\<close> over \<open>ended\<close> and makes it the active call.\<close>

theorem accept_after_cancel_resurrects:
  assumes "calls s (call_key c) = Some d" and "status d = Ended"
  shows "\<exists>q'. handleCallAction c Accept (q, s) =
             (None, (q', s\<lparr>calls := (calls s)(call_key c \<mapsto> d\<lparr>status := Connected\<rparr>)\<rparr>)) \<and>
             activeCall q' = Some c"
  using assms by (auto simp: handleCallAction_def update_call_def Let_def split: option.splits)

text \<open>C6: A callee declining from a prompt that is still shown after the caller cancelled
  writes a second missed-call entry for the same call and turns \<open>ended\<close> into
  \<open>declined\<close>.\<close>

theorem cancel_then_decline_two_logs:
  assumes "calls s (call_key c) = Some d" and "status d = Ringing" and "callerId d = me p"
    and "chats s (chatId c) \<noteq> None"
    and "handleEndCall (Some c) dur (p, s) = (r1, (p1, s1))"
    and "handleCallAction c Decline (q, s1) = (r2, (q2, s2))"
  shows "length (call_logs (messages s2 (chatId c))) = length (call_logs (messages s (chatId c))) + 2 \<and>
         status (the (calls s2 (call_key c))) = Declined"
proof -
  from assms(1-5) have s1: "s1 = (snd (end_log c True True dur s))
          \<lparr>calls := (calls s)(call_key c \<mapsto> d\<lparr>status := Ended, endedAt := Some (clock s)\<rparr>)\<rparr>"
    by (simp add: handleEndCall_live)
  have e: "end_log c True True dur s = createCallMessage c OutcomeMissed None s"
    by (simp add: end_log_def)
  have m1: "messages s1 = (messages s)(chatId c := messages s (chatId c) @
                               [call_log_entry c OutcomeMissed None (clock s)])"
    and ch1: "chats s1 (chatId c) \<noteq> None"
    and c1: "calls s1 (call_key c) = Some (d\<lparr>status := Ended, endedAt := Some (clock s)\<rparr>)"
    using s1 e assms(4) by simp_all
  have "s2 = snd (createCallMessage c OutcomeMissed None
      (s1\<lparr>calls := (calls s1)(call_key c \<mapsto> d\<lparr>status := Ended, endedAt := Some (clock s), status := Declined\<rparr>)\<rparr>))"
    using decline_ok [OF c1 ch1, of q] assms(6) by simp
  with m1 show ?thesis by (simp add: call_logs_def)
qed

text \<open>The incoming-call listener ignores a change that removes a call from the
  ringing query: the prompt of a cancelled call stays up.\<close>

theorem prompt_survives_removal:
  "incoming_snapshot ((Removed, d) # chs) p s = p"
  by (simp add: incoming_snapshot_def)

section \<open>Scenarios\<close>

text \<open>The scenario of the spec: alice calls bob by video, bob accepts, alice ends after
  42 seconds; the call is ended at the store's time and the chat holds exactly one
  call-log entry, a video call ended after 42 seconds.\<close>

theorem scenario_video_call_42:
  "let (pa1, s1) = handleInitiateCall demo_chat Video ''k1'' (idle_page ''alice'', demo_store);
       pb1 = incoming_snapshot [(Added, the (calls s1 ''k1''))] (idle_page ''bob'') s1;
       (e2, (pb2, s2)) = handleCallAction (the (incomingCall pb1)) Accept (pb1, s1);
       pa2 = ongoing_snapshot pa1 s2;
       (e3, (pa3, s3)) = handleEndCall (activeCall pa2) 42 (pa2, s2\<lparr>clock := 142\<rparr>)
   in e2 = None \<and> e3 = None \<and> activeCall pa3 = None \<and>
      status (the (calls s3 ''k1'')) = Ended \<and> endedAt (the (calls s3 ''k1'')) = Some 142 \<and>
      map callInfo (call_logs (messages s3 ''c1'')) =
        [Some \<lparr>ci_type = Video, ci_status = OutcomeEnded, ci_duration = Some 42\<rparr>]"
  by (simp add: handleInitiateCall_def new_call_def set_call_def demo_store_def demo_chat_def
      idle_page_def incoming_snapshot_def handleCallAction_def update_call_def ongoing_snapshot_def
      handleEndCall_def end_read_def end_write_def end_log_def end_mark_def createCallMessage_def
      call_log_entry_def update_chat_def Let_def call_logs_def)

text \<open>C20: Starting a call while another is active replaces the active call; the earlier
  call stays in the store untouched (still ringing), so nothing enforces one active
  call per client.\<close>

theorem initiate_ignores_active:
  assumes "activeCall p = Some old" and "List.find (\<lambda>m. m \<noteq> me p) (chat_members ch) = Some callee"
    and "new_id \<noteq> call_key old"
  shows "handleInitiateCall ch ty new_id (p, s) =
           (p\<lparr>activeCall := Some (new_call ch ty new_id (me p) callee (clock s))\<rparr>,
            set_call (new_call ch ty new_id (me p) callee (clock s)) s) \<and>
         calls (set_call (new_call ch ty new_id (me p) callee (clock s)) s) (call_key old) = calls s (call_key old)"
  using assms by (simp add: handleInitiateCall_def set_call_def new_call_def Let_def)

section \<open>Witnesses\<close>

theorem end_twice_one_log_witness:
  "fst (handleEndCall (Some demo_call) 7 (idle_page ''bob'',
          snd (snd (handleEndCall (Some demo_call) 5 (idle_page ''alice'', ringing_store))))) = None \<and>
   length (call_logs (messages (snd (snd (handleEndCall (Some demo_call) 7 (idle_page ''bob'',
          snd (snd (handleEndCall (Some demo_call) 5 (idle_page ''alice'', ringing_store))))))) ''c1'')) \<le> 1"
proof -
  let ?X = "handleEndCall (Some demo_call) 5 (idle_page ''alice'', ringing_store)"
  let ?Y = "handleEndCall (Some demo_call) 7 (idle_page ''bob'', snd (snd ?X))"
  have x: "fst ?X = None"
    by (simp add: handleEndCall_live end_log_def createCallMessage_error)
  have h1: "?X = (None, (fst (snd ?X), snd (snd ?X)))" using x by (cases ?X) auto
  have h2: "?Y = (fst ?Y, (fst (snd ?Y), snd (snd ?Y)))" by simp
  note e = end_twice_one_log [OF h1 h2, of "''c1''"]
  have y: "fst ?Y = None" using e by blast
  have m: "length (call_logs (messages (snd (snd ?Y)) ''c1'')) \<le> length (call_logs (messages ringing_store ''c1'')) + 1"
    using e by blast
  show ?thesis using y m by (simp add: call_logs_def)
qed

theorem decline_writes_missed_witness:
  "status (the (calls (snd (snd (handleCallAction demo_call Decline (idle_page ''bob'', ringing_store)))) ''k1'')) = Declined \<and>
   length (call_logs (messages (snd (snd (handleCallAction demo_call Decline (idle_page ''bob'', ringing_store)))) ''c1'')) = 1"
proof -
  have h1: "calls ringing_store (call_key demo_call) = Some demo_call" by simp
  have h2: "chats ringing_store (chatId demo_call) \<noteq> None" by simp
  from decline_writes_missed [OF h1 h2, of "idle_page ''bob''"] show ?thesis
    by (auto simp: call_logs_def)
qed

theorem end_ringing_by_caller_witness:
  "\<exists>s'. handleEndCall (Some demo_call) 0 (idle_page ''alice'', ringing_store) =
          (None, ((idle_page ''alice'')\<lparr>activeCall := None\<rparr>, s')) \<and>
        map callInfo (call_logs (messages s' ''c1'')) =
          [Some \<lparr>ci_type = Video, ci_status = OutcomeMissed, ci_duration = Some 0\<rparr>]"
proof -
  have h1: "calls ringing_store (call_key demo_call) = Some demo_call" by simp
  have h2: "status demo_call = Ringing" "callerId demo_call = me (idle_page ''alice'')" by simp_all
  have h3: "chats ringing_store (chatId demo_call) \<noteq> None" by simp
  from end_ringing_by_caller [OF h1 h2 h3, of 0] show ?thesis
    by (auto simp: call_logs_def call_log_entry_def)
qed

theorem callee_hangup_never_logged_witness:
  "messages (snd (snd (handleEndCall (Some demo_call) 30 (idle_page ''alice'',
      snd (snd (handleEndCall (Some demo_call) 30 (idle_page ''bob'', connected_store))))))) =
   messages connected_store"
proof -
  let ?X = "handleEndCall (Some demo_call) 30 (idle_page ''bob'', connected_store)"
  let ?Y = "handleEndCall (Some demo_call) 30 (idle_page ''alice'', snd (snd ?X))"
  have h1: "calls connected_store (call_key demo_call) = Some (demo_call\<lparr>status := Connected\<rparr>)" by simp
  have h2: "status (demo_call\<lparr>status := Connected\<rparr>) = Connected" by simp
  have h3: "callerId (demo_call\<lparr>status := Connected\<rparr>) \<noteq> me (idle_page ''bob'')" by simp
  have h4: "chats connected_store (chatId demo_call) \<noteq> None" by simp
  have h5: "?X = (fst ?X, (fst (snd ?X), snd (snd ?X)))" by simp
  have h6: "?Y = (fst ?Y, (fst (snd ?Y), snd (snd ?Y)))" by simp
  from callee_hangup_never_logged [OF h1 h2 h3 h4 h5 h6] show ?thesis by simp
qed

theorem cancel_then_decline_two_logs_witness:
  "length (call_logs (messages (snd (snd (handleCallAction demo_call Decline (idle_page ''bob'',
      snd (snd (handleEndCall (Some demo_call) 0 (idle_page ''alice'', ringing_store))))))) ''c1'')) = 2"
proof -
  let ?X = "handleEndCall (Some demo_call) 0 (idle_page ''alice'', ringing_store)"
  let ?Y = "handleCallAction demo_call Decline (idle_page ''bob'', snd (snd ?X))"
  have h1: "calls ringing_store (call_key demo_call) = Some demo_call" by simp
  have h2: "status demo_call = Ringing" "callerId demo_call = me (idle_page ''alice'')" by simp_all
  have h3: "chats ringing_store (chatId demo_call) \<noteq> None" by simp
  have h5: "?X = (fst ?X, (fst (snd ?X), snd (snd ?X)))" by simp
  have h6: "?Y = (fst ?Y, (fst (snd ?Y), snd (snd ?Y)))" by simp
  from cancel_then_decline_two_logs [OF h1 h2 h3 h5 h6] show ?thesis by (simp add: call_logs_def)
qed

theorem accept_after_cancel_resurrects_witness:
  "status (the (calls (snd (snd (handleCallAction demo_call Accept (idle_page ''bob'', ended_store)))) ''k1'')) = Connected"
proof -
  have h1: "calls ended_store (call_key demo_call) = Some (demo_call\<lparr>status := Ended, endedAt := Some 100\<rparr>)" by simp
  have h2: "status (demo_call\<lparr>status := Ended, endedAt := Some 100\<rparr>) = Ended" by simp
  from accept_after_cancel_resurrects [OF h1 h2, of "idle_page ''bob''"] show ?thesis by auto
qed

theorem decline_then_end_overwrites_witness:
  "status (the (calls (snd (snd (handleEndCall (Some demo_call) 0 (idle_page ''alice'',
      snd (snd (handleCallAction demo_call Decline (idle_page ''bob'', ringing_store))))))) ''k1'')) = Ended"
proof -
  let ?X = "handleCallAction demo_call Decline (idle_page ''bob'', ringing_store)"
  let ?Y = "handleEndCall (Some demo_call) 0 (idle_page ''alice'', snd (snd ?X))"
  have h1: "calls ringing_store (call_key demo_call) = Some demo_call" by simp
  have h2: "chats ringing_store (chatId demo_call) \<noteq> None" by simp
  have h3: "?X = (fst ?X, (fst (snd ?X), snd (snd ?X)))" by simp
  have h4: "?Y = (fst ?Y, (fst (snd ?Y), snd (snd ?Y)))" by simp
  from decline_then_end_overwrites [OF h1 h2 h3 h4] show ?thesis by simp
qed

theorem end_connected_by_caller_witness:
  "\<exists>s'. handleEndCall (Some demo_call) 42 (idle_page ''alice'', connected_store) =
          (None, ((idle_page ''alice'')\<lparr>activeCall := None\<rparr>, s')) \<and>
        map callInfo (call_logs (messages s' ''c1'')) =
          [Some \<lparr>ci_type = Video, ci_status = OutcomeEnded, ci_duration = Some 42\<rparr>]"
proof -
  have h1: "calls connected_store (call_key demo_call) = Some (demo_call\<lparr>status := Connected\<rparr>)" by simp
  have h2: "status (demo_call\<lparr>status := Connected\<rparr>) = Connected"
    "callerId (demo_call\<lparr>status := Connected\<rparr>) = me (idle_page ''alice'')" by simp_all
  have h3: "chats connected_store (chatId demo_call) \<noteq> None" "0 < (42::nat)" by simp_all
  from end_connected_by_caller [OF h1 h2 h3] show ?thesis
    by (auto simp: call_logs_def call_log_entry_def)
qed

theorem end_zero_duration_no_log_witness:
  "\<exists>s'. handleEndCall (Some demo_call) 0 (idle_page ''alice'', connected_store) =
          (None, ((idle_page ''alice'')\<lparr>activeCall := None\<rparr>, s')) \<and> messages s' = messages connected_store"
proof -
  have h1: "calls connected_store (call_key demo_call) = Some (demo_call\<lparr>status := Connected\<rparr>)" by simp
  have h2: "status (demo_call\<lparr>status := Connected\<rparr>) = Connected" by simp
  have h3: "chats connected_store (chatId demo_call) \<noteq> None" by simp
  from end_zero_duration_no_log [OF h1 h2 h3, of "idle_page ''alice''"] show ?thesis by auto
qed

theorem initiate_ignores_active_witness:
  "activeCall (fst (handleInitiateCall demo_chat Audio ''k2'' ((idle_page ''alice'')\<lparr>activeCall := Some demo_call\<rparr>, ringing_store)))
     = Some (new_call demo_chat Audio ''k2'' ''alice'' ''bob'' 100) \<and>
   calls (snd (handleInitiateCall demo_chat Audio ''k2'' ((idle_page ''alice'')\<lparr>activeCall := Some demo_call\<rparr>, ringing_store))) ''k1''
     = Some demo_call"
proof -
  let ?p = "(idle_page ''alice'')\<lparr>activeCall := Some demo_call\<rparr>"
  have h1: "activeCall ?p = Some demo_call" by simp
  have h2: "List.find (\<lambda>m. m \<noteq> me ?p) (chat_members demo_chat) = Some ''bob''"
    by (simp add: demo_chat_def)
  have h3: "''k2'' \<noteq> call_key demo_call" by simp
  from initiate_ignores_active [OF h1 h2 h3, of Audio ringing_store] show ?thesis by simp
qed

end
