(* ===== verification/Negotiator.thy ===== *)
theory Negotiator
  imports Prelude
begin

text \<open>
  The Session Negotiator: class \<open>WebRTCManager\<close> of src/src/lib/webrtc.ts, a thin
  wrapper around one browser \<open>RTCPeerConnection\<close>. The peer connection itself is not
  code of the repository; it is modelled from the WebRTC specification (JSEP signalling
  states, \<open>addIceCandidate\<close> needing a remote description, \<open>close()\<close>) as far as the
  wrapper's behaviour depends on it. A method that awaits a rejecting browser call
  returns \<open>(Inl error, state)\<close>: the peer connection keeps whatever the earlier awaited
  calls did, as the mutable JavaScript object does.
\<close>

section \<open>The browser peer connection (external collaborator)\<close>

datatype signaling_state = Stable | HaveLocalOffer | HaveRemoteOffer | SigClosed

datatype conn_state = CsNew | CsConnecting | CsConnected | CsDisconnected | CsFailed | CsClosed

datatype rtc_error = InvalidStateError | InvalidAccessError

text \<open>A \<open>MediaStreamTrack\<close>: \<open>stopped\<close> is \<open>readyState = 'ended'\<close>.\<close>

record track =
  track_id :: nat
  kind :: media_kind
  enabled :: bool
  stopped :: bool

text \<open>The senders are \<open>getSenders()\<close>, each with its track (\<open>sender.track\<close> may be null);
  \<open>applied_cands\<close> are the remote candidates the connection has accepted.\<close>

record peer_conn =
  signalingState :: signaling_state
  localDescription :: "sdesc option"
  remoteDescription :: "sdesc option"
  senders :: "track option list"
  applied_cands :: "ice_candidate list"
  connectionState :: conn_state

definition pc_new :: peer_conn where
  "pc_new = \<lparr>signalingState = Stable, localDescription = None, remoteDescription = None,
             senders = [], applied_cands = [], connectionState = CsNew\<rparr>"

definition is_closed :: "peer_conn \<Rightarrow> bool" where
  "is_closed p \<longleftrightarrow> signalingState p = SigClosed"

definition pc_createOffer :: "string \<Rightarrow> peer_conn \<Rightarrow> rtc_error + sdesc" where
  "pc_createOffer body p =
     (if is_closed p then Inl InvalidStateError else Inr \<lparr>desc_type = SdpOffer, sdp = body\<rparr>)"

definition pc_createAnswer :: "string \<Rightarrow> peer_conn \<Rightarrow> rtc_error + sdesc" where
  "pc_createAnswer body p =
     (if signalingState p = HaveRemoteOffer then Inr \<lparr>desc_type = SdpAnswer, sdp = body\<rparr>
      else Inl InvalidStateError)"

definition pc_setLocalDescription :: "sdesc \<Rightarrow> peer_conn \<Rightarrow> rtc_error + peer_conn" where
  "pc_setLocalDescription d p =
     (case desc_type d of
        SdpOffer \<Rightarrow>
          (if signalingState p = Stable \<or> signalingState p = HaveLocalOffer
           then Inr (p\<lparr>localDescription := Some d, signalingState := HaveLocalOffer\<rparr>)
           else Inl InvalidStateError)
      | SdpAnswer \<Rightarrow>
          (if signalingState p = HaveRemoteOffer
           then Inr (p\<lparr>localDescription := Some d, signalingState := Stable\<rparr>)
           else Inl InvalidStateError))"

definition pc_setRemoteDescription :: "sdesc \<Rightarrow> peer_conn \<Rightarrow> rtc_error + peer_conn" where
  "pc_setRemoteDescription d p =
     (case desc_type d of
        SdpOffer \<Rightarrow>
          (if signalingState p = Stable \<or> signalingState p = HaveRemoteOffer
           then Inr (p\<lparr>remoteDescription := Some d, signalingState := HaveRemoteOffer\<rparr>)
           else Inl InvalidStateError)
      | SdpAnswer \<Rightarrow>
          (if signalingState p = HaveLocalOffer
           then Inr (p\<lparr>remoteDescription := Some d, signalingState := Stable\<rparr>)
           else Inl InvalidStateError))"

definition pc_addIceCandidate :: "ice_candidate \<Rightarrow> peer_conn \<Rightarrow> rtc_error + peer_conn" where
  "pc_addIceCandidate c p =
     (if is_closed p \<or> remoteDescription p = None then Inl InvalidStateError
      else Inr (p\<lparr>applied_cands := applied_cands p @ [c]\<rparr>))"

definition same_track :: "track \<Rightarrow> track option \<Rightarrow> bool" where
  "same_track t s = (case s of Some t' \<Rightarrow> track_id t' = track_id t | None \<Rightarrow> False)"

definition pc_addTrack :: "track \<Rightarrow> peer_conn \<Rightarrow> rtc_error + peer_conn" where
  "pc_addTrack t p =
     (if is_closed p then Inl InvalidStateError
      else if list_ex (same_track t) (senders p) then Inl InvalidAccessError
      else Inr (p\<lparr>senders := senders p @ [Some t]\<rparr>))"

text \<open>\<open>close()\<close> fires no \<open>connectionstatechange\<close> event (WebRTC 1.0, 4.4.1.6).\<close>

definition pc_close :: "peer_conn \<Rightarrow> peer_conn" where
  "pc_close p = p\<lparr>signalingState := SigClosed, connectionState := CsClosed\<rparr>"

section \<open>WebRTCManager\<close>

record manager =
  pc :: peer_conn
  isCaller :: bool

text \<open>The constructor (lines 39--52): a fresh connection, \<open>isCaller = false\<close>. The
  \<open>onicecandidate\<close> wrapper forwards only non-null candidates (the end-of-gathering
  event carries \<open>null\<close>).\<close>

definition new_manager :: manager where
  "new_manager = \<lparr>pc = pc_new, isCaller = False\<rparr>"

definition forward_ice :: "ice_candidate option \<Rightarrow> ice_candidate list" where
  "forward_ice ev = (case ev of Some c \<Rightarrow> [c] | None \<Rightarrow> [])"

definition addTrack :: "track \<Rightarrow> manager \<Rightarrow> (rtc_error, manager) outcome" where
  "addTrack t m =
     (if is_closed (pc m) then (None, m)
      else (case pc_addTrack t (pc m) of
              Inl e \<Rightarrow> (Some e, m)
            | Inr p \<Rightarrow> (None, m\<lparr>pc := p\<rparr>)))"

definition createOffer :: "string \<Rightarrow> manager \<Rightarrow> (rtc_error + sdesc) \<times> manager" where
  "createOffer body m =
     (case pc_createOffer body (pc m) of
        Inl e \<Rightarrow> (Inl e, m)
      | Inr off \<Rightarrow>
          (case pc_setLocalDescription off (pc m) of
             Inl e \<Rightarrow> (Inl e, m)
           | Inr p \<Rightarrow> (Inr off, m\<lparr>pc := p, isCaller := True\<rparr>)))"

definition setRemoteDescription :: "sdesc \<Rightarrow> manager \<Rightarrow> (rtc_error, manager) outcome" where
  "setRemoteDescription d m =
     (if is_closed (pc m) then (None, m)
      else (case pc_setRemoteDescription d (pc m) of
              Inl e \<Rightarrow> (Some e, m)
            | Inr p \<Rightarrow> (None, m\<lparr>pc := p\<rparr>)))"

definition createAnswer :: "sdesc \<Rightarrow> string \<Rightarrow> manager \<Rightarrow> (rtc_error + sdesc) \<times> manager" where
  "createAnswer off body m =
     (case setRemoteDescription off m of
        (Some e, m1) \<Rightarrow> (Inl e, m1)
      | (None, m1) \<Rightarrow>
          (case pc_createAnswer body (pc m1) of
             Inl e \<Rightarrow> (Inl e, m1)
           | Inr ans \<Rightarrow>
               (case pc_setLocalDescription ans (pc m1) of
                  Inl e \<Rightarrow> (Inl e, m1)
                | Inr p \<Rightarrow> (Inr ans, m1\<lparr>pc := p\<rparr>))))"

text \<open>\<open>addIceCandidate\<close> never throws: a rejection by the browser is caught and logged,
  and the manager is left as it was.\<close>

definition addIceCandidate :: "ice_candidate option \<Rightarrow> manager \<Rightarrow> manager" where
  "addIceCandidate c m =
     (case c of
        None \<Rightarrow> m
      | Some cand \<Rightarrow>
          (if is_closed (pc m) then m
           else (case pc_addIceCandidate cand (pc m) of
                   Inl _ \<Rightarrow> m
                 | Inr p \<Rightarrow> m\<lparr>pc := p\<rparr>)))"

definition has_kind :: "media_kind \<Rightarrow> track option \<Rightarrow> bool" where
  "has_kind k s = (case s of Some t \<Rightarrow> kind t = k | None \<Rightarrow> False)"

text \<open>\<open>senders.find(s => s.track?.kind === k)\<close>, flip \<open>enabled\<close> of its track, return
  the new disabled state; \<open>false\<close> when there is no such sender.\<close>

definition toggle_track :: "media_kind \<Rightarrow> manager \<Rightarrow> bool \<times> manager" where
  "toggle_track k m =
     (case find_idx (has_kind k) (senders (pc m)) of
        None \<Rightarrow> (False, m)
      | Some i \<Rightarrow>
          (case senders (pc m) ! i of
             None \<Rightarrow> (False, m)
           | Some t \<Rightarrow>
               (let t' = t\<lparr>enabled := \<not> enabled t\<rparr>
                in (\<not> enabled t', m\<lparr>pc := (pc m)\<lparr>senders := (senders (pc m))[i := Some t']\<rparr>\<rparr>))))"

definition toggleMute :: "manager \<Rightarrow> bool \<times> manager" where
  "toggleMute m = toggle_track Audio m"

definition toggleCamera :: "manager \<Rightarrow> bool \<times> manager" where
  "toggleCamera m = toggle_track Video m"

definition stop_track :: "track option \<Rightarrow> track option" where
  "stop_track s = map_option (\<lambda>t. t\<lparr>stopped := True\<rparr>) s"

definition hangUp :: "manager \<Rightarrow> manager" where
  "hangUp m =
     (let p = (pc m)\<lparr>senders := map stop_track (senders (pc m))\<rparr>
      in m\<lparr>pc := (if is_closed p then p else pc_close p)\<rparr>)"

text \<open>The first sender of a kind, as \<open>find\<close> sees it.\<close>

definition first_track :: "media_kind \<Rightarrow> manager \<Rightarrow> track option" where
  "first_track k m =
     (case find_idx (has_kind k) (senders (pc m)) of None \<Rightarrow> None | Some i \<Rightarrow> senders (pc m) ! i)"

text \<open>The abstract view of a negotiator in which the order of the applied remote
  candidates is forgotten: ICE treats the candidate set, not its arrival order.\<close>

definition neg_abs :: "manager \<Rightarrow> manager \<times> ice_candidate multiset" where
  "neg_abs m = (m\<lparr>pc := (pc m)\<lparr>applied_cands := []\<rparr>\<rparr>, mset (applied_cands (pc m)))"

section \<open>Fixtures\<close>

definition demo_mic :: track where
  "demo_mic = \<lparr>track_id = 1, kind = Audio, enabled = True, stopped = False\<rparr>"

text \<open>An audio-only call: the microphone is the only outbound track.\<close>

definition audio_only_manager :: manager where
  "audio_only_manager = new_manager\<lparr>pc := pc_new\<lparr>senders := [Some demo_mic]\<rparr>\<rparr>"

text \<open>A caller whose offer is committed and whose remote answer has been applied.\<close>

definition answered_manager :: manager where
  "answered_manager =
     \<lparr>pc = pc_new\<lparr>localDescription := Some \<lparr>desc_type = SdpOffer, sdp = ''o1''\<rparr>,
                   remoteDescription := Some \<lparr>desc_type = SdpAnswer, sdp = ''a1''\<rparr>\<rparr>,
      isCaller = True\<rparr>"

section \<open>Lemmas: finding and toggling a track\<close>

lemma has_kind_Some_iff [simp]: "has_kind k (Some t) \<longleftrightarrow> kind t = k"
  by (simp add: has_kind_def)

lemma has_kind_None [simp]: "\<not> has_kind k None"
  by (simp add: has_kind_def)

lemma find_idx_has_kind:
  assumes "find_idx (has_kind k) xs = Some i"
  obtains t where "i < length xs" "xs ! i = Some t" "kind t = k"
proof -
  from find_idx_Some [OF assms] have "i < length xs" "has_kind k (xs ! i)" by auto
  then show ?thesis using that by (cases "xs ! i") auto
qed

lemma toggle_track_None:
  "find_idx (has_kind k) (senders (pc m)) = None \<Longrightarrow> toggle_track k m = (False, m)"
  by (simp add: toggle_track_def)

lemma toggle_track_Some:
  assumes "find_idx (has_kind k) (senders (pc m)) = Some i" and "senders (pc m) ! i = Some t"
  shows "toggle_track k m =
           (enabled t, m\<lparr>pc := (pc m)\<lparr>senders := (senders (pc m))[i := Some (t\<lparr>enabled := \<not> enabled t\<rparr>)]\<rparr>\<rparr>)"
  using assms by (simp add: toggle_track_def)

lemma toggle_track_involutive: "snd (toggle_track k (snd (toggle_track k m))) = m"
proof (cases "find_idx (has_kind k) (senders (pc m))")
  case None
  then show ?thesis by (simp add: toggle_track_None)
next
  case (Some i)
  then obtain t where i: "i < length (senders (pc m))" and t: "senders (pc m) ! i = Some t"
    and k: "kind t = k"
    by (rule find_idx_has_kind)
  let ?t' = "t\<lparr>enabled := \<not> enabled t\<rparr>"
  let ?m' = "m\<lparr>pc := (pc m)\<lparr>senders := (senders (pc m))[i := Some ?t']\<rparr>\<rparr>"
  have step1: "toggle_track k m = (enabled t, ?m')"
    using Some t by (rule toggle_track_Some)
  have "find_idx (has_kind k) (senders (pc ?m')) = Some i"
    using find_idx_update_same [OF Some] k t by simp
  moreover have "senders (pc ?m') ! i = Some ?t'" using i by simp
  ultimately have "snd (toggle_track k ?m') =
      ?m'\<lparr>pc := (pc ?m')\<lparr>senders := (senders (pc ?m'))[i := Some (?t'\<lparr>enabled := \<not> enabled ?t'\<rparr>)]\<rparr>\<rparr>"
    by (simp add: toggle_track_Some)
  also have "\<dots> = m" by (simp add: t [symmetric])
  finally show ?thesis using step1 by simp
qed

lemma toggle_track_reports:
  "fst (toggle_track k m) =
     (case first_track k (snd (toggle_track k m)) of None \<Rightarrow> False | Some t \<Rightarrow> \<not> enabled t)"
proof (cases "find_idx (has_kind k) (senders (pc m))")
  case None
  then show ?thesis by (simp add: toggle_track_None first_track_def)
next
  case (Some i)
  then obtain t where i: "i < length (senders (pc m))" and t: "senders (pc m) ! i = Some t"
    and k: "kind t = k"
    by (rule find_idx_has_kind)
  let ?t' = "t\<lparr>enabled := \<not> enabled t\<rparr>"
  have "find_idx (has_kind k) ((senders (pc m))[i := Some ?t']) = Some i"
    using find_idx_update_same [OF Some] k t by simp
  with Some t i show ?thesis by (simp add: toggle_track_Some first_track_def)
qed

section \<open>Lemmas: remote candidates\<close>

lemma addIceCandidate_applies:
  "\<not> is_closed (pc m) \<Longrightarrow> remoteDescription (pc m) \<noteq> None \<Longrightarrow>
   addIceCandidate (Some c) m = m\<lparr>pc := (pc m)\<lparr>applied_cands := applied_cands (pc m) @ [c]\<rparr>\<rparr>"
  by (simp add: addIceCandidate_def pc_addIceCandidate_def)

lemma deliver_candidates_eq:
  assumes "\<not> is_closed (pc m)" and "remoteDescription (pc m) \<noteq> None"
  shows "fold (\<lambda>c. addIceCandidate (Some c)) cs m =
           m\<lparr>pc := (pc m)\<lparr>applied_cands := applied_cands (pc m) @ cs\<rparr>\<rparr>"
  using assms
proof (induction cs arbitrary: m)
  case Nil
  then show ?case by simp
next
  case (Cons c cs)
  let ?m1 = "m\<lparr>pc := (pc m)\<lparr>applied_cands := applied_cands (pc m) @ [c]\<rparr>\<rparr>"
  have "addIceCandidate (Some c) m = ?m1"
    using Cons.prems by (rule addIceCandidate_applies)
  moreover have "\<not> is_closed (pc ?m1)" "remoteDescription (pc ?m1) \<noteq> None"
    using Cons.prems by (simp_all add: is_closed_def)
  ultimately show ?case using Cons.IH [of ?m1] by simp
qed

section \<open>Properties of the negotiator\<close>

text \<open>Toggling mute (or the camera) twice restores the negotiator exactly.\<close>

theorem toggle_involutive:
  "snd (toggleMute (snd (toggleMute m))) = m \<and> snd (toggleCamera (snd (toggleCamera m))) = m"
  by (simp add: toggleMute_def toggleCamera_def toggle_track_involutive)

text \<open>\<open>toggleMute\<close> and \<open>toggleCamera\<close> return the new disabled state of the first
  track of their kind, and \<open>false\<close> when there is none.\<close>

theorem toggle_reports:
  "fst (toggleMute m) =
     (case first_track Audio (snd (toggleMute m)) of None \<Rightarrow> False | Some t \<Rightarrow> \<not> enabled t) \<and>
   fst (toggleCamera m) =
     (case first_track Video (snd (toggleCamera m)) of None \<Rightarrow> False | Some t \<Rightarrow> \<not> enabled t)"
  by (simp add: toggleMute_def toggleCamera_def toggle_track_reports)

text \<open>On a call without a video track (audio-only, or camera unavailable),
  \<open>toggleCamera\<close> changes nothing and returns \<open>false\<close>.\<close>

theorem toggleCamera_audio_only:
  "\<forall>s\<in>set (senders (pc m)). \<not> has_kind Video s \<Longrightarrow> toggleCamera m = (False, m)"
  by (simp add: toggleCamera_def toggle_track_None find_idx_None_iff)

theorem toggleCamera_audio_only_witness:
  "toggleCamera audio_only_manager = (False, audio_only_manager)"
  using toggleCamera_audio_only [of audio_only_manager]
  by (simp add: audio_only_manager_def new_manager_def pc_new_def demo_mic_def)

text \<open>After \<open>hangUp\<close> the connection is closed and every outbound track is stopped.\<close>

theorem hangUp_teardown:
  "is_closed (pc (hangUp m)) \<and>
   list_all (\<lambda>s. case s of None \<Rightarrow> True | Some t \<Rightarrow> stopped t) (senders (pc (hangUp m)))"
  by (auto simp: hangUp_def Let_def is_closed_def pc_close_def stop_track_def list_all_iff
           split: option.splits)

text \<open>\<open>hangUp\<close> is idempotent.\<close>

theorem hangUp_idempotent: "hangUp (hangUp m) = hangUp m"
  by (simp add: hangUp_def Let_def pc_close_def is_closed_def stop_track_def comp_def option.map_comp)

text \<open>C17: a remote candidate that arrives before the remote description is applied is
  rejected by the browser; the rejection is swallowed and the candidate is lost, not
  queued.\<close>

theorem addIceCandidate_drops_early:
  "remoteDescription (pc m) = None \<Longrightarrow> addIceCandidate c m = m"
  by (simp add: addIceCandidate_def pc_addIceCandidate_def split: option.splits)

theorem addIceCandidate_drops_early_witness:
  "addIceCandidate (Some 7) (snd (createOffer ''o1'' new_manager)) = snd (createOffer ''o1'' new_manager)"
  by (rule addIceCandidate_drops_early)
     (simp add: createOffer_def new_manager_def pc_new_def pc_createOffer_def
                pc_setLocalDescription_def is_closed_def)

text \<open>Once the connection is open with a remote description, delivering remote
  candidates applies each of them, in delivery order, and changes nothing else.\<close>

theorem deliver_candidates:
  assumes "\<not> is_closed (pc m)" and "remoteDescription (pc m) \<noteq> None"
  shows "fold (\<lambda>c. addIceCandidate (Some c)) cs m =
           m\<lparr>pc := (pc m)\<lparr>applied_cands := applied_cands (pc m) @ cs\<rparr>\<rparr>"
  using assms by (rule deliver_candidates_eq)

theorem deliver_candidates_witness:
  "fold (\<lambda>c. addIceCandidate (Some c)) [3, 1, 2] answered_manager =
     answered_manager\<lparr>pc := (pc answered_manager)\<lparr>applied_cands := [3, 1, 2]\<rparr>\<rparr>"
  using deliver_candidates [of answered_manager "[3, 1, 2]"]
  by (simp add: answered_manager_def pc_new_def is_closed_def)

text \<open>C16: candidates commute once the descriptions are applied: a delivery of the
  candidates \<open>cs\<close> in any order (reversed, for instance) leaves the negotiator as it
  was, except that exactly the candidates of \<open>cs\<close>, each as often as delivered, are
  added to the connection's applied candidates; none is dropped and none is duplicated.\<close>

theorem candidates_order_independent:
  assumes "\<not> is_closed (pc m)" and "remoteDescription (pc m) \<noteq> None" and "mset cs' = mset cs"
  shows "neg_abs (fold (\<lambda>c. addIceCandidate (Some c)) cs' m) =
         (fst (neg_abs m), snd (neg_abs m) + mset cs)"
  using assms by (simp add: deliver_candidates_eq neg_abs_def)

theorem candidates_order_independent_witness:
  "neg_abs (fold (\<lambda>c. addIceCandidate (Some c)) (rev [1, 2, 3]) answered_manager) =
   (fst (neg_abs answered_manager), snd (neg_abs answered_manager) + {#1, 2, 3#})"
  using candidates_order_independent [of answered_manager "rev [1, 2, 3]" "[1, 2, 3]"]
  by (simp add: answered_manager_def pc_new_def is_closed_def)

text \<open>\<open>createOffer\<close> commits an offer and marks the caller role when the connection
  is stable (or already has a local offer), and fails with the state unchanged otherwise,
  in particular after the connection was closed.\<close>

theorem createOffer_eq:
  "createOffer b m =
     (if signalingState (pc m) = Stable \<or> signalingState (pc m) = HaveLocalOffer
      then (Inr \<lparr>desc_type = SdpOffer, sdp = b\<rparr>,
            m\<lparr>pc := (pc m)\<lparr>localDescription := Some \<lparr>desc_type = SdpOffer, sdp = b\<rparr>,
                            signalingState := HaveLocalOffer\<rparr>, isCaller := True\<rparr>)
      else (Inl InvalidStateError, m))"
  by (auto simp: createOffer_def pc_createOffer_def pc_setLocalDescription_def is_closed_def)

text \<open>On a fresh (or stable) connection, \<open>createAnswer\<close> of a well-formed offer
  commits the offer as remote and the answer as local description.\<close>

theorem createAnswer_ok:
  assumes "signalingState (pc m) = Stable \<or> signalingState (pc m) = HaveRemoteOffer"
    and "desc_type off = SdpOffer"
  shows "createAnswer off b m =
           (Inr \<lparr>desc_type = SdpAnswer, sdp = b\<rparr>,
            m\<lparr>pc := (pc m)\<lparr>remoteDescription := Some off,
                            localDescription := Some \<lparr>desc_type = SdpAnswer, sdp = b\<rparr>,
                            signalingState := Stable\<rparr>\<rparr>)"
  using assms
  by (auto simp: createAnswer_def setRemoteDescription_def pc_setRemoteDescription_def
      pc_createAnswer_def pc_setLocalDescription_def is_closed_def)

theorem createAnswer_ok_witness:
  "createAnswer \<lparr>desc_type = SdpOffer, sdp = ''o1''\<rparr> ''a1'' new_manager =
     (Inr \<lparr>desc_type = SdpAnswer, sdp = ''a1''\<rparr>,
      new_manager\<lparr>pc := pc_new\<lparr>remoteDescription := Some \<lparr>desc_type = SdpOffer, sdp = ''o1''\<rparr>,
                                localDescription := Some \<lparr>desc_type = SdpAnswer, sdp = ''a1''\<rparr>\<rparr>\<rparr>)"
  using createAnswer_ok [of new_manager "\<lparr>desc_type = SdpOffer, sdp = ''o1''\<rparr>" "''a1''"]
  by (simp add: new_manager_def pc_new_def)

text \<open>\<open>createAnswer\<close> fails when the connection is closed or the description it is
  given is not an offer.\<close>

theorem createAnswer_fails:
  "is_closed (pc m) \<or> desc_type off = SdpAnswer \<Longrightarrow> fst (createAnswer off b m) = Inl InvalidStateError"
  by (auto simp: createAnswer_def setRemoteDescription_def pc_setRemoteDescription_def
      pc_createAnswer_def pc_setLocalDescription_def is_closed_def
      split: sdp_type.splits signaling_state.splits)

theorem createAnswer_fails_witness:
  "fst (createAnswer \<lparr>desc_type = SdpOffer, sdp = ''o1''\<rparr> ''a1'' (hangUp new_manager)) = Inl InvalidStateError"
  by (rule createAnswer_fails) (simp add: hangUp_def Let_def new_manager_def pc_new_def pc_close_def is_closed_def)

end
