(* ===== verification/Signaling.thy ===== *)
theory Signaling
  imports Negotiator Store
begin

text \<open>
  The Signalling Channel and call screen: component \<open>CallView\<close> of
  src/src/components/call-view.tsx. Its React state, its refs and the values its
  effect closures captured are one record. The WebRTC effect (lines 141--240) runs on
  mount and again whenever its dependencies \<open>[localStream, user, call.id]\<close> change;
  its callbacks (candidate and document snapshots, connection-state changes) see the
  values of the render in which that effect ran: the manager it created
  (\<open>eff_mgr\<close>) and \<open>callStartTime\<close> as it was then (\<open>eff_start\<close>). The ref
  \<open>webRtcManagerRef\<close> points to that manager until it is cleared (\<open>mgr_ref\<close>).
  Client times are milliseconds of the local clock (\<open>new Date()\<close>); a duration is
  \<open>Math.floor((now - start) / 1000)\<close>, with the subtraction truncated at 0 (the page
  only asks whether it is positive). \<open>end_reports\<close> lists the durations passed to
  \<open>onEndCall\<close>, in order. Track state (\<open>stopped\<close>) lives in the manager's senders,
  which are the stream's tracks.
\<close>

record callview =
  cv_user :: uid
  cv_call :: call_doc
  isMuted :: bool
  isCameraOff :: bool
  callStartTime :: "timestamp option"
  localStream :: "track list option"
  hasCameraPermission :: bool
  eff_mgr :: "manager option"
  mgr_ref :: bool
  eff_start :: "timestamp option"
  eff_stream :: "track list option"
  callEnded :: bool
  cand_sub :: bool
  doc_sub :: bool
  end_reports :: "seconds list"

text \<open>\<open>isCaller\<close> (line 89) and the candidate collections it selects (lines 154, 178, 191).\<close>

definition cv_isCaller :: "callview \<Rightarrow> bool" where
  "cv_isCaller cv \<longleftrightarrow> callerId (cv_call cv) = cv_user cv"

definition own_role :: "callview \<Rightarrow> role" where
  "own_role cv = (if cv_isCaller cv then CallerRole else CalleeRole)"

definition peer_role :: "callview \<Rightarrow> role" where
  "peer_role cv = (if cv_isCaller cv then CalleeRole else CallerRole)"

text \<open>Mount (lines 73--87): the initial state.\<close>

definition cv_mount :: "uid \<Rightarrow> call_doc \<Rightarrow> callview" where
  "cv_mount u c =
     \<lparr>cv_user = u, cv_call = c, isMuted = False, isCameraOff = (call_type c = Audio),
      callStartTime = None, localStream = None, hasCameraPermission = True,
      eff_mgr = None, mgr_ref = False, eff_start = None, eff_stream = None,
      callEnded = False, cand_sub = False, doc_sub = False, end_reports = []\<rparr>"

text \<open>The media effect (lines 95--137): \<open>getUserMedia({video: type === 'video',
  audio: true})\<close> either yields the stream or is refused as a whole.\<close>

definition cv_media_granted :: "track list \<Rightarrow> callview \<Rightarrow> callview" where
  "cv_media_granted ts cv =
     cv\<lparr>localStream := Some ts, isCameraOff := (call_type (cv_call cv) = Audio),
        hasCameraPermission := True\<rparr>"

definition cv_media_denied :: "callview \<Rightarrow> callview" where
  "cv_media_denied cv = cv\<lparr>hasCameraPermission := False\<rparr>"

text \<open>\<open>handleEndCall\<close> (lines 243--260), given the \<open>callStartTime\<close> its closure sees.\<close>

definition end_duration :: "timestamp option \<Rightarrow> timestamp \<Rightarrow> seconds" where
  "end_duration start now = (case start of None \<Rightarrow> 0 | Some t \<Rightarrow> (now - t) div 1000)"

definition cv_handleEndCall :: "timestamp option \<Rightarrow> timestamp \<Rightarrow> callview \<Rightarrow> callview" where
  "cv_handleEndCall start now cv =
     (if callEnded cv then cv
      else
        (let cv1 = cv\<lparr>callEnded := True\<rparr>;
             cv2 = (if mgr_ref cv1 then cv1\<lparr>eff_mgr := map_option hangUp (eff_mgr cv1), mgr_ref := False\<rparr>
                    else cv1)
         in cv2\<lparr>end_reports := end_reports cv2 @ [end_duration start now]\<rparr>))"

text \<open>The effect's cleanup (lines 231--238): both subscriptions released, the manager
  hung up through the ref.\<close>

definition cv_cleanup :: "callview \<Rightarrow> callview" where
  "cv_cleanup cv =
     (let cv1 = cv\<lparr>cand_sub := False, doc_sub := False\<rparr>
      in if mgr_ref cv1 then cv1\<lparr>eff_mgr := map_option hangUp (eff_mgr cv1), mgr_ref := False\<rparr>
         else cv1)"

text \<open>\<open>localStream.getTracks().forEach(track => manager.addTrack(track, localStream))\<close>:
  a throw leaves the loop and the effect.\<close>

fun add_stream_tracks :: "track list \<Rightarrow> manager \<Rightarrow> (rtc_error, manager) outcome" where
  "add_stream_tracks [] m = (None, m)"
| "add_stream_tracks (t # ts) m = andThen (addTrack t) (add_stream_tracks ts) m"

text \<open>\<open>setupSignaling\<close> (lines 176--208). The caller subscribes to the callee's
  candidates, creates the offer and writes it; the callee subscribes to the caller's
  candidates, reads the call, and if it has an offer answers it and writes the answer.
  \<open>body\<close> is the SDP the browser generates. A rejected step is an unhandled rejection:
  nothing after it happens.\<close>

definition setupSignaling :: "string \<Rightarrow> callview \<Rightarrow> store \<Rightarrow> callview \<times> store" where
  "setupSignaling body cv s =
     (case eff_mgr cv of
        None \<Rightarrow> (cv, s)
      | Some m \<Rightarrow>
          (let cid = call_key (cv_call cv); cv1 = cv\<lparr>cand_sub := True\<rparr> in
           if cv_isCaller cv then
             (case createOffer body m of
                (Inl _, m') \<Rightarrow> (cv1\<lparr>eff_mgr := Some m'\<rparr>, s)
              | (Inr off, m') \<Rightarrow> (cv1\<lparr>eff_mgr := Some m'\<rparr>, snd (update_call cid (\<lambda>d. d\<lparr>offer := Some off\<rparr>) s)))
           else
             (case calls s cid of
                None \<Rightarrow> (cv1, s)
              | Some d \<Rightarrow>
                  (case offer d of
                     None \<Rightarrow> (cv1, s)
                   | Some off \<Rightarrow>
                       (case createAnswer off body m of
                          (Inl _, m') \<Rightarrow> (cv1\<lparr>eff_mgr := Some m'\<rparr>, s)
                        | (Inr ans, m') \<Rightarrow>
                            (cv1\<lparr>eff_mgr := Some m'\<rparr>, snd (update_call cid (\<lambda>d. d\<lparr>answer := Some ans\<rparr>) s)))))))"

text \<open>One run of the WebRTC effect (lines 141--240): the previous run's cleanup, a new
  manager with the stream's tracks, the signalling, the document subscription. The
  closures of this run capture the new manager and the current \<open>callStartTime\<close>.\<close>

definition cv_run_effect :: "string \<Rightarrow> callview \<Rightarrow> store \<Rightarrow> callview \<times> store" where
  "cv_run_effect body cv s =
     (let cv0 = (if eff_mgr cv = None then cv else cv_cleanup cv);
          r = (case localStream cv0 of None \<Rightarrow> (None, new_manager) | Some ts \<Rightarrow> add_stream_tracks ts new_manager);
          cv1 = cv0\<lparr>eff_mgr := Some (snd r), mgr_ref := True, eff_start := callStartTime cv0,
                    eff_stream := localStream cv0\<rparr>
      in if fst r \<noteq> None then (cv1, s)
         else (let (cv2, s2) = setupSignaling body cv1 s in (cv2\<lparr>doc_sub := True\<rparr>, s2)))"

text \<open>React re-runs the effect when a dependency changed since its last run.\<close>

definition effect_due :: "callview \<Rightarrow> bool" where
  "effect_due cv \<longleftrightarrow> eff_mgr cv = None \<or> eff_stream cv \<noteq> localStream cv"

text \<open>The call-document listener (lines 212--229): a missing, ended or declined call
  ends the call; otherwise the call state is refreshed, the caller applies an answer
  its manager has not applied as remote description, and a connected status starts
  the timer if the closure's \<open>callStartTime\<close> is unset.\<close>

definition apply_answer :: "call_doc \<Rightarrow> callview \<Rightarrow> callview" where
  "apply_answer d cv =
     (case (eff_mgr cv, answer d) of
        (Some m, Some a) \<Rightarrow>
          (if cv_isCaller cv \<and> map_option desc_type (remoteDescription (pc m)) \<noteq> Some SdpAnswer
           then cv\<lparr>eff_mgr := Some (snd (setRemoteDescription a m))\<rparr> else cv)
      | _ \<Rightarrow> cv)"

definition cv_doc_snapshot :: "timestamp \<Rightarrow> call_doc option \<Rightarrow> callview \<Rightarrow> callview" where
  "cv_doc_snapshot now dopt cv =
     (if \<not> doc_sub cv then cv
      else
        (case dopt of
           None \<Rightarrow> cv_handleEndCall (eff_start cv) now cv
         | Some d \<Rightarrow>
             (if status d = Ended \<or> status d = Declined then cv_handleEndCall (eff_start cv) now cv
              else
                (let cv1 = apply_answer d (cv\<lparr>cv_call := d\<rparr>)
                 in if status d = Connected \<and> eff_start cv = None then cv1\<lparr>callStartTime := Some now\<rparr>
                    else cv1))))"

text \<open>The candidate listener (lines 179--185, 192--198): each added candidate of the
  peer's collection goes to the closure's manager.\<close>

definition cv_cand_snapshot :: "ice_candidate list \<Rightarrow> callview \<Rightarrow> callview" where
  "cv_cand_snapshot cs cv =
     (if cand_sub cv then cv\<lparr>eff_mgr := map_option (fold (\<lambda>c. addIceCandidate (Some c)) cs) (eff_mgr cv)\<rparr>
      else cv)"

text \<open>\<open>onIceCandidate\<close> (lines 152--156): a local candidate is appended to the collection
  of my own role.\<close>

definition cv_on_ice :: "ice_candidate \<Rightarrow> callview \<Rightarrow> store \<Rightarrow> store" where
  "cv_on_ice c cv s = add_candidate (own_role cv) (call_key (cv_call cv)) c s"

text \<open>\<open>onConnectionStateChange\<close> (lines 157--164).\<close>

definition cv_conn_state :: "conn_state \<Rightarrow> timestamp \<Rightarrow> callview \<Rightarrow> callview" where
  "cv_conn_state st now cv =
     (if st = CsDisconnected \<or> st = CsFailed \<or> st = CsClosed then cv_handleEndCall (eff_start cv) now cv
      else cv)"

text \<open>The mute and camera buttons (lines 262--272); \<open>ref?.toggleMute() ?? !isMuted\<close>.\<close>

definition cv_toggleMute :: "callview \<Rightarrow> callview" where
  "cv_toggleMute cv =
     (if \<not> hasCameraPermission cv then cv
      else (case (if mgr_ref cv then eff_mgr cv else None) of
              None \<Rightarrow> cv\<lparr>isMuted := \<not> isMuted cv\<rparr>
            | Some m \<Rightarrow> cv\<lparr>eff_mgr := Some (snd (toggleMute m)), isMuted := fst (toggleMute m)\<rparr>))"

definition cv_toggleCamera :: "callview \<Rightarrow> callview" where
  "cv_toggleCamera cv =
     (if call_type (cv_call cv) \<noteq> Video \<or> \<not> hasCameraPermission cv then cv
      else (case (if mgr_ref cv then eff_mgr cv else None) of
              None \<Rightarrow> cv\<lparr>isCameraOff := \<not> isCameraOff cv\<rparr>
            | Some m \<Rightarrow> cv\<lparr>eff_mgr := Some (snd (toggleCamera m)), isCameraOff := fst (toggleCamera m)\<rparr>))"

text \<open>\<open>getCallStatusText\<close> (lines 279--287) and the timer's \<open>formatTime\<close> (lines 43--49).\<close>

definition call_status_text :: "callview \<Rightarrow> string" where
  "call_status_text cv =
     (if status (cv_call cv) = Ringing then (if cv_isCaller cv then ''Ringing...'' else ''Incoming call...'')
      else if callStartTime cv \<noteq> None then ''In Call'' else ''Connecting...'')"

definition format_time :: "seconds \<Rightarrow> string" where
  "format_time t = pad_start 2 (CHR ''0'') (dec_string (t div 60)) @ '':'' @
                   pad_start 2 (CHR ''0'') (dec_string (t mod 60))"

text \<open>The events a mounted \<open>CallView\<close> reacts to, and their sequential run. \<open>EvEffect\<close>
  is React running the WebRTC effect, which it does only when a dependency changed;
  \<open>EvEndButton\<close> is the hang-up button, whose handler is the current render's.\<close>

datatype cv_event =
    EvMediaGranted "track list" | EvMediaDenied | EvEffect string
  | EvDocSnap timestamp "call_doc option" | EvCandSnap "ice_candidate list"
  | EvConnState conn_state timestamp | EvEndButton timestamp
  | EvToggleMute | EvToggleCamera | EvUnmount

fun cv_step :: "cv_event \<Rightarrow> callview \<times> store \<Rightarrow> callview \<times> store" where
  "cv_step (EvMediaGranted ts) (cv, s) = (cv_media_granted ts cv, s)"
| "cv_step EvMediaDenied (cv, s) = (cv_media_denied cv, s)"
| "cv_step (EvEffect body) (cv, s) = (if effect_due cv then cv_run_effect body cv s else (cv, s))"
| "cv_step (EvDocSnap now d) (cv, s) = (cv_doc_snapshot now d cv, s)"
| "cv_step (EvCandSnap cs) (cv, s) = (cv_cand_snapshot cs cv, s)"
| "cv_step (EvConnState st now) (cv, s) = (cv_conn_state st now cv, s)"
| "cv_step (EvEndButton now) (cv, s) = (cv_handleEndCall (callStartTime cv) now cv, s)"
| "cv_step EvToggleMute (cv, s) = (cv_toggleMute cv, s)"
| "cv_step EvToggleCamera (cv, s) = (cv_toggleCamera cv, s)"
| "cv_step EvUnmount (cv, s) = (cv_cleanup cv, s)"

definition cv_run :: "cv_event list \<Rightarrow> callview \<times> store \<Rightarrow> callview \<times> store" where
  "cv_run evs st = fold cv_step evs st"

text \<open>Local media is released: whenever the ref no longer points to the manager, the
  manager is closed and every track it sends is stopped; while it does, there is a
  manager.\<close>

definition released :: "manager \<Rightarrow> bool" where
  "released m \<longleftrightarrow> is_closed (pc m) \<and>
     list_all (\<lambda>s. case s of None \<Rightarrow> True | Some t \<Rightarrow> stopped t) (senders (pc m))"

definition cv_inv :: "callview \<Rightarrow> bool" where
  "cv_inv cv \<longleftrightarrow>
     (if mgr_ref cv then eff_mgr cv \<noteq> None
      else (case eff_mgr cv of None \<Rightarrow> True | Some m \<Rightarrow> released m))"


text \<open>The durations reported to \<open>onEndCall\<close>: none before the end, one after it.\<close>

definition ends_ok :: "callview \<Rightarrow> bool" where
  "ends_ok cv \<longleftrightarrow> length (end_reports cv) = (if callEnded cv then 1 else 0)"

text \<open>No media is flowing: there is no local stream and the manager sends no track.\<close>

definition no_media :: "callview \<Rightarrow> bool" where
  "no_media cv \<longleftrightarrow> localStream cv = None \<and>
     (case eff_mgr cv of None \<Rightarrow> True | Some m \<Rightarrow> senders (pc m) = [])"

section \<open>Fixtures\<close>

text \<open>alice's video call \<open>k1\<close> to bob, ringing, in a store that holds it; a camera track;
  alice's call screen after her effect committed an offer.\<close>

definition sig_call :: call_doc where
  "sig_call = \<lparr>call_key = ''k1'', chatId = ''c1'', callerId = ''alice'', calleeId = ''bob'',
               members = [''alice'', ''bob''], call_type = Video, status = Ringing, createdAt = 100,
               endedAt = None, duration = None, offer = None, answer = None\<rparr>"

definition sig_store :: store where
  "sig_store = \<lparr>calls = [''k1'' \<mapsto> sig_call], callerCandidates = (\<lambda>_. []), calleeCandidates = (\<lambda>_. []),
                chats = Map.empty, messages = (\<lambda>_. []),
                users = [(''alice'', blank_user ''alice''), (''bob'', blank_user ''bob'')],
                friendRequests = [], clock = 100\<rparr>"

definition demo_cam :: track where
  "demo_cam = \<lparr>track_id = 2, kind = Video, enabled = True, stopped = False\<rparr>"

definition offered_view :: callview where
  "offered_view = (cv_mount ''alice'' sig_call)\<lparr>doc_sub := True,
     eff_mgr := Some (snd (createOffer ''o1'' new_manager)), mgr_ref := True\<rparr>"

section \<open>Lemmas: the run of events\<close>

lemma cv_run_append: "cv_run (xs @ ys) st = cv_run ys (cv_run xs st)"
  by (simp add: cv_run_def)

lemma cv_run_Cons: "cv_run (e # es) st = cv_run es (cv_step e st)"
  by (simp add: cv_run_def)

lemma cv_run_Nil: "cv_run [] st = st"
  by (simp add: cv_run_def)

lemma cv_mount_fields [simp]:
  "eff_mgr (cv_mount u c) = None" "mgr_ref (cv_mount u c) = False" "localStream (cv_mount u c) = None"
  "callEnded (cv_mount u c) = False" "end_reports (cv_mount u c) = []" "cv_user (cv_mount u c) = u"
  "cv_call (cv_mount u c) = c" "callStartTime (cv_mount u c) = None" "eff_start (cv_mount u c) = None"
  "doc_sub (cv_mount u c) = False" "cand_sub (cv_mount u c) = False"
  by (simp_all add: cv_mount_def)

lemma cv_isCaller_call [simp]: "cv_isCaller (cv\<lparr>cv_call := d\<rparr>) \<longleftrightarrow> callerId d = cv_user cv"
  by (simp add: cv_isCaller_def)

lemma pc_new_manager [simp]: "pc new_manager = pc_new"
  by (simp add: new_manager_def)

section \<open>Lemmas: release of local media\<close>

text \<open>Every event keeps \<open>cv_inv\<close>: the ref is cleared only by hanging the manager up, and the operations on a closed manager change nothing.\<close>

lemma released_hangUp: "released (hangUp m)"
  by (auto simp: released_def hangUp_def Let_def is_closed_def pc_close_def stop_track_def list_all_iff
           split: option.splits)

lemma closed_addIceCandidate: "is_closed (pc m) \<Longrightarrow> addIceCandidate c m = m"
  by (simp add: addIceCandidate_def split: option.splits)

lemma closed_fold_addIceCandidate: "is_closed (pc m) \<Longrightarrow> fold (\<lambda>c. addIceCandidate (Some c)) cs m = m"
  by (induction cs) (simp_all add: closed_addIceCandidate)

lemma closed_setRemoteDescription: "is_closed (pc m) \<Longrightarrow> setRemoteDescription d m = (None, m)"
  by (simp add: setRemoteDescription_def)

lemma released_closed: "released m \<Longrightarrow> is_closed (pc m)"
  by (simp add: released_def)

lemma cv_handleEndCall_inv: "cv_inv cv \<Longrightarrow> cv_inv (cv_handleEndCall st now cv)"
  by (auto simp: cv_inv_def cv_handleEndCall_def Let_def released_hangUp split: option.splits)

lemma cv_cleanup_inv: "cv_inv cv \<Longrightarrow> cv_inv (cv_cleanup cv)"
  by (auto simp: cv_inv_def cv_cleanup_def Let_def released_hangUp split: option.splits)

lemma setupSignaling_ref:
  "mgr_ref (fst (setupSignaling b cv s)) = mgr_ref cv"
  "eff_mgr cv \<noteq> None \<Longrightarrow> eff_mgr (fst (setupSignaling b cv s)) \<noteq> None"
  by (auto simp: setupSignaling_def Let_def split: option.splits prod.splits sum.splits)

lemma cv_run_effect_inv: "cv_inv (fst (cv_run_effect b cv s))"
proof -
  define cv0 where "cv0 = (if eff_mgr cv = None then cv else cv_cleanup cv)"
  define r where "r = (case localStream cv0 of None \<Rightarrow> (None, new_manager) | Some ts \<Rightarrow> add_stream_tracks ts new_manager)"
  define cv1 where "cv1 = cv0\<lparr>eff_mgr := Some (snd r), mgr_ref := True, eff_start := callStartTime cv0,
                    eff_stream := localStream cv0\<rparr>"
  have e: "cv_run_effect b cv s = (if fst r \<noteq> None then (cv1, s)
         else (let (cv2, s2) = setupSignaling b cv1 s in (cv2\<lparr>doc_sub := True\<rparr>, s2)))"
    by (simp add: cv_run_effect_def cv0_def r_def cv1_def Let_def)
  have "mgr_ref cv1" "eff_mgr cv1 \<noteq> None" by (simp_all add: cv1_def)
  then have "mgr_ref (fst (setupSignaling b cv1 s))" "eff_mgr (fst (setupSignaling b cv1 s)) \<noteq> None"
    by (simp_all add: setupSignaling_ref)
  with \<open>mgr_ref cv1\<close> \<open>eff_mgr cv1 \<noteq> None\<close> show ?thesis
    by (auto simp: e cv_inv_def split: prod.splits)
qed

lemma apply_answer_inv: "cv_inv cv \<Longrightarrow> cv_inv (apply_answer d cv)"
  by (auto simp: cv_inv_def apply_answer_def closed_setRemoteDescription released_closed
           split: option.splits prod.splits if_splits)

lemma cv_inv_fields [simp]:
  "cv_inv (cv\<lparr>callStartTime := x\<rparr>) = cv_inv cv"
  "cv_inv (cv\<lparr>cv_call := d\<rparr>) = cv_inv cv"
  "cv_inv (cv\<lparr>doc_sub := b\<rparr>) = cv_inv cv"
  by (simp_all add: cv_inv_def)

lemma cv_doc_snapshot_inv:
  assumes "cv_inv cv" shows "cv_inv (cv_doc_snapshot now d cv)"
proof -
  have "cv_inv (apply_answer d' (cv\<lparr>cv_call := d'\<rparr>))" for d'
    using assms by (simp add: apply_answer_inv)
  then show ?thesis using assms cv_handleEndCall_inv
    by (simp add: cv_doc_snapshot_def Let_def split: option.splits)
qed

lemma cv_media_inv:
  "cv_inv (cv_media_granted ts cv) = cv_inv cv" "cv_inv (cv_media_denied cv) = cv_inv cv"
  by (simp_all add: cv_inv_def cv_media_granted_def cv_media_denied_def)

lemma cv_conn_state_inv: "cv_inv cv \<Longrightarrow> cv_inv (cv_conn_state st now cv)"
  by (simp add: cv_conn_state_def cv_handleEndCall_inv)

lemma cv_cand_snapshot_inv: "cv_inv cv \<Longrightarrow> cv_inv (cv_cand_snapshot cs cv)"
  by (auto simp: cv_inv_def cv_cand_snapshot_def closed_fold_addIceCandidate released_closed
           split: option.splits)

lemma cv_toggle_inv: "cv_inv cv \<Longrightarrow> cv_inv (cv_toggleMute cv)" "cv_inv cv \<Longrightarrow> cv_inv (cv_toggleCamera cv)"
  by (auto simp: cv_inv_def cv_toggleMute_def cv_toggleCamera_def split: option.splits)

lemma cv_step_inv: "cv_inv (fst st) \<Longrightarrow> cv_inv (fst (cv_step e st))"
  by (cases st; cases e)
     (simp_all add: cv_media_inv cv_run_effect_inv cv_doc_snapshot_inv cv_cand_snapshot_inv
        cv_conn_state_inv cv_handleEndCall_inv cv_toggle_inv cv_cleanup_inv)

lemma cv_mount_inv: "cv_inv (cv_mount u c)"
  by (simp add: cv_inv_def cv_mount_def)

lemma cv_run_inv: "cv_inv (fst st) \<Longrightarrow> cv_inv (fst (cv_run evs st))"
  unfolding cv_run_def
  by (induction evs arbitrary: st) (simp_all add: cv_step_inv)

lemma cv_cleanup_released:
  "cv_inv cv \<Longrightarrow> \<not> mgr_ref (cv_cleanup cv) \<and> \<not> cand_sub (cv_cleanup cv) \<and> \<not> doc_sub (cv_cleanup cv) \<and>
     (case eff_mgr (cv_cleanup cv) of None \<Rightarrow> True | Some m \<Rightarrow> released m)"
  using cv_cleanup_inv [of cv] by (simp add: cv_inv_def cv_cleanup_def Let_def split: if_splits)

section \<open>Lemmas: what the handlers leave alone\<close>

lemma setupSignaling_frame [simp]:
  "doc_sub (fst (setupSignaling b cv s)) = doc_sub cv"
  "eff_start (fst (setupSignaling b cv s)) = eff_start cv"
  "callStartTime (fst (setupSignaling b cv s)) = callStartTime cv"
  "callEnded (fst (setupSignaling b cv s)) = callEnded cv"
  "end_reports (fst (setupSignaling b cv s)) = end_reports cv"
  "localStream (fst (setupSignaling b cv s)) = localStream cv"
  by (auto simp: setupSignaling_def Let_def split: option.splits prod.splits sum.splits)

lemma apply_answer_frame [simp]:
  "doc_sub (apply_answer d cv) = doc_sub cv"
  "eff_start (apply_answer d cv) = eff_start cv"
  "callStartTime (apply_answer d cv) = callStartTime cv"
  "callEnded (apply_answer d cv) = callEnded cv"
  "end_reports (apply_answer d cv) = end_reports cv"
  "mgr_ref (apply_answer d cv) = mgr_ref cv"
  by (simp_all add: apply_answer_def split: option.splits)

lemma ends_ok_fields [simp]:
  "ends_ok (cv\<lparr>callStartTime := x\<rparr>) = ends_ok cv"
  "ends_ok (cv\<lparr>cv_call := d\<rparr>) = ends_ok cv"
  "ends_ok (cv\<lparr>doc_sub := b\<rparr>) = ends_ok cv"
  "ends_ok (cv\<lparr>cand_sub := b\<rparr>) = ends_ok cv"
  "ends_ok (cv\<lparr>eff_mgr := mo\<rparr>) = ends_ok cv"
  "ends_ok (cv\<lparr>eff_mgr := mo, mgr_ref := b\<rparr>) = ends_ok cv"
  by (simp_all add: ends_ok_def)

lemma cv_handleEndCall_ends: "ends_ok cv \<Longrightarrow> ends_ok (cv_handleEndCall st now cv)"
  by (simp add: ends_ok_def cv_handleEndCall_def Let_def split: if_splits)

lemma cv_run_effect_ends: "ends_ok cv \<Longrightarrow> ends_ok (fst (cv_run_effect b cv s))"
  by (simp add: cv_run_effect_def Let_def ends_ok_def cv_cleanup_def setupSignaling_frame case_prod_beta split: if_splits)

lemma cv_step_ends: "ends_ok (fst st) \<Longrightarrow> ends_ok (fst (cv_step e st))"
  apply (cases st; cases e)
           apply (simp_all add: cv_handleEndCall_ends cv_run_effect_ends cv_conn_state_def cv_doc_snapshot_def
                   apply_answer_def cv_cand_snapshot_def cv_cleanup_def Let_def split: option.splits)
  apply (auto simp: ends_ok_def cv_media_granted_def cv_media_denied_def cv_toggleMute_def cv_toggleCamera_def
                split: option.splits)
  done

lemma cv_run_effect_mount:
  "doc_sub (fst (cv_run_effect b (cv_mount u c) s)) \<and> eff_start (fst (cv_run_effect b (cv_mount u c) s)) = None \<and>
   \<not> callEnded (fst (cv_run_effect b (cv_mount u c) s)) \<and> end_reports (fst (cv_run_effect b (cv_mount u c) s)) = []"
  by (simp add: cv_run_effect_def cv_mount_def Let_def case_prod_beta)

section \<open>Lemmas: negotiation on a fresh manager\<close>

lemma setRemoteDescription_answer:
  "signalingState (pc m) = HaveLocalOffer \<Longrightarrow> desc_type a = SdpAnswer \<Longrightarrow>
   setRemoteDescription a m = (None, m\<lparr>pc := (pc m)\<lparr>remoteDescription := Some a, signalingState := Stable\<rparr>\<rparr>)"
  by (simp add: setRemoteDescription_def is_closed_def pc_setRemoteDescription_def)

lemma doc_snapshot_answered:
  "eff_mgr cv = Some m \<Longrightarrow> map_option desc_type (remoteDescription (pc m)) = Some SdpAnswer \<Longrightarrow>
   status d \<noteq> Ended \<Longrightarrow> status d \<noteq> Declined \<Longrightarrow> eff_mgr (cv_doc_snapshot n (Some d) cv) = eff_mgr cv"
  by (simp add: cv_doc_snapshot_def apply_answer_def Let_def split: option.splits)

lemma add_stream_tracks_fresh:
  "distinct (map track_id ts) \<Longrightarrow> \<not> is_closed (pc m) \<Longrightarrow>
   (\<forall>t\<in>set ts. \<not> list_ex (same_track t) (senders (pc m))) \<Longrightarrow>
   add_stream_tracks ts m = (None, m\<lparr>pc := (pc m)\<lparr>senders := senders (pc m) @ map Some ts\<rparr>\<rparr>)"
proof (induction ts arbitrary: m)
  case Nil
  then show ?case by simp
next
  case (Cons t ts)
  let ?m1 = "m\<lparr>pc := (pc m)\<lparr>senders := senders (pc m) @ [Some t]\<rparr>\<rparr>"
  from Cons.prems have a: "addTrack t m = (None, ?m1)"
    by (simp add: addTrack_def pc_addTrack_def)
  from Cons.prems have "\<forall>t'\<in>set ts. \<not> list_ex (same_track t') (senders (pc ?m1))"
    by (auto simp: same_track_def list_ex_iff split: option.splits)
  with Cons.prems have "add_stream_tracks ts ?m1 = (None, ?m1\<lparr>pc := (pc ?m1)\<lparr>senders := senders (pc ?m1) @ map Some ts\<rparr>\<rparr>)"
    by (intro Cons.IH) (simp_all add: is_closed_def)
  with a show ?case by simp
qed

lemma add_stream_tracks_new:
  "distinct (map track_id ts) \<Longrightarrow>
   add_stream_tracks ts new_manager = (None, new_manager\<lparr>pc := pc_new\<lparr>senders := map Some ts\<rparr>\<rparr>)"
  by (simp add: add_stream_tracks_fresh new_manager_def pc_new_def is_closed_def)

lemma createOffer_fresh:
  "signalingState (pc m) = Stable \<Longrightarrow>
   createOffer b m = (Inr \<lparr>desc_type = SdpOffer, sdp = b\<rparr>,
     m\<lparr>pc := (pc m)\<lparr>localDescription := Some \<lparr>desc_type = SdpOffer, sdp = b\<rparr>, signalingState := HaveLocalOffer\<rparr>,
       isCaller := True\<rparr>)"
  by (simp add: createOffer_def pc_createOffer_def pc_setLocalDescription_def is_closed_def)

section \<open>Lemmas: no track is added without a stream\<close>

lemma senders_createOffer [simp]: "senders (pc (snd (createOffer b m))) = senders (pc m)"
  by (simp add: createOffer_def pc_setLocalDescription_def split: sum.splits sdp_type.splits)

lemma senders_setRemoteDescription [simp]: "senders (pc (snd (setRemoteDescription d m))) = senders (pc m)"
  by (simp add: setRemoteDescription_def pc_setRemoteDescription_def split: sum.splits sdp_type.splits)

lemma senders_createAnswer [simp]: "senders (pc (snd (createAnswer off b m))) = senders (pc m)"
proof -
  obtain e m1 where r: "setRemoteDescription off m = (e, m1)" by fastforce
  then have "senders (pc m1) = senders (pc m)" using senders_setRemoteDescription [of off m] by simp
  with r show ?thesis
    by (simp add: createAnswer_def pc_setLocalDescription_def split: option.splits sum.splits sdp_type.splits)
qed

lemma senders_addIceCandidate [simp]: "senders (pc (addIceCandidate c m)) = senders (pc m)"
  by (simp add: addIceCandidate_def pc_addIceCandidate_def split: option.splits sum.splits)

lemma senders_hangUp [simp]: "senders (pc (hangUp m)) = map stop_track (senders (pc m))"
  by (simp add: hangUp_def Let_def pc_close_def)

lemma senders_fold_addIceCandidate [simp]:
  "senders (pc (fold (\<lambda>c. addIceCandidate (Some c)) cs m)) = senders (pc m)"
  by (induction cs arbitrary: m) simp_all

lemma toggle_track_no_senders: "senders (pc m) = [] \<Longrightarrow> snd (toggle_track k m) = m"
  by (simp add: toggle_track_def)

lemma setupSignaling_mgr:
  "eff_mgr cv = Some m \<Longrightarrow>
   \<exists>m'. eff_mgr (fst (setupSignaling b cv s)) = Some m' \<and> senders (pc m') = senders (pc m)"
  by (simp add: setupSignaling_def Let_def prod.case_eq_if sum.case_eq_if split: option.splits)

lemma setupSignaling_no_mgr: "eff_mgr cv = None \<Longrightarrow> fst (setupSignaling b cv s) = cv"
  by (simp add: setupSignaling_def)

lemma no_media_doc_sub: "no_media (cv\<lparr>doc_sub := b\<rparr>) = no_media cv"
  by (simp add: no_media_def)

lemma setupSignaling_no_media: "no_media cv \<Longrightarrow> no_media (fst (setupSignaling b cv s))"
proof (cases "eff_mgr cv")
  case None
  then show "no_media cv \<Longrightarrow> ?thesis" by (simp add: setupSignaling_no_mgr)
next
  case (Some m)
  then obtain m' where "eff_mgr (fst (setupSignaling b cv s)) = Some m'" "senders (pc m') = senders (pc m)"
    using setupSignaling_mgr by blast
  with Some show "no_media cv \<Longrightarrow> ?thesis" by (simp add: no_media_def)
qed

lemma cv_run_effect_no_media: "no_media cv \<Longrightarrow> no_media (fst (cv_run_effect b cv s))"
proof -
  assume n: "no_media cv"
  define cv0 where "cv0 = (if eff_mgr cv = None then cv else cv_cleanup cv)"
  define cv1 where "cv1 = cv0\<lparr>eff_mgr := Some new_manager, mgr_ref := True, eff_start := callStartTime cv0,
                    eff_stream := None\<rparr>"
  have l: "localStream cv0 = None" using n by (simp add: cv0_def no_media_def cv_cleanup_def Let_def)
  then have e: "cv_run_effect b cv s = (let (cv2, s2) = setupSignaling b cv1 s in (cv2\<lparr>doc_sub := True\<rparr>, s2))"
    by (simp add: cv_run_effect_def cv0_def cv1_def Let_def)
  have "no_media cv1" using l by (simp add: cv1_def no_media_def pc_new_def)
  then have "no_media (fst (setupSignaling b cv1 s))" by (rule setupSignaling_no_media)
  moreover have "fst (cv_run_effect b cv s) = (fst (setupSignaling b cv1 s))\<lparr>doc_sub := True\<rparr>"
    by (simp add: e case_prod_beta)
  ultimately show ?thesis by (simp only: no_media_doc_sub)
qed

lemma no_media_end: "no_media cv \<Longrightarrow> no_media (cv_handleEndCall st now cv)"
  by (auto simp: no_media_def cv_handleEndCall_def Let_def split: option.splits)

lemma no_media_cleanup: "no_media cv \<Longrightarrow> no_media (cv_cleanup cv)"
  by (auto simp: no_media_def cv_cleanup_def Let_def split: option.splits)

lemma no_media_fields [simp]:
  "no_media (cv\<lparr>callStartTime := x\<rparr>) = no_media cv" "no_media (cv\<lparr>cv_call := d\<rparr>) = no_media cv"
  by (simp_all add: no_media_def)

lemma no_media_apply_answer: "no_media cv \<Longrightarrow> no_media (apply_answer d cv)"
  by (auto simp: apply_answer_def no_media_def split: option.splits)

lemma no_media_doc_snapshot: "no_media cv \<Longrightarrow> no_media (cv_doc_snapshot now d cv)"
  by (simp add: cv_doc_snapshot_def Let_def no_media_end no_media_apply_answer split: option.splits)

lemma no_media_step:
  "no_media (fst st) \<Longrightarrow> \<forall>ts. e \<noteq> EvMediaGranted ts \<Longrightarrow> no_media (fst (cv_step e st))"
  apply (cases st; cases e)
           apply (simp_all add: cv_run_effect_no_media no_media_end no_media_cleanup no_media_doc_snapshot
                   cv_conn_state_def)
    apply (auto simp: no_media_def cv_media_denied_def cv_cand_snapshot_def cv_toggleMute_def
                cv_toggleCamera_def toggleMute_def toggleCamera_def toggle_track_no_senders split: option.splits)
  done

lemma no_media_run:
  "\<forall>ts. EvMediaGranted ts \<notin> set evs \<Longrightarrow> no_media (fst st) \<Longrightarrow> no_media (fst (cv_run evs st))"
proof (induction evs arbitrary: st)
  case Nil
  then show ?case by (simp add: cv_run_Nil)
next
  case (Cons e evs)
  then have "no_media (fst (cv_step e st))" by (intro no_media_step) auto
  with Cons show ?case by (simp add: cv_run_Cons)
qed

section \<open>Lemmas: decimal strings\<close>

lemma dec_string_length:
  assumes "n < 100" shows "length (dec_string n) \<le> 2"
proof (cases "n < 10")
  case True
  then show ?thesis by (simp add: dec_string.simps)
next
  case False
  with assms have "n div 10 < 10" by simp
  then have "dec_string (n div 10) = [char_of (48 + n div 10)]" by (simp add: dec_string.simps)
  with False show ?thesis by (subst dec_string.simps) simp
qed

lemma pad_start_length: "length (pad_start k c s) = max k (length s)"
  by (simp add: pad_start_def)

section \<open>Properties\<close>

text \<open>C22: Whatever events a call screen has seen, unmounting it (the cleanup of its WebRTC effect) detaches both listeners and leaves no manager engaged: the manager the ref pointed to is closed and every track it sends is stopped.\<close>

theorem unmount_releases:
  "let cv' = fst (cv_run (evs @ [EvUnmount]) (cv_mount u c, s)) in
     \<not> mgr_ref cv' \<and> \<not> cand_sub cv' \<and> \<not> doc_sub cv' \<and>
     (case eff_mgr cv' of None \<Rightarrow> True | Some m \<Rightarrow> released m)"
proof -
  obtain cv s' where r: "cv_run evs (cv_mount u c, s) = (cv, s')" by fastforce
  from cv_run_inv [of "(cv_mount u c, s)" evs] r have "cv_inv cv" by (simp add: cv_mount_inv)
  then show ?thesis by (simp add: cv_run_append r cv_run_Cons cv_run_Nil cv_cleanup_released)
qed

text \<open>Over any sequence of events, \<open>CallView\<close> reports the end of the call to the page (\<open>onEndCall\<close>) at most once: the \<open>callEnded\<close> guard of \<open>handleEndCall\<close> absorbs every later end, from the button, the call document or the connection.\<close>

theorem end_reported_once:
  "length (end_reports (fst (cv_run evs (cv_mount u c, s)))) \<le> 1"
proof -
  have "ends_ok (fst (cv_run evs st))" if "ends_ok (fst st)" for st
    using that unfolding cv_run_def
    by (induction evs arbitrary: st) (simp_all add: cv_step_ends)
  from this [of "(cv_mount u c, s)"] show ?thesis
    by (simp add: ends_ok_def cv_mount_def split: if_splits)
qed

text \<open>The first \<open>handleEndCall\<close> of a call screen whose ref holds the manager hangs that manager up (connection closed, every track stopped), clears the ref, and reports the duration once, without touching the store.\<close>

theorem cv_end_teardown:
  assumes "\<not> callEnded cv" and "mgr_ref cv" and "eff_mgr cv = Some m"
  shows "eff_mgr (cv_handleEndCall st now cv) = Some (hangUp m) \<and> released (hangUp m) \<and>
         \<not> mgr_ref (cv_handleEndCall st now cv) \<and> callEnded (cv_handleEndCall st now cv) \<and>
         end_reports (cv_handleEndCall st now cv) = end_reports cv @ [end_duration st now]"
  using assms by (simp add: cv_handleEndCall_def Let_def released_hangUp)

text \<open>C25: A caller whose offer is committed applies the first answer the call document carries as remote description; any later snapshot, even one carrying a different answer, leaves the connection as it is.\<close>

theorem answer_applied_once:
  assumes "doc_sub cv" and "eff_mgr cv = Some m" and "signalingState (pc m) = HaveLocalOffer"
    and "remoteDescription (pc m) = None" and "callerId d = cv_user cv" and "answer d = Some a" and "desc_type a = SdpAnswer"
    and "status d \<noteq> Ended" and "status d \<noteq> Declined"
    and "status d' \<noteq> Ended" and "status d' \<noteq> Declined"
  shows "eff_mgr (cv_doc_snapshot n1 (Some d) cv) =
           Some (m\<lparr>pc := (pc m)\<lparr>remoteDescription := Some a, signalingState := Stable\<rparr>\<rparr>) \<and>
         eff_mgr (cv_doc_snapshot n2 (Some d') (cv_doc_snapshot n1 (Some d) cv)) =
           eff_mgr (cv_doc_snapshot n1 (Some d) cv)"
proof -
  have first: "eff_mgr (cv_doc_snapshot n1 (Some d) cv) =
           Some (m\<lparr>pc := (pc m)\<lparr>remoteDescription := Some a, signalingState := Stable\<rparr>\<rparr>)"
    using assms by (simp add: cv_doc_snapshot_def apply_answer_def Let_def setRemoteDescription_answer)
  with assms show ?thesis by (simp add: doc_snapshot_answered)
qed

text \<open>C26: The caller's WebRTC effect runs again when the local stream arrives after the first run: a second offer, with a new SDP, overwrites the first one in the call document.\<close>

theorem offer_rewritten_on_media:
  assumes "callerId c = u" and "calls s (call_key c) = Some d" and "distinct (map track_id ts)"
  shows "offer (the (calls (snd (cv_run [EvEffect b1] (cv_mount u c, s))) (call_key c))) =
           Some \<lparr>desc_type = SdpOffer, sdp = b1\<rparr> \<and>
         offer (the (calls (snd (cv_run [EvEffect b1, EvMediaGranted ts, EvEffect b2] (cv_mount u c, s)))
           (call_key c))) = Some \<lparr>desc_type = SdpOffer, sdp = b2\<rparr>"
  using assms
  by (simp add: cv_run_def cv_mount_def effect_due_def cv_run_effect_def setupSignaling_def
      cv_isCaller_def Let_def pc_new_def createOffer_fresh update_call_found
      cv_media_granted_def cv_cleanup_def add_stream_tracks_new)

text \<open>The document listener reads \<open>callStartTime\<close> from the render in which the effect ran; when that was unset, every later \<open>connected\<close> snapshot restarts the call timer.\<close>

theorem stale_start_restarts_timer:
  assumes "doc_sub cv" and "eff_start cv = None" and "status d = Connected"
  shows "callStartTime (cv_doc_snapshot n2 (Some d) (cv_doc_snapshot n1 (Some d) cv)) = Some n2"
proof -
  have "doc_sub (cv_doc_snapshot n1 (Some d) cv) \<and> eff_start (cv_doc_snapshot n1 (Some d) cv) = None"
    using assms by (simp add: cv_doc_snapshot_def apply_answer_def Let_def split: option.splits)
  then show ?thesis
    using assms by (simp add: cv_doc_snapshot_def apply_answer_def Let_def split: option.splits)
qed

text \<open>C27: Ends that come from the effect's listeners use the stale \<open>callStartTime\<close>: after the call connected at \<open>t1\<close>, a connection failure at any later time reports a duration of 0 seconds, though the screen's timer runs from \<open>t1\<close>.\<close>

theorem stale_start_end_reports_zero:
  assumes "status d = Connected"
  shows "let cv' = fst (cv_run [EvEffect b, EvDocSnap t1 (Some d), EvConnState CsFailed t2] (cv_mount u c, s))
         in callStartTime cv' = Some t1 \<and> end_reports cv' = [0]"
proof -
  obtain cv1 s1 where r: "cv_run_effect b (cv_mount u c) s = (cv1, s1)" by fastforce
  with cv_run_effect_mount [of b u c s]
  have "doc_sub cv1" "eff_start cv1 = None" "\<not> callEnded cv1" "end_reports cv1 = []" by simp_all
  moreover have "callStartTime cv1 = None"
    using r by (auto simp: cv_run_effect_def cv_mount_def Let_def case_prod_beta split: if_splits)
  ultimately show ?thesis using assms
    by (simp add: cv_run_def r effect_due_def cv_doc_snapshot_def cv_conn_state_def
        cv_handleEndCall_def end_duration_def Let_def)
qed

text \<open>C28: A local stream that arrives after the user hung up re-runs the effect: the ended call screen holds a fresh open connection that sends the camera and microphone tracks, pointed to by the ref.\<close>

theorem effect_after_end_rearms:
  assumes "callerId c = u" and "distinct (map track_id ts)"
  shows "let cv' = fst (cv_run [EvEffect b1, EvEndButton t, EvMediaGranted ts, EvEffect b2] (cv_mount u c, s))
         in callEnded cv' \<and> mgr_ref cv' \<and>
            (\<exists>m. eff_mgr cv' = Some m \<and> \<not> is_closed (pc m) \<and> senders (pc m) = map Some ts)"
  using assms
  by (simp add: cv_run_def effect_due_def cv_run_effect_def setupSignaling_def cv_isCaller_def Let_def
      pc_new_def createOffer_fresh cv_media_granted_def cv_cleanup_def add_stream_tracks_new
      cv_handleEndCall_def is_closed_def prod.case_eq_if)

text \<open>C29: While no stream was granted (\<open>getUserMedia\<close> asks for audio and video together, so a camera refusal is a refusal of both), every connection the call screen creates sends no track, in particular no audio.\<close>

theorem media_denied_sends_nothing:
  assumes "\<forall>ts. EvMediaGranted ts \<notin> set evs"
    and "eff_mgr (fst (cv_run evs (cv_mount u c, s))) = Some m"
  shows "senders (pc m) = [] \<and> first_track Audio m = None"
proof -
  have "no_media (cv_mount u c)" by (simp add: no_media_def)
  with no_media_run [of evs "(cv_mount u c, s)"] assms show ?thesis
    by (simp add: no_media_def first_track_def)
qed

text \<open>C30: \<open>formatTime\<close> of the call timer prints any duration under 100 minutes as five characters \<open>mm:ss\<close>, the colon in the middle.\<close>

theorem format_time_shape:
  assumes "t < 6000"
  shows "length (format_time t) = 5 \<and> format_time t ! 2 = CHR '':''"
proof -
  have a: "length (dec_string (t div 60)) \<le> 2" using assms by (intro dec_string_length) simp
  have b: "length (dec_string (t mod 60)) \<le> 2" by (intro dec_string_length) simp
  have "length (pad_start 2 (CHR ''0'') (dec_string (t div 60))) = 2" using a by (simp add: pad_start_length)
  with b show ?thesis by (simp add: format_time_def pad_start_length nth_append)
qed

section \<open>Witnesses\<close>

theorem cv_end_teardown_witness:
  "\<not> callEnded ((cv_mount ''alice'' sig_call)\<lparr>eff_mgr := Some audio_only_manager, mgr_ref := True\<rparr>) \<and>
   eff_mgr (cv_handleEndCall (Some 1000) 43000
     ((cv_mount ''alice'' sig_call)\<lparr>eff_mgr := Some audio_only_manager, mgr_ref := True\<rparr>)) =
     Some (hangUp audio_only_manager) \<and>
   end_reports (cv_handleEndCall (Some 1000) 43000
     ((cv_mount ''alice'' sig_call)\<lparr>eff_mgr := Some audio_only_manager, mgr_ref := True\<rparr>)) = [42]"
  using cv_end_teardown [of "(cv_mount ''alice'' sig_call)\<lparr>eff_mgr := Some audio_only_manager, mgr_ref := True\<rparr>"
      audio_only_manager "Some 1000" 43000]
  by (simp add: end_duration_def)

theorem answer_applied_once_witness:
  "eff_mgr (cv_doc_snapshot 7 (Some (sig_call\<lparr>answer := Some \<lparr>desc_type = SdpAnswer, sdp = ''a2''\<rparr>\<rparr>))
      (cv_doc_snapshot 5 (Some (sig_call\<lparr>answer := Some \<lparr>desc_type = SdpAnswer, sdp = ''a1''\<rparr>\<rparr>)) offered_view)) =
   eff_mgr (cv_doc_snapshot 5 (Some (sig_call\<lparr>answer := Some \<lparr>desc_type = SdpAnswer, sdp = ''a1''\<rparr>\<rparr>)) offered_view)"
proof -
  have m: "eff_mgr offered_view = Some (snd (createOffer ''o1'' new_manager))"
    by (simp add: offered_view_def)
  have "signalingState (pc (snd (createOffer ''o1'' new_manager))) = HaveLocalOffer"
       "remoteDescription (pc (snd (createOffer ''o1'' new_manager))) = None"
    by (simp_all add: createOffer_fresh pc_new_def)
  with m show ?thesis
    using answer_applied_once [of offered_view "snd (createOffer ''o1'' new_manager)"
        "sig_call\<lparr>answer := Some \<lparr>desc_type = SdpAnswer, sdp = ''a1''\<rparr>\<rparr>" "\<lparr>desc_type = SdpAnswer, sdp = ''a1''\<rparr>"
        "sig_call\<lparr>answer := Some \<lparr>desc_type = SdpAnswer, sdp = ''a2''\<rparr>\<rparr>" 5 7]
    by (simp add: offered_view_def sig_call_def)
qed

theorem offer_rewritten_on_media_witness:
  "offer (the (calls (snd (cv_run [EvEffect ''o1''] (cv_mount ''alice'' sig_call, sig_store))) ''k1'')) =
     Some \<lparr>desc_type = SdpOffer, sdp = ''o1''\<rparr> \<and>
   offer (the (calls (snd (cv_run [EvEffect ''o1'', EvMediaGranted [demo_mic, demo_cam], EvEffect ''o2'']
       (cv_mount ''alice'' sig_call, sig_store))) ''k1'')) = Some \<lparr>desc_type = SdpOffer, sdp = ''o2''\<rparr>"
  using offer_rewritten_on_media [of sig_call "''alice''" sig_store sig_call "[demo_mic, demo_cam]" "''o1''" "''o2''"]
  by (simp add: sig_call_def sig_store_def demo_mic_def demo_cam_def)

theorem stale_start_restarts_timer_witness:
  "callStartTime (cv_doc_snapshot 9000 (Some (sig_call\<lparr>status := Connected\<rparr>))
     (cv_doc_snapshot 1000 (Some (sig_call\<lparr>status := Connected\<rparr>)) offered_view)) = Some 9000"
  using stale_start_restarts_timer [of offered_view "sig_call\<lparr>status := Connected\<rparr>" 9000 1000]
  by (simp add: offered_view_def)

theorem stale_start_end_reports_zero_witness:
  "let cv' = fst (cv_run [EvEffect ''o1'', EvDocSnap 1000 (Some (sig_call\<lparr>status := Connected\<rparr>)),
                          EvConnState CsFailed 61000] (cv_mount ''alice'' sig_call, sig_store))
   in callStartTime cv' = Some 1000 \<and> end_reports cv' = [0]"
  using stale_start_end_reports_zero [of "sig_call\<lparr>status := Connected\<rparr>" "''o1''" 1000 61000 "''alice''" sig_call sig_store]
  by simp

theorem effect_after_end_rearms_witness:
  "let cv' = fst (cv_run [EvEffect ''o1'', EvEndButton 5000, EvMediaGranted [demo_mic, demo_cam], EvEffect ''o2'']
                   (cv_mount ''alice'' sig_call, sig_store))
   in callEnded cv' \<and> mgr_ref cv'"
  using effect_after_end_rearms [of sig_call "''alice''" "[demo_mic, demo_cam]" "''o1''" 5000 "''o2''" sig_store]
  by (simp add: sig_call_def demo_mic_def demo_cam_def Let_def)

theorem media_denied_sends_nothing_witness:
  "senders (pc (the (eff_mgr (fst (cv_run [EvMediaDenied, EvEffect ''o1''] (cv_mount ''alice'' sig_call, sig_store)))))) = []"
proof -
  have "eff_mgr (fst (cv_run [EvMediaDenied, EvEffect ''o1''] (cv_mount ''alice'' sig_call, sig_store))) \<noteq> None"
    by (simp add: cv_run_def cv_media_denied_def effect_due_def cv_run_effect_def Let_def case_prod_beta
        setupSignaling_def prod.case_eq_if sum.case_eq_if split: option.splits)
  then show ?thesis
    using media_denied_sends_nothing [of "[EvMediaDenied, EvEffect ''o1'']" "''alice''" sig_call sig_store]
    by auto
qed

theorem format_time_shape_witness: "length (format_time 754) = 5 \<and> format_time 754 ! 2 = CHR '':''"
  using format_time_shape [of 754] by simp

end
