(* ===== verification/Social.thy ===== *)
theory Social
  imports Orchestrator "HOL-Library.Char_ord" "HOL-Library.List_Lexorder" "HOL-Library.Sublist"
begin

text \<open>
  Friends and chats: the friend-request, unfriend and chat-creation handlers of \<open>Home\<close>
  (src/src/app/page.tsx), its friend-request and chat-list listeners and search
  filters, the unfriend handler of src/src/app/friends/page.tsx, and the people search
  of src/src/components/people-tab.tsx. The page state of the call path is extended
  with what these handlers keep: the request status shown per user, the received
  requests, the loaded profile, all users, and the chat list. Strings are ordered as
  JavaScript's default \<open>sort\<close> orders them, lexicographically by character code
  (\<open>List_Lexorder\<close>; the identifiers are ASCII).
\<close>

section \<open>Client state\<close>

text \<open>\<open>requestStatus: Record<string, 'pending' | 'friends'>\<close>.\<close>

datatype req_view = StatusPending | StatusFriends

text \<open>A chat as the list shows it: the document and the other member's name and avatar,
  which stay \<open>undefined\<close> when that member's profile does not exist.\<close>

record chat_view = chat_doc +
  chat_name :: "string option"
  chat_avatar :: "string option"

record home = page +
  requestStatus :: "uid \<rightharpoonup> req_view"
  friendRequestsShown :: "(req_id \<times> friend_request) list"
  userProfile :: "user_doc option"
  allUsers :: "(uid \<times> user_doc) list"
  chatList :: "chat_view list"

type_synonym home_client = "home \<times> store"

section \<open>Chats between two users\<close>

text \<open>\<open>[user.uid, other.id].sort().join('_')\<close> (lines 268--269 and 398--399).\<close>

definition direct_chat_id :: "uid \<Rightarrow> uid \<Rightarrow> chat_id" where
  "direct_chat_id a b = js_join ''_'' (sort [a, b])"

definition new_direct_chat :: "chat_id \<Rightarrow> uid list \<Rightarrow> uid \<Rightarrow> timestamp \<Rightarrow> chat_doc" where
  "new_direct_chat cid ms u ts =
     \<lparr>chat_key = cid, chat_type = Direct, chat_members = ms, lastMessage = ''Chat created'',
      lastMessageTimestamp = ts, lastMessageSenderId = u, unreadCount = 0, muted = False\<rparr>"

text \<open>\<open>handleCreateChat\<close> (lines 263--302): the chat is created only when its document
  does not exist, and selected when \<open>setActive\<close>.\<close>

definition handleCreateChat :: "uid \<Rightarrow> bool \<Rightarrow> home_client \<Rightarrow> home_client" where
  "handleCreateChat other setActive hs =
     (let (h, s) = hs;
          ms = sort [me h, other];
          cid = js_join ''_'' ms;
          s1 = (case chats s cid of
                  Some _ \<Rightarrow> s
                | None \<Rightarrow> s\<lparr>chats := (chats s)(cid \<mapsto> new_direct_chat cid ms (me h) (clock s))\<rparr>)
      in (if setActive then h\<lparr>selectedChat := Some cid\<rparr> else h, s1))"

section \<open>Friend requests\<close>

definition requests_from_to :: "uid \<Rightarrow> uid \<Rightarrow> store \<Rightarrow> (req_id \<times> friend_request) list" where
  "requests_from_to a b s = filter (\<lambda>(_, r). req_from r = a \<and> req_to r = b) (friendRequests s)"

definition pending_from_to :: "uid \<Rightarrow> uid \<Rightarrow> store \<Rightarrow> (req_id \<times> friend_request) list" where
  "pending_from_to a b s = filter (\<lambda>(_, r). req_status r = ReqPending) (requests_from_to a b s)"

text \<open>\<open>handleSendFriendRequest\<close> (lines 304--332): the status is shown as pending at once;
  a request is added only when no request from me to \<open>toId\<close> exists, whatever its
  status. \<open>new_id\<close> is the id \<open>addDoc\<close> generates.\<close>

definition handleSendFriendRequest :: "uid \<Rightarrow> req_id \<Rightarrow> home_client \<Rightarrow> home_client" where
  "handleSendFriendRequest toId new_id hs =
     (let (h, s) = hs;
          h1 = h\<lparr>requestStatus := (requestStatus h)(toId \<mapsto> StatusPending)\<rparr>
      in if requests_from_to (me h) toId s = []
         then (h1, add_request new_id \<lparr>req_from = me h, req_to = toId, req_status = ReqPending,
                                       req_createdAt = clock s\<rparr> s)
         else (h1, s))"

text \<open>\<open>handleCancelFriendRequest\<close> (lines 334--355): the first pending request from me
  to \<open>toId\<close> is deleted.\<close>

definition handleCancelFriendRequest :: "uid \<Rightarrow> home_client \<Rightarrow> home_client" where
  "handleCancelFriendRequest toId hs =
     (let (h, s) = hs in
      case pending_from_to (me h) toId s of
        [] \<Rightarrow> (h, s)
      | (k, _) # _ \<Rightarrow> (h\<lparr>requestStatus := (requestStatus h)(toId := None)\<rparr>, delete_request k s))"

text \<open>\<open>refreshUserProfile\<close> (src/src/hooks/use-auth.tsx, lines 58--70): the profile is read
  again from the store.\<close>

definition refresh_profile :: "home \<Rightarrow> store \<Rightarrow> home" where
  "refresh_profile h s = h\<lparr>userProfile := map_of (users s) (me h)\<rparr>"

datatype request_action = AcceptRequest | DeclineRequest

text \<open>\<open>handleFriendRequest\<close> (lines 357--382). Accepting commits one batch (the request
  accepted, each user in the other's \<open>friends\<close>), refreshes the profile and opens the
  chat with the sender (selected on a small screen, \<open>isMobile\<close>); a failed batch throws.
  Declining deletes the request.\<close>

definition handleFriendRequest ::
  "req_id \<Rightarrow> friend_request \<Rightarrow> request_action \<Rightarrow> bool \<Rightarrow> home_client \<Rightarrow> (store_error, home_client) outcome" where
  "handleFriendRequest k r act isMobile hs =
     (let (h, s) = hs in
      case act of
        AcceptRequest \<Rightarrow>
          (case batch_commit
                  [update_request k (\<lambda>q. q\<lparr>req_status := ReqAccepted\<rparr>),
                   update_user (req_to r) (\<lambda>d. d\<lparr>friends := array_union (friends d) (req_from r)\<rparr>),
                   update_user (req_from r) (\<lambda>d. d\<lparr>friends := array_union (friends d) (req_to r)\<rparr>)] s of
             (Some e, s1) \<Rightarrow> (Some e, (h, s1))
           | (None, s1) \<Rightarrow> (None, handleCreateChat (req_from r) isMobile (refresh_profile h s1, s1)))
      | DeclineRequest \<Rightarrow> (None, (h, delete_request k s)))"

section \<open>Unfriending\<close>

text \<open>The batch of both unfriend handlers: each user leaves the other's \<open>friends\<close>.\<close>

definition unfriend_batch :: "uid \<Rightarrow> uid \<Rightarrow> store \<Rightarrow> (store_error, store) outcome" where
  "unfriend_batch u fid =
     batch_commit [update_user u (\<lambda>d. d\<lparr>friends := array_remove (friends d) fid\<rparr>),
                   update_user fid (\<lambda>d. d\<lparr>friends := array_remove (friends d) u\<rparr>)]"

text \<open>\<open>handleUnfriend\<close> of \<open>Home\<close> (lines 384--421): after the batch, the profile is
  refreshed and the direct chat deleted (its document only), and deselected; a failed
  batch is caught and changes nothing.\<close>

definition handleUnfriend :: "uid \<Rightarrow> home_client \<Rightarrow> home_client" where
  "handleUnfriend fid hs =
     (let (h, s) = hs in
      case unfriend_batch (me h) fid s of
        (Some _, _) \<Rightarrow> (h, s)
      | (None, s1) \<Rightarrow>
          (let h1 = refresh_profile h s1;
               cid = direct_chat_id (me h) fid;
               s2 = (case chats s1 cid of None \<Rightarrow> s1 | Some _ \<Rightarrow> delete_chat cid s1)
           in (if selectedChat h1 = Some cid then h1\<lparr>selectedChat := None\<rparr> else h1, s2)))"

text \<open>\<open>handleUnfriend\<close> of the friends page (src/src/app/friends/page.tsx, lines 45--78):
  the same writes, without a selected chat.\<close>

definition friendsPage_handleUnfriend :: "uid \<Rightarrow> home_client \<Rightarrow> home_client" where
  "friendsPage_handleUnfriend fid hs =
     (let (h, s) = hs in
      case unfriend_batch (me h) fid s of
        (Some _, _) \<Rightarrow> (h, s)
      | (None, s1) \<Rightarrow>
          (let cid = direct_chat_id (me h) fid
           in (refresh_profile h s1, case chats s1 cid of None \<Rightarrow> s1 | Some _ \<Rightarrow> delete_chat cid s1)))"

section \<open>Listeners\<close>

text \<open>The friend-request effect (lines 121--164). It marks my friends, then its two
  listeners: my pending sent requests are merged in as pending, and my pending received
  requests whose sender has a profile are shown. Merges (\<open>{...prev, ...new}\<close>) only add
  or overwrite entries.\<close>

definition friends_status :: "uid list \<Rightarrow> uid \<rightharpoonup> req_view" where
  "friends_status fs = fold (\<lambda>f m. m(f \<mapsto> StatusFriends)) fs Map.empty"

definition requests_effect :: "home \<Rightarrow> home" where
  "requests_effect h =
     (case userProfile h of
        None \<Rightarrow> h
      | Some p \<Rightarrow> h\<lparr>requestStatus := requestStatus h ++ friends_status (friends p)\<rparr>)"

definition sent_snapshot :: "store \<Rightarrow> home \<Rightarrow> home" where
  "sent_snapshot s h =
     (let sent = filter (\<lambda>(_, r). req_from r = me h \<and> req_status r = ReqPending) (friendRequests s)
      in h\<lparr>requestStatus := requestStatus h ++ fold (\<lambda>(_, r) m. m(req_to r \<mapsto> StatusPending)) sent Map.empty\<rparr>)"

definition received_snapshot :: "store \<Rightarrow> home \<Rightarrow> home" where
  "received_snapshot s h =
     h\<lparr>friendRequestsShown :=
         filter (\<lambda>(_, r). req_to r = me h \<and> req_status r = ReqPending \<and> map_of (users s) (req_from r) \<noteq> None)
           (friendRequests s)\<rparr>"

text \<open>The chat-list listener (lines 166--219), given the documents its query returns
  (chats whose members contain me): a direct chat takes the other member's name and
  avatar; the chats are keyed by id in a \<open>Map\<close>, sorted by last-message time, newest
  first (\<open>Array.sort\<close> is stable); the selected chat is refreshed or dropped.\<close>

definition resolve_chat :: "uid \<Rightarrow> store \<Rightarrow> chat_doc \<Rightarrow> chat_view" where
  "resolve_chat u s c =
     (let other = (if chat_type c = Direct then List.find (\<lambda>m. m \<noteq> u) (chat_members c) else None);
          prof = (case other of None \<Rightarrow> None | Some ou \<Rightarrow> map_of (users s) ou)
      in chat_doc.extend c
           \<lparr>chat_name = map_option displayName prof, chat_avatar = map_option photoURL prof\<rparr>)"

definition chats_snapshot :: "chat_doc list \<Rightarrow> home_client \<Rightarrow> home" where
  "chats_snapshot docs hs =
     (let (h, s) = hs;
          cm = fold (\<lambda>c m. AList.update (chat_key c) (resolve_chat (me h) s c) m) docs [];
          sorted = sort_key (\<lambda>c. - int (lastMessageTimestamp c)) (map snd cm)
      in h\<lparr>chatList := sorted,
           selectedChat := (case selectedChat h of
                              None \<Rightarrow> None
                            | Some k \<Rightarrow> if k \<in> chat_key ` set sorted then Some k else None)\<rparr>)"

section \<open>Search and lists\<close>

datatype js_error = TypeError

text \<open>\<open>chats.filter(chat => chat.name.toLowerCase().includes(term.toLowerCase()))\<close>
  (lines 712--714, and 569--571 on the desktop): reading \<open>toLowerCase\<close> of an
  \<open>undefined\<close> name throws.\<close>

fun filter_chats :: "string \<Rightarrow> chat_view list \<Rightarrow> js_error + chat_view list" where
  "filter_chats t [] = Inr []"
| "filter_chats t (c # cs) =
     (case chat_name c of
        None \<Rightarrow> Inl TypeError
      | Some n \<Rightarrow>
          (case filter_chats t cs of
             Inl e \<Rightarrow> Inl e
           | Inr rest \<Rightarrow> Inr (if sublist (js_lower t) (js_lower n) then c # rest else rest)))"

text \<open>The people search (src/src/components/people-tab.tsx, lines 62--75): everyone but
  me, and with a search term only those whose name or handle contains it.\<close>

definition filteredUsers :: "uid \<Rightarrow> string \<Rightarrow> (uid \<times> user_doc) list \<Rightarrow> (uid \<times> user_doc) list" where
  "filteredUsers u t us =
     (let others = filter (\<lambda>(k, _). k \<noteq> u) us; lt = js_lower t
      in if lt = [] then others
         else filter (\<lambda>(_, d). sublist lt (js_lower (displayName d)) \<or> sublist lt (js_lower (handle d))) others)"

text \<open>The friends shown in the account menu (line 560).\<close>

definition friends_list :: "home \<Rightarrow> (uid \<times> user_doc) list" where
  "friends_list h =
     filter (\<lambda>(k, _). case userProfile h of None \<Rightarrow> False | Some p \<Rightarrow> k \<in> set (friends p)) (allUsers h)"

text \<open>\<open>getInitials\<close> (lines 551--558): the first letters of the first and last words, or
  the first two characters of a one-word name; a word is what \<open>split(' ')\<close> returns,
  possibly empty.\<close>

definition getInitials :: "string \<Rightarrow> string" where
  "getInitials name =
     (if name = [] then []
      else (let names = js_split CHR '' '' name
            in if 1 < length names then js_plus (js_char0 (hd names)) (js_char0 (last names))
               else take 2 name))"

section \<open>Fixtures\<close>

text \<open>The state an accepted request leaves: the request accepted, each user in the
  other's friends.\<close>

definition accepted_store :: "req_id \<Rightarrow> friend_request \<Rightarrow> user_doc \<Rightarrow> user_doc \<Rightarrow> store \<Rightarrow> store" where
  "accepted_store k r da db s =
     s\<lparr>friendRequests := friendRequests s @ [(k, r\<lparr>req_status := ReqAccepted\<rparr>)],
       users := AList.update (req_from r) (da\<lparr>friends := array_union (friends da) (req_to r)\<rparr>)
                  (AList.update (req_to r) (db\<lparr>friends := array_union (friends db) (req_from r)\<rparr>) (users s))\<rparr>"

text \<open>alice and bob with bare profiles and no request; a home page for each user; a chat
  of alice with carol, who has no profile.\<close>

definition social_store :: store where
  "social_store = \<lparr>calls = Map.empty, callerCandidates = (\<lambda>_. []), calleeCandidates = (\<lambda>_. []),
                   chats = Map.empty, messages = (\<lambda>_. []),
                   users = [(''alice'', blank_user ''alice''), (''bob'', blank_user ''bob'')],
                   friendRequests = [], clock = 5\<rparr>"

definition home_of :: "uid \<Rightarrow> home" where
  "home_of u = \<lparr>me = u, incomingCall = None, activeCall = None, selectedChat = None,
                requestStatus = Map.empty, friendRequestsShown = [], userProfile = None,
                allUsers = [], chatList = []\<rparr>"

definition carol_chat :: chat_doc where
  "carol_chat = new_direct_chat ''alice_carol'' [''alice'', ''carol''] ''alice'' 5"

section \<open>Lemmas: strings and store primitives\<close>

lemma js_split_no_sep [simp]: "c \<notin> set x \<Longrightarrow> js_split c x = [x]"
  by (induction x) (auto simp: Let_def)

lemma js_split_append_sep: "c \<notin> set x \<Longrightarrow> js_split c (x @ c # y) = x # js_split c y"
  by (induction x) (auto simp: Let_def)

lemma batch_commit_Cons_ok:
  "w s = (None, s1) \<Longrightarrow> batch_commit (w # ws) s = (case batch_commit ws s1 of (Some e, _) \<Rightarrow> (Some e, s) | (None, s2) \<Rightarrow> (None, s2))"
  by simp

lemma batch_commit_atomic: "batch_commit ws s = (Some e, s') \<Longrightarrow> s' = s"
  by (induction ws arbitrary: s) (auto split: prod.splits option.splits)

lemma update_request_fresh_map:
  "k \<notin> fst ` set xs \<Longrightarrow> map (\<lambda>(k', r). if k' = k then (k', f r) else (k', r)) xs = xs"
  by (induction xs) auto

lemma update_request_last:
  "k \<notin> fst ` set (friendRequests s) \<Longrightarrow>
   update_request k f (add_request k r s) = (None, s\<lparr>friendRequests := friendRequests s @ [(k, f r)]\<rparr>)"
  by (simp add: update_request_def add_request_def update_request_fresh_map)

lemma map_of_update_users [simp]: "map_of (AList.update k v al) = (map_of al)(k \<mapsto> v)"
  by (simp add: update_conv')

lemma array_remove_absent: "x \<notin> set (array_remove xs x)"
  by (simp add: array_remove_def)

lemma social_fixtures [simp]:
  "me (home_of u) = u" "selectedChat (home_of u) = None"
  "map_of (users social_store) ''alice'' = Some (blank_user ''alice'')"
  "map_of (users social_store) ''bob'' = Some (blank_user ''bob'')"
  "map_of (users social_store) ''carol'' = None"
  "friendRequests social_store = []" "clock social_store = 5"
  by (simp_all add: home_of_def social_store_def)

section \<open>Lemmas: the handlers\<close>

lemma handleCreateChat_frame [simp]:
  "users (snd (handleCreateChat o2 b hs)) = users (snd hs)"
  "friendRequests (snd (handleCreateChat o2 b hs)) = friendRequests (snd hs)"
  "me (fst (handleCreateChat o2 b hs)) = me (fst hs)"
  by (auto simp: handleCreateChat_def Let_def split: prod.splits option.splits)

lemma accept_ok:
  assumes "k \<notin> fst ` set (friendRequests s)" and "map_of (users s) (req_from r) = Some da"
    and "map_of (users s) (req_to r) = Some db" and "req_from r \<noteq> req_to r"
  shows "handleFriendRequest k r AcceptRequest m (h, add_request k r s) =
           (None, handleCreateChat (req_from r) m (refresh_profile h (accepted_store k r da db s), accepted_store k r da db s))"
  using assms
  by (simp add: handleFriendRequest_def update_request_last update_user_found accepted_store_def)

lemma unfriend_batch_ok:
  assumes "map_of (users s) u = Some du" and "map_of (users s) f = Some df" and "u \<noteq> f"
  shows "unfriend_batch u f s =
           (None, s\<lparr>users := AList.update f (df\<lparr>friends := array_remove (friends df) u\<rparr>)
                             (AList.update u (du\<lparr>friends := array_remove (friends du) f\<rparr>) (users s))\<rparr>)"
  using assms by (simp add: unfriend_batch_def update_user_found)

lemma handleUnfriend_ok:
  assumes "unfriend_batch (me h) f s = (None, s1)"
  shows "friendRequests (snd (handleUnfriend f (h, s))) = friendRequests s1 \<and>
         users (snd (handleUnfriend f (h, s))) = users s1 \<and> me (fst (handleUnfriend f (h, s))) = me h"
  using assms by (simp add: handleUnfriend_def Let_def refresh_profile_def delete_chat_def split: option.splits)

lemma send_request_existing:
  "requests_from_to (me h) t s \<noteq> [] \<Longrightarrow>
   handleSendFriendRequest t k (h, s) = (h\<lparr>requestStatus := (requestStatus h)(t \<mapsto> StatusPending)\<rparr>, s)"
  by (simp add: handleSendFriendRequest_def)

lemma send_request_new:
  "requests_from_to (me h) t s = [] \<Longrightarrow>
   handleSendFriendRequest t k (h, s) = (h\<lparr>requestStatus := (requestStatus h)(t \<mapsto> StatusPending)\<rparr>,
     add_request k \<lparr>req_from = me h, req_to = t, req_status = ReqPending, req_createdAt = clock s\<rparr> s)"
  by (simp add: handleSendFriendRequest_def)

section \<open>Lemmas: the chat list\<close>

lemma filter_chats_undefined:
  "\<exists>x\<in>set xs. chat_name x = None \<Longrightarrow> filter_chats t xs = Inl TypeError"
proof (induction xs)
  case Nil
  then show ?case by simp
next
  case (Cons a xs)
  show ?case
  proof (cases "chat_name a")
    case None
    then show ?thesis by simp
  next
    case (Some n)
    with Cons.prems have "\<exists>x\<in>set xs. chat_name x = None" by auto
    with Cons.IH Some show ?thesis by simp
  qed
qed

lemma map_of_fold_update:
  "map_of (fold (\<lambda>c m. AList.update (k c) (g c) m) docs al) = fold (\<lambda>c m. m(k c \<mapsto> g c)) docs (map_of al)"
  by (induction docs arbitrary: al) (simp_all add: update_conv')

lemma fold_upd_other:
  "kx \<notin> k ` set ds \<Longrightarrow> fold (\<lambda>c m. m(k c \<mapsto> g c)) ds f kx = f kx"
  by (induction ds arbitrary: f) auto

lemma fold_upd_distinct:
  "distinct (map k docs) \<Longrightarrow> x \<in> set docs \<Longrightarrow> fold (\<lambda>c m. m(k c \<mapsto> g c)) docs f (k x) = Some (g x)"
proof (induction docs arbitrary: f)
  case Nil
  then show ?case by simp
next
  case (Cons d ds)
  show ?case
  proof (cases "x = d")
    case True
    with Cons.prems have "k x \<notin> k ` set ds" by simp
    then have "fold (\<lambda>c m. m(k c \<mapsto> g c)) ds (f(k d \<mapsto> g d)) (k x) = (f(k d \<mapsto> g d)) (k x)"
      by (rule fold_upd_other)
    with True show ?thesis by (simp only: fold_Cons comp_apply fun_upd_same)
  next
    case False
    with Cons show ?thesis by simp
  qed
qed

lemma chats_snapshot_has:
  assumes "distinct (map chat_key docs)" and "c \<in> set docs"
  shows "resolve_chat (me h) s c \<in> set (chatList (chats_snapshot docs (h, s)))"
proof -
  let ?cm = "fold (\<lambda>c m. AList.update (chat_key c) (resolve_chat (me h) s c) m) docs []"
  have "map_of ?cm (chat_key c) = Some (resolve_chat (me h) s c)"
    using fold_upd_distinct [OF assms] by (simp add: map_of_fold_update)
  then have "resolve_chat (me h) s c \<in> set (map snd ?cm)"
    by (force dest: map_of_SomeD)
  then show ?thesis by (simp add: chats_snapshot_def Let_def)
qed

section \<open>Lemmas: initials\<close>

text \<open>A name with an empty word prints \<open>undefined\<close>, or \<open>NaN\<close> when both words are empty.\<close>

lemma getInitials_blank_word:
  "getInitials ''Ann Lee'' = ''AL'' \<and> getInitials ''Ann '' = ''Aundefined'' \<and> getInitials '' Ann '' = ''NaN''"
  by (simp add: getInitials_def js_char0_def)

section \<open>Properties\<close>

text \<open>C31: Once alice's request to bob was accepted and alice then unfriended bob, a new request from alice to bob writes nothing: the accepted request is never deleted, and \<open>handleSendFriendRequest\<close> refuses whenever any request from alice to bob exists; the two stay strangers.\<close>

theorem refriend_blocked:
  assumes "me ha = a" and "a \<noteq> b"
    and "map_of (users s) a = Some da" and "map_of (users s) b = Some db"
    and "requests_from_to a b s = []" and "k \<notin> fst ` set (friendRequests s)"
    and "handleSendFriendRequest b k (ha, s) = (ha1, s1)"
    and "handleFriendRequest k \<lparr>req_from = a, req_to = b, req_status = ReqPending, req_createdAt = clock s\<rparr>
           AcceptRequest m (hb, s1) = (e2, (hb2, s2))"
    and "handleUnfriend b (ha1, s2) = (ha3, s3)"
    and "handleSendFriendRequest b k' (ha3, s3) = (ha4, s4)"
  shows "e2 = None \<and> s4 = s3 \<and> requests_from_to a b s4 \<noteq> [] \<and>
         b \<notin> set (friends (the (map_of (users s4) a))) \<and> a \<notin> set (friends (the (map_of (users s4) b)))"
proof -
  let ?r = "\<lparr>req_from = a, req_to = b, req_status = ReqPending, req_createdAt = clock s\<rparr>"
  let ?sa = "accepted_store k ?r da db s"
  have s1: "s1 = add_request k ?r s" and m1: "me ha1 = a"
    using assms(1,5,7) send_request_new [of ha b s k] by auto
  have "handleFriendRequest k ?r AcceptRequest m (hb, s1) = (None, handleCreateChat a m (refresh_profile hb ?sa, ?sa))"
    unfolding s1 using accept_ok [of k s ?r da db m hb] assms(2-4,6) by simp
  with assms(8) have e2: "e2 = None" and s2: "s2 = snd (handleCreateChat a m (refresh_profile hb ?sa, ?sa))"
    by (metis prod.inject, metis snd_conv)
  have u2: "users s2 = users ?sa" and f2: "friendRequests s2 = friendRequests ?sa"
    unfolding s2 by simp_all
  have ua: "map_of (users s2) a = Some (da\<lparr>friends := array_union (friends da) b\<rparr>)"
    and ub: "map_of (users s2) b = Some (db\<lparr>friends := array_union (friends db) a\<rparr>)"
    using u2 assms(2) by (simp_all add: accepted_store_def)
  obtain s3' where b3: "unfriend_batch a b s2 = (None, s3')" and
    u3: "users s3' = AList.update b ((db\<lparr>friends := array_union (friends db) a\<rparr>)\<lparr>friends :=
            array_remove (friends (db\<lparr>friends := array_union (friends db) a\<rparr>)) a\<rparr>)
          (AList.update a ((da\<lparr>friends := array_union (friends da) b\<rparr>)\<lparr>friends :=
            array_remove (friends (da\<lparr>friends := array_union (friends da) b\<rparr>)) b\<rparr>) (users s2))"
    and f3': "friendRequests s3' = friendRequests s2"
    using unfriend_batch_ok [OF ua ub assms(2)] by simp
  from handleUnfriend_ok [of ha1 b s2 s3'] b3 m1 assms(9)
  have f3: "friendRequests s3 = friendRequests s2" and us3: "users s3 = users s3'" and m3: "me ha3 = a"
    using f3' by (metis fst_conv snd_conv)+
  have "requests_from_to a b s3 \<noteq> []"
    using f3 f2 by (simp add: requests_from_to_def accepted_store_def)
  with m3 assms(10) have s4: "s4 = s3" using send_request_existing [of ha3 b s3 k'] by simp
  show ?thesis
    using e2 s4 \<open>requests_from_to a b s3 \<noteq> []\<close> us3 u3 assms(2) by (simp add: array_remove_absent)
qed

text \<open>A chat whose other member has no profile keeps an undefined name in the chat list, and the chat search then throws a TypeError, whatever the search term.\<close>

theorem chat_search_crashes:
  assumes "distinct (map chat_key docs)" and "c \<in> set docs" and "chat_type c = Direct"
    and "List.find (\<lambda>m. m \<noteq> me h) (chat_members c) = Some ou" and "map_of (users s) ou = None"
  shows "filter_chats t (chatList (chats_snapshot docs (h, s))) = Inl TypeError"
proof -
  have "chat_name (resolve_chat (me h) s c) = None"
    using assms(3-5) by (simp add: resolve_chat_def chat_doc.extend_def)
  with chats_snapshot_has [OF assms(1,2)] show ?thesis
    by (intro filter_chats_undefined) blast
qed

text \<open>C36: The id of a direct chat is the same whichever member computes it, and splitting it at the underscore gives back the two members, sorted, when no user id contains an underscore.\<close>

theorem direct_chat_id_roundtrip:
  assumes "CHR ''_'' \<notin> set a" and "CHR ''_'' \<notin> set b"
  shows "direct_chat_id a b = direct_chat_id b a \<and>
         js_split CHR ''_'' (direct_chat_id a b) = sort [a, b]"
  using assms by (auto simp: direct_chat_id_def js_split_append_sep)

section \<open>Witnesses\<close>

theorem direct_chat_id_roundtrip_witness:
  "direct_chat_id ''bob'' ''alice'' = direct_chat_id ''alice'' ''bob'' \<and>
   js_split CHR ''_'' (direct_chat_id ''bob'' ''alice'') = [''alice'', ''bob'']"
  using direct_chat_id_roundtrip [of "''bob''" "''alice''"] by (simp add: direct_chat_id_def)

theorem refriend_blocked_witness:
  "let (ha1, s1) = handleSendFriendRequest ''bob'' ''r1'' (home_of ''alice'', social_store);
       (e2, hs2) = handleFriendRequest ''r1'' \<lparr>req_from = ''alice'', req_to = ''bob'', req_status = ReqPending,
                     req_createdAt = 5\<rparr> AcceptRequest False (home_of ''bob'', s1);
       (ha3, s3) = handleUnfriend ''bob'' (ha1, snd hs2);
       (ha4, s4) = handleSendFriendRequest ''bob'' ''r2'' (ha3, s3)
   in e2 = None \<and> s4 = s3 \<and> requests_from_to ''alice'' ''bob'' s4 \<noteq> []"
proof -
  obtain ha1 s1 where 1: "handleSendFriendRequest ''bob'' ''r1'' (home_of ''alice'', social_store) = (ha1, s1)"
    by fastforce
  obtain e2 hb2 s2 where 2: "handleFriendRequest ''r1'' \<lparr>req_from = ''alice'', req_to = ''bob'', req_status = ReqPending,
                     req_createdAt = clock social_store\<rparr> AcceptRequest False (home_of ''bob'', s1) = (e2, (hb2, s2))"
    by (metis prod.exhaust)
  obtain ha3 s3 where 3: "handleUnfriend ''bob'' (ha1, s2) = (ha3, s3)" by fastforce
  obtain ha4 s4 where 4: "handleSendFriendRequest ''bob'' ''r2'' (ha3, s3) = (ha4, s4)" by fastforce
  have h: "me (home_of ''alice'') = ''alice''" "''alice'' \<noteq> ''bob''"
    "map_of (users social_store) ''alice'' = Some (blank_user ''alice'')"
    "map_of (users social_store) ''bob'' = Some (blank_user ''bob'')"
    "requests_from_to ''alice'' ''bob'' social_store = []" "''r1'' \<notin> fst ` set (friendRequests social_store)"
    by (simp_all add: requests_from_to_def)
  have "e2 = None \<and> s4 = s3 \<and> requests_from_to ''alice'' ''bob'' s4 \<noteq> []"
    using refriend_blocked [OF h 1 2 3 4] by blast
  then show ?thesis using 1 2 3 4 by (elim conjE) simp
qed

theorem chat_search_crashes_witness:
  "filter_chats ''bo'' (chatList (chats_snapshot [carol_chat] (home_of ''alice'', social_store))) = Inl TypeError"
  using chat_search_crashes [of "[carol_chat]" carol_chat "home_of ''alice''" "''carol''" social_store "''bo''"]
  by (simp add: carol_chat_def new_direct_chat_def)

end
