(* ===== verification/Messaging.thy ===== *)
theory Messaging
  imports Social
begin

text \<open>
  Text and media messaging: the handlers of \<open>ChatView\<close>
  (src/src/components/chat-view.tsx) and the voice recorder
  (src/src/components/voice-recorder.tsx). String literals are the UTF-8 bytes the
  source files hold; in chat-view.tsx the emoji and the bullet are stored
  double-encoded (UTF-8 read as Windows-1252 and encoded again), and they are modelled
  byte for byte. Uploads to file storage are inputs: the download URL, or a failure.
\<close>

section \<open>Literals\<close>

definition utf8 :: "nat list \<Rightarrow> string" where
  "utf8 bs = map char_of bs"

text \<open>The bytes of the bullet separator \<open>' \<bullet> '\<close> as line 166 holds them.\<close>

definition bullet_src :: string where
  "bullet_src = utf8 [32, 195, 162, 226, 130, 172, 194, 162, 32]"

text \<open>The camera, film and page emoji of lines 522--524, as the file holds them.\<close>

definition image_label :: string where
  "image_label = utf8 [195, 176, 197, 184, 226, 128, 156, 194, 183] @ '' Image''"

definition video_label :: string where
  "video_label = utf8 [195, 176, 197, 184, 226, 128, 156, 194, 185] @ '' Video''"

definition document_prefix :: string where
  "document_prefix = utf8 [195, 176, 197, 184, 226, 128, 156, 226, 128, 158, 32]"

text \<open>The microphone emoji of voice-recorder.tsx line 168, correctly encoded.\<close>

definition voice_label :: string where
  "voice_label = utf8 [240, 159, 142, 164] @ '' Voice message''"

section \<open>Rendering a call-log entry\<close>

text \<open>\<open>formatCallDuration\<close> (lines 65--70).\<close>

definition formatCallDuration :: "seconds \<Rightarrow> string" where
  "formatCallDuration t =
     (if t < 60 then dec_string t @ ''s''
      else dec_string (t div 60) @ ''m '' @ dec_string (t mod 60) @ ''s'')"

text \<open>The text of a call entry (lines 161--174) as the user \<open>viewer\<close> sees it; \<open>isMe\<close>
  compares the viewer with the entry's sender, who is the caller. A duration of 0 is
  falsy and not shown.\<close>

definition call_entry_text :: "uid \<Rightarrow> message \<Rightarrow> string option" where
  "call_entry_text viewer m =
     (if msg_type m \<noteq> MsgCall then None
      else case callInfo m of
        None \<Rightarrow> None
      | Some ci \<Rightarrow>
          (let isVideo = (ci_type ci = Video);
               durationText = (case ci_duration ci of
                                 None \<Rightarrow> []
                               | Some d \<Rightarrow> if d = 0 then [] else bullet_src @ formatCallDuration d)
           in Some (if ci_status ci = OutcomeMissed
                    then (if senderId m = viewer
                          then ''You missed a '' @ (if isVideo then ''video '' else []) @ ''call''
                          else ''Missed '' @ (if isVideo then ''video '' else []) @ ''call'')
                    else (if isVideo then ''Video call ended'' else ''Call ended'') @ durationText)))"

section \<open>The chat screen\<close>

record upload_file =
  file_name :: string
  file_mime :: string
  file_size :: nat

datatype dialog_action = DialogClear | DialogBlock | DialogDelete

text \<open>The state of \<open>ChatView\<close> (lines 379--397): the chat it shows (the \<open>chat\<close> prop as
  the chat list last delivered it), my profile, the form and dialog state.\<close>

record chatview =
  cw_me :: uid
  cw_chat :: chat_view
  cw_profile :: "user_doc option"
  cw_messages :: "message list"
  inputText :: string
  isSending :: bool
  uploadProgress :: nat
  dialogAction :: "dialog_action option"
  attachment :: "upload_file option"
  isRecording :: bool
  exited :: bool

type_synonym chat_client = "chatview \<times> store"

text \<open>\<open>otherUserId\<close> and \<open>isBlocked\<close> (lines 396--397): blocked when my own
  \<open>blockedUsers\<close> holds the other member (\<open>''\<close> when there is none).\<close>

definition otherUserId :: "chatview \<Rightarrow> uid option" where
  "otherUserId cw = List.find (\<lambda>m. m \<noteq> cw_me cw) (chat_members (cw_chat cw))"

definition isBlocked :: "chatview \<Rightarrow> bool" where
  "isBlocked cw =
     (case cw_profile cw of
        None \<Rightarrow> False
      | Some p \<Rightarrow> (case otherUserId cw of None \<Rightarrow> [] | Some u \<Rightarrow> u) \<in> set (blockedUsers p))"

text \<open>The message listener (lines 400--415): the chat's messages ordered by timestamp.\<close>

definition messages_snapshot :: "store \<Rightarrow> chatview \<Rightarrow> chatview" where
  "messages_snapshot s cw =
     cw\<lparr>cw_messages := sort_key msg_timestamp (messages s (chat_key (cw_chat cw)))\<rparr>"

text \<open>The summary every send writes after its message (the \<open>updateDoc\<close> on the chat).\<close>

definition stamp_chat :: "chat_id \<Rightarrow> string \<Rightarrow> uid \<Rightarrow> store \<Rightarrow> (store_error, store) outcome" where
  "stamp_chat cid t u s =
     update_chat cid (\<lambda>ch. ch\<lparr>lastMessage := t, lastMessageTimestamp := clock s, lastMessageSenderId := u\<rparr>) s"

definition plain_message :: "uid \<Rightarrow> timestamp \<Rightarrow> msg_type \<Rightarrow> message" where
  "plain_message u ts ty =
     \<lparr>senderId = u, msg_timestamp = ts, msg_type = ty, msg_text = None, attachmentUrl = None,
      callInfo = None, fileName = None, fileSize = None\<rparr>"

text \<open>\<open>handleSendMessage\<close> (lines 441--473): nothing when blocked, already sending, or
  the trimmed text is empty; otherwise the message is appended and the summary
  written; a rejected summary write is caught; the input is cleared in any case.\<close>

definition handleSendMessage :: "chat_client \<Rightarrow> chat_client" where
  "handleSendMessage cs =
     (let (cw, s) = cs; t = js_trim (inputText cw); cid = chat_key (cw_chat cw)
      in if isBlocked cw \<or> isSending cw \<or> t = [] then (cw, s)
         else (let s1 = add_message cid ((plain_message (cw_me cw) (clock s) MsgText)\<lparr>msg_text := Some t\<rparr>) s
               in (cw\<lparr>isSending := False, inputText := []\<rparr>, snd (stamp_chat cid t (cw_me cw) s1))))"

text \<open>\<open>getFileType\<close> (lines 373--377).\<close>

definition getFileType :: "string \<Rightarrow> msg_type" where
  "getFileType mime =
     (if prefix ''image/'' mime then MsgImage else if prefix ''video/'' mime then MsgVideo else MsgDocument)"

definition attachment_summary :: "string \<Rightarrow> msg_type \<Rightarrow> string \<Rightarrow> string" where
  "attachment_summary caption ft name =
     (if caption \<noteq> [] then caption
      else if ft = MsgImage then image_label
      else if ft = MsgVideo then video_label
      else if ft = MsgDocument then document_prefix @ name
      else [])"

text \<open>\<open>handleSendAttachment\<close> (lines 475--543). \<open>upload\<close> is the download URL, or
  \<open>None\<close> when the upload failed (caught). The attachment is cleared only when both
  writes succeeded.\<close>

definition handleSendAttachment :: "upload_file \<Rightarrow> string \<Rightarrow> string option \<Rightarrow> chat_client \<Rightarrow> chat_client" where
  "handleSendAttachment f caption upload cs =
     (let (cw, s) = cs; cid = chat_key (cw_chat cw)
      in if isBlocked cw \<or> isSending cw then (cw, s)
         else (case upload of
                 None \<Rightarrow> (cw\<lparr>isSending := False, uploadProgress := 0\<rparr>, s)
               | Some url \<Rightarrow>
                   (let ft = getFileType (file_mime f);
                        s1 = add_message cid ((plain_message (cw_me cw) (clock s) ft)\<lparr>msg_text := Some caption,
                               attachmentUrl := Some url, fileName := Some (file_name f),
                               fileSize := Some (file_size f)\<rparr>) s;
                        (e, s2) = stamp_chat cid (attachment_summary caption ft (file_name f)) (cw_me cw) s1;
                        cw1 = (if e = None then cw\<lparr>attachment := None\<rparr> else cw)
                    in (cw1\<lparr>isSending := False, uploadProgress := 0\<rparr>, s2))))"

text \<open>\<open>handleFileSelect\<close> and \<open>startRecording\<close> (lines 545--566).\<close>

definition handleFileSelect :: "upload_file option \<Rightarrow> chatview \<Rightarrow> chatview" where
  "handleFileSelect f cw = (case f of None \<Rightarrow> cw | Some x \<Rightarrow> cw\<lparr>attachment := Some x\<rparr>)"

definition startRecording :: "chatview \<Rightarrow> chatview" where
  "startRecording cw = (if isBlocked cw then cw else cw\<lparr>isRecording := True\<rparr>)"

text \<open>\<open>handleMuteToggle\<close> (lines 568--574): the flag is the negation of the one in the
  \<open>chat\<close> prop; the write is not caught.\<close>

definition handleMuteToggle :: "chat_client \<Rightarrow> (store_error, chat_client) outcome" where
  "handleMuteToggle cs =
     (let (cw, s) = cs; cid = chat_key (cw_chat cw)
      in case update_chat cid (\<lambda>ch. ch\<lparr>muted := \<not> muted (cw_chat cw)\<rparr>) s of
           (e, s1) \<Rightarrow> (e, (cw, s1)))"

text \<open>\<open>handleClearChat\<close> (lines 576--593), split at its awaits: the read of the messages,
  then the batch deleting those read and the summary. Messages added in between stay.\<close>

definition clear_read :: "chat_id \<Rightarrow> store \<Rightarrow> nat" where
  "clear_read cid s = length (messages s cid)"

definition clear_write :: "nat \<Rightarrow> chat_client \<Rightarrow> (store_error, chat_client) outcome" where
  "clear_write n cs =
     (let (cw, s) = cs; cid = chat_key (cw_chat cw);
          s1 = s\<lparr>messages := (messages s)(cid := drop n (messages s cid))\<rparr>
      in case update_chat cid (\<lambda>ch. ch\<lparr>lastMessage := ''Chat cleared'', lastMessageTimestamp := clock s1\<rparr>) s1 of
           (Some e, s2) \<Rightarrow> (Some e, (cw, s2))
         | (None, s2) \<Rightarrow> (None, (cw\<lparr>dialogAction := None\<rparr>, s2)))"

definition handleClearChat :: "chat_client \<Rightarrow> (store_error, chat_client) outcome" where
  "handleClearChat cs = clear_write (clear_read (chat_key (cw_chat (fst cs))) (snd cs)) cs"

text \<open>\<open>handleDeleteChat\<close> (lines 595--601): the chat document is deleted, for both
  members; its messages stay.\<close>

definition handleDeleteChat :: "chat_client \<Rightarrow> chat_client" where
  "handleDeleteChat cs =
     (let (cw, s) = cs in (cw\<lparr>exited := True, dialogAction := None\<rparr>, delete_chat (chat_key (cw_chat cw)) s))"

text \<open>\<open>handleBlockUser\<close> (lines 603--612): my own \<open>blockedUsers\<close> gains or loses the
  other member, then my profile is read again; the write is not caught.\<close>

definition handleBlockUser :: "chat_client \<Rightarrow> (store_error, chat_client) outcome" where
  "handleBlockUser cs =
     (let (cw, s) = cs in
      case otherUserId cw of
        None \<Rightarrow> (None, (cw, s))
      | Some o2 \<Rightarrow>
          (case update_user (cw_me cw)
                  (\<lambda>d. d\<lparr>blockedUsers := (if isBlocked cw then array_remove (blockedUsers d) o2
                                          else array_union (blockedUsers d) o2)\<rparr>) s of
             (Some e, s1) \<Rightarrow> (Some e, (cw, s1))
           | (None, s1) \<Rightarrow> (None, (cw\<lparr>cw_profile := map_of (users s1) (cw_me cw), dialogAction := None\<rparr>, s1))))"

text \<open>\<open>handleConfirmAction\<close> (lines 614--628) and \<open>getDialogContent\<close> (lines 630--641);
  \<open>chat.name\<close> prints as \<open>undefined\<close> when the other member has no profile.\<close>

definition handleConfirmAction :: "chat_client \<Rightarrow> (store_error, chat_client) outcome" where
  "handleConfirmAction cs =
     (case dialogAction (fst cs) of
        Some DialogClear \<Rightarrow> handleClearChat cs
      | Some DialogDelete \<Rightarrow> (None, handleDeleteChat cs)
      | Some DialogBlock \<Rightarrow> handleBlockUser cs
      | None \<Rightarrow> (None, (fst cs\<lparr>dialogAction := None\<rparr>, snd cs)))"

definition getDialogContent :: "chatview \<Rightarrow> string \<times> string" where
  "getDialogContent cw =
     (let nm = (case chat_name (cw_chat cw) of None \<Rightarrow> ''undefined'' | Some n \<Rightarrow> n) in
      case dialogAction cw of
        Some DialogClear \<Rightarrow> (''Clear this chat?'', ''This will permanently delete all messages in this conversation.'')
      | Some DialogDelete \<Rightarrow> (''Delete this chat?'', ''This action cannot be undone. The chat will be removed from your list.'')
      | Some DialogBlock \<Rightarrow>
          (if isBlocked cw then (''Unblock '' @ nm @ ''?'', ''You will be able to send and receive messages again.'')
           else (''Block '' @ nm @ ''?'', ''You will no longer be able to send or receive messages from this user.''))
      | None \<Rightarrow> ([], []))"

section \<open>The voice recorder\<close>

text \<open>
  \<open>MediaRecorder\<close> (W3C MediaStream Recording), an external collaborator: started
  without a time slice, it gathers the recorded data and hands it over in one
  \<open>dataavailable\<close> event, queued when it stops, by \<open>stop()\<close> or because its track
  ended. \<open>recorded\<close> counts the bytes gathered; \<open>pending_blob\<close> is the queued event.
\<close>

datatype rec_state = RecInactive | RecRecording

record voice_rec =
  vr_user :: uid
  vr_chat :: chat_id
  recorder :: "rec_state option"
  recorded :: nat
  pending_blob :: "nat option"
  chunks :: "nat list"
  vr_duration :: nat
  vr_sending :: bool
  timer_live :: bool
  vr_mounted :: bool
  vr_cancelled :: bool
  vr_sent :: bool

definition vr_mount :: "uid \<Rightarrow> chat_id \<Rightarrow> voice_rec" where
  "vr_mount u c =
     \<lparr>vr_user = u, vr_chat = c, recorder = None, recorded = 0, pending_blob = None, chunks = [],
      vr_duration = 0, vr_sending = False, timer_live = False, vr_mounted = True,
      vr_cancelled = False, vr_sent = False\<rparr>"

text \<open>\<open>mediaRecorder.stop()\<close> (guarded by \<open>state === 'recording'\<close> at every call site).\<close>

definition rec_stop :: "voice_rec \<Rightarrow> voice_rec" where
  "rec_stop v =
     (if recorder v = Some RecRecording
      then v\<lparr>recorder := Some RecInactive, pending_blob := Some (recorded v)\<rparr> else v)"

text \<open>The mount effect (lines 64--141): on access to the microphone the recorder starts
  and the one-second timer runs; on refusal the recorder is cancelled. The cleanup the
  inner \<open>start\<close> returns is a promise's value and is never installed: only the outer
  cleanup runs on unmount, and it does not clear the timer.\<close>

definition vr_started :: "voice_rec \<Rightarrow> voice_rec" where
  "vr_started v = v\<lparr>recorder := Some RecRecording, chunks := [], timer_live := True\<rparr>"

definition vr_denied :: "voice_rec \<Rightarrow> voice_rec" where
  "vr_denied v = v\<lparr>vr_cancelled := True\<rparr>"

definition vr_tick :: "voice_rec \<Rightarrow> voice_rec" where
  "vr_tick v = (if timer_live v then v\<lparr>vr_duration := Suc (vr_duration v)\<rparr> else v)"

definition vr_audio :: "nat \<Rightarrow> voice_rec \<Rightarrow> voice_rec" where
  "vr_audio n v = (if recorder v = Some RecRecording then v\<lparr>recorded := recorded v + n\<rparr> else v)"

text \<open>\<open>ondataavailable\<close> (lines 79--83) for the queued event, and the track ending by
  itself.\<close>

definition vr_data_event :: "voice_rec \<Rightarrow> voice_rec" where
  "vr_data_event v =
     (case pending_blob v of
        None \<Rightarrow> v
      | Some b \<Rightarrow> (if 0 < b then v\<lparr>chunks := chunks v @ [b]\<rparr> else v)\<lparr>pending_blob := None\<rparr>)"

definition vr_track_ended :: "voice_rec \<Rightarrow> voice_rec" where
  "vr_track_ended v = rec_stop v"

text \<open>\<open>sendVoiceMessage\<close> (lines 143--179): nothing while no chunk has arrived; otherwise
  the recorder is stopped, the chunks so far are uploaded (\<open>upload\<close> is the URL or a
  failure, caught), the voice message appended and the summary written.\<close>

definition sendVoiceMessage :: "string option \<Rightarrow> voice_rec \<times> store \<Rightarrow> voice_rec \<times> store" where
  "sendVoiceMessage upload vs =
     (let (v, s) = vs in
      if chunks v = [] then (v, s)
      else (let v1 = rec_stop (v\<lparr>vr_sending := True\<rparr>) in
            case upload of
              None \<Rightarrow> (v1\<lparr>vr_sending := False\<rparr>, s)
            | Some url \<Rightarrow>
                (let s1 = add_message (vr_chat v) ((plain_message (vr_user v) (clock s) MsgVoice)\<lparr>attachmentUrl := Some url\<rparr>) s;
                     (e, s2) = stamp_chat (vr_chat v) voice_label (vr_user v) s1
                 in ((if e = None then v1\<lparr>vr_sent := True\<rparr> else v1)\<lparr>vr_sending := False\<rparr>, s2))))"

text \<open>\<open>handleCancel\<close> (lines 181--186). \<open>onCancel\<close> makes the chat screen drop the
  recorder, which React unmounts before any later event: the outer cleanup runs.\<close>

definition vr_cancel :: "voice_rec \<Rightarrow> voice_rec" where
  "vr_cancel v = (rec_stop v)\<lparr>vr_cancelled := True, vr_mounted := False\<rparr>"

definition vr_unmount :: "voice_rec \<Rightarrow> voice_rec" where
  "vr_unmount v = (rec_stop v)\<lparr>vr_mounted := False\<rparr>"

datatype vr_event =
    VrStarted | VrDenied | VrTick | VrAudio nat | VrDataEvent | VrTrackEnded
  | VrSend "string option" | VrCancel | VrUnmount

text \<open>The send and cancel buttons exist only while the recorder is mounted.\<close>

fun vr_step :: "vr_event \<Rightarrow> voice_rec \<times> store \<Rightarrow> voice_rec \<times> store" where
  "vr_step VrStarted (v, s) = (vr_started v, s)"
| "vr_step VrDenied (v, s) = (vr_denied v, s)"
| "vr_step VrTick (v, s) = (vr_tick v, s)"
| "vr_step (VrAudio n) (v, s) = (vr_audio n v, s)"
| "vr_step VrDataEvent (v, s) = (vr_data_event v, s)"
| "vr_step VrTrackEnded (v, s) = (vr_track_ended v, s)"
| "vr_step (VrSend u) (v, s) = (if vr_mounted v \<and> \<not> vr_sending v then sendVoiceMessage u (v, s) else (v, s))"
| "vr_step VrCancel (v, s) = (if vr_mounted v then (vr_cancel v, s) else (v, s))"
| "vr_step VrUnmount (v, s) = (vr_unmount v, s)"

definition vr_run :: "vr_event list \<Rightarrow> voice_rec \<times> store \<Rightarrow> voice_rec \<times> store" where
  "vr_run evs st = fold vr_step evs st"

section \<open>Invariant and fixtures\<close>

text \<open>While the recorder is mounted no chunk has arrived and no data event is queued,
  and nothing was sent.\<close>

definition vr_inv :: "voice_rec \<Rightarrow> bool" where
  "vr_inv v \<longleftrightarrow> \<not> vr_sent v \<and> (vr_mounted v \<longrightarrow> chunks v = [] \<and> pending_blob v = None)"

text \<open>A chat of alice and bob holding one message; alice's chat screen on a chat.\<close>

definition chat_store :: store where
  "chat_store = social_store\<lparr>chats := [''alice_bob'' \<mapsto> new_direct_chat ''alice_bob'' [''alice'', ''bob''] ''alice'' 1],
     messages := (\<lambda>_. [])(''alice_bob'' := [(plain_message ''bob'' 2 MsgText)\<lparr>msg_text := Some ''hi''\<rparr>])\<rparr>"

definition chatview_of :: "uid \<Rightarrow> chat_doc \<Rightarrow> chatview" where
  "chatview_of u c =
     \<lparr>cw_me = u, cw_chat = chat_doc.extend c \<lparr>chat_name = None, chat_avatar = None\<rparr>, cw_profile = None,
      cw_messages = [], inputText = [], isSending = False, uploadProgress = 0, dialogAction = None,
      attachment = None, isRecording = False, exited = False\<rparr>"

section \<open>Lemmas: the voice recorder\<close>

text \<open>Every event other than the track ending keeps \<open>vr_inv\<close> and leaves the store alone; when the track does end, a message can be sent, so the invariant is not vacuous.\<close>

lemma vr_step_inv:
  assumes "vr_inv (fst st)" and "e \<noteq> VrTrackEnded"
  shows "vr_inv (fst (vr_step e st)) \<and> snd (vr_step e st) = snd st"
proof (cases st)
  case (Pair v s)
  with assms show ?thesis
    by (cases e)
       (auto simp: vr_inv_def vr_started_def vr_denied_def vr_tick_def vr_audio_def vr_data_event_def
          sendVoiceMessage_def vr_cancel_def vr_unmount_def rec_stop_def split: option.splits)
qed

lemma vr_run_inv:
  "VrTrackEnded \<notin> set evs \<Longrightarrow> vr_inv (fst st) \<Longrightarrow>
   vr_inv (fst (vr_run evs st)) \<and> snd (vr_run evs st) = snd st"
proof (induction evs arbitrary: st)
  case Nil
  then show ?case by (simp add: vr_run_def)
next
  case (Cons e evs)
  then have "vr_inv (fst (vr_step e st)) \<and> snd (vr_step e st) = snd st"
    by (intro vr_step_inv) auto
  with Cons show ?case by (simp add: vr_run_def)
qed

lemma voice_sent_when_track_ends:
  "messages (snd (vr_run [VrStarted, VrAudio 100, VrTrackEnded, VrDataEvent, VrSend (Some ''u1'')]
     (vr_mount ''alice'' ''alice_bob'', chat_store))) ''alice_bob'' \<noteq> messages chat_store ''alice_bob''"
  by (simp add: vr_run_def vr_mount_def vr_started_def vr_audio_def vr_track_ended_def rec_stop_def
      vr_data_event_def sendVoiceMessage_def Let_def stamp_chat_def update_chat_def chat_store_def social_store_def)

section \<open>Lemmas: rendered text\<close>

text \<open>The image summary is not the camera emoji's UTF-8, and the caller reads its own
  missed call as one they missed.\<close>

lemma image_summary_double_encoded:
  "attachment_summary [] MsgImage n \<noteq> utf8 [240, 159, 147, 183] @ '' Image''"
  by (simp add: attachment_summary_def image_label_def utf8_def char_of_def bit_0)

lemma missed_entry_text:
  "call_entry_text (callerId c) (call_log_entry c OutcomeMissed None t) =
     Some (''You missed a '' @ (if call_type c = Video then ''video '' else []) @ ''call'')"
  by (simp add: call_entry_text_def call_log_entry_def)

section \<open>Properties\<close>

text \<open>C32: As long as the microphone track does not end by itself, the voice recorder never writes a voice message: without a time slice the recorder delivers its data only after it stops, \<open>sendVoiceMessage\<close> returns while no chunk has arrived, and the only other stops unmount the recorder.\<close>

theorem voice_message_never_sent:
  assumes "VrTrackEnded \<notin> set evs"
  shows "snd (vr_run evs (vr_mount u c, s)) = s \<and> \<not> vr_sent (fst (vr_run evs (vr_mount u c, s)))"
proof -
  have "vr_inv (vr_mount u c)" by (simp add: vr_inv_def vr_mount_def)
  with vr_run_inv [OF assms, of "(vr_mount u c, s)"] show ?thesis
    by (simp add: vr_inv_def)
qed

text \<open>C34: \<open>handleDeleteChat\<close> removes the chat document only: right after the
  handler the document is gone but every message of the chat is still stored, and when
  either member opens the chat again the document is re-created under the same id with
  the old messages all there.\<close>

theorem deleted_chat_history_returns:
  assumes "chat_key (cw_chat cw) = direct_chat_id (me h) other"
  shows "let s1 = snd (handleDeleteChat (cw, s)); s2 = snd (handleCreateChat other act (h, s1))
         in chats s1 (chat_key (cw_chat cw)) = None \<and>
            messages s1 (chat_key (cw_chat cw)) = messages s (chat_key (cw_chat cw)) \<and>
            chats s2 (chat_key (cw_chat cw)) \<noteq> None \<and>
            messages s2 (chat_key (cw_chat cw)) = messages s (chat_key (cw_chat cw))"
  using assms
  by (simp add: handleDeleteChat_def handleCreateChat_def delete_chat_def direct_chat_id_def Let_def)

section \<open>Witnesses\<close>

theorem voice_message_never_sent_witness:
  "snd (vr_run [VrStarted, VrAudio 100, VrTick, VrSend (Some ''u1''), VrCancel, VrDataEvent, VrSend (Some ''u1'')]
          (vr_mount ''alice'' ''alice_bob'', chat_store)) = chat_store"
  using voice_message_never_sent [of "[VrStarted, VrAudio 100, VrTick, VrSend (Some ''u1''), VrCancel, VrDataEvent, VrSend (Some ''u1'')]"
      "''alice''" "''alice_bob''" chat_store]
  by simp

theorem deleted_chat_history_returns_witness:
  "let cw = chatview_of ''alice'' (new_direct_chat ''alice_bob'' [''alice'', ''bob''] ''alice'' 1);
       s1 = snd (handleDeleteChat (cw, chat_store));
       s2 = snd (handleCreateChat ''bob'' True (home_of ''alice'', s1))
   in chats s1 ''alice_bob'' = None \<and>
      messages s1 ''alice_bob'' = messages chat_store ''alice_bob'' \<and>
      chats s2 ''alice_bob'' \<noteq> None \<and>
      messages s2 ''alice_bob'' = messages chat_store ''alice_bob''"
  using deleted_chat_history_returns [of "chatview_of ''alice'' (new_direct_chat ''alice_bob'' [''alice'', ''bob''] ''alice'' 1)"
      "home_of ''alice''" "''bob''" chat_store True]
  by (simp add: chatview_of_def new_direct_chat_def chat_doc.extend_def direct_chat_id_def)

end
