(* ===== verification/Profile.thy ===== *)
theory Profile
  imports Store
begin

text \<open>
  Authentication and profile: the profile the auth provider creates on first sign-in,
  with its generated handle (src/src/hooks/use-auth.tsx), and the handlers of the
  settings page (src/src/app/settings/page.tsx): the handle availability check, the
  profile form, the avatar, theme and ringtone writes. Firebase Authentication is an
  external collaborator: the signed-in user is an input. Client times (\<open>Date.now()\<close>)
  are inputs; uploads give a URL or fail.
\<close>

section \<open>Strings of a new profile\<close>

text \<open>\<open>x || d\<close> for a string that may be \<open>null\<close>: the empty string is falsy too.\<close>

definition or_else :: "string option \<Rightarrow> string \<Rightarrow> string" where
  "or_else x d = (case x of None \<Rightarrow> d | Some v \<Rightarrow> if v = [] then d else v)"

text \<open>\<open>getDisplayNameFromEmail\<close> (lines 27--30).\<close>

definition getDisplayNameFromEmail :: "string option \<Rightarrow> string" where
  "getDisplayNameFromEmail e = (case e of None \<Rightarrow> ''New User''
                                | Some v \<Rightarrow> if v = [] then ''New User'' else takeWhile (\<lambda>c. c \<noteq> CHR ''@'') v)"

text \<open>\<open>replace(/\s+/g, '_')\<close>: each run of white space becomes one underscore.\<close>

function collapse_ws :: "string \<Rightarrow> string" where
  "collapse_ws [] = []"
| "collapse_ws (c # cs) = (if js_space c then CHR ''_'' # collapse_ws (dropWhile js_space cs) else c # collapse_ws cs)"
  by pat_completeness auto
termination
  by (relation "measure length") (auto simp: le_imp_less_Suc length_dropWhile_le)

text \<open>\<open>[a-z0-9_]\<close>, what \<open>replace(/[^a-z0-9_]/g, '')\<close> keeps.\<close>

definition handle_char :: "char \<Rightarrow> bool" where
  "handle_char c \<longleftrightarrow>
     (97 \<le> (of_char c :: nat) \<and> (of_char c :: nat) \<le> 122) \<or> (48 \<le> (of_char c :: nat) \<and> (of_char c :: nat) \<le> 57) \<or>
     c = CHR ''_''"

text \<open>\<open>String(n).slice(-4)\<close>: the last four digits, or all of them.\<close>

definition last4 :: "nat \<Rightarrow> string" where
  "last4 n = (let d = dec_string n in drop (length d - 4) d)"

text \<open>\<open>generateHandle\<close> (lines 22--25); \<open>now\<close> is \<open>Date.now()\<close>.\<close>

definition generateHandle :: "string option \<Rightarrow> nat \<Rightarrow> string" where
  "generateHandle dn now =
     (case dn of
        None \<Rightarrow> ''user_'' @ dec_string now
      | Some n \<Rightarrow>
          if n = [] then ''user_'' @ dec_string now
          else filter handle_char (collapse_ws (js_lower n)) @ ''_'' @ last4 now)"

text \<open>\<open>encodeURIComponent\<close> on the bytes of a string: the unreserved characters stay,
  every other byte becomes \<open>%XX\<close>.\<close>

definition hex_digit :: "nat \<Rightarrow> char" where
  "hex_digit n = (if n < 10 then char_of (48 + n) else char_of (55 + n))"

definition uri_unreserved :: "char \<Rightarrow> bool" where
  "uri_unreserved c \<longleftrightarrow>
     (65 \<le> (of_char c :: nat) \<and> (of_char c :: nat) \<le> 90) \<or> (97 \<le> (of_char c :: nat) \<and> (of_char c :: nat) \<le> 122) \<or>
     (48 \<le> (of_char c :: nat) \<and> (of_char c :: nat) \<le> 57) \<or> c \<in> set ''-_.!~*()'' \<or> (of_char c :: nat) = 39"

definition encodeURIComponent :: "string \<Rightarrow> string" where
  "encodeURIComponent s =
     concat (map (\<lambda>c. if uri_unreserved c then [c]
                      else [CHR ''%'', hex_digit (of_char c div 16), hex_digit (of_char c mod 16)]) s)"

section \<open>The auth provider\<close>

text \<open>The Firebase user as the provider sees it.\<close>

record auth_user =
  au_uid :: uid
  au_displayName :: "string option"
  au_email :: "string option"
  au_photoURL :: "string option"

record auth_ctx =
  cur_user :: "auth_user option"
  ctx_profile :: "user_doc option"
  loading :: bool

definition default_theme :: theme_settings where
  "default_theme = \<lparr>mode = Some ThemeSystem, primaryColor = Some ''356 79% 56%'',
                    ringtoneUrl = Some ''/sounds/incoming-call.mp3''\<rparr>"

text \<open>The profile written for a user without one (lines 83--99).\<close>

definition new_profile :: "auth_user \<Rightarrow> timestamp \<Rightarrow> nat \<Rightarrow> user_doc" where
  "new_profile au ts now =
     (let dn = or_else (au_displayName au) (getDisplayNameFromEmail (au_email au));
          photo = or_else (au_photoURL au) (''https://api.dicebear.com/8.x/initials/svg?seed='' @ encodeURIComponent dn)
      in \<lparr>user_uid = au_uid au, displayName = dn, email = or_else (au_email au) [], photoURL = photo,
          handle = generateHandle (Some dn) now, user_createdAt = Some ts, theme = default_theme,
          friends = [], blockedUsers = []\<rparr>)"

text \<open>\<open>onAuthStateChanged\<close> (lines 73--123): signed out clears the context; a signed-in
  user without a profile gets one, and the name and photo are synced back to the
  auth record when they were generated; otherwise the profile is read.\<close>

definition onAuthStateChanged :: "auth_user option \<Rightarrow> nat \<Rightarrow> auth_ctx \<times> store \<Rightarrow> auth_ctx \<times> store" where
  "onAuthStateChanged u now cs =
     (let (ctx, s) = cs in
      case u of
        None \<Rightarrow> (ctx\<lparr>cur_user := None, ctx_profile := None, loading := False\<rparr>, s)
      | Some au \<Rightarrow>
          (case map_of (users s) (au_uid au) of
             None \<Rightarrow>
               (let p = new_profile au (clock s) now;
                    au' = (if au_displayName au \<noteq> Some (displayName p) \<or> au_photoURL au \<noteq> Some (photoURL p)
                           then au\<lparr>au_displayName := Some (displayName p), au_photoURL := Some (photoURL p)\<rparr>
                           else au)
                in (ctx\<lparr>cur_user := Some au', ctx_profile := Some p, loading := False\<rparr>,
                    set_user (au_uid au) p s))
           | Some d \<Rightarrow> (ctx\<lparr>cur_user := Some au, ctx_profile := Some d, loading := False\<rparr>, s)))"

section \<open>The settings page\<close>

record settings =
  st_user :: uid
  st_profile :: "user_doc option"
  isHandleAvailable :: "bool option"

text \<open>\<open>profileFormSchema\<close> (lines 30--33), checked before \<open>onSubmit\<close> runs.\<close>

definition form_handle_char :: "char \<Rightarrow> bool" where
  "form_handle_char c \<longleftrightarrow> handle_char c \<or> (65 \<le> (of_char c :: nat) \<and> (of_char c :: nat) \<le> 90)"

definition profile_form_valid :: "string \<Rightarrow> string \<Rightarrow> bool" where
  "profile_form_valid dn h \<longleftrightarrow>
     2 \<le> length dn \<and> length dn \<le> 50 \<and> 3 \<le> length h \<and> length h \<le> 20 \<and> list_all form_handle_char h"

text \<open>The handle check (lines 100--126), run on the debounced value of the handle field:
  nothing for an empty field, unknown below three characters, available when it is my
  current handle, otherwise when no user document has it.\<close>

definition checkHandle :: "string \<Rightarrow> settings \<times> store \<Rightarrow> settings" where
  "checkHandle dh ss =
     (let (st, s) = ss in
      if dh = [] then st
      else if length dh < 3 then st\<lparr>isHandleAvailable := None\<rparr>
      else if Some dh = map_option handle (st_profile st) then st\<lparr>isHandleAvailable := Some True\<rparr>
      else st\<lparr>isHandleAvailable := Some (filter (\<lambda>(_, d). handle d = dh) (users s) = [])\<rparr>)"

text \<open>\<open>onSubmit\<close> (lines 129--167) behind the form validation: refused unless the last
  check said available; otherwise name and handle are written and the profile read
  again; a failed write is caught.\<close>

definition submit_profile :: "string \<Rightarrow> string \<Rightarrow> settings \<times> store \<Rightarrow> settings \<times> store" where
  "submit_profile dn h ss =
     (let (st, s) = ss in
      if \<not> profile_form_valid dn h \<or> isHandleAvailable st \<noteq> Some True then (st, s)
      else (case update_user (st_user st) (\<lambda>d. d\<lparr>displayName := dn, handle := h\<rparr>) s of
              (Some _, s1) \<Rightarrow> (st, s1)
            | (None, s1) \<Rightarrow> (st\<lparr>st_profile := map_of (users s1) (st_user st)\<rparr>, s1)))"

text \<open>The avatar (lines 173--200), theme (lines 228--260) and ringtone (lines 202--225,
  262--275) writes; each reads the profile again after writing.\<close>

definition settings_write :: "(user_doc \<Rightarrow> user_doc) \<Rightarrow> settings \<times> store \<Rightarrow> settings \<times> store" where
  "settings_write f ss =
     (let (st, s) = ss in
      case update_user (st_user st) f s of
        (Some _, s1) \<Rightarrow> (st, s1)
      | (None, s1) \<Rightarrow> (st\<lparr>st_profile := map_of (users s1) (st_user st)\<rparr>, s1))"

definition handleAvatarFileChange :: "string option \<Rightarrow> settings \<times> store \<Rightarrow> settings \<times> store" where
  "handleAvatarFileChange upload ss =
     (case upload of None \<Rightarrow> ss | Some url \<Rightarrow> settings_write (\<lambda>d. d\<lparr>photoURL := url\<rparr>) ss)"

definition handleThemeChange :: "theme_mode \<Rightarrow> string option \<Rightarrow> settings \<times> store \<Rightarrow> settings \<times> store" where
  "handleThemeChange m c ss =
     (let current = (case st_profile (fst ss) of None \<Rightarrow> None | Some p \<Rightarrow> primaryColor (theme p));
          col = or_else c (or_else current ''356 79% 56%'')
      in settings_write (\<lambda>d. d\<lparr>theme := (theme d)\<lparr>mode := Some m, primaryColor := Some col\<rparr>\<rparr>) ss)"

definition handleRingtoneChange :: "string \<Rightarrow> settings \<times> store \<Rightarrow> settings \<times> store" where
  "handleRingtoneChange r ss = settings_write (\<lambda>d. d\<lparr>theme := (theme d)\<lparr>ringtoneUrl := Some r\<rparr>\<rparr>) ss"

definition handleRingtoneFileChange :: "string option \<Rightarrow> settings \<times> store \<Rightarrow> settings \<times> store" where
  "handleRingtoneFileChange upload ss =
     (case upload of None \<Rightarrow> ss | Some url \<Rightarrow> handleRingtoneChange url ss)"

section \<open>Fixtures\<close>

text \<open>alice and bob, bob holding the handle \<open>bob_1\<close>; alice's settings page.\<close>

definition profile_store :: store where
  "profile_store = \<lparr>calls = Map.empty, callerCandidates = (\<lambda>_. []), calleeCandidates = (\<lambda>_. []),
                   chats = Map.empty, messages = (\<lambda>_. []),
                   users = [(''alice'', blank_user ''alice''), (''bob'', (blank_user ''bob'')\<lparr>handle := ''bob_1''\<rparr>)],
                   friendRequests = [], clock = 5\<rparr>"

definition alice_settings :: settings where
  "alice_settings = \<lparr>st_user = ''alice'', st_profile = Some (blank_user ''alice''), isHandleAvailable = None\<rparr>"

section \<open>Lemmas\<close>

lemma checkHandle_free:
  "dh \<noteq> [] \<Longrightarrow> 3 \<le> length dh \<Longrightarrow> map_option handle (st_profile st) \<noteq> Some dh \<Longrightarrow>
   filter (\<lambda>(_, d). handle d = dh) (users s) = [] \<Longrightarrow>
   checkHandle dh (st, s) = st\<lparr>isHandleAvailable := Some True\<rparr>"
  by (auto simp: checkHandle_def)

lemma list_all_handle_digits: "list_all handle_char (dec_string n)"
proof (induction n rule: dec_string.induct)
  case (1 n)
  have d: "handle_char (char_of (48 + k))" if "k < 10" for k :: nat
    using that by (simp add: handle_char_def)
  show ?case
    using 1 d [of n] d [of "n mod 10"] by (subst dec_string.simps) (auto simp: Let_def)
qed

theorem generated_handle_chars:
  "list_all handle_char (generateHandle dn now)"
proof -
  have "list_all handle_char (last4 now)"
    using list_all_handle_digits [of now] by (auto simp: last4_def Let_def list_all_iff dest: in_set_dropD)
  moreover have "list_all handle_char ''user_''" by (simp add: handle_char_def)
  moreover have "handle_char CHR ''_''" by (simp add: handle_char_def)
  ultimately show ?thesis
    using list_all_handle_digits [of now]
    by (auto simp: generateHandle_def list_all_iff split: option.splits)
qed

text \<open>A handle generated from a long name does not pass the settings form.\<close>

lemma generated_handle_rejected:
  "\<not> profile_form_valid ''Alexandra Montgomery'' (generateHandle (Some ''Alexandra Montgomery'') 1700000001234)"
  by (simp add: profile_form_valid_def generateHandle_def last4_def dec_string.simps collapse_ws.simps
      js_lower_def js_lower_char_def js_space_def handle_char_def)

section \<open>Properties\<close>

text \<open>C35: The availability shown is that of the handle last checked, not of the handle submitted: after a check found a free handle, submitting the form with a handle another user holds writes it, and two profiles share the handle.\<close>

theorem checked_handle_not_submitted:
  assumes "map_of (users s) (st_user st) = Some d" and "map_of (users s) v = Some dv"
    and "v \<noteq> st_user st" and "handle dv = h" and "profile_form_valid dn h"
    and "3 \<le> length h0" and "map_option handle (st_profile st) \<noteq> Some h0"
    and "filter (\<lambda>(_, d). handle d = h0) (users s) = []"
  shows "let s' = snd (submit_profile dn h (checkHandle h0 (st, s), s))
         in handle (the (map_of (users s') (st_user st))) = h \<and> handle (the (map_of (users s') v)) = h"
proof -
  have "h0 \<noteq> []" using assms(6) by auto
  then have c: "checkHandle h0 (st, s) = st\<lparr>isHandleAvailable := Some True\<rparr>"
    using assms(6-8) by (rule checkHandle_free)
  show ?thesis
    using assms(1-5) by (simp add: c submit_profile_def update_user_found update_conv')
qed

section \<open>Witnesses\<close>

theorem checked_handle_not_submitted_witness:
  "let s' = snd (submit_profile ''Alice'' ''bob_1'' (checkHandle ''zed'' (alice_settings, profile_store), profile_store))
   in handle (the (map_of (users s') ''alice'')) = ''bob_1'' \<and> handle (the (map_of (users s') ''bob'')) = ''bob_1''"
  using checked_handle_not_submitted [of profile_store alice_settings "blank_user ''alice''" "''bob''"
      "(blank_user ''bob'')\<lparr>handle := ''bob_1''\<rparr>" "''bob_1''" "''Alice''" "''zed''"]
  by (simp add: profile_store_def alice_settings_def blank_user_def profile_form_valid_def form_handle_char_def handle_char_def)

end
