(* ===== verification/Widgets.thy ===== *)
theory Widgets
  imports Social Messaging Profile
begin

text \<open>
  Presentation helpers that carry logic: what the home page renders for a call
  (src/src/app/page.tsx), the incoming-call dialog
  (src/src/components/incoming-call-dialog.tsx), the call timer
  (src/src/components/call-view.tsx), the voice-message player
  (src/src/components/chat-view.tsx), and the users listener of page.tsx.
\<close>

section \<open>The home page\<close>

text \<open>\<open>if (activeCall && selectedChat)\<close> (line 541): the call screen replaces the page
  only when a chat is selected too.\<close>

definition call_screen_shown :: "page \<Rightarrow> bool" where
  "call_screen_shown p \<longleftrightarrow> activeCall p \<noteq> None \<and> selectedChat p \<noteq> None"

text \<open>The users listener (lines 111--119): all user documents.\<close>

definition users_snapshot :: "store \<Rightarrow> home \<Rightarrow> home" where
  "users_snapshot s h = h\<lparr>allUsers := users s\<rparr>"

section \<open>The incoming-call dialog\<close>

text \<open>\<open>handleAction\<close> (lines 31--40), wired to \<open>handleCallAction\<close> of the page (page.tsx
  line 810); the dialog renders only when the caller's profile was found (line 42).\<close>

definition dialog_handleAction :: "call_action \<Rightarrow> client \<Rightarrow> (store_error, client) outcome" where
  "dialog_handleAction act ps =
     (case incomingCall (fst ps) of
        None \<Rightarrow> (None, ps)
      | Some c \<Rightarrow> handleCallAction c act ps)"

text \<open>\<open>ringtoneSrc\<close> (line 44) and the dialog's \<open>getInitials\<close> (lines 12--19), which
  prints \<open>?\<close> for an empty name.\<close>

definition ringtone_src :: "user_doc option \<Rightarrow> string" where
  "ringtone_src p =
     or_else (case p of None \<Rightarrow> None | Some d \<Rightarrow> ringtoneUrl (theme d)) ''/sounds/incoming-call.mp3''"

definition dialog_getInitials :: "string \<Rightarrow> string" where
  "dialog_getInitials name = (if name = [] then ''?'' else getInitials name)"

section \<open>Timers and players\<close>

text \<open>The \<open>CallTimer\<close> tick (call-view.tsx lines 29--41): the whole seconds since the
  start, 0 without a start.\<close>

definition call_timer_seconds :: "timestamp option \<Rightarrow> timestamp \<Rightarrow> seconds" where
  "call_timer_seconds start now = (case start of None \<Rightarrow> 0 | Some t \<Rightarrow> (now - t) div 1000)"

text \<open>The voice-message player (chat-view.tsx lines 78--110): play/pause flips the
  state when the audio element exists, and the length shows as \<open>m:ss\<close>.\<close>

definition player_toggle :: "bool \<Rightarrow> bool \<Rightarrow> bool" where
  "player_toggle has_audio isPlaying = (if has_audio then \<not> isPlaying else isPlaying)"

definition player_duration_text :: "seconds \<Rightarrow> string" where
  "player_duration_text d = dec_string (d div 60) @ '':'' @ pad_start 2 (CHR ''0'') (dec_string (d mod 60))"

section \<open>Lemmas\<close>

text \<open>An accepted call whose chat document is gone becomes the active call, but no chat
  is selected, so the call screen never appears: no negotiation starts on the callee's
  side.\<close>

lemma accept_without_chat_no_screen:
  assumes "calls s (call_key c) = Some d" and "chats s (chatId c) = None" and "selectedChat p = None"
  shows "\<exists>p'. handleCallAction c Accept (p, s) = (None, (p', s\<lparr>calls := (calls s)(call_key c \<mapsto> d\<lparr>status := Connected\<rparr>)\<rparr>)) \<and>
              activeCall p' = Some c \<and> \<not> call_screen_shown p'"
  using assms by (simp add: handleCallAction_def update_call_def call_screen_shown_def Let_def)

end
