(* ===== verification/CallMachine.thy ===== *)
theory CallMachine
  imports Widgets
begin

text \<open>
  The Call State Machine (spec section 4.3) as the two clients run it. The specification
  names the status of the call document as the authoritative state and lists its legal
  transitions; the sources never write that automaton down: each client moves the status
  from its own handlers (src/src/app/page.tsx) and from the call screen it mounts
  (src/src/components/call-view.tsx). This theory composes the handlers of the
  Orchestrator into one nondeterministic step relation of a caller, a callee and the
  store, for one call \<open>k\<close> in one chat, and relates it to the specification's automaton:
  every step moves the status along a transition of the specification or along one of
  three transitions the code adds, which no reachable state of the specification has.
\<close>

section \<open>The automaton of the specification\<close>

text \<open>Spec section 4.3 over the status of the document, \<open>None\<close> before it exists: the
  caller creates it ringing; only the callee accepts or declines; either participant
  ends a ringing or connected call; \<open>declined\<close> and \<open>ended\<close> are terminal.\<close>

inductive spec_step :: "role \<Rightarrow> call_status option \<Rightarrow> call_status option \<Rightarrow> bool" where
  create: "spec_step CallerRole None (Some Ringing)"
| accept: "spec_step CalleeRole (Some Ringing) (Some Connected)"
| decline: "spec_step CalleeRole (Some Ringing) (Some Declined)"
| cancel: "spec_step r (Some Ringing) (Some Ended)"
| hang_up: "spec_step r (Some Connected) (Some Ended)"

text \<open>The transitions the code makes besides: the callee's prompt outlives a cancelled
  call, so accepting or declining it rewrites \<open>ended\<close>; the caller's end handler guards
  only against \<open>ended\<close>, so it rewrites \<open>declined\<close>.\<close>

inductive stale_step :: "role \<Rightarrow> call_status option \<Rightarrow> call_status option \<Rightarrow> bool" where
  stale_accept: "stale_step CalleeRole (Some Ended) (Some Connected)"
| stale_decline: "stale_step CalleeRole (Some Ended) (Some Declined)"
| end_declined: "stale_step CallerRole (Some Declined) (Some Ended)"

text \<open>A move of the status by a participant that the code may make: none, one of the
  specification, or one of the three it adds.\<close>

definition moves_ok :: "role \<Rightarrow> call_status option \<Rightarrow> call_status option \<Rightarrow> bool" where
  "moves_ok r a b \<longleftrightarrow> b = a \<or> spec_step r a b \<or> stale_step r a b"

section \<open>The two clients\<close>

text \<open>The call screen of one client: not mounted yet, mounted with the call it was
  rendered for (\<open>initialCallState\<close>), or done (its \<open>callEndedRef\<close> is set, or it was
  unmounted).\<close>

datatype view = NoView | Viewing call_doc | Closed

definition viewing :: "view \<Rightarrow> bool" where
  "viewing v = (case v of Viewing _ \<Rightarrow> True | _ \<Rightarrow> False)"

record sys =
  callerPage :: page
  calleePage :: page
  callerView :: view
  calleeView :: view
  sstore :: store

definition side_page :: "role \<Rightarrow> sys \<Rightarrow> page" where
  "side_page r S = (case r of CallerRole \<Rightarrow> callerPage S | CalleeRole \<Rightarrow> calleePage S)"

definition side_view :: "role \<Rightarrow> sys \<Rightarrow> view" where
  "side_view r S = (case r of CallerRole \<Rightarrow> callerView S | CalleeRole \<Rightarrow> calleeView S)"

definition put_side :: "role \<Rightarrow> page \<Rightarrow> view \<Rightarrow> sys \<Rightarrow> sys" where
  "put_side r p v S =
     (case r of CallerRole \<Rightarrow> S\<lparr>callerPage := p, callerView := v\<rparr>
              | CalleeRole \<Rightarrow> S\<lparr>calleePage := p, calleeView := v\<rparr>)"

text \<open>
  One step of one client, labelled with the client that takes it:
  \<^item> \<open>initiate\<close>: the caller's \<open>handleInitiateCall\<close> creates call \<open>k\<close> in chat \<open>ch\<close>;
  \<^item> \<open>notice\<close>: the callee's incoming-call listener is delivered the ringing document
    as an added change;
  \<^item> \<open>respond\<close>: the callee presses accept or decline on the prompt it shows
    (\<open>IncomingCallDialog\<close>, page.tsx line 810); the prompt holds the copy it was raised
    with;
  \<^item> \<open>open_chat\<close>: a client selects a chat;
  \<^item> \<open>listen\<close>: a client's ongoing-call listener is delivered the current document;
  \<^item> \<open>mount\<close>, \<open>unmount\<close>: the page renders \<open>CallView\<close> exactly when it has an active call
    and a selected chat (lines 541--549);
  \<^item> \<open>hang_up\<close>: the mounted call screen calls \<open>onEndCall\<close>, from its button, its
    document listener or its connection-state callback; the page's \<open>handleEndCall\<close>
    then sees either the active call of the render the screen was mounted in or the
    current one. The screen reports an end once.
  The screen's own writes (offer, answer, candidates) do not touch the status and are
  left out here; the Signaling theory models them.
\<close>

inductive cm_step :: "chat_doc \<Rightarrow> media_kind \<Rightarrow> call_id \<Rightarrow> sys \<Rightarrow> role \<Rightarrow> sys \<Rightarrow> bool"
  for ch ty k where
  initiate: "calls (sstore S) k = None \<Longrightarrow>
     handleInitiateCall ch ty k (callerPage S, sstore S) = (p', s') \<Longrightarrow>
     cm_step ch ty k S CallerRole (S\<lparr>callerPage := p', sstore := s'\<rparr>)"
| notice: "calls (sstore S) k = Some d \<Longrightarrow> status d = Ringing \<Longrightarrow> calleeId d = me (calleePage S) \<Longrightarrow>
     cm_step ch ty k S CalleeRole (S\<lparr>calleePage := incoming_snapshot [(Added, d)] (calleePage S) (sstore S)\<rparr>)"
| respond: "incomingCall (calleePage S) = Some c \<Longrightarrow>
     handleCallAction c act (calleePage S, sstore S) = (e, (p', s')) \<Longrightarrow>
     cm_step ch ty k S CalleeRole (S\<lparr>calleePage := p', sstore := s'\<rparr>)"
| open_chat: "chats (sstore S) cid \<noteq> None \<Longrightarrow>
     cm_step ch ty k S r (put_side r ((side_page r S)\<lparr>selectedChat := Some cid\<rparr>) (side_view r S) S)"
| listen: "cm_step ch ty k S r (put_side r (ongoing_snapshot (side_page r S) (sstore S)) (side_view r S) S)"
| mount: "call_screen_shown (side_page r S) \<Longrightarrow> activeCall (side_page r S) = Some c \<Longrightarrow>
     \<not> viewing (side_view r S) \<Longrightarrow>
     cm_step ch ty k S r (put_side r (side_page r S) (Viewing c) S)"
| unmount: "side_view r S = Viewing c \<Longrightarrow> \<not> call_screen_shown (side_page r S) \<Longrightarrow>
     cm_step ch ty k S r (put_side r (side_page r S) Closed S)"
| hang_up: "side_view r S = Viewing c \<Longrightarrow> ac = Some c \<or> ac = activeCall (side_page r S) \<Longrightarrow>
     handleEndCall ac dur (side_page r S, sstore S) = (e, (p', s')) \<Longrightarrow>
     cm_step ch ty k S r (put_side r p' Closed (S\<lparr>sstore := s'\<rparr>))"

text \<open>The start: two signed-in users with a direct chat, nothing on screen, no call
  \<open>k\<close> yet.\<close>

definition cm_init :: "chat_doc \<Rightarrow> call_id \<Rightarrow> sys \<Rightarrow> bool" where
  "cm_init ch k S \<longleftrightarrow>
     chat_members ch = [me (callerPage S), me (calleePage S)] \<and> me (callerPage S) \<noteq> me (calleePage S) \<and>
     chats (sstore S) (chat_key ch) \<noteq> None \<and> calls (sstore S) k = None \<and>
     incomingCall (callerPage S) = None \<and> activeCall (callerPage S) = None \<and>
     incomingCall (calleePage S) = None \<and> activeCall (calleePage S) = None \<and>
     callerView S = NoView \<and> calleeView S = NoView"

inductive reach :: "chat_doc \<Rightarrow> media_kind \<Rightarrow> call_id \<Rightarrow> sys \<Rightarrow> bool" for ch ty k where
  start: "cm_init ch k S \<Longrightarrow> reach ch ty k S"
| step: "reach ch ty k S \<Longrightarrow> cm_step ch ty k S r S' \<Longrightarrow> reach ch ty k S'"

text \<open>The abstraction: the status of call \<open>k\<close>.\<close>

definition call_state :: "call_id \<Rightarrow> sys \<Rightarrow> call_status option" where
  "call_state k S = map_option status (calls (sstore S) k)"

text \<open>A step of either client, and the states in which the call is over for both: its
  status is terminal (or it was never created), no prompt is up, neither client holds
  an active call, and no call screen is mounted.\<close>

definition cm_any :: "chat_doc \<Rightarrow> media_kind \<Rightarrow> call_id \<Rightarrow> sys \<Rightarrow> sys \<Rightarrow> bool" where
  "cm_any ch ty k S S' \<longleftrightarrow> (\<exists>r. cm_step ch ty k S r S')"

definition settled :: "call_id \<Rightarrow> sys \<Rightarrow> bool" where
  "settled k S \<longleftrightarrow>
     (call_state k S = None \<or> call_state k S = Some Ended \<or> call_state k S = Some Declined) \<and>
     incomingCall (calleePage S) = None \<and>
     activeCall (callerPage S) = None \<and> activeCall (calleePage S) = None \<and>
     \<not> viewing (callerView S) \<and> \<not> viewing (calleeView S)"

section \<open>The invariant of the two clients\<close>

text \<open>Every copy of the call a client holds (prompt, active call, mounted screen) is a
  copy of call \<open>k\<close> of chat \<open>ch\<close>.\<close>

definition keyed :: "chat_doc \<Rightarrow> call_id \<Rightarrow> call_doc \<Rightarrow> bool" where
  "keyed ch k c \<longleftrightarrow> call_key c = k \<and> chatId c = chat_key ch"

definition view_keyed :: "chat_doc \<Rightarrow> call_id \<Rightarrow> view \<Rightarrow> bool" where
  "view_keyed ch k v = (case v of Viewing c \<Rightarrow> keyed ch k c | _ \<Rightarrow> True)"

text \<open>The document of call \<open>k\<close>, once written, is call \<open>k\<close> of chat \<open>ch\<close> between the
  two clients, and its status is never \<open>missed\<close>.\<close>

definition doc_shape :: "chat_doc \<Rightarrow> call_id \<Rightarrow> sys \<Rightarrow> bool" where
  "doc_shape ch k S \<longleftrightarrow>
     (case calls (sstore S) k of
        None \<Rightarrow> True
      | Some d \<Rightarrow> keyed ch k d \<and> callerId d = me (callerPage S) \<and> calleeId d = me (calleePage S) \<and>
                  status d \<noteq> Missed)"

text \<open>What the status says about the caller: no prompt, and while the call rings the
  caller holds it as its active call.\<close>

definition caller_ok :: "chat_doc \<Rightarrow> call_id \<Rightarrow> call_status option \<Rightarrow> page \<Rightarrow> view \<Rightarrow> bool" where
  "caller_ok ch k st a v \<longleftrightarrow>
     incomingCall a = None \<and> pred_option (keyed ch k) (activeCall a) \<and> view_keyed ch k v \<and>
     (st = Some Ringing \<longrightarrow> activeCall a \<noteq> None)"

text \<open>What the status says about the callee: a prompt is up only without an active call
  or a screen, and only while the call rings or after it ended; before the call and
  while it rings the callee has no active call and no screen; while connected the callee
  holds it as its active call; once declined the callee has nothing.\<close>

definition callee_ok :: "chat_doc \<Rightarrow> call_id \<Rightarrow> call_status option \<Rightarrow> page \<Rightarrow> view \<Rightarrow> bool" where
  "callee_ok ch k st b v \<longleftrightarrow>
     pred_option (keyed ch k) (incomingCall b) \<and> pred_option (keyed ch k) (activeCall b) \<and>
     view_keyed ch k v \<and>
     (incomingCall b \<noteq> None \<longrightarrow> activeCall b = None \<and> v = NoView \<and> (st = Some Ringing \<or> st = Some Ended)) \<and>
     (st = None \<longrightarrow> incomingCall b = None \<and> activeCall b = None \<and> v = NoView) \<and>
     (st = Some Ringing \<longrightarrow> activeCall b = None \<and> v = NoView) \<and>
     (st = Some Connected \<longrightarrow> activeCall b \<noteq> None) \<and>
     (st = Some Declined \<longrightarrow> activeCall b = None \<and> \<not> viewing v \<and> incomingCall b = None)"

definition cm_inv :: "chat_doc \<Rightarrow> call_id \<Rightarrow> sys \<Rightarrow> bool" where
  "cm_inv ch k S \<longleftrightarrow>
     List.find (\<lambda>m. m \<noteq> me (callerPage S)) (chat_members ch) = Some (me (calleePage S)) \<and>
     chats (sstore S) (chat_key ch) \<noteq> None \<and> doc_shape ch k S \<and>
     caller_ok ch k (call_state k S) (callerPage S) (callerView S) \<and>
     callee_ok ch k (call_state k S) (calleePage S) (calleeView S)"

text \<open>The status an answer to the prompt writes.\<close>

definition action_status :: "call_action \<Rightarrow> call_status" where
  "action_status act = (case act of Accept \<Rightarrow> Connected | Decline \<Rightarrow> Declined)"

section \<open>Fixtures\<close>

text \<open>alice and bob with their direct chat \<open>c1\<close>; alice calls (\<open>k1\<close>), bob's prompt comes
  up, alice cancels from her call screen, and bob then accepts the prompt.\<close>

definition cm_start :: sys where
  "cm_start = \<lparr>callerPage = idle_page ''alice'', calleePage = idle_page ''bob'',
               callerView = NoView, calleeView = NoView, sstore = demo_store\<rparr>"

definition cm_rung :: sys where
  "cm_rung = cm_start\<lparr>callerPage := (idle_page ''alice'')\<lparr>activeCall := Some demo_call\<rparr>, sstore := ringing_store\<rparr>"

definition cm_prompted :: sys where
  "cm_prompted = cm_rung\<lparr>calleePage := (idle_page ''bob'')\<lparr>incomingCall := Some demo_call\<rparr>\<rparr>"

definition alice_on_call :: page where
  "alice_on_call = (idle_page ''alice'')\<lparr>activeCall := Some demo_call, selectedChat := Some ''c1''\<rparr>"

definition cm_viewing :: sys where
  "cm_viewing = cm_prompted\<lparr>callerPage := alice_on_call, callerView := Viewing demo_call\<rparr>"

definition cancelled_store :: store where
  "cancelled_store = snd (snd (handleEndCall (Some demo_call) 0 (alice_on_call, ringing_store)))"

definition cm_cancelled :: sys where
  "cm_cancelled = cm_viewing\<lparr>callerPage := alice_on_call\<lparr>activeCall := None\<rparr>, callerView := Closed,
                              sstore := cancelled_store\<rparr>"

definition cm_resurrected :: sys where
  "cm_resurrected =
     (let (e, p', s') = handleCallAction demo_call Accept (calleePage cm_cancelled, sstore cm_cancelled)
      in cm_cancelled\<lparr>calleePage := p', sstore := s'\<rparr>)"

text \<open>The other order: alice is on her call screen when bob declines, and her end
  handler then runs.\<close>

definition cm_declined :: sys where
  "cm_declined =
     (let (e, p', s') = handleCallAction demo_call Decline (calleePage cm_viewing, sstore cm_viewing)
      in cm_viewing\<lparr>calleePage := p', sstore := s'\<rparr>)"

definition cm_overwritten :: sys where
  "cm_overwritten =
     (let (e, p', s') = handleEndCall (Some demo_call) 0 (callerPage cm_declined, sstore cm_declined)
      in put_side CallerRole p' Closed (cm_declined\<lparr>sstore := s'\<rparr>))"

section \<open>Lemmas: what the handlers do to the call and the pages\<close>

text \<open>\<open>handleEndCall\<close> either changes nothing (no call given, or a write rejected
  before the status was written), or clears the active call and marks the call it was
  given ended when it was not ended yet.\<close>

lemma handleEndCall_cases:
  assumes "handleEndCall ac dur (p, s) = (e, (p', s'))"
  shows "(p' = p \<and> calls s' = calls s) \<or>
         (\<exists>c. ac = Some c \<and> p' = p\<lparr>activeCall := None\<rparr> \<and>
              (calls s' = calls s \<and> pred_option (\<lambda>d. status d = Ended) (calls s (call_key c)) \<or>
               (\<exists>d. calls s (call_key c) = Some d \<and> status d \<noteq> Ended \<and>
                    calls s' = (calls s)(call_key c \<mapsto> d\<lparr>status := Ended, endedAt := Some (clock s)\<rparr>))))"
proof (cases ac)
  case None
  with assms show ?thesis by simp
next
  case (Some c)
  show ?thesis
  proof (cases "calls s (call_key c)")
    case None
    with assms Some show ?thesis by (simp add: handleEndCall_nothing end_read_missing)
  next
    case (Some d)
    show ?thesis
    proof (cases "status d = Ended")
      case True
      with Some assms \<open>ac = Some c\<close> show ?thesis by (simp add: handleEndCall_nothing end_read_Ended)
    next
      case False
      obtain e1 s1 where l: "end_log c (status d = Ringing) (callerId d = me p) dur s = (e1, s1)"
        by fastforce
      have c1: "calls s1 = calls s" "clock s1 = clock s"
        using end_log_frame [of c "status d = Ringing" "callerId d = me p" dur s] l by simp_all
      from assms \<open>ac = Some c\<close> Some False l c1 show ?thesis
        by (cases e1) (auto simp: handleEndCall_def end_read_live end_write_def end_mark_def
                                 update_call_def split: prod.splits option.splits)
    qed
  qed
qed

lemma end_log_chats [simp]: "dom (chats (snd (end_log c missed caller dur s))) = dom (chats s)"
  by (auto simp: end_log_def createCallMessage_def Let_def update_chat_def split: option.splits)

lemma end_write_chats: "dom (chats (snd (end_write c pl dur s))) = dom (chats s)"
proof (cases pl)
  case EndNothing
  then show ?thesis by (simp add: end_write_def)
next
  case (EndRecord missed caller)
  obtain e1 s1 where l: "end_log c missed caller dur s = (e1, s1)" by fastforce
  have d: "dom (chats s1) = dom (chats s)" using end_log_chats [of c missed caller dur s] l by simp
  show ?thesis
  proof (cases e1)
    case None
    with EndRecord l d show ?thesis by (simp add: end_write_def end_mark_def)
  next
    case (Some x)
    with EndRecord l d show ?thesis by (simp add: end_write_def)
  qed
qed

lemma handleEndCall_chats:
  assumes "handleEndCall ac dur (p, s) = (e, (p', s'))"
  shows "dom (chats s') = dom (chats s)"
proof (cases ac)
  case None
  with assms show ?thesis by simp
next
  case (Some c)
  let ?w = "end_write c (end_read c (me p) s) dur s"
  from assms Some have "s' = snd ?w"
    by (cases ?w) (auto simp: handleEndCall_def split: option.splits)
  with end_write_chats show ?thesis by simp
qed

text \<open>\<open>handleCallAction\<close> writes the status its action names into the call it was
  given, whatever that call's status, or nothing when the document is gone.\<close>

lemma createCallMessage_dom [simp]: "dom (chats (snd (createCallMessage c st d s))) = dom (chats s)"
  by (auto simp: createCallMessage_def Let_def update_chat_def split: option.splits)

lemma createCallMessage_pair:
  assumes "createCallMessage c st d s = (e, s')"
  shows "calls s' = calls s" "dom (chats s') = dom (chats s)"
  using createCallMessage_frame(1) [of c st d s] createCallMessage_dom [of c st d s] assms by simp_all

lemma handleCallAction_calls:
  assumes "handleCallAction c act (p, s) = (e, (p', s'))"
  shows "calls s' = calls s \<or>
         (\<exists>d. calls s (call_key c) = Some d \<and>
              calls s' = (calls s)(call_key c \<mapsto> d\<lparr>status := action_status act\<rparr>))"
  using assms
  by (cases act; cases "calls s (call_key c)")
     (auto simp: handleCallAction_def update_call_def action_status_def Let_def
           split: prod.splits option.splits dest: createCallMessage_pair)

lemma handleCallAction_chats:
  assumes "handleCallAction c act (p, s) = (e, (p', s'))"
  shows "dom (chats s') = dom (chats s)"
proof -
  have "dom (chats (snd (snd (handleCallAction c act (p, s))))) = dom (chats s)"
    by (cases act; cases "calls s (call_key c)")
       (auto simp: handleCallAction_def update_call_def Let_def prod.case_eq_if split: option.splits)
  with assms show ?thesis by simp
qed

lemma handleCallAction_page:
  assumes "handleCallAction c act (p, s) = (e, (p', s'))"
  shows "me p' = me p"
  using assms
  by (cases act; cases "calls s (call_key c)")
     (auto simp: handleCallAction_def update_call_def Let_def split: prod.splits option.splits)

text \<open>With the document and its chat present, both actions return normally and take the
  prompt down; accepting makes the prompt's copy the active call.\<close>

lemma handleCallAction_ok:
  assumes "calls s (call_key c) = Some d" and "chats s (chatId c) \<noteq> None"
    and "handleCallAction c act (p, s) = (e, (p', s'))"
  shows "e = None \<and> incomingCall p' = None \<and>
         calls s' = (calls s)(call_key c \<mapsto> d\<lparr>status := action_status act\<rparr>) \<and>
         activeCall p' = (if act = Accept then Some c else activeCall p)"
proof (cases act)
  case Accept
  with assms show ?thesis
    by (auto simp: handleCallAction_def update_call_def action_status_def Let_def split: option.splits)
next
  case Decline
  with assms(3) decline_ok [OF assms(1,2), of p]
  have "e = None" "p' = p\<lparr>incomingCall := None\<rparr>"
    "s' = snd (createCallMessage c OutcomeMissed None (s\<lparr>calls := (calls s)(call_key c \<mapsto> d\<lparr>status := Declined\<rparr>)\<rparr>))"
    by simp_all
  with Decline show ?thesis by (simp add: action_status_def)
qed

text \<open>The listeners touch only the page.\<close>

lemma ongoing_snapshot_fields [simp]:
  "me (ongoing_snapshot p s) = me p" "incomingCall (ongoing_snapshot p s) = incomingCall p"
  "selectedChat (ongoing_snapshot p s) = selectedChat p"
  by (simp_all add: ongoing_snapshot_def split: option.splits)

lemma ongoing_snapshot_active:
  "activeCall (ongoing_snapshot p s) = None \<or>
   (\<exists>c. activeCall p = Some c \<and> activeCall (ongoing_snapshot p s) = calls s (call_key c))"
  by (auto simp: ongoing_snapshot_def split: option.splits)

lemma incoming_snapshot_fields [simp]:
  "me (incoming_snapshot chs p s) = me p" "activeCall (incoming_snapshot chs p s) = activeCall p"
  "selectedChat (incoming_snapshot chs p s) = selectedChat p"
  by (simp_all add: incoming_snapshot_def split: list.splits prod.splits)

lemma incoming_snapshot_added:
  "incomingCall (incoming_snapshot [(Added, d)] p s) = incomingCall p \<or>
   incomingCall (incoming_snapshot [(Added, d)] p s) = Some d"
  by (simp add: incoming_snapshot_def)

text \<open>Initiating from a chat whose other member is \<open>b\<close> writes the ringing call and makes
  it the active call.\<close>

lemma handleInitiateCall_ok:
  assumes "List.find (\<lambda>m. m \<noteq> me p) (chat_members ch) = Some b"
  shows "handleInitiateCall ch ty k (p, s) =
           (p\<lparr>activeCall := Some (new_call ch ty k (me p) b (clock s))\<rparr>,
            set_call (new_call ch ty k (me p) b (clock s)) s)"
  using assms by (simp add: handleInitiateCall_def set_call_def new_call_def Let_def)

lemma new_call_fields [simp]:
  "call_key (new_call ch ty k a b ts) = k" "chatId (new_call ch ty k a b ts) = chat_key ch"
  "callerId (new_call ch ty k a b ts) = a" "calleeId (new_call ch ty k a b ts) = b"
  "status (new_call ch ty k a b ts) = Ringing"
  by (simp_all add: new_call_def)

lemma side_put [simp]:
  "side_page r (put_side r p v S) = p" "side_view r (put_side r p v S) = v"
  "sstore (put_side r p v S) = sstore S"
  by (cases r; simp add: side_page_def side_view_def put_side_def)+

section \<open>Lemmas: every step keeps the invariant\<close>

lemma view_simps [simp]:
  "view_keyed ch k NoView" "view_keyed ch k Closed" "view_keyed ch k (Viewing c) = keyed ch k c"
  "\<not> viewing NoView" "\<not> viewing Closed" "viewing (Viewing c)"
  by (simp_all add: view_keyed_def viewing_def)

lemma keyed_update [simp]:
  "keyed ch k (d\<lparr>status := x\<rparr>) = keyed ch k d"
  "keyed ch k (d\<lparr>status := x, endedAt := t\<rparr>) = keyed ch k d"
  by (simp_all add: keyed_def)

lemma side_simps [simp]:
  "side_page CallerRole S = callerPage S" "side_page CalleeRole S = calleePage S"
  "side_view CallerRole S = callerView S" "side_view CalleeRole S = calleeView S"
  "callerPage (put_side CallerRole p v S) = p" "callerView (put_side CallerRole p v S) = v"
  "calleePage (put_side CallerRole p v S) = calleePage S" "calleeView (put_side CallerRole p v S) = calleeView S"
  "calleePage (put_side CalleeRole p v S) = p" "calleeView (put_side CalleeRole p v S) = v"
  "callerPage (put_side CalleeRole p v S) = callerPage S" "callerView (put_side CalleeRole p v S) = callerView S"
  "call_state k (put_side r p v S) = call_state k S"
  by (simp_all add: side_page_def side_view_def put_side_def call_state_def split: role.splits)

lemma ok_selected [simp]:
  "caller_ok ch k st (p\<lparr>selectedChat := x\<rparr>) v = caller_ok ch k st p v"
  "callee_ok ch k st (p\<lparr>selectedChat := x\<rparr>) v = callee_ok ch k st p v"
  by (simp_all add: caller_ok_def callee_ok_def)

text \<open>A step of one client that leaves the store alone keeps the invariant when it keeps
  that client's part.\<close>

lemma put_caller_inv:
  "cm_inv ch k S \<Longrightarrow> me p = me (callerPage S) \<Longrightarrow> caller_ok ch k (call_state k S) p v \<Longrightarrow>
   cm_inv ch k (put_side CallerRole p v S)"
  by (simp add: cm_inv_def doc_shape_def put_side_def call_state_def split: option.splits)

lemma put_callee_inv:
  "cm_inv ch k S \<Longrightarrow> me p = me (calleePage S) \<Longrightarrow> callee_ok ch k (call_state k S) p v \<Longrightarrow>
   cm_inv ch k (put_side CalleeRole p v S)"
  by (simp add: cm_inv_def doc_shape_def put_side_def call_state_def split: option.splits)

lemma cm_init_inv: "cm_init ch k S \<Longrightarrow> cm_inv ch k S"
  by (auto simp: cm_init_def cm_inv_def doc_shape_def caller_ok_def callee_ok_def call_state_def)

lemma initiate_inv:
  assumes "cm_inv ch k S" and "calls (sstore S) k = None"
    and "handleInitiateCall ch ty k (callerPage S, sstore S) = (p', s')"
  shows "cm_inv ch k (S\<lparr>callerPage := p', sstore := s'\<rparr>)"
proof -
  from assms(1) have f: "List.find (\<lambda>m. m \<noteq> me (callerPage S)) (chat_members ch) = Some (me (calleePage S))"
    by (simp add: cm_inv_def)
  from assms(3) handleInitiateCall_ok [OF f, of ty k "sstore S"]
  have "p' = (callerPage S)\<lparr>activeCall := Some (new_call ch ty k (me (callerPage S)) (me (calleePage S)) (clock (sstore S)))\<rparr>"
    "s' = set_call (new_call ch ty k (me (callerPage S)) (me (calleePage S)) (clock (sstore S))) (sstore S)"
    by simp_all
  with assms(1,2) show ?thesis
    by (simp add: cm_inv_def doc_shape_def caller_ok_def callee_ok_def call_state_def keyed_def set_call_def)
qed

lemma notice_inv:
  assumes "cm_inv ch k S" and "calls (sstore S) k = Some d" and "status d = Ringing"
  shows "cm_inv ch k (S\<lparr>calleePage := incoming_snapshot [(Added, d)] (calleePage S) (sstore S)\<rparr>)"
proof -
  let ?b = "incoming_snapshot [(Added, d)] (calleePage S) (sstore S)"
  have S: "S\<lparr>calleePage := ?b\<rparr> = put_side CalleeRole ?b (calleeView S) S"
    by (simp add: put_side_def)
  from assms have st: "call_state k S = Some Ringing" and kd: "keyed ch k d"
    by (simp_all add: call_state_def cm_inv_def doc_shape_def)
  from assms(1) st have "callee_ok ch k (Some Ringing) (calleePage S) (calleeView S)"
    by (simp add: cm_inv_def)
  with incoming_snapshot_added [of d "calleePage S" "sstore S"] kd
  have "callee_ok ch k (Some Ringing) ?b (calleeView S)"
    by (auto simp: callee_ok_def)
  with assms(1) st show ?thesis
    unfolding S by (intro put_callee_inv) simp_all
qed

lemma respond_inv:
  assumes "cm_inv ch k S" and "incomingCall (calleePage S) = Some c"
    and "handleCallAction c act (calleePage S, sstore S) = (e, (p', s'))"
  shows "cm_inv ch k (S\<lparr>calleePage := p', sstore := s'\<rparr>)"
proof -
  from assms(1,2) have kc: "keyed ch k c" and none: "activeCall (calleePage S) = None" "calleeView S = NoView"
    and st: "call_state k S = Some Ringing \<or> call_state k S = Some Ended"
    by (auto simp: cm_inv_def callee_ok_def)
  then obtain d where d: "calls (sstore S) k = Some d" by (auto simp: call_state_def)
  from assms(1) kc have ch: "chats (sstore S) (chatId c) \<noteq> None"
    by (simp add: cm_inv_def keyed_def)
  from kc d have d': "calls (sstore S) (call_key c) = Some d" by (simp add: keyed_def)
  from handleCallAction_ok [OF d' ch assms(3)] kc none
  have r: "incomingCall p' = None" "calls s' = (calls (sstore S))(k \<mapsto> d\<lparr>status := action_status act\<rparr>)"
    "activeCall p' = (if act = Accept then Some c else None)"
    by (simp_all add: keyed_def)
  from handleCallAction_chats [OF assms(3)] assms(1) have "chats s' (chat_key ch) \<noteq> None"
    by (auto simp: cm_inv_def)
  moreover from handleCallAction_page [OF assms(3)] have "me p' = me (calleePage S)" .
  moreover from assms(1) d have "doc_shape ch k S" "caller_ok ch k (call_state k S) (callerPage S) (callerView S)"
    by (simp_all add: cm_inv_def)
  ultimately show ?thesis
    using assms(1) r kc none d st
    by (cases act) (auto simp: cm_inv_def doc_shape_def caller_ok_def callee_ok_def call_state_def
                               action_status_def)
qed

lemma open_chat_inv:
  assumes "cm_inv ch k S"
  shows "cm_inv ch k (put_side r ((side_page r S)\<lparr>selectedChat := Some cid\<rparr>) (side_view r S) S)"
proof (cases r)
  case CallerRole
  from assms have "caller_ok ch k (call_state k S) (callerPage S) (callerView S)" by (simp add: cm_inv_def)
  with assms CallerRole show ?thesis by (simp add: put_caller_inv)
next
  case CalleeRole
  from assms have "callee_ok ch k (call_state k S) (calleePage S) (calleeView S)" by (simp add: cm_inv_def)
  with assms CalleeRole show ?thesis by (simp add: put_callee_inv)
qed

text \<open>The ongoing-call listener replaces the active call by the current document of
  the same id while it rings or is connected, and clears it otherwise.\<close>

lemma listen_active:
  assumes "pred_option (keyed ch k) (activeCall p)"
  shows "activeCall (ongoing_snapshot p s) =
           (case activeCall p of
              None \<Rightarrow> None
            | Some _ \<Rightarrow> (case calls s k of
                           None \<Rightarrow> None
                         | Some d \<Rightarrow> if status d = Ringing \<or> status d = Connected then Some d else None))"
  using assms by (auto simp: ongoing_snapshot_def keyed_def split: option.splits)

lemma listen_inv:
  assumes "cm_inv ch k S"
  shows "cm_inv ch k (put_side r (ongoing_snapshot (side_page r S) (sstore S)) (side_view r S) S)"
proof (cases r)
  case CallerRole
  from assms have "caller_ok ch k (call_state k S) (callerPage S) (callerView S)" "doc_shape ch k S"
    by (simp_all add: cm_inv_def)
  with listen_active [of ch k "callerPage S" "sstore S"]
  have "caller_ok ch k (call_state k S) (ongoing_snapshot (callerPage S) (sstore S)) (callerView S)"
    by (auto simp: caller_ok_def doc_shape_def call_state_def split: option.splits)
  with assms CallerRole show ?thesis by (simp add: put_caller_inv)
next
  case CalleeRole
  from assms have "callee_ok ch k (call_state k S) (calleePage S) (calleeView S)" "doc_shape ch k S"
    by (simp_all add: cm_inv_def)
  with listen_active [of ch k "calleePage S" "sstore S"]
  have "callee_ok ch k (call_state k S) (ongoing_snapshot (calleePage S) (sstore S)) (calleeView S)"
    by (auto simp: callee_ok_def doc_shape_def call_state_def split: option.splits)
  with assms CalleeRole show ?thesis by (simp add: put_callee_inv)
qed

lemma mount_inv:
  assumes "cm_inv ch k S" and "activeCall (side_page r S) = Some c"
  shows "cm_inv ch k (put_side r (side_page r S) (Viewing c) S)"
proof (cases r)
  case CallerRole
  with assms have "caller_ok ch k (call_state k S) (callerPage S) (Viewing c)"
    by (auto simp: cm_inv_def caller_ok_def)
  with assms CallerRole show ?thesis by (simp add: put_caller_inv)
next
  case CalleeRole
  with assms have "callee_ok ch k (call_state k S) (calleePage S) (Viewing c)"
    by (auto simp: cm_inv_def callee_ok_def)
  with assms CalleeRole show ?thesis by (simp add: put_callee_inv)
qed

lemma unmount_inv:
  assumes "cm_inv ch k S" and "side_view r S = Viewing c"
  shows "cm_inv ch k (put_side r (side_page r S) Closed S)"
proof (cases r)
  case CallerRole
  with assms have "caller_ok ch k (call_state k S) (callerPage S) Closed"
    by (auto simp: cm_inv_def caller_ok_def)
  with assms CallerRole show ?thesis by (simp add: put_caller_inv)
next
  case CalleeRole
  with assms have "callee_ok ch k (call_state k S) (calleePage S) Closed"
    by (auto simp: cm_inv_def callee_ok_def)
  with assms CalleeRole show ?thesis by (simp add: put_callee_inv)
qed

text \<open>Marking the call ended keeps each client's part; so does a store write that leaves
  the calls and the chats in place.\<close>

lemma caller_ok_ended: "caller_ok ch k st a v \<Longrightarrow> caller_ok ch k (Some Ended) a v"
  by (simp add: caller_ok_def)

lemma callee_ok_ended: "callee_ok ch k st b v \<Longrightarrow> st \<noteq> None \<Longrightarrow> callee_ok ch k (Some Ended) b v"
  by (auto simp: callee_ok_def)

lemma store_ended_inv:
  assumes "cm_inv ch k S" and "calls (sstore S) k = Some d" and "status d \<noteq> Ended"
    and "calls s' = (calls (sstore S))(k \<mapsto> d\<lparr>status := Ended, endedAt := t\<rparr>)"
    and "dom (chats s') = dom (chats (sstore S))"
  shows "cm_inv ch k (S\<lparr>sstore := s'\<rparr>)" and "call_state k (S\<lparr>sstore := s'\<rparr>) = Some Ended"
proof -
  from assms(1,2) have "caller_ok ch k (Some (status d)) (callerPage S) (callerView S)"
    "callee_ok ch k (Some (status d)) (calleePage S) (calleeView S)"
    by (simp_all add: cm_inv_def call_state_def)
  then have "caller_ok ch k (Some Ended) (callerPage S) (callerView S)"
    "callee_ok ch k (Some Ended) (calleePage S) (calleeView S)"
    by (simp_all add: caller_ok_ended callee_ok_ended)
  with assms show "cm_inv ch k (S\<lparr>sstore := s'\<rparr>)"
    by (auto simp: cm_inv_def doc_shape_def call_state_def)
  from assms(4) show "call_state k (S\<lparr>sstore := s'\<rparr>) = Some Ended" by (simp add: call_state_def)
qed

lemma store_same_inv:
  assumes "cm_inv ch k S" and "calls s' = calls (sstore S)" and "dom (chats s') = dom (chats (sstore S))"
  shows "cm_inv ch k (S\<lparr>sstore := s'\<rparr>)" and "call_state k (S\<lparr>sstore := s'\<rparr>) = call_state k S"
  using assms by (auto simp: cm_inv_def doc_shape_def call_state_def split: option.splits)

text \<open>The call an end handler is given is the call of the screen or the active call:
  in both cases call \<open>k\<close>, or nothing.\<close>

lemma hang_up_keyed:
  assumes "cm_inv ch k S" and "side_view r S = Viewing c" and "ac = Some c \<or> ac = activeCall (side_page r S)"
  shows "pred_option (keyed ch k) ac"
  using assms by (cases r) (auto simp: cm_inv_def caller_ok_def callee_ok_def)

text \<open>A screen that reports an end was mounted: on the callee's side the call then
  exists and neither rings nor was declined.\<close>

lemma callee_viewing:
  "callee_ok ch k st b (Viewing c) \<Longrightarrow> st \<noteq> None \<and> st \<noteq> Some Ringing \<and> st \<noteq> Some Declined"
  by (auto simp: callee_ok_def)

lemma hang_up_inv:
  assumes "cm_inv ch k S" and "side_view r S = Viewing c" and "ac = Some c \<or> ac = activeCall (side_page r S)"
    and "handleEndCall ac dur (side_page r S, sstore S) = (e, (p', s'))"
  shows "cm_inv ch k (put_side r p' Closed (S\<lparr>sstore := s'\<rparr>))"
proof -
  let ?T = "S\<lparr>sstore := s'\<rparr>"
  have pk: "pred_option (keyed ch k) ac" by (rule hang_up_keyed [OF assms(1-3)])
  have dc: "dom (chats s') = dom (chats (sstore S))" by (rule handleEndCall_chats [OF assms(4)])
  have side: "caller_ok ch k (call_state k S) (callerPage S) (callerView S)"
    "callee_ok ch k (call_state k S) (calleePage S) (calleeView S)"
    using assms(1) by (simp_all add: cm_inv_def)
  from handleEndCall_cases [OF assms(4)]
  consider (same) "p' = side_page r S" "calls s' = calls (sstore S)"
    | (noop) "activeCall p' = None" "me p' = me (side_page r S)" "incomingCall p' = incomingCall (side_page r S)"
        "calls s' = calls (sstore S)" "pred_option (\<lambda>d. status d = Ended) (calls (sstore S) k)"
    | (ends) d where "activeCall p' = None" "me p' = me (side_page r S)" "incomingCall p' = incomingCall (side_page r S)"
        "calls (sstore S) k = Some d" "status d \<noteq> Ended"
        "calls s' = (calls (sstore S))(k \<mapsto> d\<lparr>status := Ended, endedAt := Some (clock (sstore S))\<rparr>)"
    using pk by (auto simp: keyed_def)
  then show ?thesis
  proof cases
    case same
    note T = store_same_inv [OF assms(1) same(2) dc]
    show ?thesis
    proof (cases r)
      case CallerRole
      with side(1) same have "caller_ok ch k (call_state k ?T) p' Closed" by (simp add: T caller_ok_def)
      with T CallerRole same show ?thesis by (simp add: put_caller_inv)
    next
      case CalleeRole
      with side(2) assms(2) same have "callee_ok ch k (call_state k ?T) p' Closed"
        by (auto simp: T callee_ok_def)
      with T CalleeRole same show ?thesis by (simp add: put_callee_inv)
    qed
  next
    case noop
    note T = store_same_inv [OF assms(1) noop(4) dc]
    have st: "call_state k S = None \<or> call_state k S = Some Ended"
      using noop(5) by (cases "calls (sstore S) k") (simp_all add: call_state_def)
    show ?thesis
    proof (cases r)
      case CallerRole
      with side(1) noop st have "caller_ok ch k (call_state k ?T) p' Closed" by (auto simp: T caller_ok_def)
      with T CallerRole noop show ?thesis by (simp add: put_caller_inv)
    next
      case CalleeRole
      with side(2) assms(2) have "call_state k S \<noteq> None"
        using callee_viewing by simp
      with CalleeRole side(2) assms(2) noop st have "callee_ok ch k (call_state k ?T) p' Closed"
        by (auto simp: T callee_ok_def)
      with T CalleeRole noop show ?thesis by (simp add: put_callee_inv)
    qed
  next
    case ends
    note T = store_ended_inv [OF assms(1) ends(4,5,6) dc]
    show ?thesis
    proof (cases r)
      case CallerRole
      with side(1) ends have "caller_ok ch k (Some Ended) p' Closed" by (auto simp: caller_ok_def)
      with T CallerRole ends show ?thesis by (simp add: put_caller_inv)
    next
      case CalleeRole
      with side(2) assms(2) ends have "callee_ok ch k (Some Ended) p' Closed" by (auto simp: callee_ok_def)
      with T CalleeRole ends show ?thesis by (simp add: put_callee_inv)
    qed
  qed
qed

lemma cm_step_inv:
  assumes "cm_step ch ty k S r S'" and "cm_inv ch k S"
  shows "cm_inv ch k S'"
  using assms
proof (induction rule: cm_step.induct)
  case (initiate S p' s')
  then show ?case by (rule_tac initiate_inv) simp_all
next
  case (notice S d)
  then show ?case by (rule_tac notice_inv) simp_all
next
  case (respond S c act e p' s')
  then show ?case by (rule_tac respond_inv) simp_all
next
  case (open_chat S cid r)
  then show ?case by (simp add: open_chat_inv)
next
  case (listen S r)
  then show ?case by (simp add: listen_inv)
next
  case (mount r S c)
  then show ?case by (simp add: mount_inv)
next
  case (unmount r S c)
  then show ?case by (simp add: unmount_inv)
next
  case (hang_up r S c ac dur e p' s')
  then show ?case by (rule_tac hang_up_inv) simp_all
qed

lemma reach_inv: "reach ch ty k S \<Longrightarrow> cm_inv ch k S"
  by (induction rule: reach.induct) (auto intro: cm_init_inv cm_step_inv)

section \<open>Lemmas: each step against the automaton\<close>

inductive_cases spec_stepE: "spec_step r a b"
inductive_cases stale_stepE: "stale_step r a b"

lemma respond_moves:
  assumes "cm_inv ch k S" and "incomingCall (calleePage S) = Some c"
    and "handleCallAction c act (calleePage S, sstore S) = (e, (p', s'))"
  shows "moves_ok CalleeRole (call_state k S) (call_state k (S\<lparr>calleePage := p', sstore := s'\<rparr>))"
proof -
  from assms(1,2) have kc: "keyed ch k c"
    and st: "call_state k S = Some Ringing \<or> call_state k S = Some Ended"
    by (auto simp: cm_inv_def callee_ok_def)
  then obtain d where d: "calls (sstore S) k = Some d" by (auto simp: call_state_def)
  from kc handleCallAction_calls [OF assms(3)] d
  have "calls s' k = calls (sstore S) k \<or> calls s' k = Some (d\<lparr>status := action_status act\<rparr>)"
    by (auto simp: keyed_def)
  with st d show ?thesis
    by (cases act) (auto simp: moves_ok_def call_state_def action_status_def
                         intro: spec_step.intros stale_step.intros)
qed

lemma hang_up_moves:
  assumes "cm_inv ch k S" and "side_view r S = Viewing c" and "ac = Some c \<or> ac = activeCall (side_page r S)"
    and "handleEndCall ac dur (side_page r S, sstore S) = (e, (p', s'))"
  shows "moves_ok r (call_state k S) (call_state k (put_side r p' Closed (S\<lparr>sstore := s'\<rparr>)))"
proof -
  have pk: "pred_option (keyed ch k) ac" by (rule hang_up_keyed [OF assms(1-3)])
  from handleEndCall_cases [OF assms(4)] pk
  consider "calls s' = calls (sstore S)"
    | d where "calls (sstore S) k = Some d" "status d \<noteq> Ended"
        "calls s' = (calls (sstore S))(k \<mapsto> d\<lparr>status := Ended, endedAt := Some (clock (sstore S))\<rparr>)"
    by (auto simp: keyed_def)
  then show ?thesis
  proof cases
    case 1
    then show ?thesis by (simp add: moves_ok_def call_state_def)
  next
    case 2
    from assms(1) 2(1) have "status d \<noteq> Missed" by (simp add: cm_inv_def doc_shape_def)
    moreover have "r = CallerRole" if "status d = Declined"
    proof (cases r)
      case CalleeRole
      from assms(1) have "callee_ok ch k (call_state k S) (calleePage S) (calleeView S)"
        by (simp add: cm_inv_def)
      with assms(2) CalleeRole 2(1) that have "callee_ok ch k (Some Declined) (calleePage S) (Viewing c)"
        by (simp add: call_state_def)
      then show ?thesis using callee_viewing by blast
    qed
    ultimately show ?thesis using 2
      by (cases "status d") (auto simp: moves_ok_def call_state_def intro: spec_step.intros stale_step.intros)
  qed
qed

lemma cm_step_moves:
  assumes "cm_step ch ty k S r S'" and "cm_inv ch k S"
  shows "moves_ok r (call_state k S) (call_state k S')"
  using assms
proof (induction rule: cm_step.induct)
  case (initiate S p' s')
  then have f: "List.find (\<lambda>m. m \<noteq> me (callerPage S)) (chat_members ch) = Some (me (calleePage S))"
    by (simp add: cm_inv_def)
  with initiate.hyps have "calls s' k = Some (new_call ch ty k (me (callerPage S)) (me (calleePage S)) (clock (sstore S)))"
    by (auto simp: handleInitiateCall_ok set_call_def)
  with initiate.hyps show ?case
    by (simp add: call_state_def moves_ok_def spec_step.create)
next
  case (notice S d)
  then show ?case by (simp add: call_state_def moves_ok_def)
next
  case (respond S c act e p' s')
  then show ?case by (rule_tac respond_moves) simp_all
next
  case (hang_up r S c ac dur e p' s')
  then show ?case by (rule_tac hang_up_moves) simp_all
qed (simp_all add: moves_ok_def)

section \<open>Lemmas: the clients can always wind the call down\<close>

lemma reach_steps: "(cm_any ch ty k)\<^sup>*\<^sup>* S S' \<Longrightarrow> reach ch ty k S \<Longrightarrow> reach ch ty k S'"
  by (induction rule: rtranclp_induct) (auto simp: cm_any_def intro: reach.step)

lemma put_side_simps [simp]:
  "put_side r p v (put_side r p' v' S) = put_side r p v S"
  "put_side r p v (S\<lparr>sstore := s\<rparr>) = (put_side r p v S)\<lparr>sstore := s\<rparr>"
  "put_side r (side_page r S) (side_view r S) S = S"
  by (cases r; simp add: put_side_def side_page_def side_view_def)+

text \<open>With the chat in place, ending a copy of call \<open>k\<close> always returns normally and
  clears the active call.\<close>

lemma end_ok:
  assumes "keyed ch k c" and "chats s (chat_key ch) \<noteq> None"
  shows "\<exists>s'. handleEndCall (Some c) dur (p, s) = (None, (p\<lparr>activeCall := None\<rparr>, s'))"
proof (cases "calls s (call_key c)")
  case None
  then show ?thesis by (simp add: handleEndCall_nothing end_read_missing)
next
  case (Some d)
  from assms have ch: "chats s (chatId c) \<noteq> None" by (simp add: keyed_def)
  show ?thesis
  proof (cases "status d = Ended")
    case True
    with Some show ?thesis by (simp add: handleEndCall_nothing end_read_Ended)
  next
    case False
    from handleEndCall_live [OF Some False ch] show ?thesis by blast
  qed
qed

text \<open>The callee can always take its prompt down, by declining.\<close>

lemma prompt_down:
  assumes "reach ch ty k S"
  shows "\<exists>S1. (cm_any ch ty k)\<^sup>*\<^sup>* S S1 \<and> incomingCall (calleePage S1) = None \<and>
              callerPage S1 = callerPage S \<and> callerView S1 = callerView S"
proof (cases "incomingCall (calleePage S)")
  case None
  then show ?thesis by blast
next
  case (Some c)
  from reach_inv [OF assms] have inv: "cm_inv ch k S" .
  with Some have kc: "keyed ch k c" and st: "call_state k S = Some Ringing \<or> call_state k S = Some Ended"
    by (auto simp: cm_inv_def callee_ok_def)
  then obtain d where d: "calls (sstore S) (call_key c) = Some d" by (auto simp: call_state_def keyed_def)
  from inv kc have ch: "chats (sstore S) (chatId c) \<noteq> None" by (simp add: cm_inv_def keyed_def)
  obtain e p' s' where r: "handleCallAction c Decline (calleePage S, sstore S) = (e, (p', s'))"
    by (metis prod.collapse)
  from handleCallAction_ok [OF d ch r] have "incomingCall p' = None" by simp
  moreover from cm_step.respond [OF Some r] have "cm_any ch ty k S (S\<lparr>calleePage := p', sstore := s'\<rparr>)"
    by (auto simp: cm_any_def)
  ultimately show ?thesis by (intro exI [of _ "S\<lparr>calleePage := p', sstore := s'\<rparr>"]) auto
qed

text \<open>Either client can always release the call: hang up the screen it has mounted, or
  open the chat, mount the screen for its active call and hang up there.\<close>

lemma release_side:
  assumes "reach ch ty k S"
  shows "\<exists>p v s'. (cm_any ch ty k)\<^sup>*\<^sup>* S (put_side r p v (S\<lparr>sstore := s'\<rparr>)) \<and>
                  activeCall p = None \<and> \<not> viewing v \<and> incomingCall p = incomingCall (side_page r S)"
proof -
  from reach_inv [OF assms] have inv: "cm_inv ch k S" .
  then have ch: "chats (sstore S) (chat_key ch) \<noteq> None" by (simp add: cm_inv_def)
  have keyed_side: "pred_option (keyed ch k) (activeCall (side_page r S))"
    "view_keyed ch k (side_view r S)"
    using inv by (cases r; simp add: cm_inv_def caller_ok_def callee_ok_def)+
  show ?thesis
  proof (cases "viewing (side_view r S)")
    case True
    then obtain c where v: "side_view r S = Viewing c" by (cases "side_view r S") simp_all
    with keyed_side have "keyed ch k c" by simp
    from end_ok [OF this ch] obtain s' where
      e: "handleEndCall (Some c) 0 (side_page r S, sstore S) = (None, ((side_page r S)\<lparr>activeCall := None\<rparr>, s'))" ..
    from cm_step.hang_up [OF v _ e] have "cm_any ch ty k S (put_side r ((side_page r S)\<lparr>activeCall := None\<rparr>) Closed (S\<lparr>sstore := s'\<rparr>))"
      by (auto simp: cm_any_def)
    then show ?thesis
      by (intro exI [of _ "(side_page r S)\<lparr>activeCall := None\<rparr>"] exI [of _ Closed] exI [of _ s'] conjI)
         auto
  next
    case False
    show ?thesis
    proof (cases "activeCall (side_page r S)")
      case None
      show ?thesis
      proof (intro exI conjI)
        show "(cm_any ch ty k)\<^sup>*\<^sup>* S (put_side r (side_page r S) (side_view r S) (S\<lparr>sstore := sstore S\<rparr>))"
          by simp
      qed (simp_all add: None False)
    next
      case (Some c)
      with keyed_side have kc: "keyed ch k c" by simp
      let ?p1 = "(side_page r S)\<lparr>selectedChat := Some (chat_key ch)\<rparr>"
      let ?S1 = "put_side r ?p1 (side_view r S) S"
      have s1: "cm_any ch ty k S ?S1" unfolding cm_any_def using cm_step.open_chat [OF ch] by blast
      have "call_screen_shown (side_page r ?S1)" using Some by (simp add: call_screen_shown_def)
      from cm_step.mount [OF this, of c] Some False
      have s2: "cm_any ch ty k ?S1 (put_side r ?p1 (Viewing c) S)" by (auto simp: cm_any_def)
      from end_ok [OF kc ch] obtain s' where
        e: "handleEndCall (Some c) 0 (?p1, sstore S) = (None, (?p1\<lparr>activeCall := None\<rparr>, s'))" ..
      have "cm_step ch ty k (put_side r ?p1 (Viewing c) S) r
              (put_side r (?p1\<lparr>activeCall := None\<rparr>) Closed ((put_side r ?p1 (Viewing c) S)\<lparr>sstore := s'\<rparr>))"
        by (rule cm_step.hang_up [where c = c and ac = "Some c" and dur = 0]) (simp_all add: e)
      then have s3: "cm_any ch ty k (put_side r ?p1 (Viewing c) S) (put_side r (?p1\<lparr>activeCall := None\<rparr>) Closed (S\<lparr>sstore := s'\<rparr>))"
        by (auto simp: cm_any_def)
      from s1 s2 s3 show ?thesis
        by (intro exI [of _ "?p1\<lparr>activeCall := None\<rparr>"] exI [of _ Closed] exI [of _ s'] conjI)
           (auto intro: rtranclp.rtrancl_into_rtrancl)
    qed
  qed
qed

section \<open>Lemmas: the fixtures run\<close>

lemma demo_find [simp]: "List.find (\<lambda>m. m \<noteq> ''alice'') (chat_members demo_chat) = Some ''bob''"
  by (simp add: demo_chat_def)

lemma cm_start_init: "cm_init demo_chat ''k1'' cm_start"
  by (simp add: cm_init_def cm_start_def demo_chat_def demo_store_def idle_page_def)

lemma run_initiate: "cm_step demo_chat Video ''k1'' cm_start CallerRole cm_rung"
proof -
  have "handleInitiateCall demo_chat Video ''k1'' (callerPage cm_start, sstore cm_start) =
          ((idle_page ''alice'')\<lparr>activeCall := Some demo_call\<rparr>, ringing_store)"
    by (simp add: cm_start_def handleInitiateCall_ok demo_call_def ringing_store_def demo_store_def)
  from cm_step.initiate [OF _ this] show ?thesis
    by (simp add: cm_rung_def cm_start_def demo_store_def)
qed

lemma run_notice: "cm_step demo_chat Video ''k1'' cm_rung CalleeRole cm_prompted"
proof -
  have "incoming_snapshot [(Added, demo_call)] (calleePage cm_rung) (sstore cm_rung) =
          (idle_page ''bob'')\<lparr>incomingCall := Some demo_call\<rparr>"
    by (simp add: incoming_snapshot_def cm_rung_def cm_start_def ringing_store_def set_call_def
                  demo_store_def idle_page_def)
  with cm_step.notice [of cm_rung "''k1''" demo_call demo_chat Video] show ?thesis
    by (simp add: cm_prompted_def cm_rung_def cm_start_def idle_page_def)
qed

lemma run_open_mount:
  "(cm_any demo_chat Video ''k1'')\<^sup>*\<^sup>* cm_prompted cm_viewing"
proof -
  let ?S1 = "put_side CallerRole ((callerPage cm_prompted)\<lparr>selectedChat := Some ''c1''\<rparr>) NoView cm_prompted"
  have c1: "chats (sstore cm_prompted) ''c1'' \<noteq> None"
    by (simp add: cm_prompted_def cm_rung_def)
  from cm_step.open_chat [OF c1, of demo_chat Video "''k1''" CallerRole]
  have s1: "cm_step demo_chat Video ''k1'' cm_prompted CallerRole ?S1"
    by (simp add: cm_prompted_def cm_rung_def cm_start_def)
  have p1: "side_page CallerRole ?S1 = alice_on_call" "side_view CallerRole ?S1 = NoView"
    by (simp_all add: cm_prompted_def cm_rung_def alice_on_call_def)
  have "cm_step demo_chat Video ''k1'' ?S1 CallerRole
          (put_side CallerRole (side_page CallerRole ?S1) (Viewing demo_call) ?S1)"
    by (rule cm_step.mount) (simp_all only: p1, simp_all add: call_screen_shown_def alice_on_call_def)
  moreover have "put_side CallerRole (side_page CallerRole ?S1) (Viewing demo_call) ?S1 = cm_viewing"
    by (simp only: p1) (simp add: cm_viewing_def put_side_def)
  ultimately have s2: "cm_step demo_chat Video ''k1'' ?S1 CallerRole cm_viewing" by simp
  have a1: "cm_any demo_chat Video ''k1'' cm_prompted ?S1" using s1 by (auto simp: cm_any_def)
  have a2: "cm_any demo_chat Video ''k1'' ?S1 cm_viewing" using s2 by (auto simp: cm_any_def)
  from a1 a2 show ?thesis by (auto intro: rtranclp.rtrancl_into_rtrancl)
qed

lemma alice_on_call_fields [simp]:
  "me alice_on_call = ''alice''" "activeCall alice_on_call = Some demo_call"
  by (simp_all add: alice_on_call_def idle_page_def)

lemma cancel_end:
  "handleEndCall (Some demo_call) 0 (alice_on_call, ringing_store) =
     (None, (alice_on_call\<lparr>activeCall := None\<rparr>, cancelled_store))"
proof -
  have "\<exists>s'. handleEndCall (Some demo_call) 0 (alice_on_call, ringing_store) =
          (None, (alice_on_call\<lparr>activeCall := None\<rparr>, s'))"
    by (simp add: handleEndCall_live)
  then show ?thesis by (auto simp: cancelled_store_def)
qed

lemma cancelled_calls [simp]:
  "calls cancelled_store ''k1'' = Some (demo_call\<lparr>status := Ended, endedAt := Some 100\<rparr>)"
  "chats cancelled_store ''c1'' \<noteq> None"
proof -
  have "calls ringing_store (call_key demo_call) = Some demo_call" "status demo_call \<noteq> Ended"
    "chats ringing_store (chatId demo_call) \<noteq> None" by simp_all
  from handleEndCall_live [OF this, of 0 alice_on_call] cancel_end
  have h: "cancelled_store = (snd (end_log demo_call True True 0 ringing_store))
          \<lparr>calls := (calls ringing_store)(''k1'' \<mapsto> demo_call\<lparr>status := Ended, endedAt := Some 100\<rparr>)\<rparr>"
    by simp
  show "calls cancelled_store ''k1'' = Some (demo_call\<lparr>status := Ended, endedAt := Some 100\<rparr>)"
    "chats cancelled_store ''c1'' \<noteq> None"
    unfolding h by (simp_all add: end_log_def createCallMessage_def Let_def update_chat_def)
qed

lemma run_cancel: "cm_step demo_chat Video ''k1'' cm_viewing CallerRole cm_cancelled"
proof -
  have "side_view CallerRole cm_viewing = Viewing demo_call"
    "handleEndCall (Some demo_call) 0 (side_page CallerRole cm_viewing, sstore cm_viewing) =
       (None, (alice_on_call\<lparr>activeCall := None\<rparr>, cancelled_store))"
    by (simp_all add: cm_viewing_def cm_prompted_def cm_rung_def cancel_end)
  from cm_step.hang_up [OF this(1) _ this(2)]
  have "cm_step demo_chat Video ''k1'' cm_viewing CallerRole
          (put_side CallerRole (alice_on_call\<lparr>activeCall := None\<rparr>) Closed (cm_viewing\<lparr>sstore := cancelled_store\<rparr>))"
    by simp
  moreover have "put_side CallerRole (alice_on_call\<lparr>activeCall := None\<rparr>) Closed (cm_viewing\<lparr>sstore := cancelled_store\<rparr>) = cm_cancelled"
    by (simp add: cm_cancelled_def put_side_def)
  ultimately show ?thesis by simp
qed

lemma reach_cancelled: "reach demo_chat Video ''k1'' cm_cancelled"
proof -
  have "reach demo_chat Video ''k1'' cm_prompted"
    using reach.step [OF reach.step [OF reach.start [OF cm_start_init] run_initiate] run_notice] .
  from reach_steps [OF run_open_mount this] have "reach demo_chat Video ''k1'' cm_viewing" .
  from reach.step [OF this run_cancel] show ?thesis .
qed

lemma run_resurrect: "cm_step demo_chat Video ''k1'' cm_cancelled CalleeRole cm_resurrected"
proof -
  have pr: "incomingCall (calleePage cm_cancelled) = Some demo_call"
    by (simp add: cm_cancelled_def cm_viewing_def cm_prompted_def)
  obtain e p' s' where h: "handleCallAction demo_call Accept (calleePage cm_cancelled, sstore cm_cancelled) = (e, (p', s'))"
    by (metis prod.collapse)
  then have "cm_resurrected = cm_cancelled\<lparr>calleePage := p', sstore := s'\<rparr>"
    by (simp add: cm_resurrected_def)
  with cm_step.respond [OF pr h] show ?thesis by simp
qed

lemma scenario_states:
  "call_state ''k1'' cm_cancelled = Some Ended" "call_state ''k1'' cm_resurrected = Some Connected"
proof -
  show "call_state ''k1'' cm_cancelled = Some Ended"
    by (simp add: call_state_def cm_cancelled_def)
  obtain e p' s' where h: "handleCallAction demo_call Accept (calleePage cm_cancelled, sstore cm_cancelled) = (e, (p', s'))"
    by (metis prod.collapse)
  have d: "calls (sstore cm_cancelled) (call_key demo_call) = Some (demo_call\<lparr>status := Ended, endedAt := Some 100\<rparr>)"
    "chats (sstore cm_cancelled) (chatId demo_call) \<noteq> None"
    by (simp_all add: cm_cancelled_def)
  from handleCallAction_ok [OF d h] have "calls s' ''k1'' = Some (demo_call\<lparr>status := Connected, endedAt := Some 100\<rparr>)"
    by (simp add: action_status_def)
  with h show "call_state ''k1'' cm_resurrected = Some Connected"
    by (simp add: call_state_def cm_resurrected_def)
qed

lemma settled_of_inv:
  assumes "cm_inv ch k S" and "incomingCall (calleePage S) = None"
    and "activeCall (callerPage S) = None" and "activeCall (calleePage S) = None"
    and "\<not> viewing (callerView S)" and "\<not> viewing (calleeView S)"
  shows "settled k S"
proof -
  from assms(1) have "caller_ok ch k (call_state k S) (callerPage S) (callerView S)"
    "callee_ok ch k (call_state k S) (calleePage S) (calleeView S)" "doc_shape ch k S"
    by (simp_all add: cm_inv_def)
  with assms(3,4) have "call_state k S \<noteq> Some Ringing" "call_state k S \<noteq> Some Connected"
    "call_state k S \<noteq> Some Missed"
    by (auto simp: caller_ok_def callee_ok_def doc_shape_def call_state_def split: option.splits)
  then have "call_state k S = None \<or> call_state k S = Some Ended \<or> call_state k S = Some Declined"
    by (cases "call_state k S"; cases "the (call_state k S)") simp_all
  with assms show ?thesis by (simp add: settled_def)
qed

lemma run_decline: "cm_step demo_chat Video ''k1'' cm_viewing CalleeRole cm_declined"
proof -
  have pr: "incomingCall (calleePage cm_viewing) = Some demo_call"
    by (simp add: cm_viewing_def cm_prompted_def)
  obtain e p' s' where h: "handleCallAction demo_call Decline (calleePage cm_viewing, sstore cm_viewing) = (e, (p', s'))"
    by (metis prod.collapse)
  then have "cm_declined = cm_viewing\<lparr>calleePage := p', sstore := s'\<rparr>"
    by (simp add: cm_declined_def)
  with cm_step.respond [OF pr h] show ?thesis by simp
qed

lemma reach_declined: "reach demo_chat Video ''k1'' cm_declined"
proof -
  have "reach demo_chat Video ''k1'' cm_prompted"
    using reach.step [OF reach.step [OF reach.start [OF cm_start_init] run_initiate] run_notice] .
  from reach_steps [OF run_open_mount this] have "reach demo_chat Video ''k1'' cm_viewing" .
  from reach.step [OF this run_decline] show ?thesis .
qed

lemma declined_state: "call_state ''k1'' cm_declined = Some Declined"
proof -
  obtain e p' s' where h: "handleCallAction demo_call Decline (calleePage cm_viewing, sstore cm_viewing) = (e, (p', s'))"
    by (metis prod.collapse)
  have d: "calls (sstore cm_viewing) (call_key demo_call) = Some demo_call"
    "chats (sstore cm_viewing) (chatId demo_call) \<noteq> None"
    by (simp_all add: cm_viewing_def cm_prompted_def cm_rung_def)
  from handleCallAction_ok [OF d h] have "calls s' ''k1'' = Some (demo_call\<lparr>status := Declined\<rparr>)"
    by (simp add: action_status_def)
  with h show ?thesis by (simp add: call_state_def cm_declined_def)
qed

lemma run_overwrite: "cm_step demo_chat Video ''k1'' cm_declined CallerRole cm_overwritten"
proof -
  have v: "side_view CallerRole cm_declined = Viewing demo_call"
  proof -
    obtain e p' s' where h: "handleCallAction demo_call Decline (calleePage cm_viewing, sstore cm_viewing) = (e, (p', s'))"
      by (metis prod.collapse)
    then show ?thesis by (simp add: cm_declined_def cm_viewing_def)
  qed
  have a: "Some demo_call = Some demo_call \<or> Some demo_call = activeCall (side_page CallerRole cm_declined)" by simp
  obtain e p' s' where h: "handleEndCall (Some demo_call) 0 (side_page CallerRole cm_declined, sstore cm_declined) = (e, (p', s'))"
    by (metis prod.collapse)
  then have "cm_overwritten = put_side CallerRole p' Closed (cm_declined\<lparr>sstore := s'\<rparr>)"
    by (simp add: cm_overwritten_def)
  with cm_step.hang_up [OF v a h] show ?thesis by simp
qed

section \<open>Properties\<close>

text \<open>C11: Refinement of the specification's call-status automaton. In every reachable
  state of the two clients, each step of either client leaves the status of the call as
  it is or moves it along a transition of spec section 4.3 (created ringing by the caller;
  accepted or declined by the callee; ended by either from ringing or connected), or along
  one of the three transitions the code adds: the callee's prompt, which outlives a
  cancelled call, accepts or declines the ended call, and the caller's end handler, which
  only guards against ended, overwrites declined.\<close>

theorem status_moves_refine_spec:
  assumes "reach ch ty k S" and "cm_step ch ty k S r S'"
  shows "call_state k S' = call_state k S \<or> spec_step r (call_state k S) (call_state k S') \<or>
         stale_step r (call_state k S) (call_state k S')"
  using cm_step_moves [OF assms(2) reach_inv [OF assms(1)]] by (auto simp: moves_ok_def)

text \<open>C12: Liveness. From every reachable state of the two clients some sequence of steps
  winds the call down for both: its status is terminal (ended or declined) or it was never
  created, no prompt is up, neither client holds an active call and no call screen is
  mounted. The callee declines a prompt it still shows; each client hangs up the screen it
  has, or opens the chat, mounts the screen for its active call and hangs up there.\<close>

theorem call_always_settles:
  assumes "reach ch ty k S"
  shows "\<exists>S'. (cm_any ch ty k)\<^sup>*\<^sup>* S S' \<and> settled k S'"
proof -
  from prompt_down [OF assms] obtain S1 where p1: "(cm_any ch ty k)\<^sup>*\<^sup>* S S1"
    and np: "incomingCall (calleePage S1) = None" by blast
  from reach_steps [OF p1 assms] have r1: "reach ch ty k S1" .
  from release_side [OF r1, of CallerRole] obtain pa va s2 where
    p2: "(cm_any ch ty k)\<^sup>*\<^sup>* S1 (put_side CallerRole pa va (S1\<lparr>sstore := s2\<rparr>))"
    and a: "activeCall pa = None" "\<not> viewing va" by blast
  let ?S2 = "put_side CallerRole pa va (S1\<lparr>sstore := s2\<rparr>)"
  from reach_steps [OF p2 r1] have r2: "reach ch ty k ?S2" .
  from release_side [OF r2, of CalleeRole] obtain pb vb s3 where
    p3: "(cm_any ch ty k)\<^sup>*\<^sup>* ?S2 (put_side CalleeRole pb vb (?S2\<lparr>sstore := s3\<rparr>))"
    and b: "activeCall pb = None" "\<not> viewing vb" "incomingCall pb = incomingCall (side_page CalleeRole ?S2)"
    by blast
  let ?S3 = "put_side CalleeRole pb vb (?S2\<lparr>sstore := s3\<rparr>)"
  from reach_steps [OF p3 r2] have "cm_inv ch k ?S3" by (rule reach_inv)
  with a b np have "settled k ?S3"
    by (intro settled_of_inv [of ch]) (simp_all add: put_side_def)
  with p1 p2 p3 show ?thesis by (meson rtranclp_trans)
qed

text \<open>A declined call never becomes connected: from a reachable state in which the
  call is declined, a step either leaves it declined or, when the caller takes it, marks
  it ended; the callee, who declined, has no prompt, no active call and no screen left to
  act on.\<close>

theorem declined_never_connects:
  assumes "reach ch ty k S" and "cm_step ch ty k S r S'" and "call_state k S = Some Declined"
  shows "call_state k S' = Some Declined \<or> (r = CallerRole \<and> call_state k S' = Some Ended)"
  using cm_step_moves [OF assms(2) reach_inv [OF assms(1)]] assms(3)
  by (auto simp: moves_ok_def elim: spec_stepE stale_stepE)

text \<open>The callee's prompt is stale only after a cancel: in every reachable state in
  which the callee shows a prompt, the call is still ringing or already ended, never
  connected or declined.\<close>

theorem prompt_only_ringing_or_ended:
  assumes "reach ch ty k S" and "incomingCall (calleePage S) \<noteq> None"
  shows "call_state k S = Some Ringing \<or> call_state k S = Some Ended"
  using reach_inv [OF assms(1)] assms(2) by (auto simp: cm_inv_def callee_ok_def)

section \<open>Witnesses\<close>

theorem status_moves_refine_spec_witness:
  "reach demo_chat Video ''k1'' cm_cancelled \<and> cm_step demo_chat Video ''k1'' cm_cancelled CalleeRole cm_resurrected \<and>
   stale_step CalleeRole (call_state ''k1'' cm_cancelled) (call_state ''k1'' cm_resurrected)"
proof -
  from status_moves_refine_spec [OF reach_cancelled run_resurrect]
  have "stale_step CalleeRole (call_state ''k1'' cm_cancelled) (call_state ''k1'' cm_resurrected)"
    by (auto simp: scenario_states elim: spec_stepE)
  with reach_cancelled run_resurrect show ?thesis by simp
qed

theorem call_always_settles_witness:
  "reach demo_chat Video ''k1'' cm_resurrected \<and>
   (\<exists>S'. (cm_any demo_chat Video ''k1'')\<^sup>*\<^sup>* cm_resurrected S' \<and> settled ''k1'' S')"
proof -
  have r: "reach demo_chat Video ''k1'' cm_resurrected" by (rule reach.step [OF reach_cancelled run_resurrect])
  from call_always_settles [OF r] r show ?thesis by simp
qed

theorem prompt_only_ringing_or_ended_witness:
  "reach demo_chat Video ''k1'' cm_cancelled \<and> incomingCall (calleePage cm_cancelled) \<noteq> None \<and>
   call_state ''k1'' cm_cancelled = Some Ended"
proof -
  have p: "incomingCall (calleePage cm_cancelled) \<noteq> None"
    by (simp add: cm_cancelled_def cm_viewing_def cm_prompted_def)
  from prompt_only_ringing_or_ended [OF reach_cancelled p] have
    "call_state ''k1'' cm_cancelled = Some Ringing \<or> call_state ''k1'' cm_cancelled = Some Ended" .
  with reach_cancelled p show ?thesis by (simp add: scenario_states)
qed

theorem declined_never_connects_witness:
  "reach demo_chat Video ''k1'' cm_declined \<and> cm_step demo_chat Video ''k1'' cm_declined CallerRole cm_overwritten \<and>
   call_state ''k1'' cm_declined = Some Declined \<and>
   (call_state ''k1'' cm_overwritten = Some Declined \<or>
    (CallerRole = CallerRole \<and> call_state ''k1'' cm_overwritten = Some Ended))"
  using declined_never_connects [OF reach_declined run_overwrite declined_state]
        reach_declined run_overwrite declined_state by simp

end
