(* ===== verification/Login.thy ===== *)
theory Login
  imports Profile "HOL-Library.Sublist"
begin

text \<open>
  The sign-in page, src/src/app/login/page.tsx: the form schema, the e-mail and Google
  handlers, the redirect effect and what the page renders. Firebase Authentication is
  an external collaborator, modelled from its interface: \<open>createUserWithEmailAndPassword\<close>
  rejects an address already registered and a password under six characters, and signs
  the new user in; \<open>signInWithEmailAndPassword\<close> rejects unknown addresses and wrong
  passwords alike (\<open>auth/invalid-credential\<close>); \<open>sendEmailVerification\<close> may reject
  (\<open>auth/too-many-requests\<close>), which is an input; the outcome of the Google popup is an
  input. The form library runs the schema and calls the submit handler only on valid
  input; the schema's e-mail check is the one of the zod library.
\<close>

section \<open>Firebase Authentication\<close>

datatype auth_error = EmailInUse | WeakPassword | InvalidCredential | PopupClosed | TooManyRequests

definition auth_code :: "auth_error \<Rightarrow> string" where
  "auth_code e = (case e of
                    EmailInUse \<Rightarrow> ''auth/email-already-in-use''
                  | WeakPassword \<Rightarrow> ''auth/weak-password''
                  | InvalidCredential \<Rightarrow> ''auth/invalid-credential''
                  | PopupClosed \<Rightarrow> ''auth/popup-closed-by-user''
                  | TooManyRequests \<Rightarrow> ''auth/too-many-requests'')"

text \<open>\<open>error.message\<close> of a \<open>FirebaseError\<close>.\<close>

definition auth_message :: "auth_error \<Rightarrow> string" where
  "auth_message e = ''Firebase: Error ('' @ auth_code e @ '').''"

record account =
  acc_user :: auth_user
  acc_password :: string

record auth_backend =
  accounts :: "account list"
  signed_in :: "auth_user option"
  verification_sent :: "string list"

definition registered :: "string \<Rightarrow> auth_backend \<Rightarrow> bool" where
  "registered em a \<longleftrightarrow> Some em \<in> set (map (au_email \<circ> acc_user) (accounts a))"

text \<open>A new user has the uid \<open>new_uid\<close> the service assigns, its address and no name or
  photo.\<close>

definition createUserWithEmailAndPassword ::
  "uid \<Rightarrow> string \<Rightarrow> string \<Rightarrow> auth_backend \<Rightarrow> (auth_error, auth_backend) outcome" where
  "createUserWithEmailAndPassword new_uid em pw a =
     (if registered em a then (Some EmailInUse, a)
      else if length pw < 6 then (Some WeakPassword, a)
      else (let u = \<lparr>au_uid = new_uid, au_displayName = None, au_email = Some em, au_photoURL = None\<rparr>
            in (None, a\<lparr>accounts := accounts a @ [\<lparr>acc_user = u, acc_password = pw\<rparr>], signed_in := Some u\<rparr>)))"

definition signInWithEmailAndPassword :: "string \<Rightarrow> string \<Rightarrow> auth_backend \<Rightarrow> (auth_error, auth_backend) outcome" where
  "signInWithEmailAndPassword em pw a =
     (case List.find (\<lambda>x. au_email (acc_user x) = Some em) (accounts a) of
        None \<Rightarrow> (Some InvalidCredential, a)
      | Some x \<Rightarrow> if acc_password x = pw then (None, a\<lparr>signed_in := Some (acc_user x)\<rparr>)
                 else (Some InvalidCredential, a))"

text \<open>\<open>sendEmailVerification(user)\<close>; \<open>delivered\<close> says whether the service accepts the
  request.\<close>

definition sendEmailVerification :: "bool \<Rightarrow> string \<Rightarrow> auth_backend \<Rightarrow> (auth_error, auth_backend) outcome" where
  "sendEmailVerification delivered em a =
     (if delivered then (None, a\<lparr>verification_sent := verification_sent a @ [em]\<rparr>)
      else (Some TooManyRequests, a))"

section \<open>The form\<close>

text \<open>\<open>z.string().email()\<close>: the pattern
  \<open>^(?!\.)(?!.*\.\.)([A-Z0-9_'+\-\.]*)[A-Z0-9_+-]@([A-Z0-9][A-Z0-9\-]*\.)+[A-Z]{2,}$\<close>,
  case-insensitive. No class of the pattern contains \<open>@\<close> and the domain classes do
  not contain a dot, so the match splits the address at its one \<open>@\<close> and the domain at
  its dots.\<close>

definition ascii_letter :: "char \<Rightarrow> bool" where
  "ascii_letter c \<longleftrightarrow>
     (65 \<le> (of_char c :: nat) \<and> (of_char c :: nat) \<le> 90) \<or> (97 \<le> (of_char c :: nat) \<and> (of_char c :: nat) \<le> 122)"

definition ascii_alnum :: "char \<Rightarrow> bool" where
  "ascii_alnum c \<longleftrightarrow> ascii_letter c \<or> (48 \<le> (of_char c :: nat) \<and> (of_char c :: nat) \<le> 57)"

definition local_last_char :: "char \<Rightarrow> bool" where
  "local_last_char c \<longleftrightarrow> ascii_alnum c \<or> c \<in> set ''_+-''"

definition local_char :: "char \<Rightarrow> bool" where
  "local_char c \<longleftrightarrow> local_last_char c \<or> c = CHR ''.'' \<or> (of_char c :: nat) = 39"

definition domain_label :: "string \<Rightarrow> bool" where
  "domain_label l \<longleftrightarrow> l \<noteq> [] \<and> ascii_alnum (hd l) \<and> list_all (\<lambda>c. ascii_alnum c \<or> c = CHR ''-'') l"

definition top_label :: "string \<Rightarrow> bool" where
  "top_label l \<longleftrightarrow> 2 \<le> length l \<and> list_all ascii_letter l"

definition zod_email :: "string \<Rightarrow> bool" where
  "zod_email s \<longleftrightarrow>
     (let lp = takeWhile (\<lambda>c. c \<noteq> CHR ''@'') s; rest = dropWhile (\<lambda>c. c \<noteq> CHR ''@'') s
      in rest \<noteq> [] \<and> lp \<noteq> [] \<and> hd s \<noteq> CHR ''.'' \<and> \<not> sublist ''..'' s \<and>
         list_all local_char lp \<and> local_last_char (last lp) \<and>
         (let labels = js_split CHR ''.'' (tl rest)
          in 2 \<le> length labels \<and> list_all domain_label (butlast labels) \<and> top_label (last labels)))"

text \<open>\<open>loginSchema\<close> (lines 53--56): the messages the form shows under its fields; the
  submit handler runs only when there are none.\<close>

definition login_errors :: "string \<Rightarrow> string \<Rightarrow> string list" where
  "login_errors em pw =
     (if zod_email em then [] else [''Please enter a valid email address.'']) @
     (if 6 \<le> length pw then [] else [''Password must be at least 6 characters.''])"

section \<open>The page\<close>

record toast =
  toast_title :: string
  toast_desc :: string
  toast_destructive :: bool

record login =
  isSubmitting :: bool
  isSignUp :: bool
  toasts :: "toast list"
  field_errors :: "string list"
  pushed :: "string list"

definition failure_toast :: "bool \<Rightarrow> auth_error \<Rightarrow> toast" where
  "failure_toast signUp e =
     \<lparr>toast_title = (if signUp then ''Sign-up Failed'' else ''Sign-in Failed''),
      toast_desc = auth_message e, toast_destructive = True\<rparr>"

definition verification_toast :: toast where
  "verification_toast =
     \<lparr>toast_title = ''Verification Email Sent!'',
      toast_desc = ''Please check your inbox to verify your email address.'', toast_destructive = False\<rparr>"

text \<open>\<open>handleEmailAuth\<close> (lines 81--106). Signing up creates the account (which signs
  the user in) and then sends the verification mail; any rejection is caught and shown
  with the title chosen by \<open>isSignUp\<close>; \<open>finally\<close> clears \<open>isSubmitting\<close>.\<close>

definition handleEmailAuth :: "uid \<Rightarrow> bool \<Rightarrow> string \<Rightarrow> string \<Rightarrow> login \<times> auth_backend \<Rightarrow> login \<times> auth_backend" where
  "handleEmailAuth new_uid delivered em pw la =
     (let (l, a) = la;
          l1 = l\<lparr>isSubmitting := True\<rparr>;
          fail = (\<lambda>e a'. (l1\<lparr>toasts := toasts l1 @ [failure_toast (isSignUp l) e]\<rparr>, a'));
          (l2, a2) =
            (if isSignUp l then
               (case createUserWithEmailAndPassword new_uid em pw a of
                  (Some e, a1) \<Rightarrow> fail e a1
                | (None, a1) \<Rightarrow>
                    (case sendEmailVerification delivered em a1 of
                       (Some e, a3) \<Rightarrow> fail e a3
                     | (None, a3) \<Rightarrow> (l1\<lparr>toasts := toasts l1 @ [verification_toast]\<rparr>, a3)))
             else
               (case signInWithEmailAndPassword em pw a of
                  (Some e, a1) \<Rightarrow> fail e a1
                | (None, a1) \<Rightarrow> (l1, a1)))
      in (l2\<lparr>isSubmitting := False\<rparr>, a2))"

text \<open>\<open>form.handleSubmit(handleEmailAuth)\<close> (line 146).\<close>

definition onSubmit :: "uid \<Rightarrow> bool \<Rightarrow> string \<Rightarrow> string \<Rightarrow> login \<times> auth_backend \<Rightarrow> login \<times> auth_backend" where
  "onSubmit new_uid delivered em pw la =
     (let (l, a) = la; errs = login_errors em pw
      in if errs = [] then handleEmailAuth new_uid delivered em pw (l\<lparr>field_errors := []\<rparr>, a)
         else (l\<lparr>field_errors := errs\<rparr>, a))"

text \<open>\<open>handleGoogleSignIn\<close> (lines 109--124); \<open>popup\<close> is what the popup returns.\<close>

definition google_failure_toast :: toast where
  "google_failure_toast =
     \<lparr>toast_title = ''Sign-in Failed'', toast_desc = ''Could not sign in with Google. Please try again.'',
      toast_destructive = True\<rparr>"

definition handleGoogleSignIn :: "auth_error + auth_user \<Rightarrow> login \<times> auth_backend \<Rightarrow> login \<times> auth_backend" where
  "handleGoogleSignIn popup la =
     (let (l, a) = la in
      case popup of
        Inl e \<Rightarrow> (l\<lparr>toasts := toasts l @ [google_failure_toast], isSubmitting := False\<rparr>, a)
      | Inr u \<Rightarrow> (l\<lparr>isSubmitting := False\<rparr>, a\<lparr>signed_in := Some u\<rparr>))"

text \<open>The redirect effect (lines 74--78): a signed-in user, once loading is over, is sent
  to the home page.\<close>

definition login_redirect :: "auth_ctx \<Rightarrow> login \<Rightarrow> login" where
  "login_redirect ctx l = (if \<not> loading ctx \<and> cur_user ctx \<noteq> None then l\<lparr>pushed := pushed l @ [''/'']\<rparr> else l)"

text \<open>What the page renders (lines 126--222): only the logo while loading or signed in;
  otherwise the card, whose texts follow \<open>isSignUp\<close> and whose buttons are disabled
  while a request runs.\<close>

record login_card =
  card_title :: string
  card_description :: string
  submit_label :: string
  submit_disabled :: bool
  switch_prompt :: string
  switch_label :: string
  google_label :: string
  google_disabled :: bool

definition login_view :: "auth_ctx \<Rightarrow> login \<Rightarrow> login_card option" where
  "login_view ctx l =
     (if loading ctx \<or> cur_user ctx \<noteq> None then None
      else Some \<lparr>card_title = (if isSignUp l then ''Create an Account'' else ''Welcome Back!''),
                 card_description = (if isSignUp l then ''Enter your details to get started.''
                                     else ''Sign in to continue to Mitho Chat.''),
                 submit_label = (if isSignUp l then ''Sign Up'' else ''Sign In''),
                 submit_disabled = isSubmitting l,
                 switch_prompt = (if isSignUp l then ''Already have an account?'' else ''Don't have an account?''),
                 switch_label = (if isSignUp l then ''Sign In'' else ''Sign Up''),
                 google_label = (if isSubmitting l then ''Signing in...'' else ''Continue with Google''),
                 google_disabled = isSubmitting l\<rparr>)"

section \<open>Fixtures\<close>

definition no_accounts :: auth_backend where
  "no_accounts = \<lparr>accounts = [], signed_in = None, verification_sent = []\<rparr>"

definition signup_page :: login where
  "signup_page = \<lparr>isSubmitting = False, isSignUp = True, toasts = [], field_errors = [], pushed = []\<rparr>"

definition users_store :: store where
  "users_store = \<lparr>calls = Map.empty, callerCandidates = (\<lambda>_. []), calleeCandidates = (\<lambda>_. []),
                  chats = Map.empty, messages = (\<lambda>_. []), users = [], friendRequests = [], clock = 0\<rparr>"

definition loading_ctx :: auth_ctx where
  "loading_ctx = \<lparr>cur_user = None, ctx_profile = None, loading = True\<rparr>"

section \<open>Lemmas\<close>

text \<open>The new user a successful sign-up creates.\<close>

lemma createUser_ok:
  assumes "\<not> registered em a" and "6 \<le> length pw"
  shows "createUserWithEmailAndPassword u em pw a =
           (None, a\<lparr>accounts := accounts a @ [\<lparr>acc_user = \<lparr>au_uid = u, au_displayName = None, au_email = Some em, au_photoURL = None\<rparr>,
                                                acc_password = pw\<rparr>],
                    signed_in := Some \<lparr>au_uid = u, au_displayName = None, au_email = Some em, au_photoURL = None\<rparr>\<rparr>)"
  using assms by (simp add: createUserWithEmailAndPassword_def Let_def)

lemma login_errors_Nil: "login_errors em pw = [] \<longleftrightarrow> zod_email em \<and> 6 \<le> length pw"
  by (simp add: login_errors_def)

text \<open>A valid sign-up of a fresh address: the account is created and signed in whatever
  happens to the verification mail; the mail is sent when the service accepts it, and
  otherwise the failure is reported as a failed sign-up.\<close>

lemma signup_valid:
  assumes "login_errors em pw = []" and "\<not> registered em a" and "isSignUp l"
  shows "onSubmit u delivered em pw (l, a) =
           (l\<lparr>field_errors := [],
              toasts := toasts l @ [if delivered then verification_toast else failure_toast True TooManyRequests],
              isSubmitting := False\<rparr>,
            a\<lparr>accounts := accounts a @ [\<lparr>acc_user = \<lparr>au_uid = u, au_displayName = None, au_email = Some em, au_photoURL = None\<rparr>,
                                         acc_password = pw\<rparr>],
              signed_in := Some \<lparr>au_uid = u, au_displayName = None, au_email = Some em, au_photoURL = None\<rparr>,
              verification_sent := verification_sent a @ (if delivered then [em] else [])\<rparr>)"
proof -
  from assms(1) have pw: "6 \<le> length pw" by (simp add: login_errors_Nil)
  with assms show ?thesis
    by (cases delivered)
       (simp_all add: onSubmit_def handleEmailAuth_def createUser_ok sendEmailVerification_def Let_def)
qed

text \<open>A zod-valid address has a non-empty local part before its first \<open>@\<close>.\<close>

lemma zod_email_local:
  "zod_email em \<Longrightarrow> em \<noteq> [] \<and> takeWhile (\<lambda>c. c \<noteq> CHR ''@'') em \<noteq> []"
  by (auto simp: zod_email_def Let_def)

text \<open>The auth provider's first sight of a user without a profile writes the profile
  and ends loading.\<close>

lemma onAuthStateChanged_new:
  assumes "map_of (users s) (au_uid au) = None"
  shows "onAuthStateChanged (Some au) now (ctx, s) =
           (let p = new_profile au (clock s) now
            in (ctx\<lparr>cur_user := Some (if au_displayName au \<noteq> Some (displayName p) \<or> au_photoURL au \<noteq> Some (photoURL p)
                                      then au\<lparr>au_displayName := Some (displayName p), au_photoURL := Some (photoURL p)\<rparr>
                                      else au),
                    ctx_profile := Some p, loading := False\<rparr>,
                set_user (au_uid au) p s))"
  using assms by (simp add: onAuthStateChanged_def Let_def)

lemma onAuthStateChanged_signed_in:
  "cur_user (fst (onAuthStateChanged (Some au) now (ctx, s))) \<noteq> None \<and>
   \<not> loading (fst (onAuthStateChanged (Some au) now (ctx, s)))"
  by (simp add: onAuthStateChanged_def Let_def split: option.splits)

lemma carol_email: "login_errors ''carol@example.com'' ''secret1'' = []"
  by (simp add: login_errors_def zod_email_def local_char_def local_last_char_def ascii_alnum_def sublist_code prefix_code
                ascii_letter_def domain_label_def top_label_def Let_def)

lemma carol_fresh: "\<not> registered ''carol@example.com'' no_accounts"
  by (simp add: registered_def no_accounts_def)

section \<open>Properties\<close>

text \<open>C37: A sign-up whose verification mail the service refuses is reported as
  \<open>Sign-up Failed\<close>, with the service's message, although the account was created and
  the user is signed in; the redirect effect then takes that user into the app.\<close>

theorem signup_failure_after_account:
  assumes "login_errors em pw = []" and "\<not> registered em a" and "isSignUp l"
    and "onSubmit u False em pw (l, a) = (l', a')"
  shows "signed_in a' = Some \<lparr>au_uid = u, au_displayName = None, au_email = Some em, au_photoURL = None\<rparr> \<and>
         registered em a' \<and> verification_sent a' = verification_sent a \<and>
         last (toasts l') = \<lparr>toast_title = ''Sign-up Failed'',
                              toast_desc = ''Firebase: Error (auth/too-many-requests).'', toast_destructive = True\<rparr> \<and>
         \<not> isSubmitting l' \<and>
         pushed (login_redirect (fst (onAuthStateChanged (signed_in a') now (ctx, s))) l') = pushed l' @ [''/'']"
proof -
  from signup_valid [OF assms(1-3), of u False] assms(4)
  have l': "l' = l\<lparr>field_errors := [], toasts := toasts l @ [failure_toast True TooManyRequests], isSubmitting := False\<rparr>"
    and a': "a' = a\<lparr>accounts := accounts a @ [\<lparr>acc_user = \<lparr>au_uid = u, au_displayName = None, au_email = Some em, au_photoURL = None\<rparr>,
                                               acc_password = pw\<rparr>],
                    signed_in := Some \<lparr>au_uid = u, au_displayName = None, au_email = Some em, au_photoURL = None\<rparr>,
                    verification_sent := verification_sent a\<rparr>"
    by simp_all
  have "pushed (login_redirect (fst (onAuthStateChanged (signed_in a') now (ctx, s))) l') = pushed l' @ [''/'']"
    using onAuthStateChanged_signed_in [of _ now ctx s] a' by (simp add: login_redirect_def)
  with l' a' show ?thesis
    by (simp add: registered_def failure_toast_def auth_message_def auth_code_def)
qed

text \<open>C38: A successful sign-up of a fresh address sends the verification mail and signs
  the user in; the auth provider then writes the new user's profile, named after the part
  of the address before the \<open>@\<close>, and the page sends the user to the home page and stops
  showing the form, before the address is verified: nothing in the sources checks it.\<close>

theorem signup_lands_unverified:
  assumes "login_errors em pw = []" and "\<not> registered em a" and "isSignUp l"
    and "map_of (users s) u = None"
    and "onSubmit u True em pw (l, a) = (l', a')"
    and "onAuthStateChanged (signed_in a') now (ctx, s) = (ctx', s')"
  shows "verification_sent a' = verification_sent a @ [em] \<and>
         map_of (users s') u = Some (new_profile (the (signed_in a')) (clock s) now) \<and>
         displayName (the (map_of (users s') u)) = takeWhile (\<lambda>c. c \<noteq> CHR ''@'') em \<and>
         pushed (login_redirect ctx' l') = pushed l' @ [''/''] \<and> login_view ctx' l' = None"
proof -
  let ?au = "\<lparr>au_uid = u, au_displayName = None, au_email = Some em, au_photoURL = None\<rparr>"
  from signup_valid [OF assms(1-3), of u True] assms(5)
  have a': "signed_in a' = Some ?au" "verification_sent a' = verification_sent a @ [em]" by auto
  from assms(4) have "map_of (users s) (au_uid ?au) = None" by simp
  from onAuthStateChanged_new [OF this, of now ctx] assms(6) a'(1)
  have s': "s' = set_user u (new_profile ?au (clock s) now) s"
    and c': "cur_user ctx' \<noteq> None" "\<not> loading ctx'"
    by (auto simp: Let_def)
  from assms(1) have "takeWhile (\<lambda>c. c \<noteq> CHR ''@'') em \<noteq> []" "em \<noteq> []"
    by (simp_all add: login_errors_Nil zod_email_local)
  then have "displayName (new_profile ?au (clock s) now) = takeWhile (\<lambda>c. c \<noteq> CHR ''@'') em"
    by (simp add: new_profile_def or_else_def getDisplayNameFromEmail_def Let_def)
  with a' s' c' show ?thesis
    by (simp add: set_user_def login_redirect_def login_view_def update_conv')
qed

section \<open>Witnesses\<close>

theorem signup_failure_after_account_witness:
  "login_errors ''carol@example.com'' ''secret1'' = [] \<and> \<not> registered ''carol@example.com'' no_accounts \<and>
   isSignUp signup_page \<and>
   (case onSubmit ''carol'' False ''carol@example.com'' ''secret1'' (signup_page, no_accounts) of
      (l', a') \<Rightarrow>
        signed_in a' = Some \<lparr>au_uid = ''carol'', au_displayName = None, au_email = Some ''carol@example.com'', au_photoURL = None\<rparr> \<and>
        registered ''carol@example.com'' a' \<and> verification_sent a' = verification_sent no_accounts \<and>
        last (toasts l') = \<lparr>toast_title = ''Sign-up Failed'',
                             toast_desc = ''Firebase: Error (auth/too-many-requests).'', toast_destructive = True\<rparr> \<and>
        \<not> isSubmitting l' \<and>
        pushed (login_redirect (fst (onAuthStateChanged (signed_in a') 1700000000000 (loading_ctx, users_store))) l') =
          pushed l' @ [''/''])"
proof -
  obtain l' a' where r: "onSubmit ''carol'' False ''carol@example.com'' ''secret1'' (signup_page, no_accounts) = (l', a')"
    by fastforce
  have sp: "isSignUp signup_page" by (simp add: signup_page_def)
  note W = signup_failure_after_account [OF carol_email carol_fresh sp r, of 1700000000000 loading_ctx users_store]
  show ?thesis unfolding r prod.case using carol_email carol_fresh sp W by blast
qed

theorem signup_lands_unverified_witness:
  "login_errors ''carol@example.com'' ''secret1'' = [] \<and> \<not> registered ''carol@example.com'' no_accounts \<and>
   isSignUp signup_page \<and> map_of (users users_store) ''carol'' = None \<and>
   (case onSubmit ''carol'' True ''carol@example.com'' ''secret1'' (signup_page, no_accounts) of
      (l', a') \<Rightarrow>
        (case onAuthStateChanged (signed_in a') 1700000000000 (loading_ctx, users_store) of
           (ctx', s') \<Rightarrow>
             verification_sent a' = verification_sent no_accounts @ [''carol@example.com''] \<and>
             map_of (users s') ''carol'' = Some (new_profile (the (signed_in a')) (clock users_store) 1700000000000) \<and>
             displayName (the (map_of (users s') ''carol'')) = takeWhile (\<lambda>c. c \<noteq> CHR ''@'') ''carol@example.com'' \<and>
             pushed (login_redirect ctx' l') = pushed l' @ [''/''] \<and> login_view ctx' l' = None))"
proof -
  obtain l' a' where r: "onSubmit ''carol'' True ''carol@example.com'' ''secret1'' (signup_page, no_accounts) = (l', a')"
    by fastforce
  obtain ctx' s' where q: "onAuthStateChanged (signed_in a') 1700000000000 (loading_ctx, users_store) = (ctx', s')"
    by fastforce
  have sp: "isSignUp signup_page" by (simp add: signup_page_def)
  have u: "map_of (users users_store) ''carol'' = None" by (simp add: users_store_def)
  note W = signup_lands_unverified [OF carol_email carol_fresh sp u r q]
  show ?thesis unfolding r prod.case q using carol_email carol_fresh sp u W by blast
qed

end
