(* ===== verification/Lists.thy ===== *)
theory Lists
  imports Messaging CallLog Widgets
begin

text \<open>
  Presentation of stored data: how a message is drawn in the chat screen
  (\<open>MessageItem\<close> of src/src/components/chat-view.tsx), the chat list
  (src/src/components/chat-list.tsx), the people tab (src/src/components/people-tab.tsx)
  and the friends panel with its unfriend dialog (src/src/components/friends-list.tsx).
  A render is a function of the props into a value listing what is on screen; styling,
  icons and locale-dependent time formatting are left out. The well-formedness of a
  stored message (\<open>msg_wf\<close>) is the typing the renderer relies on; the lemmas show that
  every message writer keeps it and that a well-formed message is drawn with its
  payload.
\<close>

section \<open>Message items\<close>

text \<open>\<open>toUpperCase()\<close> on the ASCII letters.\<close>

definition js_upper_char :: "char \<Rightarrow> char" where
  "js_upper_char c = (if 97 \<le> (of_char c :: nat) \<and> (of_char c :: nat) \<le> 122 then char_of (of_char c - (32::nat)) else c)"

text \<open>The item's \<open>getInitials\<close> (lines 156--159): the first character of every word of
  \<open>split(' ')\<close> (an empty word gives \<open>undefined\<close>, which \<open>join('')\<close> prints as the empty
  string), the first two of them, upper-cased.\<close>

definition item_initials :: "string \<Rightarrow> string" where
  "item_initials name =
     (if name = [] then [] else map js_upper_char (take 2 (concat (map (take 1) (js_split CHR '' '' name)))))"

text \<open>\<open>(fileSize / 1024 / 1024).toFixed(2) + ' MB'\<close> (line 249), shown only for a truthy
  size. The quotient by \<open>2^20\<close> is exact in a double, and \<open>toFixed\<close> rounds a tie up: the
  hundredths are \<open>\<lfloor>100 n / 2^20 + 1/2\<rfloor>\<close>.\<close>

definition file_size_text :: "nat option \<Rightarrow> string" where
  "file_size_text sz =
     (case sz of
        None \<Rightarrow> []
      | Some n \<Rightarrow>
          if n = 0 then []
          else (let q = (100 * n + 2 ^ 19) div 2 ^ 20
                in dec_string (q div 100) @ ''.'' @ pad_start 2 (CHR ''0'') (dec_string (q mod 100)) @ '' MB''))"

text \<open>The parts of a bubble (lines 222--262): the attachment as its type draws it, then
  the text when it is non-empty.\<close>

datatype part =
    PartImage string
  | PartVideo string
  | PartDocument "string option" string string
  | PartVoice string
  | PartText string

definition item_parts :: "message \<Rightarrow> part list" where
  "item_parts m =
     (case attachmentUrl m of
        None \<Rightarrow> []
      | Some u \<Rightarrow>
          (case msg_type m of
             MsgImage \<Rightarrow> [PartImage u]
           | MsgVideo \<Rightarrow> [PartVideo u]
           | MsgDocument \<Rightarrow> [PartDocument (fileName m) (file_size_text (fileSize m)) u]
           | MsgVoice \<Rightarrow> [PartVoice u]
           | _ \<Rightarrow> []))
     @ (case msg_text m of None \<Rightarrow> [] | Some t \<Rightarrow> if t = [] then [] else [PartText t])"

record bubble =
  b_mine :: bool
  b_name :: "string option"
  b_initials :: string
  b_parts :: "part list"

datatype item = CallRow string | Bubble bubble

text \<open>\<open>MessageItem\<close> (lines 136--294) for the signed-in user \<open>viewer\<close> (the home page
  renders nothing without one, page.tsx line 530) and the sender's profile as its
  effect fetched it: nothing without a profile; a call entry with its \<open>callInfo\<close> as a
  centred row; otherwise a bubble on my side or the other's, the sender's name above
  it when it is not mine and not an image or video, the sender's initials in the
  avatar fallback.\<close>

definition message_item :: "uid \<Rightarrow> user_doc option \<Rightarrow> message \<Rightarrow> item option" where
  "message_item viewer sender m =
     (case sender of
        None \<Rightarrow> None
      | Some sd \<Rightarrow>
          (let isMe = (senderId m = viewer); isMedia = (msg_type m \<in> {MsgImage, MsgVideo})
           in case call_entry_text viewer m of
                Some t \<Rightarrow> Some (CallRow t)
              | None \<Rightarrow>
                  Some (Bubble \<lparr>b_mine = isMe,
                                b_name = (if \<not> isMe \<and> \<not> isMedia then Some (displayName sd) else None),
                                b_initials = item_initials (displayName sd),
                                b_parts = item_parts m\<rparr>)))"

text \<open>The message list (lines 717--719): every message with the profile of its sender
  as stored.\<close>

definition message_items :: "uid \<Rightarrow> store \<Rightarrow> message list \<Rightarrow> item list" where
  "message_items viewer s ms = List.map_filter (\<lambda>m. message_item viewer (map_of (users s) (senderId m)) m) ms"

text \<open>What the item draws as content: the call row's text, or the bubble's parts.\<close>

fun item_payload :: "item \<Rightarrow> bool" where
  "item_payload (CallRow t) = (t \<noteq> [])"
| "item_payload (Bubble b) = (b_parts b \<noteq> [])"

text \<open>The typing of a stored message the renderer relies on: a text message has a
  non-empty text, a call entry its \<open>callInfo\<close>, a voice message its URL, an image, video
  or document its URL and file name.\<close>

definition msg_wf :: "message \<Rightarrow> bool" where
  "msg_wf m =
     (case msg_type m of
        MsgText \<Rightarrow> msg_text m \<noteq> None \<and> msg_text m \<noteq> Some []
      | MsgCall \<Rightarrow> callInfo m \<noteq> None
      | MsgVoice \<Rightarrow> attachmentUrl m \<noteq> None
      | _ \<Rightarrow> attachmentUrl m \<noteq> None \<and> fileName m \<noteq> None)"

section \<open>Lists\<close>

text \<open>A list component draws its rows, or a note when there are none.\<close>

datatype 'a listing = Rows "'a list" | EmptyNote string

subsection \<open>The chat list\<close>

text \<open>A row of \<open>ChatList\<close> (chat-list.tsx lines 54--96): highlighted when its id is the
  selected chat's; the avatar fallback is the initials of a non-empty name, else
  \<open>U\<close> (the component's \<open>getInitials\<close> is the code of page.tsx lines 551--558); the last
  message; the unread badge when the count is positive. The time is locale-formatted
  and left out; \<open>online\<close> is never set by the sources.\<close>

record chat_row =
  cr_key :: chat_id
  cr_active :: bool
  cr_fallback :: string
  cr_name :: "string option"
  cr_last :: string
  cr_badge :: "nat option"

definition chat_row :: "chat_id option \<Rightarrow> chat_view \<Rightarrow> chat_row" where
  "chat_row sel c =
     \<lparr>cr_key = chat_key c, cr_active = (sel = Some (chat_key c)),
      cr_fallback = (case chat_name c of None \<Rightarrow> ''U'' | Some n \<Rightarrow> if n = [] then ''U'' else getInitials n),
      cr_name = chat_name c, cr_last = lastMessage c,
      cr_badge = (if 0 < unreadCount c then Some (unreadCount c) else None)\<rparr>"

definition ChatList :: "chat_view list \<Rightarrow> chat_id option \<Rightarrow> chat_row listing" where
  "ChatList cs sel = (if cs = [] then EmptyNote ''No chats found.'' else Rows (map (chat_row sel) cs))"

text \<open>The home page's chat tab (lines 712--719, 569--571 and 604--606): the chats whose
  name contains the search term, drawn with the selected chat.\<close>

definition home_chat_tab :: "string \<Rightarrow> home \<Rightarrow> js_error + chat_row listing" where
  "home_chat_tab t h =
     (case filter_chats t (chatList h) of
        Inl e \<Rightarrow> Inl e
      | Inr cs \<Rightarrow> Inr (ChatList cs (selectedChat h)))"

subsection \<open>The people tab\<close>

text \<open>The button of a person (people-tab.tsx lines 145--190), by \<open>requestStatus\<close>:
  Message (disabled while a chat is being created), the Pending menu with its cancel
  item, or Add Friend.\<close>

datatype person_button = MessageButton bool | PendingMenu | AddFriendButton

definition person_button :: "(uid \<rightharpoonup> req_view) \<Rightarrow> bool \<Rightarrow> uid \<Rightarrow> person_button" where
  "person_button rs creating u =
     (case rs u of
        Some StatusFriends \<Rightarrow> MessageButton creating
      | Some StatusPending \<Rightarrow> PendingMenu
      | None \<Rightarrow> AddFriendButton)"

record person_row =
  pr_id :: uid
  pr_name :: string
  pr_handle :: string
  pr_initials :: string
  pr_button :: person_button

text \<open>\<open>PeopleTab\<close> (lines 26--206): the spinner while a chat is being created; the
  received requests (each with its accept and decline buttons) when there are some and
  no search term; the heading; a row per filtered user, or the empty note.\<close>

record people_view =
  pv_creating :: bool
  pv_requests :: "(req_id \<times> uid) list option"
  pv_heading :: string
  pv_people :: "person_row listing"

definition PeopleTab :: "home \<Rightarrow> string \<Rightarrow> bool \<Rightarrow> people_view" where
  "PeopleTab h t creating =
     (let us = filteredUsers (me h) t (allUsers h)
      in \<lparr>pv_creating = creating,
          pv_requests = (if friendRequestsShown h \<noteq> [] \<and> t = []
                         then Some (map (\<lambda>(k, r). (k, req_from r)) (friendRequestsShown h)) else None),
          pv_heading = (if t = [] then ''All People'' else ''Search Results ('' @ dec_string (length us) @ '')''),
          pv_people =
            (if us = [] then EmptyNote (if t = [] then ''No other users have joined yet.'' else ''No users found.'')
             else Rows (map (\<lambda>(k, d). \<lparr>pr_id = k, pr_name = displayName d, pr_handle = ''@'' @ handle d,
                                        pr_initials = getInitials (displayName d),
                                        pr_button = person_button (requestStatus h) creating k\<rparr>) us))\<rparr>)"

text \<open>The button the tab shows for a user, if it lists the user.\<close>

definition button_for :: "people_view \<Rightarrow> uid \<Rightarrow> person_button option" where
  "button_for v u =
     (case pv_people v of
        EmptyNote _ \<Rightarrow> None
      | Rows rs \<Rightarrow> map_option pr_button (List.find (\<lambda>r. pr_id r = u) rs))"

subsection \<open>The friends panel\<close>

text \<open>The friends page's effect (src/src/app/friends/page.tsx lines 29--42) reads the
  document of every friend of my profile; a missing document gives a friend whose
  \<open>displayName\<close> is \<open>undefined\<close>. \<open>FriendsList\<close>'s filter (friends-list.tsx lines 49--52)
  calls \<open>toLowerCase\<close> on each friend's name in turn and throws on the first such
  friend.\<close>

definition load_friends :: "home \<Rightarrow> store \<Rightarrow> (uid \<times> user_doc option) list" where
  "load_friends h s =
     (case userProfile h of None \<Rightarrow> [] | Some p \<Rightarrow> map (\<lambda>f. (f, map_of (users s) f)) (friends p))"

fun friend_docs :: "(uid \<times> user_doc option) list \<Rightarrow> js_error + (uid \<times> user_doc) list" where
  "friend_docs [] = Inr []"
| "friend_docs ((k, None) # fs) = Inl TypeError"
| "friend_docs ((k, Some d) # fs) = map_sum id (Cons (k, d)) (friend_docs fs)"

definition filteredFriends :: "string \<Rightarrow> (uid \<times> user_doc) list \<Rightarrow> (uid \<times> user_doc) list" where
  "filteredFriends t fs =
     filter (\<lambda>(_, d). sublist (js_lower t) (js_lower (displayName d)) \<or> sublist (js_lower t) (js_lower (handle d))) fs"

text \<open>The panel's state: the search term and \<open>userToUnfriend\<close>.\<close>

record friends_panel =
  fp_term :: string
  fp_target :: "(uid \<times> user_doc) option"

record friend_row =
  fr_id :: uid
  fr_name :: string
  fr_handle :: string
  fr_initials :: string

text \<open>What \<open>FriendsList\<close> draws (lines 53--119): the rows of the filtered friends or the
  empty note, and the confirmation text while a friend is picked.\<close>

definition FriendsList :: "(uid \<times> user_doc) list \<Rightarrow> friends_panel \<Rightarrow> friend_row listing \<times> string option" where
  "FriendsList fs p =
     (let ff = filteredFriends (fp_term p) fs
      in (if ff = [] then EmptyNote (if fp_term p = [] then ''No friends yet. Find some in the 'Peoples' tab.''
                                     else ''No friends found.'')
          else Rows (map (\<lambda>(k, d). \<lparr>fr_id = k, fr_name = displayName d, fr_handle = ''@'' @ handle d,
                                     fr_initials = getInitials (displayName d)\<rparr>) ff),
          map_option (\<lambda>(_, d). ''This action cannot be undone. You will remove '' @ displayName d @
                               '' from your friends list and delete your chat history.'') (fp_target p)))"

text \<open>The panel's events: typing a search term, picking Unfriend on a shown row,
  closing the dialog (Cancel, Escape, or the action itself, which closes it), and
  Continue, which calls the \<open>handleUnfriend\<close> prop \<open>unf\<close> with the picked friend's id:
  the friends page passes its own handler, the home page's settings tab the page's.\<close>

datatype fl_event = FlSearch string | FlPick uid | FlDismiss | FlContinue

definition fl_step :: "(uid \<Rightarrow> home_client \<Rightarrow> home_client) \<Rightarrow> fl_event \<Rightarrow> (uid \<times> user_doc) list \<Rightarrow>
                      friends_panel \<times> home_client \<Rightarrow> friends_panel \<times> home_client" where
  "fl_step unf e fs ps =
     (let (p, hs) = ps in
      case e of
        FlSearch t \<Rightarrow> (p\<lparr>fp_term := t\<rparr>, hs)
      | FlPick k \<Rightarrow>
          (case List.find (\<lambda>(k', _). k' = k) (filteredFriends (fp_term p) fs) of
             None \<Rightarrow> (p, hs)
           | Some f \<Rightarrow> (p\<lparr>fp_target := Some f\<rparr>, hs))
      | FlDismiss \<Rightarrow> (p\<lparr>fp_target := None\<rparr>, hs)
      | FlContinue \<Rightarrow>
          (case fp_target p of
             None \<Rightarrow> (p, hs)
           | Some (k, _) \<Rightarrow> (p\<lparr>fp_target := None\<rparr>, unf k hs)))"

section \<open>Fixtures\<close>

text \<open>alice's chat screen on her chat with bob, with a message typed; bob's pending
  request to alice; alice's home page listing both users.\<close>

definition typed_chat :: chatview where
  "typed_chat = (chatview_of ''alice'' (new_direct_chat ''alice_bob'' [''alice'', ''bob''] ''alice'' 1))\<lparr>inputText := '' hello ''\<rparr>"

definition bob_request :: friend_request where
  "bob_request = \<lparr>req_from = ''bob'', req_to = ''alice'', req_status = ReqPending, req_createdAt = 1\<rparr>"

definition request_store :: store where
  "request_store = social_store\<lparr>friendRequests := [(''r1'', bob_request)]\<rparr>"

definition alice_people :: home where
  "alice_people = (home_of ''alice'')\<lparr>allUsers := users social_store\<rparr>"

section \<open>Lemmas: message typing\<close>

text \<open>Appending to one chat's list keeps a property of every chat's list when the new
  element has it.\<close>

lemma list_all_append_at [simp]:
  "list_all P ((f(k := f k @ [x])) c) \<longleftrightarrow> list_all P (f c) \<and> (c = k \<longrightarrow> P x)"
  by auto

lemma stamp_chat_messages [simp]: "messages (snd (stamp_chat cid t u s)) = messages s"
  by (simp add: stamp_chat_def)

lemma getFileType_cases: "getFileType mime \<in> {MsgImage, MsgVideo, MsgDocument}"
  by (simp add: getFileType_def)

lemma handleSendMessage_wf:
  "list_all msg_wf (messages s c) \<Longrightarrow> list_all msg_wf (messages (snd (handleSendMessage (cw, s))) c)"
  by (auto simp: handleSendMessage_def Let_def msg_wf_def plain_message_def)

lemma handleSendAttachment_wf:
  assumes "list_all msg_wf (messages s c)"
  shows "list_all msg_wf (messages (snd (handleSendAttachment f cap up (cw, s))) c)"
proof -
  have "msg_wf ((plain_message u ts (getFileType mime))\<lparr>msg_text := Some cap, attachmentUrl := Some url,
          fileName := Some n, fileSize := Some z\<rparr>)" for u ts mime url n z
    using getFileType_cases [of mime] by (auto simp: msg_wf_def plain_message_def)
  with assms show ?thesis
    by (auto simp: handleSendAttachment_def Let_def prod.case_eq_if split: option.splits)
qed

lemma sendVoiceMessage_wf:
  "list_all msg_wf (messages s c) \<Longrightarrow> list_all msg_wf (messages (snd (sendVoiceMessage up (v, s))) c)"
  by (auto simp: sendVoiceMessage_def Let_def prod.case_eq_if msg_wf_def plain_message_def split: option.splits)

lemma createCallMessage_wf:
  "list_all msg_wf (messages s c) \<Longrightarrow> list_all msg_wf (messages (snd (createCallMessage d st dur s)) c)"
  by (auto simp: msg_wf_def call_log_entry_def)

section \<open>Lemmas: drawing a message\<close>

lemma call_entry_text_Some_iff:
  "call_entry_text v m \<noteq> None \<longleftrightarrow> msg_type m = MsgCall \<and> callInfo m \<noteq> None"
  by (auto simp: call_entry_text_def Let_def split: option.splits)

lemma call_entry_text_nonempty: "call_entry_text v m = Some t \<Longrightarrow> t \<noteq> []"
  by (auto simp: call_entry_text_def Let_def split: option.splits if_splits)

lemma item_parts_wf: "msg_wf m \<Longrightarrow> msg_type m \<noteq> MsgCall \<Longrightarrow> item_parts m \<noteq> []"
  by (cases "msg_type m") (auto simp: msg_wf_def item_parts_def split: option.splits)

lemma message_items_set:
  "it \<in> set (message_items v s ms) \<longleftrightarrow> (\<exists>m \<in> set ms. message_item v (map_of (users s) (senderId m)) m = Some it)"
  unfolding message_items_def by (induction ms) (auto simp: map_filter_simps split: option.splits)

lemma message_item_drawn:
  assumes "msg_wf m"
  shows "\<exists>it. message_item v (Some sd) m = Some it \<and> item_payload it"
proof (cases "call_entry_text v m")
  case None
  then have "msg_type m \<noteq> MsgCall"
    using assms call_entry_text_Some_iff [of v m] by (auto simp: msg_wf_def)
  with None assms show ?thesis by (simp add: message_item_def Let_def item_parts_wf)
next
  case (Some t)
  then show ?thesis by (simp add: message_item_def call_entry_text_nonempty)
qed

section \<open>Lemmas: the friends panel\<close>

lemma find_pair_in_set: "List.find (\<lambda>(k', _). k' = k) xs = Some f \<Longrightarrow> f \<in> set xs \<and> fst f = k"
  by (induction xs) (auto split: if_splits)

lemma filteredFriends_subset: "set (filteredFriends t fs) \<subseteq> set fs"
  by (auto simp: filteredFriends_def)

lemma fl_step_target:
  assumes "set_option (fp_target p) \<subseteq> set fs"
  shows "set_option (fp_target (fst (fl_step unf e fs (p, hs)))) \<subseteq> set fs"
proof (cases e)
  case (FlPick k)
  then show ?thesis
    using assms find_pair_in_set [of k "filteredFriends (fp_term p) fs"] filteredFriends_subset [of "fp_term p" fs]
    by (auto simp: fl_step_def split: option.splits)
qed (use assms in \<open>auto simp: fl_step_def split: option.splits\<close>)

lemma fl_step_store:
  "fl_step unf e fs (p, hs) = (p', hs') \<Longrightarrow> hs' \<noteq> hs \<Longrightarrow>
     e = FlContinue \<and> (\<exists>k d. fp_target p = Some (k, d) \<and> hs' = unf k hs \<and> fp_target p' = None)"
  by (cases e; cases "fp_target p") (auto simp: fl_step_def split: option.splits)

section \<open>Lemmas: the chat list\<close>

lemma update_set_cases: "x \<in> set (AList.update k v al) \<Longrightarrow> x = (k, v) \<or> x \<in> set al"
  by (induction al) (auto split: if_splits)

lemma resolve_chat_key [simp]: "chat_key (resolve_chat u s c) = chat_key c"
  by (simp add: resolve_chat_def Let_def chat_doc.extend_def)

text \<open>The map the chat listener builds is keyed by each chat's own id, once per id.\<close>

lemma chat_map_keyed:
  assumes "distinct (map fst cm)" "\<forall>(k, v) \<in> set cm. chat_key v = k"
  shows "distinct (map fst (fold (\<lambda>c m. AList.update (chat_key c) (resolve_chat u s c) m) docs cm)) \<and>
         (\<forall>(k, v) \<in> set (fold (\<lambda>c m. AList.update (chat_key c) (resolve_chat u s c) m) docs cm). chat_key v = k)"
  using assms
proof (induction docs arbitrary: cm)
  case (Cons c docs)
  let ?cm = "AList.update (chat_key c) (resolve_chat u s c) cm"
  have "distinct (map fst ?cm)" using Cons.prems(1) by (simp add: distinct_update)
  moreover have "\<forall>(k, v) \<in> set ?cm. chat_key v = k"
  proof
    fix x assume "x \<in> set ?cm"
    then have "x = (chat_key c, resolve_chat u s c) \<or> x \<in> set cm" by (rule update_set_cases)
    with Cons.prems(2) show "case x of (k, v) \<Rightarrow> chat_key v = k" by auto
  qed
  ultimately show ?case using Cons.IH by simp
qed simp

lemma keyed_map_snd:
  "\<forall>(k, v) \<in> set cm. chat_key v = k \<Longrightarrow> map (chat_key \<circ> snd) cm = map fst cm"
  by (induction cm) auto

lemma distinct_sort_key_map: "distinct (map g (sort_key f xs)) \<longleftrightarrow> distinct (map g xs)"
proof -
  have "mset (map g (sort_key f xs)) = mset (map g xs)" by simp
  then show ?thesis by (rule mset_eq_imp_distinct_iff)
qed

lemma chatList_distinct: "distinct (map chat_key (chatList (chats_snapshot docs (h, s))))"
proof -
  let ?cm = "fold (\<lambda>c m. AList.update (chat_key c) (resolve_chat (me h) s c) m) docs []"
  have "distinct (map fst ?cm)" "\<forall>(k, v) \<in> set ?cm. chat_key v = k"
    using chat_map_keyed [of "[]" "me h" s docs] by simp_all
  then show ?thesis
    by (simp add: chats_snapshot_def Let_def distinct_sort_key_map keyed_map_snd)
qed

lemma filter_chats_Inr:
  "filter_chats t cs = Inr cs' \<Longrightarrow> cs' = filter (\<lambda>c. sublist (js_lower t) (js_lower (the (chat_name c)))) cs"
proof (induction cs arbitrary: cs')
  case (Cons c cs)
  from Cons.prems obtain n rest where n: "chat_name c = Some n" and r: "filter_chats t cs = Inr rest"
    by (auto split: option.split_asm sum.split_asm)
  have "rest = filter (\<lambda>c. sublist (js_lower t) (js_lower (the (chat_name c)))) cs"
    using Cons.IH [OF r] .
  with Cons.prems n r show ?case by (simp split: if_splits)
qed simp

lemma chat_row_key [simp]: "cr_key (chat_row sel c) = chat_key c"
  by (simp add: chat_row_def)

lemma chat_rows_active: "filter cr_active (map (chat_row sel) cs) = map (chat_row sel) (filter (\<lambda>c. Some (chat_key c) = sel) cs)"
  by (induction cs) (auto simp: chat_row_def)

section \<open>Lemmas: the people tab\<close>

lemma received_snapshot_fields [simp]:
  "me (received_snapshot s h) = me h" "requestStatus (received_snapshot s h) = requestStatus h"
  "allUsers (received_snapshot s h) = allUsers h"
  by (simp_all add: received_snapshot_def)

lemma received_snapshot_shown:
  "friendRequestsShown (received_snapshot s h) =
     filter (\<lambda>(_, r). req_to r = me h \<and> req_status r = ReqPending \<and> map_of (users s) (req_from r) \<noteq> None)
       (friendRequests s)"
  by (simp add: received_snapshot_def)

lemma find_key_exists: "(u, d) \<in> set xs \<Longrightarrow> \<exists>d'. List.find (\<lambda>(k, _). k = u) xs = Some (u, d')"
  by (induction xs) auto

lemma find_map_conv: "List.find P (map g xs) = map_option g (List.find (P \<circ> g) xs)"
  by (induction xs) auto

lemma button_for_PeopleTab:
  assumes "(u, d) \<in> set (filteredUsers (me h) t (allUsers h))"
  shows "button_for (PeopleTab h t c) u = Some (person_button (requestStatus h) c u)"
proof -
  let ?us = "filteredUsers (me h) t (allUsers h)"
  obtain d' where f: "List.find (\<lambda>(k, _). k = u) ?us = Some (u, d')"
    using find_key_exists [OF assms] by blast
  have "?us \<noteq> []" using assms by auto
  with f show ?thesis
    by (simp add: button_for_def PeopleTab_def Let_def find_map_conv comp_def case_prod_beta')
qed

lemma filteredUsers_all: "filteredUsers u [] us = filter (\<lambda>(k, _). k \<noteq> u) us"
  by (simp add: filteredUsers_def js_lower_def)

lemma handleSendFriendRequest_fresh:
  "requests_from_to (me h) u s = [] \<Longrightarrow>
     snd (handleSendFriendRequest u k (h, s)) =
       add_request k \<lparr>req_from = me h, req_to = u, req_status = ReqPending, req_createdAt = clock s\<rparr> s"
  by (simp add: handleSendFriendRequest_def Let_def)

text \<open>The chat tab draws each chat once and highlights at most one row, whatever
  documents the chat listener delivered (a chat delivered twice is kept once).\<close>

lemma chat_tab_rows_keyed:
  assumes "home_chat_tab t (chats_snapshot docs (h, s)) = Inr (Rows rs)"
  shows "distinct (map cr_key rs) \<and> length (filter cr_active rs) \<le> 1"
proof -
  let ?h = "chats_snapshot docs (h, s)"
  obtain cs where f: "filter_chats t (chatList ?h) = Inr cs" and rs: "rs = map (chat_row (selectedChat ?h)) cs"
    using assms by (auto simp: home_chat_tab_def ChatList_def split: sum.splits if_splits)
  have "distinct (map chat_key cs)"
    using filter_chats_Inr [OF f] chatList_distinct [of docs h s] by (simp add: distinct_map_filter)
  moreover have "map cr_key rs = map chat_key cs" by (simp add: rs)
  moreover have "length (filter cr_active rs) \<le> 1"
  proof (cases "selectedChat ?h")
    case None
    then show ?thesis by (simp add: rs chat_rows_active)
  next
    case (Some a)
    have "filter (\<lambda>c. Some (chat_key c) = selectedChat ?h) cs = filter (\<lambda>c. chat_key c = a) cs"
      using Some by simp
    then show ?thesis
      using filter_key_at_most_one [OF \<open>distinct (map chat_key cs)\<close>, of a]
      by (simp add: rs chat_rows_active)
  qed
  ultimately show ?thesis by simp
qed

section \<open>Properties\<close>

text \<open>C39: Every message the text, attachment, voice and call-log writers leave in a chat
  is well-formed for its type, and the chat screen draws each such message whose sender
  has a profile with its payload: a call row with its text or a bubble with at least
  one part.\<close>

theorem stored_messages_typed_and_drawn:
  assumes "list_all msg_wf (messages s c)"
    and "s' \<in> {snd (handleSendMessage (cw, s)), snd (handleSendAttachment f cap up (cw, s)),
               snd (sendVoiceMessage up' (v, s)), snd (createCallMessage d st dur s)}"
  shows "list_all msg_wf (messages s' c) \<and>
         (\<forall>m \<in> set (messages s' c). \<forall>sd. map_of (users s') (senderId m) = Some sd \<longrightarrow>
            (\<exists>it. message_item viewer (Some sd) m = Some it \<and> item_payload it \<and>
                  it \<in> set (message_items viewer s' (messages s' c))))"
proof -
  have wf: "list_all msg_wf (messages s' c)"
    using assms handleSendMessage_wf handleSendAttachment_wf sendVoiceMessage_wf createCallMessage_wf
    by blast
  moreover have "\<exists>it. message_item viewer (Some sd) m = Some it \<and> item_payload it \<and>
                    it \<in> set (message_items viewer s' (messages s' c))"
    if "m \<in> set (messages s' c)" "map_of (users s') (senderId m) = Some sd" for m sd
  proof -
    have "msg_wf m" using wf that(1) by (simp add: list_all_iff)
    then obtain it where "message_item viewer (Some sd) m = Some it" "item_payload it"
      using message_item_drawn by blast
    with that show ?thesis by (auto simp: message_items_set intro!: bexI [where x = m])
  qed
  ultimately show ?thesis by blast
qed

theorem stored_messages_typed_and_drawn_witness:
  "list_all msg_wf (messages (snd (handleSendMessage (typed_chat, chat_store))) ''alice_bob'') \<and>
   (\<exists>it. message_item ''alice'' (Some (blank_user ''alice''))
            ((plain_message ''alice'' 5 MsgText)\<lparr>msg_text := Some ''hello''\<rparr>) = Some it \<and>
         item_payload it \<and>
         it \<in> set (message_items ''alice'' (snd (handleSendMessage (typed_chat, chat_store)))
                    (messages (snd (handleSendMessage (typed_chat, chat_store))) ''alice_bob'')))"
proof -
  let ?S = "snd (handleSendMessage (typed_chat, chat_store))"
  let ?M = "(plain_message ''alice'' 5 MsgText)\<lparr>msg_text := Some ''hello''\<rparr>"
  have send: "?S = snd (stamp_chat ''alice_bob'' ''hello'' ''alice'' (add_message ''alice_bob'' ?M chat_store))"
    by (simp add: handleSendMessage_def Let_def chat_doc.extend_def typed_chat_def chatview_of_def isBlocked_def otherUserId_def
        js_trim_def js_space_def chat_store_def social_store_def new_direct_chat_def)
  have all: "list_all msg_wf (messages ?S ''alice_bob'') \<and>
     (\<forall>m \<in> set (messages ?S ''alice_bob''). \<forall>sd. map_of (users ?S) (senderId m) = Some sd \<longrightarrow>
        (\<exists>it. message_item ''alice'' (Some sd) m = Some it \<and> item_payload it \<and>
              it \<in> set (message_items ''alice'' ?S (messages ?S ''alice_bob''))))"
    by (rule stored_messages_typed_and_drawn [where s = chat_store and cw = typed_chat])
       (simp_all add: chat_store_def msg_wf_def plain_message_def)
  have "?M \<in> set (messages ?S ''alice_bob'')" by (simp add: send)
  moreover have "map_of (users ?S) (senderId ?M) = Some (blank_user ''alice'')"
    unfolding send by (simp add: stamp_chat_def chat_store_def social_store_def plain_message_def)
  ultimately show ?thesis using all by blast
qed

text \<open>C40: A user whose friend request to me is pending is listed in my people tab with
  the request to accept, yet the user's own row offers Add Friend (received requests
  never enter \<open>requestStatus\<close>); pressing it writes a second request in the opposite
  direction, and both stay pending.\<close>

theorem pending_sender_offered_add_friend:
  assumes "(k, r) \<in> set (friendRequests s)" "req_from r = u" "req_to r = me h"
    and "req_status r = ReqPending" "map_of (users s) u \<noteq> None"
    and "(u, d) \<in> set (allUsers h)" "u \<noteq> me h" "requestStatus h u = None"
    and "requests_from_to (me h) u s = []"
  shows "(\<exists>rq. pv_requests (PeopleTab (received_snapshot s h) [] c) = Some rq \<and> (k, u) \<in> set rq) \<and>
         button_for (PeopleTab (received_snapshot s h) [] c) u = Some AddFriendButton \<and>
         pending_from_to (me h) u (snd (handleSendFriendRequest u k' (received_snapshot s h, s))) \<noteq> [] \<and>
         (k, r) \<in> set (pending_from_to u (me h) (snd (handleSendFriendRequest u k' (received_snapshot s h, s))))"
proof -
  let ?h1 = "received_snapshot s h"
  have shown: "(k, r) \<in> set (friendRequestsShown ?h1)"
    using assms(1-5) by (simp add: received_snapshot_shown)
  then have "friendRequestsShown ?h1 \<noteq> []" by auto
  moreover have "(k, u) \<in> set (map (\<lambda>(k, r). (k, req_from r)) (friendRequestsShown ?h1))"
    using shown assms(2) by force
  ultimately have req: "\<exists>rq. pv_requests (PeopleTab ?h1 [] c) = Some rq \<and> (k, u) \<in> set rq"
    by (simp add: PeopleTab_def Let_def)
  have "(u, d) \<in> set (filteredUsers (me ?h1) [] (allUsers ?h1))"
    using assms(6,7) by (simp add: filteredUsers_all)
  then have btn: "button_for (PeopleTab ?h1 [] c) u = Some AddFriendButton"
    using assms(8) by (simp add: button_for_PeopleTab person_button_def)
  have st: "snd (handleSendFriendRequest u k' (?h1, s)) =
              add_request k' \<lparr>req_from = me h, req_to = u, req_status = ReqPending, req_createdAt = clock s\<rparr> s"
    using handleSendFriendRequest_fresh [of ?h1 u s k'] assms(9) by simp
  let ?q = "\<lparr>req_from = me h, req_to = u, req_status = ReqPending, req_createdAt = clock s\<rparr>"
  have fr: "friendRequests (snd (handleSendFriendRequest u k' (?h1, s))) = friendRequests s @ [(k', ?q)]"
    by (simp add: st add_request_def)
  have "(k', ?q) \<in> set (pending_from_to (me h) u (snd (handleSendFriendRequest u k' (?h1, s))))"
    by (simp only: fr pending_from_to_def requests_from_to_def) simp
  then have ne: "pending_from_to (me h) u (snd (handleSendFriendRequest u k' (?h1, s))) \<noteq> []" by auto
  have m: "(k, r) \<in> set (friendRequests s @ [(k', ?q)])" using assms(1) by simp
  have p: "req_status r = ReqPending \<and> req_from r = u \<and> req_to r = me h" using assms(2-4) by simp
  have old: "(k, r) \<in> set (pending_from_to u (me h) (snd (handleSendFriendRequest u k' (?h1, s))))"
    unfolding fr pending_from_to_def requests_from_to_def set_filter using m p by blast
  from req btn ne old show ?thesis by blast
qed

theorem pending_sender_offered_add_friend_witness:
  "(\<exists>rq. pv_requests (PeopleTab (received_snapshot request_store alice_people) [] False) = Some rq \<and>
         (''r1'', ''bob'') \<in> set rq) \<and>
   button_for (PeopleTab (received_snapshot request_store alice_people) [] False) ''bob'' = Some AddFriendButton \<and>
   pending_from_to ''alice'' ''bob''
     (snd (handleSendFriendRequest ''bob'' ''r2'' (received_snapshot request_store alice_people, request_store))) \<noteq> [] \<and>
   (''r1'', bob_request) \<in> set (pending_from_to ''bob'' ''alice''
     (snd (handleSendFriendRequest ''bob'' ''r2'' (received_snapshot request_store alice_people, request_store))))"
  using pending_sender_offered_add_friend
    [of "''r1''" bob_request request_store "''bob''" alice_people "blank_user ''bob''" False "''r2''"]
  by (simp add: request_store_def bob_request_def alice_people_def home_of_def social_store_def
      requests_from_to_def)

end
