(* ===== verification/ChatScreen.thy ===== *)
theory ChatScreen
  imports Lists
begin

text \<open>
  The chat screen as a whole (\<open>ChatView\<close>, src/src/components/chat-view.tsx): what its
  header, composer and attachment preview draw, and every event the screen handles,
  wired to the handlers of \<open>Messaging\<close> and, for the call buttons, to the page's
  \<open>handleInitiateCall\<close> (\<open>Orchestrator\<close>). The state is the screen's \<open>chatview\<close>, the
  page state and the store; a disabled control is an event that changes nothing. The
  voice recorder, mounted while \<open>isRecording\<close>, has its own step function in
  \<open>Messaging\<close>.
\<close>

section \<open>What the screen draws\<close>

text \<open>The header (lines 645--700): the avatar fallback (the name's first character,
  \<open>C\<close> without a name), the name, the presence line (\<open>online\<close> is never set, so
  \<open>Offline\<close>, with the member count of a group after the stored bullet), the call
  buttons (disabled while blocked) and the menu's mute and block labels.\<close>

record chat_header =
  hd_fallback :: string
  hd_title :: "string option"
  hd_presence :: string
  hd_calls_enabled :: bool
  hd_mute_label :: string
  hd_block_label :: string

definition chat_header :: "chatview \<Rightarrow> chat_header" where
  "chat_header cw =
     (let c = cw_chat cw
      in \<lparr>hd_fallback = (case chat_name c of None \<Rightarrow> ''C'' | Some n \<Rightarrow> if n = [] then ''C'' else take 1 n),
          hd_title = chat_name c,
          hd_presence = ''Offline'' @ (if chat_type c = Group
                                      then bullet_src @ dec_string (length (chat_members c)) @ '' members'' else []),
          hd_calls_enabled = (\<not> isBlocked cw),
          hd_mute_label = (if muted c then ''Unmute'' else ''Mute'') @ '' Notifications'',
          hd_block_label = (if isBlocked cw then ''Unblock'' else ''Block'') @ '' user''\<rparr>)"

text \<open>The composer (lines 728--775): the recorder while recording; otherwise the form,
  whose input and paperclip are disabled while sending or blocked, and whose button is
  Send when the trimmed text is non-empty and the microphone otherwise.\<close>

datatype composer_button = SendButton | MicButton

datatype composer =
    RecorderShown
  | ComposerForm string bool composer_button

definition composer :: "chatview \<Rightarrow> composer" where
  "composer cw =
     (if isRecording cw then RecorderShown
      else ComposerForm (if isBlocked cw then ''You can't reply to this conversation'' else ''Type a message...'')
             (\<not> isSending cw \<and> \<not> isBlocked cw)
             (if js_trim (inputText cw) \<noteq> [] then SendButton else MicButton))"

text \<open>\<open>AttachmentPreview\<close> (lines 297--372), shown while a file is attached: the
  preview by file type, the name and size of a document (\<open>toFixed(2)\<close> of the size in
  MB, shown even for an empty file), the progress bar while sending, and whether Send
  and the caption are enabled.\<close>

record preview =
  pv_kind :: msg_type
  pv_doc :: "(string \<times> string) option"
  pv_progress :: "nat option"
  pv_enabled :: bool

definition mb_text :: "nat \<Rightarrow> string" where
  "mb_text n =
     (let q = (100 * n + 2 ^ 19) div 2 ^ 20
      in dec_string (q div 100) @ ''.'' @ pad_start 2 (CHR ''0'') (dec_string (q mod 100)))"

definition attachment_preview :: "chatview \<Rightarrow> preview option" where
  "attachment_preview cw =
     (case attachment cw of
        None \<Rightarrow> None
      | Some f \<Rightarrow>
          (let k = getFileType (file_mime f)
           in Some \<lparr>pv_kind = k,
                    pv_doc = (if k = MsgDocument then Some (file_name f, mb_text (file_size f) @ '' MB'') else None),
                    pv_progress = (if isSending cw then Some (uploadProgress cw) else None),
                    pv_enabled = (\<not> isSending cw)\<rparr>))"

section \<open>Events\<close>

text \<open>The screen's events: typing, submitting the form, choosing a file, sending or
  closing the preview (the caption is the preview's own state), the microphone, the
  menu's items and the dialog's buttons, the call buttons (with the id \<open>doc()\<close>
  generates) and the message listener.\<close>

datatype cs_event =
    CsType string
  | CsSubmit
  | CsPickFile "upload_file option"
  | CsSendAttachment string "string option"
  | CsClosePreview
  | CsMic
  | CsMute
  | CsMenu dialog_action
  | CsDialogCancel
  | CsConfirm
  | CsCall media_kind call_id
  | CsMessages

type_synonym screen = "chatview \<times> page \<times> store"

definition cs_step :: "cs_event \<Rightarrow> screen \<Rightarrow> screen" where
  "cs_step e st =
     (let (cw, p, s) = st; off = (isSending cw \<or> isBlocked cw) in
      case e of
        CsType t \<Rightarrow> if off then st else (cw\<lparr>inputText := t\<rparr>, p, s)
      | CsSubmit \<Rightarrow> (let (cw', s') = handleSendMessage (cw, s) in (cw', p, s'))
      | CsPickFile f \<Rightarrow> if off then st else (handleFileSelect f cw, p, s)
      | CsSendAttachment cap up \<Rightarrow>
          (case attachment cw of
             None \<Rightarrow> st
           | Some f \<Rightarrow> if isSending cw then st
                       else (let (cw', s') = handleSendAttachment f cap up (cw, s) in (cw', p, s')))
      | CsClosePreview \<Rightarrow> (cw\<lparr>attachment := None\<rparr>, p, s)
      | CsMic \<Rightarrow> if off \<or> isRecording cw \<or> js_trim (inputText cw) \<noteq> [] then st else (startRecording cw, p, s)
      | CsMute \<Rightarrow> (let (cw', s') = snd (handleMuteToggle (cw, s)) in (cw', p, s'))
      | CsMenu a \<Rightarrow> (cw\<lparr>dialogAction := Some a\<rparr>, p, s)
      | CsDialogCancel \<Rightarrow> (cw\<lparr>dialogAction := None\<rparr>, p, s)
      | CsConfirm \<Rightarrow> (let (cw', s') = snd (handleConfirmAction (cw, s)) in (cw', p, s'))
      | CsCall ty k \<Rightarrow>
          if isBlocked cw then st
          else (let (p', s') = handleInitiateCall (chat_doc.truncate (cw_chat cw)) ty k (p, s) in (cw, p', s'))
      | CsMessages \<Rightarrow> (messages_snapshot s cw, p, s))"

definition cs_run :: "cs_event list \<Rightarrow> screen \<Rightarrow> screen" where
  "cs_run es st = fold cs_step es st"

text \<open>A store that gained no call and no message: the calls are the same and no chat
  has more messages.\<close>

definition store_shrinks :: "store \<Rightarrow> store \<Rightarrow> bool" where
  "store_shrinks s s' \<longleftrightarrow> calls s' = calls s \<and> (\<forall>c. length (messages s' c) \<le> length (messages s c))"

section \<open>Fixtures\<close>

text \<open>alice's screen on her chat with bob after she blocked bob.\<close>

definition blocked_cw :: chatview where
  "blocked_cw =
     (chatview_of ''alice'' (new_direct_chat ''alice_bob'' [''alice'', ''bob''] ''alice'' 1))
        \<lparr>cw_profile := Some ((blank_user ''alice'')\<lparr>blockedUsers := [''bob'']\<rparr>), inputText := ''hi''\<rparr>"

section \<open>Lemmas\<close>

lemma store_shrinks_refl [simp]: "store_shrinks s s"
  by (simp add: store_shrinks_def)

lemma handleSendMessage_blocked: "isBlocked cw \<Longrightarrow> handleSendMessage (cw, s) = (cw, s)"
  by (simp add: handleSendMessage_def Let_def)

lemma handleSendAttachment_blocked: "isBlocked cw \<Longrightarrow> handleSendAttachment f cap up (cw, s) = (cw, s)"
  by (simp add: handleSendAttachment_def Let_def)

lemma handleMuteToggle_shrinks: "store_shrinks s (snd (snd (handleMuteToggle (cw, s))))"
  by (simp add: handleMuteToggle_def store_shrinks_def prod.case_eq_if Let_def)

lemma handleConfirmAction_shrinks: "store_shrinks s (snd (snd (handleConfirmAction (cw, s))))"
proof (cases "dialogAction cw")
  case (Some a)
  then show ?thesis
    by (cases a)
       (auto simp: handleConfirmAction_def handleClearChat_def clear_write_def clear_read_def
          handleDeleteChat_def delete_chat_def handleBlockUser_def update_user_def store_shrinks_def
          Let_def prod.case_eq_if split: option.splits)
qed (simp add: handleConfirmAction_def)

lemma store_shrinks_trans: "store_shrinks s1 s2 \<Longrightarrow> store_shrinks s2 s3 \<Longrightarrow> store_shrinks s1 s3"
  unfolding store_shrinks_def by (auto intro: le_trans)

text \<open>Whether I blocked the other member depends only on me, the chat and my profile.\<close>

lemma isBlocked_cong:
  "cw_profile a = cw_profile b \<Longrightarrow> cw_me a = cw_me b \<Longrightarrow> cw_chat a = cw_chat b \<Longrightarrow> isBlocked a = isBlocked b"
  unfolding isBlocked_def otherUserId_def by (simp only:)

lemma isBlocked_upd [simp]:
  "isBlocked (cw\<lparr>inputText := t\<rparr>) = isBlocked cw" "isBlocked (cw\<lparr>attachment := f\<rparr>) = isBlocked cw"
  "isBlocked (cw\<lparr>isRecording := b\<rparr>) = isBlocked cw" "isBlocked (cw\<lparr>dialogAction := a\<rparr>) = isBlocked cw"
  "isBlocked (cw\<lparr>cw_messages := ms\<rparr>) = isBlocked cw" "isBlocked (cw\<lparr>exited := x\<rparr>) = isBlocked cw"
  by (rule isBlocked_cong; simp)+

lemma handleConfirmAction_screen:
  assumes "dialogAction cw \<noteq> Some DialogBlock"
  shows "fst (snd (handleConfirmAction (cw, s))) = cw \<or>
         fst (snd (handleConfirmAction (cw, s))) = cw\<lparr>dialogAction := None\<rparr> \<or>
         fst (snd (handleConfirmAction (cw, s))) = cw\<lparr>exited := True, dialogAction := None\<rparr>"
proof (cases "dialogAction cw")
  case (Some a)
  show ?thesis
  proof (cases a)
    case DialogClear
    have "fst (snd (handleConfirmAction (cw, s))) = cw \<or>
          fst (snd (handleConfirmAction (cw, s))) = cw\<lparr>dialogAction := None\<rparr>"
      using Some DialogClear
      by (simp add: handleConfirmAction_def handleClearChat_def clear_write_def Let_def prod.case_eq_if
          split: option.split)
    then show ?thesis
    proof
      assume "fst (snd (handleConfirmAction (cw, s))) = cw"
      then show ?thesis by (rule disjI1)
    next
      assume "fst (snd (handleConfirmAction (cw, s))) = cw\<lparr>dialogAction := None\<rparr>"
      then show ?thesis by (intro disjI2 disjI1)
    qed
  next
    case DialogDelete
    have "fst (snd (handleConfirmAction (cw, s))) = cw\<lparr>exited := True, dialogAction := None\<rparr>"
      using Some DialogDelete by (simp add: handleConfirmAction_def handleDeleteChat_def)
    then show ?thesis by (intro disjI2)
  qed (use Some assms in simp)
next
  case None
  then have "fst (snd (handleConfirmAction (cw, s))) = cw\<lparr>dialogAction := None\<rparr>"
    by (simp add: handleConfirmAction_def)
  then show ?thesis by (intro disjI2 disjI1)
qed

lemma cs_step_blocked:
  assumes "isBlocked cw" "dialogAction cw \<noteq> Some DialogBlock" "e \<noteq> CsMenu DialogBlock"
    and "cs_step e (cw, p, s) = (cw', p', s')"
  shows "isBlocked cw' \<and> dialogAction cw' \<noteq> Some DialogBlock \<and> p' = p \<and> store_shrinks s s'"
proof (cases e)
  case CsConfirm
  have c: "cw' = fst (snd (handleConfirmAction (cw, s)))" "s' = snd (snd (handleConfirmAction (cw, s)))" "p' = p"
    using assms(4) CsConfirm by (simp_all add: cs_step_def prod.case_eq_if)
  have "isBlocked cw' \<and> dialogAction cw' \<noteq> Some DialogBlock"
    using handleConfirmAction_screen [OF assms(2), of s] assms(1,2) unfolding c(1)[symmetric]
    by (elim disjE) simp_all
  then show ?thesis using c(2,3) handleConfirmAction_shrinks [of s cw] by simp
next
  case CsMute
  then show ?thesis
    using assms handleMuteToggle_shrinks [of s cw]
    by (auto simp: cs_step_def handleMuteToggle_def Let_def prod.case_eq_if)
next
  case (CsMenu a)
  with assms show ?thesis by (auto simp: cs_step_def)
next
  case CsSubmit
  with assms show ?thesis by (simp add: cs_step_def handleSendMessage_blocked)
next
  case (CsSendAttachment cap up)
  with assms show ?thesis
    by (simp add: cs_step_def handleSendAttachment_blocked split: option.splits if_splits)
next
  case (CsCall ty k)
  with assms show ?thesis by (simp add: cs_step_def)
next
  case CsMessages
  with assms show ?thesis by (auto simp: cs_step_def messages_snapshot_def)
next
  case (CsPickFile f)
  with assms show ?thesis by (simp add: cs_step_def)
next
  case CsMic
  with assms show ?thesis by (simp add: cs_step_def)
qed (use assms in \<open>auto simp: cs_step_def\<close>)

section \<open>Properties\<close>

text \<open>C21: While I have blocked the other member, no sequence of chat-screen events
  that does not open the block dialog adds a message to any chat or creates a call,
  the page state stays as it was, and the member stays blocked: the call buttons, the
  composer and the attachment sender are all guarded.\<close>

theorem blocked_screen_writes_nothing:
  assumes "isBlocked cw" "dialogAction cw \<noteq> Some DialogBlock" "CsMenu DialogBlock \<notin> set es"
  shows "store_shrinks s (snd (snd (cs_run es (cw, p, s)))) \<and> fst (snd (cs_run es (cw, p, s))) = p \<and>
         isBlocked (fst (cs_run es (cw, p, s)))"
  using assms
proof (induction es arbitrary: cw s)
  case Nil
  then show ?case by (simp add: cs_run_def)
next
  case (Cons e es)
  obtain cw1 p1 s1 where st: "cs_step e (cw, p, s) = (cw1, p1, s1)" by (cases "cs_step e (cw, p, s)") auto
  have e: "e \<noteq> CsMenu DialogBlock" using Cons.prems(3) by auto
  have 1: "isBlocked cw1 \<and> dialogAction cw1 \<noteq> Some DialogBlock \<and> p1 = p \<and> store_shrinks s s1"
    using cs_step_blocked [OF Cons.prems(1,2) e st] .
  have run: "cs_run (e # es) (cw, p, s) = cs_run es (cw1, p, s1)"
    using st 1 by (simp add: cs_run_def)
  have "store_shrinks s1 (snd (snd (cs_run es (cw1, p, s1)))) \<and> fst (snd (cs_run es (cw1, p, s1))) = p \<and>
        isBlocked (fst (cs_run es (cw1, p, s1)))"
    using Cons.IH 1 Cons.prems(3) by simp
  then show ?case using 1 store_shrinks_trans unfolding run by blast
qed

theorem blocked_screen_writes_nothing_witness:
  "store_shrinks chat_store
     (snd (snd (cs_run [CsType ''x'', CsSubmit, CsCall Video ''k9'', CsMenu DialogClear, CsConfirm]
                 (blocked_cw, idle_page ''alice'', chat_store)))) \<and>
   fst (snd (cs_run [CsType ''x'', CsSubmit, CsCall Video ''k9'', CsMenu DialogClear, CsConfirm]
              (blocked_cw, idle_page ''alice'', chat_store))) = idle_page ''alice'' \<and>
   isBlocked (fst (cs_run [CsType ''x'', CsSubmit, CsCall Video ''k9'', CsMenu DialogClear, CsConfirm]
                    (blocked_cw, idle_page ''alice'', chat_store)))"
  using blocked_screen_writes_nothing
    [of blocked_cw "[CsType ''x'', CsSubmit, CsCall Video ''k9'', CsMenu DialogClear, CsConfirm]"
        chat_store "idle_page ''alice''"]
  by (simp add: blocked_cw_def chatview_of_def isBlocked_def otherUserId_def new_direct_chat_def
      chat_doc.extend_def)

end
