(* ===== verification/Waveform.thy ===== *)
theory Waveform
  imports Complex_Main Prelude "HOL-Library.Word"
begin

text \<open>
  The voice recorder's waveform (src/src/components/voice-recorder.tsx): the analyser
  the recorder sets up, and \<open>Waveform\<close>, which draws one bar per three pixels of its
  canvas from the analyser's byte frequency data. The bytes are \<open>8 word\<close> values (a
  \<open>Uint8Array\<close>), read with \<open>unat\<close>; bar heights are rationals, as the division by
  255 leaves them. Reading past the end of the array gives \<open>undefined\<close>, and the
  arithmetic on it \<open>NaN\<close>: a bar with a \<open>NaN\<close> height is \<open>None\<close> (\<open>fillRect\<close> draws
  nothing for it). The drawing loop is a \<open>function\<close> whose termination is proved by a
  measure.
\<close>

section \<open>The analyser\<close>

text \<open>\<open>AnalyserNode.frequencyBinCount\<close> is half the FFT size (Web Audio API); the
  recorder sets \<open>fftSize = 128\<close> and copies the bins into an array of that length
  (lines 73--75).\<close>

definition frequencyBinCount :: "nat \<Rightarrow> nat" where
  "frequencyBinCount fftSize = fftSize div 2"

definition recorder_bins :: nat where
  "recorder_bins = frequencyBinCount 128"

section \<open>Waveform\<close>

text \<open>A bar as \<open>fillRect(x, y, barWidth, barHeight)\<close> draws it.\<close>

record bar =
  bar_x :: nat
  bar_y :: "rat option"
  bar_w :: nat
  bar_h :: "rat option"

text \<open>The loop of lines 39--43, from bar \<open>i\<close> to \<open>numBars\<close>: bar \<open>i\<close> reads the sample
  \<open>audioData[i * step]\<close>, scales it to the canvas height and stands on the bottom edge.\<close>

function waveform_loop :: "8 word list \<Rightarrow> nat \<Rightarrow> nat \<Rightarrow> nat \<Rightarrow> nat \<Rightarrow> bar list" where
  "waveform_loop audio height numBars step i =
     (if i < numBars then
        (let h = (if i * step < length audio
                  then Some (of_nat (unat (audio ! (i * step))) / 255 * of_nat height) else None)
         in \<lparr>bar_x = i * 3, bar_y = map_option (\<lambda>b. of_nat height - b) h, bar_w = 2, bar_h = h\<rparr>
            # waveform_loop audio height numBars step (Suc i))
      else [])"
  by pat_completeness auto

termination
  by (relation "measure (\<lambda>(_, _, numBars, _, i). numBars - i)") auto

text \<open>\<open>Waveform\<close>'s effect (lines 21--45) on a canvas of the given size: three pixels
  per bar; \<open>step = Math.floor(audioData.length / numBars)\<close>, which is \<open>Infinity\<close> for
  no bars, when the loop does not run.\<close>

definition Waveform :: "8 word list \<Rightarrow> nat \<Rightarrow> nat \<Rightarrow> bar list" where
  "Waveform audio width height =
     (let numBars = width div 3;
          step = (if numBars = 0 then 0 else length audio div numBars)
      in waveform_loop audio height numBars step 0)"

text \<open>The canvas the recorder renders (line 47): 200 by 32 pixels.\<close>

definition recorder_waveform :: "8 word list \<Rightarrow> bar list" where
  "recorder_waveform audio = Waveform audio 200 32"

section \<open>Fixtures\<close>

text \<open>An analyser frame with a loud lowest bin and silence above it.\<close>

definition loud_bass :: "8 word list" where
  "loud_bass = 200 # replicate 63 0"

section \<open>Lemmas\<close>

declare waveform_loop.simps [simp del]

lemma waveform_loop_Nil [simp]: "\<not> i < numBars \<Longrightarrow> waveform_loop a h numBars st i = []"
  by (simp add: waveform_loop.simps)

lemma waveform_loop_Cons:
  "i < numBars \<Longrightarrow> waveform_loop a h numBars st i =
     (let hb = (if i * st < length a then Some (of_nat (unat (a ! (i * st))) / 255 * of_nat h) else None)
      in \<lparr>bar_x = i * 3, bar_y = map_option (\<lambda>b. of_nat h - b) hb, bar_w = 2, bar_h = hb\<rparr>)
     # waveform_loop a h numBars st (Suc i)"
  by (subst waveform_loop.simps) simp

text \<open>The loop draws one bar per index from \<open>i\<close> to \<open>numBars\<close>.\<close>

lemma waveform_loop_length: "length (waveform_loop a h numBars st i) = numBars - i"
  by (induction a h numBars st i rule: waveform_loop.induct)
     (case_tac "i < numBars"; simp add: waveform_loop_Cons Let_def)

lemma waveform_loop_set:
  "b \<in> set (waveform_loop a h numBars st i) \<Longrightarrow>
     \<exists>k. i \<le> k \<and> k < numBars \<and> bar_x b = k * 3 \<and> bar_w b = 2 \<and>
         (bar_h b = None \<or> (k * st < length a \<and> bar_h b = Some (of_nat (unat (a ! (k * st))) / 255 * of_nat h)))"
proof (induction a h numBars st i rule: waveform_loop.induct)
  case (1 a h numBars st i)
  show ?case
  proof (cases "i < numBars")
    case True
    then show ?thesis using 1 by (auto simp: waveform_loop_Cons Let_def Suc_le_eq)
  qed (use 1 in simp)
qed

text \<open>A byte scaled by \<open>/ 255 * height\<close> lies between 0 and the height.\<close>

lemma scaled_bounds:
  assumes "n \<le> 255"
  shows "0 \<le> of_nat n / 255 * (of_nat h :: rat) \<and> of_nat n / 255 * of_nat h \<le> (of_nat h :: rat)"
proof -
  have "of_nat n / 255 * of_nat h \<le> (of_nat h :: rat)"
    by (rule mult_left_le_one_le) (simp_all add: assms)
  moreover have "0 \<le> of_nat n / 255 * (of_nat h :: rat)" by simp
  ultimately show ?thesis by blast
qed

lemma unat_byte: "unat (v :: 8 word) \<le> 255"
proof -
  have "unat v < 2 ^ LENGTH(8)" by (rule unsigned_less)
  then show ?thesis by simp
qed

text \<open>With a step of 0 every bar reads the first sample.\<close>

lemma waveform_loop_step0:
  "0 < length a \<Longrightarrow>
     waveform_loop a h numBars 0 i =
       map (\<lambda>k. \<lparr>bar_x = k * 3, bar_y = Some (of_nat h - of_nat (unat (a ! 0)) / 255 * of_nat h), bar_w = 2,
                 bar_h = Some (of_nat (unat (a ! 0)) / 255 * of_nat h)\<rparr>) [i..<numBars]"
proof (induction a h numBars "0::nat" i rule: waveform_loop.induct)
  case (1 a h numBars i)
  then show ?case
    by (cases "i < numBars") (simp_all add: waveform_loop_Cons Let_def upt_conv_Cons)
qed

section \<open>Properties\<close>

text \<open>C15: The recorder's analyser yields 64 frequency bins, but the 200-pixel canvas
  has 66 bars, so \<open>step = Math.floor(64 / 66) = 0\<close>: every bar reads bin 0, and the
  waveform is 66 bars of the same height, whatever the other 63 bins hold.\<close>

theorem recorder_waveform_flat:
  assumes "length audio = recorder_bins"
  shows "length (recorder_waveform audio) = 66 \<and>
         (\<forall>b \<in> set (recorder_waveform audio). bar_h b = Some (of_nat (unat (audio ! 0)) / 255 * 32))"
proof -
  have len: "length audio = 64" using assms by (simp add: recorder_bins_def frequencyBinCount_def)
  then have w: "recorder_waveform audio = waveform_loop audio 32 66 0 0"
    by (simp add: recorder_waveform_def Waveform_def)
  show ?thesis
    unfolding w using len by (auto simp: waveform_loop_step0 waveform_loop_length)
qed

theorem recorder_waveform_flat_witness:
  "length (recorder_waveform loud_bass) = 66 \<and>
   bar_h (last (recorder_waveform loud_bass)) = Some (200 / 255 * 32)"
proof -
  have l: "length loud_bass = recorder_bins"
    by (simp add: loud_bass_def recorder_bins_def frequencyBinCount_def)
  note r = recorder_waveform_flat [OF l]
  then have "recorder_waveform loud_bass \<noteq> []" by auto
  then have "last (recorder_waveform loud_bass) \<in> set (recorder_waveform loud_bass)" by (rule last_in_set)
  with r show ?thesis by (simp add: loud_bass_def)
qed

text \<open>C18: \<open>Waveform\<close>'s drawing loop terminates on every input (its measure is
  \<open>numBars - i\<close>) and returns exactly one bar per three pixels of the canvas width;
  every bar lies inside the canvas horizontally, and every bar with a height is
  between 0 and the canvas height, as a byte scaled by \<open>/ 255\<close> is.\<close>

theorem waveform_returns_in_canvas:
  "length (Waveform a w h) = w div 3 \<and>
   (\<forall>b \<in> set (Waveform a w h). bar_x b + bar_w b \<le> w \<and>
      (\<forall>y. bar_h b = Some y \<longrightarrow> 0 \<le> y \<and> y \<le> of_nat h))"
proof -
  obtain st where W: "Waveform a w h = waveform_loop a h (w div 3) st 0"
    by (simp add: Waveform_def Let_def)
  have "bar_x b + bar_w b \<le> w \<and> (\<forall>y. bar_h b = Some y \<longrightarrow> 0 \<le> y \<and> y \<le> of_nat h)"
    if "b \<in> set (Waveform a w h)" for b
  proof -
    have bs: "b \<in> set (waveform_loop a h (w div 3) st 0)" using that W by simp
    obtain k where k: "k < w div 3" "bar_x b = k * 3" "bar_w b = 2"
      and hb: "bar_h b = None \<or> (k * st < length a \<and> bar_h b = Some (of_nat (unat (a ! (k * st))) / 255 * of_nat h))"
      using waveform_loop_set [OF bs] by blast
    have "bar_x b + bar_w b \<le> w" using k by linarith
    moreover have "0 \<le> y \<and> y \<le> of_nat h" if "bar_h b = Some y" for y
      using hb that scaled_bounds [OF unat_byte [of "a ! (k * st)"], of h] by auto
    ultimately show ?thesis by blast
  qed
  then show ?thesis unfolding W by (simp add: waveform_loop_length)
qed

theorem waveform_returns_in_canvas_witness:
  "length (Waveform loud_bass 200 32) = 66 \<and>
   bar_x (last (Waveform loud_bass 200 32)) + bar_w (last (Waveform loud_bass 200 32)) \<le> 200"
proof -
  note r = waveform_returns_in_canvas [of loud_bass 200 32]
  then have "Waveform loud_bass 200 32 \<noteq> []" by auto
  then have "last (Waveform loud_bass 200 32) \<in> set (Waveform loud_bass 200 32)" by (rule last_in_set)
  with r show ?thesis by simp
qed

end
