(* ===== verification/CallScreen.thy ===== *)
theory CallScreen
  imports Signaling Lists Widgets
begin

text \<open>
  What the call screen draws (\<open>CallView\<close>'s render, src/src/components/call-view.tsx
  lines 289--385, and its \<open>CallTimer\<close>, lines 26--60), as a function of the screen's
  state (\<open>callview\<close> of \<open>Signaling\<close>), the contact (the selected chat, page.tsx line
  544), whether remote video is playing (set by the connection's \<open>ontrack\<close>, an
  input), and the timer's last tick. Together with \<open>cv_step\<close> it shows which controls
  a user can reach in each state.
\<close>

section \<open>The render\<close>

text \<open>\<open>CallTimer\<close> at its last tick \<open>now\<close>: nothing before the call started, else the whole
  seconds since the start as \<open>mm:ss\<close>.\<close>

definition timer_text :: "timestamp option \<Rightarrow> timestamp \<Rightarrow> string option" where
  "timer_text start now =
     (case start of None \<Rightarrow> None | Some _ \<Rightarrow> Some (format_time (call_timer_seconds start now)))"

text \<open>The picture-in-picture preview (lines 328--347): the local video while the camera
  is on and a stream exists, else \<open>Cam Off\<close> without permission, else an icon.\<close>

datatype local_preview = LocalVideo | CamOffAlert | UserIconShown

record call_screen =
  sc_ringback :: bool
  sc_fallback_shown :: bool
  sc_initials :: string
  sc_name :: "string option"
  sc_status :: string
  sc_timer :: "string option"
  sc_preview :: local_preview
  sc_mute :: "bool \<times> bool"
  sc_camera :: "(bool \<times> bool) option"

text \<open>The controls (lines 351--384) as (icon shows the off state, enabled): the mute
  button, disabled without permission; the camera button, only on a video call and
  disabled without permission; the end button, always there and enabled. The ringback
  tone plays for the caller while ringing (lines 291--293); the avatar fallback covers
  the remote video while it is not active (lines 303--316); the initials are
  \<open>getInitials\<close> of lines 273--276, the code of the message item's.\<close>

definition call_screen :: "callview \<Rightarrow> chat_view \<Rightarrow> bool \<Rightarrow> timestamp \<Rightarrow> call_screen" where
  "call_screen cv contact remoteActive tick =
     \<lparr>sc_ringback = (cv_isCaller cv \<and> status (cv_call cv) = Ringing),
      sc_fallback_shown = (\<not> remoteActive),
      sc_initials = (case chat_name contact of None \<Rightarrow> [] | Some n \<Rightarrow> item_initials n),
      sc_name = chat_name contact,
      sc_status = call_status_text cv,
      sc_timer = timer_text (callStartTime cv) tick,
      sc_preview = (if isCameraOff cv \<or> localStream cv = None
                    then (if \<not> hasCameraPermission cv then CamOffAlert else UserIconShown)
                    else LocalVideo),
      sc_mute = (isMuted cv, hasCameraPermission cv),
      sc_camera = (if call_type (cv_call cv) = Video then Some (isCameraOff cv, hasCameraPermission cv) else None)\<rparr>"

section \<open>Lemmas\<close>

text \<open>Once the media request was refused, the screen keeps only the end button
  usable: mute is disabled, a video call's camera button too, and the preview shows
  \<open>Cam Off\<close>. (\<open>getUserMedia\<close> asks for audio and video at once, so a refused camera
  takes the microphone with it; see \<open>Signaling\<close>.)\<close>

lemma denied_screen_end_only:
  assumes "localStream cv = None"
  shows "sc_preview (call_screen (cv_media_denied cv) c r t) = CamOffAlert \<and>
         \<not> snd (sc_mute (call_screen (cv_media_denied cv) c r t)) \<and>
         (\<forall>x. sc_camera (call_screen (cv_media_denied cv) c r t) \<noteq> Some (x, True))"
  using assms by (simp add: call_screen_def cv_media_denied_def)

text \<open>The timer shows nothing until the call has a start time, and then whole minutes
  and seconds.\<close>

lemma timer_text_started:
  "timer_text (Some t0) now = Some (format_time ((now - t0) div 1000))"
  by (simp add: timer_text_def call_timer_seconds_def)

end
