(* ===== verification/HomeView.thy ===== *)
theory HomeView
  imports Lists
begin

text \<open>
  What the home page shows (\<open>Home\<close>'s render, src/src/app/page.tsx lines 530--820):
  which screen fills the page, the desktop sidebar's tab, the mobile bottom navigation
  (src/src/components/bottom-nav-bar.tsx) and the incoming-call dialog; the account
  menu of the desktop sidebar; the mobile settings tab
  (src/src/components/settings-tab.tsx) with its friends panel; and how the friends
  page and the settings tab wire the friends panel to their unfriend handlers.
\<close>

section \<open>Screens\<close>

text \<open>The tabs: the mobile \<open>activeTab\<close> (chats, peoples, settings) and the desktop
  sidebar's \<open>desktopTab\<close> (chats, peoples).\<close>

datatype home_tab = TabChats | TabPeoples | TabSettings

datatype home_main =
    HomeLoader
  | HomeCall
  | HomeChat chat_id
  | HomeTab home_tab
  | HomeSelectChat

record home_screen =
  hs_main :: home_main
  hs_sidebar :: "home_tab option"
  hs_nav :: "home_tab option"
  hs_dialog :: "call_doc option"

text \<open>The render (lines 530--549 and 741--817): the loader while authentication
  loads; the call screen alone, returned early, when a call is active and a chat
  selected; on a phone the selected chat's screen, or the active tab with the bottom
  navigation; on a desktop the sidebar with the selected chat's screen or the
  placeholder. The incoming-call dialog is rendered at the end of the page, for every
  screen but the loader and the call screen.\<close>

definition home_render :: "bool \<Rightarrow> bool \<Rightarrow> home_tab \<Rightarrow> home_tab \<Rightarrow> page \<Rightarrow> home_screen" where
  "home_render authLoading isMobile activeTab desktopTab p =
     (if authLoading then \<lparr>hs_main = HomeLoader, hs_sidebar = None, hs_nav = None, hs_dialog = None\<rparr>
      else if activeCall p \<noteq> None \<and> selectedChat p \<noteq> None
      then \<lparr>hs_main = HomeCall, hs_sidebar = None, hs_nav = None, hs_dialog = None\<rparr>
      else if isMobile
      then (case selectedChat p of
              Some k \<Rightarrow> \<lparr>hs_main = HomeChat k, hs_sidebar = None, hs_nav = None, hs_dialog = incomingCall p\<rparr>
            | None \<Rightarrow> \<lparr>hs_main = HomeTab activeTab, hs_sidebar = None, hs_nav = Some activeTab,
                       hs_dialog = incomingCall p\<rparr>)
      else \<lparr>hs_main = (case selectedChat p of Some k \<Rightarrow> HomeChat k | None \<Rightarrow> HomeSelectChat),
            hs_sidebar = Some desktopTab, hs_nav = None, hs_dialog = incomingCall p\<rparr>)"

text \<open>\<open>BottomNavBar\<close>: its three items, each with whether it is highlighted.\<close>

definition bottom_nav :: "home_tab \<Rightarrow> (string \<times> bool) list" where
  "bottom_nav activeTab =
     [(''Chats'', activeTab = TabChats), (''Peoples'', activeTab = TabPeoples), (''Settings'', activeTab = TabSettings)]"

section \<open>The account menu\<close>

text \<open>The desktop sidebar's account menu (lines 633--700): my name and handle, the
  number of friends, the first five friends or \<open>No friends yet.\<close>, and the link to
  all friends when there are some.\<close>

record account_menu =
  am_name :: "string option"
  am_handle :: string
  am_count :: nat
  am_friends :: "(string \<times> string) listing"
  am_view_all :: bool

definition account_menu :: "home \<Rightarrow> account_menu" where
  "account_menu h =
     (let fs = friends_list h
      in \<lparr>am_name = map_option displayName (userProfile h),
          am_handle = ''@'' @ (case userProfile h of None \<Rightarrow> [] | Some p \<Rightarrow> handle p),
          am_count = length fs,
          am_friends = (if fs = [] then EmptyNote ''No friends yet.''
                        else Rows (map (\<lambda>(_, d). (getInitials (displayName d), displayName d)) (take 5 fs))),
          am_view_all = (fs \<noteq> [])\<rparr>)"

section \<open>The settings tab\<close>

text \<open>\<open>SettingsTab\<close> (settings-tab.tsx lines 24--102): with the friends panel open,
  the heading with the number of friends above \<open>FriendsList\<close>; otherwise my card and
  the menu. Its friends are the page's (line 560).\<close>

datatype settings_tab =
    SettingsFriends string "friend_row listing \<times> string option"
  | SettingsMenu string "string option" string

definition SettingsTab :: "home \<Rightarrow> bool \<Rightarrow> friends_panel \<Rightarrow> settings_tab" where
  "SettingsTab h isFriendsOpen fp =
     (if isFriendsOpen
      then SettingsFriends (''Friends ('' @ dec_string (length (friends_list h)) @ '')'') (FriendsList (friends_list h) fp)
      else SettingsMenu (case userProfile h of None \<Rightarrow> [] | Some p \<Rightarrow> getInitials (displayName p))
             (map_option displayName (userProfile h))
             (''@'' @ (case userProfile h of None \<Rightarrow> [] | Some p \<Rightarrow> handle p)))"

text \<open>The two places the friends panel is mounted: the friends page with its own
  \<open>handleUnfriend\<close> (friends/page.tsx line 104), the settings tab with the home page's
  (page.tsx line 738, settings-tab.tsx line 60).\<close>

definition friends_page_step :: "fl_event \<Rightarrow> (uid \<times> user_doc) list \<Rightarrow> friends_panel \<times> home_client \<Rightarrow> friends_panel \<times> home_client" where
  "friends_page_step e fs ps = fl_step friendsPage_handleUnfriend e fs ps"

definition settings_friends_step :: "fl_event \<Rightarrow> friends_panel \<times> home_client \<Rightarrow> friends_panel \<times> home_client" where
  "settings_friends_step e ps = fl_step handleUnfriend e (friends_list (fst (snd ps))) ps"

section \<open>The incoming-call dialog\<close>

text \<open>\<open>IncomingCallDialog\<close>'s render (incoming-call-dialog.tsx lines 42--84): nothing
  without the caller's profile; otherwise the looping ringtone of my profile
  (\<open>ringtoneSrc\<close>), the caller's photo, initials and name, \<open>Incoming <type> call...\<close>
  and an accept button whose icon follows the call's type. The page mounts it with the
  caller's profile the listener read (page.tsx lines 231--236 and 810).\<close>

definition media_kind_str :: "media_kind \<Rightarrow> string" where
  "media_kind_str k = (case k of Audio \<Rightarrow> ''audio'' | Video \<Rightarrow> ''video'')"

record incoming_dialog =
  id_ringtone :: string
  id_photo :: string
  id_initials :: string
  id_name :: string
  id_description :: string
  id_accept_icon :: media_kind

definition IncomingCallDialog :: "user_doc option \<Rightarrow> call_doc \<Rightarrow> user_doc option \<Rightarrow> incoming_dialog option" where
  "IncomingCallDialog myProfile c callerUser =
     (case callerUser of None \<Rightarrow> None
      | Some u \<Rightarrow> Some \<lparr>id_ringtone = ringtone_src myProfile, id_photo = photoURL u,
                         id_initials = dialog_getInitials (displayName u), id_name = displayName u,
                         id_description = ''Incoming '' @ media_kind_str (call_type c) @ '' call...'',
                         id_accept_icon = call_type c\<rparr>)"

definition page_dialog :: "user_doc option \<Rightarrow> home_screen \<Rightarrow> store \<Rightarrow> incoming_dialog option" where
  "page_dialog myProfile hs s =
     (case hs_dialog hs of None \<Rightarrow> None | Some d \<Rightarrow> IncomingCallDialog myProfile d (map_of (users s) (callerId d)))"

section \<open>Fixtures\<close>

text \<open>bob on a call with alice in their chat \<open>c1\<close>, and a second call from alice that
  rings for bob.\<close>

definition busy_page :: page where
  "busy_page = (idle_page ''bob'')\<lparr>activeCall := Some demo_call, selectedChat := Some ''c1''\<rparr>"

definition second_call :: call_doc where
  "second_call = new_call demo_chat Audio ''k2'' ''alice'' ''bob'' 100"

section \<open>Lemmas\<close>

lemma handleEndCall_done_page:
  "fst (handleEndCall (Some c) dur (p, s)) = None \<Longrightarrow>
     fst (snd (handleEndCall (Some c) dur (p, s))) = p\<lparr>activeCall := None\<rparr>"
  by (auto simp: handleEndCall_def split: prod.splits option.splits)

lemma incoming_prompt_raised:
  "map_of (users s) (callerId d) \<noteq> None \<Longrightarrow> incomingCall p = None \<Longrightarrow>
     incoming_snapshot [(Added, d)] p s = p\<lparr>incomingCall := Some d\<rparr>"
  by (simp add: incoming_snapshot_def)

text \<open>A call the listener takes up is drawn: the listener sets the prompt only when the
  caller's profile exists, so the dialog's \<open>return null\<close> is not reached from it while
  the user documents are unchanged; off the call screen the dialog names the caller and
  rings with my ringtone.\<close>

lemma snapshot_dialog_drawn:
  assumes "map_of (users s) (callerId d) = Some u" "incomingCall p = None"
    and "\<not> (activeCall p \<noteq> None \<and> selectedChat p \<noteq> None)"
  shows "page_dialog myProfile (home_render False m t dt (incoming_snapshot [(Added, d)] p s)) s =
           Some \<lparr>id_ringtone = ringtone_src myProfile, id_photo = photoURL u,
                 id_initials = dialog_getInitials (displayName u), id_name = displayName u,
                 id_description = ''Incoming '' @ media_kind_str (call_type d) @ '' call...'',
                 id_accept_icon = call_type d\<rparr>"
proof -
  have i: "incoming_snapshot [(Added, d)] p s = p\<lparr>incomingCall := Some d\<rparr>"
    using assms(1,2) by (intro incoming_prompt_raised) simp_all
  show ?thesis
    unfolding i using assms(1,3)
    by (auto simp: home_render_def page_dialog_def IncomingCallDialog_def split: option.splits)
qed

section \<open>Properties\<close>

text \<open>C19: While a call is on screen, a second call that rings for me is taken up by
  the incoming-call listener but its dialog is not drawn: the page returns the call
  screen alone. The prompt appears only once the first call has been ended, whether
  or not the second call is still ringing.\<close>

theorem busy_call_hides_second_prompt:
  assumes "activeCall p = Some c" "selectedChat p = Some k" "incomingCall p = None"
    and "map_of (users s) (callerId d) \<noteq> None"
  shows "incomingCall (incoming_snapshot [(Added, d)] p s) = Some d \<and>
         hs_main (home_render False m t dt (incoming_snapshot [(Added, d)] p s)) = HomeCall \<and>
         hs_dialog (home_render False m t dt (incoming_snapshot [(Added, d)] p s)) = None \<and>
         (fst (handleEndCall (Some c) dur (incoming_snapshot [(Added, d)] p s, s)) = None \<longrightarrow>
          hs_dialog (home_render False m t dt (fst (snd (handleEndCall (Some c) dur (incoming_snapshot [(Added, d)] p s, s))))) = Some d)"
proof -
  have i: "incoming_snapshot [(Added, d)] p s = p\<lparr>incomingCall := Some d\<rparr>"
    using assms(4,3) by (rule incoming_prompt_raised)
  show ?thesis
    unfolding i using assms(1,2)
    by (auto simp: home_render_def handleEndCall_done_page split: option.splits)
qed

theorem busy_call_hides_second_prompt_witness:
  "incomingCall (incoming_snapshot [(Added, second_call)] busy_page demo_store) = Some second_call \<and>
   hs_main (home_render False False TabChats TabChats (incoming_snapshot [(Added, second_call)] busy_page demo_store)) = HomeCall \<and>
   hs_dialog (home_render False False TabChats TabChats (incoming_snapshot [(Added, second_call)] busy_page demo_store)) = None \<and>
   hs_dialog (home_render False False TabChats TabChats
     (fst (snd (handleEndCall (Some demo_call) 0 (incoming_snapshot [(Added, second_call)] busy_page demo_store, demo_store)))))
     = Some second_call"
proof -
  have "fst (handleEndCall (Some demo_call) 0 (incoming_snapshot [(Added, second_call)] busy_page demo_store, demo_store)) = None"
    by (simp add: handleEndCall_def end_read_def end_write_def demo_store_def)
  moreover note busy_call_hides_second_prompt
    [of busy_page demo_call "''c1''" demo_store second_call False TabChats TabChats 0]
  ultimately show ?thesis
    by (simp add: busy_page_def idle_page_def second_call_def demo_store_def new_call_def)
qed

end
