(* ===== verification/SettingsView.thy ===== *)
theory SettingsView
  imports Widgets
begin

text \<open>
  What the settings page draws and the state it keeps besides the profile writes of
  \<open>Profile\<close> (src/src/app/settings/page.tsx): the ringtone preview player
  (\<open>playRingtone\<close>) with the audio elements it creates, the ringtone radio group with its
  \<open>Custom\<close> entry, the accent colour grid, the handle status line, the save button's
  guard and the image viewer. Also the contact sheet of the chat screen
  (src/src/components/user-info-sheet.tsx), the image viewer
  (src/src/components/image-view-dialog.tsx) and the drag hook of the call screen's
  preview (src/src/hooks/use-draggable.ts).
\<close>

section \<open>Constants\<close>

text \<open>\<open>colors\<close> (lines 37--45) and \<open>ringtones\<close> (lines 47--52), as (name, value).\<close>

definition colors :: "(string \<times> string) list" where
  "colors = [(''Default'', ''356 79% 56%''), (''Orange'', ''24 93% 54%''), (''Rose'', ''346 89% 60%''),
             (''Green'', ''142 71% 45%''), (''Blue'', ''221 83% 53%''), (''Yellow'', ''48 96% 53%''),
             (''Violet'', ''262 84% 59%'')]"

definition ringtones :: "(string \<times> string) list" where
  "ringtones = [(''Default'', ''/sounds/incoming-call.mp3''), (''Chime'', ''/sounds/chime.mp3''),
                (''Signal'', ''/sounds/signal.mp3''), (''Uplift'', ''/sounds/uplift.mp3'')]"

section \<open>The ringtone preview\<close>

text \<open>The audio elements the page creates, as an explicit store: \<open>new Audio(file)\<close>
  appends one, \<open>play()\<close> and \<open>pause()\<close> set its flag. The page's state is
  \<open>playingRingtone\<close> and \<open>audioRef\<close>, an index into the store.\<close>

record audio_el =
  ae_src :: string
  ae_playing :: bool

record tone_preview =
  playingRingtone :: "string option"
  audioRef :: "nat option"
  audios :: "audio_el list"

definition initial_preview :: tone_preview where
  "initial_preview = \<lparr>playingRingtone = None, audioRef = None, audios = []\<rparr>"

definition pause_el :: "nat \<Rightarrow> audio_el list \<Rightarrow> audio_el list" where
  "pause_el i as = as[i := (as ! i)\<lparr>ae_playing := False\<rparr>]"

text \<open>\<open>playRingtone\<close> (lines 277--291): pause and drop the current element; for a
  (truthy) file, create, play and hold a new one and name it playing, else name none.\<close>

definition playRingtone :: "string option \<Rightarrow> tone_preview \<Rightarrow> tone_preview" where
  "playRingtone file pv =
     (let pv1 = (case audioRef pv of None \<Rightarrow> pv
                 | Some i \<Rightarrow> pv\<lparr>audios := pause_el i (audios pv), audioRef := None\<rparr>)
      in case file of
           Some f \<Rightarrow>
             if f = [] then pv1\<lparr>playingRingtone := None\<rparr>
             else pv1\<lparr>audios := audios pv1 @ [\<lparr>ae_src = f, ae_playing = True\<rparr>],
                      audioRef := Some (length (audios pv1)), playingRingtone := Some f\<rparr>
         | None \<Rightarrow> pv1\<lparr>playingRingtone := None\<rparr>)"

text \<open>A row's speaker button (lines 471 and 487): stop when its tone is the one playing,
  else play it. An element that plays to its end fires \<open>onended\<close>, set at line 287,
  which names none playing; a paused element never ends.\<close>

datatype preview_event = ToneButton string | AudioEnded nat

fun preview_step :: "preview_event \<Rightarrow> tone_preview \<Rightarrow> tone_preview" where
  "preview_step (ToneButton f) pv = playRingtone (if playingRingtone pv = Some f then None else Some f) pv"
| "preview_step (AudioEnded i) pv =
     (if i < length (audios pv) \<and> ae_playing (audios pv ! i)
      then pv\<lparr>audios := pause_el i (audios pv), playingRingtone := None\<rparr> else pv)"

definition preview_run :: "preview_event list \<Rightarrow> tone_preview \<Rightarrow> tone_preview" where
  "preview_run es pv = fold preview_step es pv"

text \<open>The page has no effect that returns a cleanup for the preview: leaving it (the
  back link of line 316) drops its state and keeps the elements as they are.\<close>

definition settings_unmount :: "tone_preview \<Rightarrow> audio_el list" where
  "settings_unmount pv = audios pv"

section \<open>The ringtone radio group\<close>

text \<open>The group's value (line 457) and its options (lines 461--492), as (value, label):
  the four tones, then \<open>Custom\<close> for a stored ringtone that is none of them.\<close>

definition ringtone_value :: "user_doc option \<Rightarrow> string" where
  "ringtone_value up =
     or_else (case up of None \<Rightarrow> None | Some p \<Rightarrow> ringtoneUrl (theme p)) ''/sounds/incoming-call.mp3''"

definition ringtone_options :: "user_doc option \<Rightarrow> (string \<times> string) list" where
  "ringtone_options up =
     map (\<lambda>(n, f). (f, n)) ringtones @
     (case up of None \<Rightarrow> []
      | Some p \<Rightarrow> (case ringtoneUrl (theme p) of None \<Rightarrow> []
                  | Some u \<Rightarrow> if u \<noteq> [] \<and> \<not> list_ex (\<lambda>(_, f). f = u) ringtones then [(u, ''Custom'')] else []))"

section \<open>Appearance\<close>

text \<open>The accent grid (lines 431--446): each colour's button, highlighted when it is the
  stored primary colour. A click calls \<open>handleThemeChange\<close> with the stored mode, else
  \<open>next-themes\<close>' current theme, else \<open>system\<close>, and the colour.\<close>

definition accent_buttons :: "user_doc option \<Rightarrow> (string \<times> bool) list" where
  "accent_buttons up =
     map (\<lambda>(n, c). (n, (case up of None \<Rightarrow> False | Some p \<Rightarrow> primaryColor (theme p) = Some c))) colors"

definition accent_mode :: "user_doc option \<Rightarrow> theme_mode option \<Rightarrow> theme_mode" where
  "accent_mode up nt =
     (case (case up of None \<Rightarrow> None | Some p \<Rightarrow> mode (theme p)) of Some m \<Rightarrow> m
      | None \<Rightarrow> (case nt of Some m \<Rightarrow> m | None \<Rightarrow> ThemeSystem))"

definition accent_click :: "theme_mode option \<Rightarrow> string \<Rightarrow> settings \<times> store \<Rightarrow> settings \<times> store" where
  "accent_click nt hsl ss = handleThemeChange (accent_mode (st_profile (fst ss)) nt) (Some hsl) ss"

text \<open>The theme radio group's initial value (line 405).\<close>

definition theme_default :: "user_doc option \<Rightarrow> theme_mode" where
  "theme_default up = (case up of None \<Rightarrow> ThemeSystem | Some p \<Rightarrow> (case mode (theme p) of None \<Rightarrow> ThemeSystem | Some m \<Rightarrow> m))"

section \<open>The profile form\<close>

text \<open>The line under the handle field (lines 372--386) and the save button's guard
  (line 391), from the saving and checking flags, the debounced handle and the last
  check's answer.\<close>

datatype handle_status = HandleChecking | HandleAvailable | HandleTaken | HandleNone

definition handle_status :: "bool \<Rightarrow> string \<Rightarrow> bool option \<Rightarrow> handle_status" where
  "handle_status checking dh avail =
     (if checking then HandleChecking
      else if dh \<noteq> [] \<and> 2 < length dh then (case avail of Some True \<Rightarrow> HandleAvailable | Some False \<Rightarrow> HandleTaken | None \<Rightarrow> HandleNone)
      else HandleNone)"

definition save_disabled :: "bool \<Rightarrow> bool \<Rightarrow> bool option \<Rightarrow> bool" where
  "save_disabled isSaving checking avail \<longleftrightarrow> isSaving \<or> checking \<or> avail \<noteq> Some True"

section \<open>The image viewer\<close>

text \<open>\<open>ImageViewDialog\<close> (image-view-dialog.tsx lines 11--24) is always open; the pages
  mount it while \<open>viewedImage\<close> is truthy (settings line 505, chat-view line 807) and
  its close sets \<open>viewedImage\<close> to \<open>null\<close>. The settings avatar opens it with
  \<open>userProfile?.photoURL || null\<close> (line 323).\<close>

definition image_view :: "string option \<Rightarrow> string option" where
  "image_view viewedImage = (case viewedImage of None \<Rightarrow> None | Some u \<Rightarrow> if u = [] then None else Some u)"

definition settings_avatar_click :: "user_doc option \<Rightarrow> string option" where
  "settings_avatar_click up = (case up of None \<Rightarrow> None | Some p \<Rightarrow> if photoURL p = [] then None else Some (photoURL p))"

section \<open>The contact sheet\<close>

text \<open>\<open>UserInfoSheet\<close> (user-info-sheet.tsx lines 23--71): a dialog titled (for screen
  readers) \<open>User Information\<close> on a phone, a sheet titled \<open>Contact Info\<close> otherwise; the
  content is the avatar, whose click views the photo, the initials of its
  \<open>getInitials\<close> (lines 26--33, the code of page.tsx's), the name and the handle.\<close>

datatype info_frame = InfoDialog string | InfoSheet string

record user_info =
  ui_frame :: info_frame
  ui_open :: bool
  ui_photo :: string
  ui_initials :: string
  ui_name :: string
  ui_handle :: string

definition UserInfoSheet :: "bool \<Rightarrow> user_doc \<Rightarrow> bool \<Rightarrow> user_info" where
  "UserInfoSheet isMobile u open =
     \<lparr>ui_frame = (if isMobile then InfoDialog ''User Information'' else InfoSheet ''Contact Info''),
      ui_open = open, ui_photo = photoURL u, ui_initials = getInitials (displayName u),
      ui_name = displayName u, ui_handle = ''@'' @ handle u\<rparr>"

section \<open>The draggable preview\<close>

text \<open>\<open>useDraggable\<close> (use-draggable.ts lines 8--31) over \<open>useDrag\<close>: a gesture starts from
  the offset \<open>from\<close> returns, the element's current translation (the identity
  matrix's \<open>(0, 0)\<close> when none is set), and every move sets the translation to that
  offset plus the movement since the gesture started.\<close>

record drag =
  dr_transform :: "(int \<times> int) option"
  dr_from :: "int \<times> int"

definition drag_origin :: "(int \<times> int) option \<Rightarrow> int \<times> int" where
  "drag_origin t = (case t of None \<Rightarrow> (0, 0) | Some xy \<Rightarrow> xy)"

datatype drag_event = DragStart | DragMove "int \<times> int"

fun drag_step :: "drag_event \<Rightarrow> drag \<Rightarrow> drag" where
  "drag_step DragStart d = d\<lparr>dr_from := drag_origin (dr_transform d)\<rparr>"
| "drag_step (DragMove (mx, my)) d = d\<lparr>dr_transform := Some (fst (dr_from d) + mx, snd (dr_from d) + my)\<rparr>"

definition drag_run :: "drag_event list \<Rightarrow> drag \<Rightarrow> drag" where
  "drag_run es d = fold drag_step es d"

definition undragged :: drag where
  "undragged = \<lparr>dr_transform = None, dr_from = (0, 0)\<rparr>"

section \<open>Invariant of the preview\<close>

text \<open>At most one element plays, the one \<open>audioRef\<close> holds, and \<open>playingRingtone\<close>
  names its file while it plays. \<open>preview_quiet\<close> is the state after the pause of
  \<open>playRingtone\<close>.\<close>

definition preview_inv :: "tone_preview \<Rightarrow> bool" where
  "preview_inv pv \<longleftrightarrow>
     (case audioRef pv of None \<Rightarrow> True | Some i \<Rightarrow> i < length (audios pv)) \<and>
     (\<forall>j < length (audios pv). ae_playing (audios pv ! j) \<longrightarrow> audioRef pv = Some j) \<and>
     playingRingtone pv = (case audioRef pv of None \<Rightarrow> None
        | Some i \<Rightarrow> if ae_playing (audios pv ! i) then Some (ae_src (audios pv ! i)) else None)"

definition preview_quiet :: "tone_preview \<Rightarrow> bool" where
  "preview_quiet pv \<longleftrightarrow> audioRef pv = None \<and> (\<forall>j < length (audios pv). \<not> ae_playing (audios pv ! j))"

section \<open>Lemmas\<close>

lemma pause_el_length [simp]: "length (pause_el i as) = length as"
  by (simp add: pause_el_def)

lemma pause_el_nth [simp]:
  "j < length as \<Longrightarrow> pause_el i as ! j = (if j = i then (as ! j)\<lparr>ae_playing := False\<rparr> else as ! j)"
  by (simp add: pause_el_def nth_list_update)

lemma preview_inv_init: "preview_inv initial_preview"
  by (simp add: preview_inv_def initial_preview_def)

lemma paused_quiet:
  assumes "preview_inv pv"
  shows "preview_quiet (case audioRef pv of None \<Rightarrow> pv
                 | Some i \<Rightarrow> pv\<lparr>audios := pause_el i (audios pv), audioRef := None\<rparr>)"
proof (cases "audioRef pv")
  case (Some i)
  with assms have "\<forall>j < length (audios pv). ae_playing (audios pv ! j) \<longrightarrow> j = i"
    by (auto simp: preview_inv_def)
  with Some show ?thesis by (auto simp: preview_quiet_def)
qed (use assms in \<open>simp add: preview_inv_def preview_quiet_def\<close>)

lemma quiet_start:
  assumes "preview_quiet pv"
  shows "preview_inv (pv\<lparr>audios := audios pv @ [\<lparr>ae_src = f, ae_playing = True\<rparr>],
                      audioRef := Some (length (audios pv)), playingRingtone := Some f\<rparr>)"
  using assms by (auto simp: preview_inv_def preview_quiet_def nth_append less_Suc_eq)

lemma quiet_stop: "preview_quiet pv \<Longrightarrow> preview_inv (pv\<lparr>playingRingtone := None\<rparr>)"
  by (simp add: preview_inv_def preview_quiet_def)

lemma playRingtone_inv: "preview_inv pv \<Longrightarrow> preview_inv (playRingtone file pv)"
  using paused_quiet [of pv] quiet_start quiet_stop
  unfolding playRingtone_def Let_def by (simp split: option.split)

lemma audio_ended_inv:
  assumes "preview_inv pv" "i < length (audios pv)" "ae_playing (audios pv ! i)"
  shows "preview_inv (pv\<lparr>audios := pause_el i (audios pv), playingRingtone := None\<rparr>)"
proof -
  have r: "audioRef pv = Some i" using assms by (auto simp: preview_inv_def)
  then have "\<forall>j < length (audios pv). ae_playing (audios pv ! j) \<longrightarrow> j = i"
    using assms(1) by (auto simp: preview_inv_def)
  then show ?thesis using r assms(2) by (auto simp: preview_inv_def)
qed

lemma preview_step_inv: "preview_inv pv \<Longrightarrow> preview_inv (preview_step e pv)"
  by (cases e) (simp_all add: playRingtone_inv audio_ended_inv)

lemma preview_run_inv: "preview_inv pv \<Longrightarrow> preview_inv (preview_run es pv)"
  unfolding preview_run_def by (induction es arbitrary: pv) (simp_all add: preview_step_inv)

lemma preview_inv_playing:
  assumes "preview_inv pv"
  shows "length (filter ae_playing (audios pv)) \<le> 1 \<and>
         set_option (playingRingtone pv) = ae_src ` set (filter ae_playing (audios pv))"
proof (cases "audioRef pv")
  case None
  with assms have "\<forall>j < length (audios pv). \<not> ae_playing (audios pv ! j)" "playingRingtone pv = None"
    by (auto simp: preview_inv_def)
  then show ?thesis by (simp add: filter_none_index)
next
  case (Some i)
  with assms have i: "i < length (audios pv)" and only: "\<forall>j < length (audios pv). ae_playing (audios pv ! j) \<longrightarrow> j = i"
    and pr: "playingRingtone pv = (if ae_playing (audios pv ! i) then Some (ae_src (audios pv ! i)) else None)"
    by (auto simp: preview_inv_def)
  show ?thesis using filter_only_index [OF i only] pr by simp
qed

lemma ringtone_value_src: "ringtone_value up = ringtone_src up"
  by (simp add: ringtone_value_def ringtone_src_def)

lemma drag_gestures:
  "dr_transform (drag_run (concat (map (\<lambda>m. [DragStart, DragMove m]) ms)) d) =
     (if ms = [] then dr_transform d
      else Some (fst (drag_origin (dr_transform d)) + sum_list (map fst ms),
                 snd (drag_origin (dr_transform d)) + sum_list (map snd ms)))"
proof (induction ms arbitrary: d)
  case (Cons m ms)
  obtain mx my where m: "m = (mx, my)" by fastforce
  let ?d1 = "drag_step (DragMove m) (drag_step DragStart d)"
  have d1: "dr_transform ?d1 = Some (fst (drag_origin (dr_transform d)) + mx, snd (drag_origin (dr_transform d)) + my)"
    by (simp add: m)
  have "drag_run (concat (map (\<lambda>m. [DragStart, DragMove m]) (m # ms))) d =
        drag_run (concat (map (\<lambda>m. [DragStart, DragMove m]) ms)) ?d1"
    by (simp add: drag_run_def)
  then show ?case using Cons.IH [of ?d1] d1 by (simp add: drag_origin_def m)
qed (simp add: drag_run_def)

lemma handleThemeChange_found:
  assumes "map_of (users s) (st_user st) = Some d"
  shows "st_profile (fst (handleThemeChange m c (st, s))) =
           Some (d\<lparr>theme := (theme d)\<lparr>mode := Some m, primaryColor := Some (or_else c (or_else
             (case st_profile st of None \<Rightarrow> None | Some p \<Rightarrow> primaryColor (theme p)) ''356 79% 56%''))\<rparr>\<rparr>)"
  using assms by (simp add: handleThemeChange_def settings_write_def update_user_found update_conv' Let_def)

lemma accent_click_highlights:
  assumes "map_of (users s) (st_user st) = Some d" "(n, c) \<in> set colors"
  shows "filter snd (accent_buttons (st_profile (fst (accent_click nt c (st, s))))) = [(n, True)]"
proof -
  have "c \<noteq> []" using assms(2) by (auto simp: colors_def)
  then have "st_profile (fst (accent_click nt c (st, s))) =
               Some (d\<lparr>theme := (theme d)\<lparr>mode := Some (accent_mode (st_profile st) nt), primaryColor := Some c\<rparr>\<rparr>)"
    using handleThemeChange_found [OF assms(1)] by (simp add: accent_click_def or_else_def)
  then show ?thesis using assms(2) by (auto simp: accent_buttons_def colors_def)
qed

text \<open>Dragging: each gesture starts where the last one left the preview, so the
  translations add up.\<close>

lemma drag_accumulates:
  "dr_transform (drag_run (concat (map (\<lambda>m. [DragStart, DragMove m]) ms)) undragged) =
     (if ms = [] then None else Some (sum_list (map fst ms), sum_list (map snd ms)))"
  by (simp add: drag_gestures undragged_def drag_origin_def)

text \<open>Leaving the page while a preview plays leaves it playing: nothing pauses the
  element the page created.\<close>

lemma preview_outlives_page:
  "f \<noteq> [] \<Longrightarrow>
     filter ae_playing (settings_unmount (preview_run [ToneButton f] initial_preview)) = [\<lparr>ae_src = f, ae_playing = True\<rparr>]"
  by (simp add: settings_unmount_def preview_run_def initial_preview_def playRingtone_def)

section \<open>Properties\<close>

text \<open>C2: Whatever the user clicks on the settings page's ringtone rows and however the
  previews end, at most one preview plays at a time, and the page's \<open>playingRingtone\<close>
  names exactly the file of the one playing, or none when none plays.\<close>

theorem one_preview_plays:
  "length (filter ae_playing (audios (preview_run es initial_preview))) \<le> 1 \<and>
   set_option (playingRingtone (preview_run es initial_preview)) =
     ae_src ` set (filter ae_playing (audios (preview_run es initial_preview)))"
  by (rule preview_inv_playing [OF preview_run_inv [OF preview_inv_init]])


text \<open>C24: The ringtone radio group always has exactly one option whose value is the
  group's value, so one row is selected and it is the tone the incoming-call dialog
  plays: a stored tone that is one of the four presets is not listed a second time as
  \<open>Custom\<close>, and any other stored tone is.\<close>

theorem ringtone_selected_once:
  "ringtone_value up = ringtone_src up \<and>
   length (filter (\<lambda>(v, _). v = ringtone_value up) (ringtone_options up)) = 1"
proof -
  have "length (filter (\<lambda>(v, _). v = ringtone_value up) (ringtone_options up)) = 1"
  proof (cases "case up of None \<Rightarrow> None | Some p \<Rightarrow> ringtoneUrl (theme p)")
    case None
    then show ?thesis by (cases up) (auto simp: ringtone_value_def ringtone_options_def ringtones_def or_else_def)
  next
    case (Some u)
    then obtain p where p: "up = Some p" "ringtoneUrl (theme p) = Some u" by (cases up) auto
    show ?thesis using p by (auto simp: ringtone_value_def ringtone_options_def ringtones_def or_else_def)
  qed
  then show ?thesis by (simp add: ringtone_value_src)
qed

end
