(* ===== verification/SettingsPage.thy ===== *)
theory SettingsPage
  imports SettingsView
begin

text \<open>
  The applied appearance and the settings page as one component. The appearance is what
  \<open>next-themes\<close> and the \<open>--primary\<close> CSS variable of the document hold: the root layout
  (src/src/app/layout.tsx) starts it at the \<open>system\<close> theme; the auth provider
  (src/src/hooks/use-auth.tsx) applies a profile's theme whenever it reads one
  (\<open>fetchUserProfile\<close>, \<open>refreshUserProfile\<close>, the sign-in listener) and leaves it as it is
  on sign-out. The settings page (src/src/app/settings/page.tsx) is a step function over
  its events: field edits, the debounced handle check, the save, the theme, accent,
  ringtone, avatar and upload handlers of \<open>Profile\<close>, and the ringtone preview of
  \<open>SettingsView\<close>; each successful write refreshes the profile, which re-applies the
  theme and re-runs the page's profile effect.
\<close>

section \<open>Appearance\<close>

text \<open>The theme \<open>next-themes\<close> applies (\<open>None\<close> after \<open>setTheme(undefined)\<close>) and the
  \<open>--primary\<close> variable (\<open>None\<close> while the stylesheet's value applies).\<close>

record appearance =
  ap_theme :: "theme_mode option"
  ap_primary :: "string option"

text \<open>\<open>ThemeProvider defaultTheme="system"\<close> (layout.tsx lines 26--31).\<close>

definition initial_appearance :: appearance where
  "initial_appearance = \<lparr>ap_theme = Some ThemeSystem, ap_primary = None\<rparr>"

text \<open>The theme application of \<open>fetchUserProfile\<close> (use-auth.tsx lines 46--51): only for a
  profile with a \<open>theme\<close> map (one with no key is modelled as a missing map), the mode
  always, the colour when it is truthy.\<close>

definition apply_theme :: "user_doc \<Rightarrow> appearance \<Rightarrow> appearance" where
  "apply_theme d ap =
     (if theme d = \<lparr>mode = None, primaryColor = None, ringtoneUrl = None\<rparr> then ap
      else ap\<lparr>ap_theme := mode (theme d),
              ap_primary := (case primaryColor (theme d) of None \<Rightarrow> ap_primary ap
                             | Some c \<Rightarrow> if c = [] then ap_primary ap else Some c)\<rparr>)"

text \<open>\<open>fetchUserProfile\<close> (lines 40--56): the profile, if its document exists, with its theme
  applied.\<close>

definition fetchUserProfile :: "uid \<Rightarrow> store \<Rightarrow> appearance \<Rightarrow> user_doc option \<times> appearance" where
  "fetchUserProfile u s ap =
     (case map_of (users s) u of None \<Rightarrow> (None, ap) | Some d \<Rightarrow> (Some d, apply_theme d ap))"

text \<open>The sign-in listener with its effect on the appearance (lines 73--123): a new
  profile's mode and colour are set directly (lines 113--114), an existing profile goes
  through \<open>fetchUserProfile\<close>, and signing out leaves the appearance alone.\<close>

definition auth_state_changed :: "auth_user option \<Rightarrow> nat \<Rightarrow> auth_ctx \<times> store \<times> appearance \<Rightarrow> auth_ctx \<times> store \<times> appearance" where
  "auth_state_changed u now x =
     (let (ctx, s, ap) = x; (ctx', s') = onAuthStateChanged u now (ctx, s)
      in (ctx', s',
          case u of
            None \<Rightarrow> ap
          | Some au \<Rightarrow>
              (case map_of (users s) (au_uid au) of
                 None \<Rightarrow> (let p = new_profile au (clock s) now
                          in ap\<lparr>ap_theme := mode (theme p), ap_primary := primaryColor (theme p)\<rparr>)
               | Some _ \<Rightarrow> snd (fetchUserProfile (au_uid au) s ap))))"

text \<open>\<open>refreshUserProfile\<close> (lines 58--70): with a signed-in user, read the profile again
  (\<open>null\<close> when its document is gone) and apply its theme.\<close>

definition refreshUserProfile :: "auth_ctx \<times> store \<times> appearance \<Rightarrow> auth_ctx \<times> store \<times> appearance" where
  "refreshUserProfile x =
     (let (ctx, s, ap) = x in
      case cur_user ctx of
        None \<Rightarrow> x
      | Some au \<Rightarrow> (let (p, ap') = fetchUserProfile (au_uid au) s ap in (ctx\<lparr>ctx_profile := p\<rparr>, s, ap')))"

text \<open>\<open>logout\<close> (lines 125--128): \<open>signOut\<close>, whose listener call clears the context, then
  the login route. The settings page (lines 82--86) and the home page send a user that
  is not loading and not signed in to the login route; the settings page shows its
  loader meanwhile (lines 304--310).\<close>

definition logout :: "auth_ctx \<times> store \<times> appearance \<Rightarrow> (auth_ctx \<times> store \<times> appearance) \<times> string" where
  "logout x = (auth_state_changed None 0 x, ''/login'')"

definition needs_login :: "auth_ctx \<Rightarrow> bool" where
  "needs_login ctx \<longleftrightarrow> \<not> loading ctx \<and> cur_user ctx = None"

definition settings_loader :: "auth_ctx \<Rightarrow> bool" where
  "settings_loader ctx \<longleftrightarrow> loading ctx \<or> cur_user ctx = None"

section \<open>The settings page\<close>

text \<open>The page's state: the profile state of \<open>Profile\<close> (whose \<open>st_profile\<close> is the
  provider's \<open>userProfile\<close>), the two fields of the profile form, the ringtone preview
  and the appearance.\<close>

record settings_page =
  sp_settings :: settings
  sp_form :: "string \<times> string"
  sp_preview :: tone_preview
  sp_appearance :: appearance

text \<open>The profile effect (lines 88--98), run whenever \<open>userProfile\<close> is a new value: the
  form is reset to the profile's name and handle, and a truthy colour is applied.\<close>

definition profile_effect :: "settings_page \<Rightarrow> settings_page" where
  "profile_effect sp =
     (case st_profile (sp_settings sp) of
        None \<Rightarrow> sp
      | Some p \<Rightarrow>
          sp\<lparr>sp_form := (displayName p, handle p),
             sp_appearance := (case primaryColor (theme p) of None \<Rightarrow> sp_appearance sp
                               | Some c \<Rightarrow> if c = [] then sp_appearance sp else (sp_appearance sp)\<lparr>ap_primary := Some c\<rparr>)\<rparr>)"

text \<open>\<open>await refreshUserProfile()\<close> inside a handler: the provider reads the profile and
  applies its theme, and the new \<open>userProfile\<close> re-runs the profile effect.\<close>

definition page_refresh :: "settings_page \<Rightarrow> store \<Rightarrow> settings_page" where
  "page_refresh sp s =
     (let (p, ap) = fetchUserProfile (st_user (sp_settings sp)) s (sp_appearance sp)
      in profile_effect (sp\<lparr>sp_settings := (sp_settings sp)\<lparr>st_profile := p\<rparr>, sp_appearance := ap\<rparr>))"

text \<open>The local effects of \<open>handleThemeChange\<close> after its write (lines 242--250):
  \<open>setTheme\<close> with the new mode (both branches of line 242 do the same), and the new colour
  on \<open>--primary\<close> when one was given.\<close>

definition theme_local :: "theme_mode \<Rightarrow> string option \<Rightarrow> appearance \<Rightarrow> appearance" where
  "theme_local m c ap =
     ap\<lparr>ap_theme := Some m,
        ap_primary := (case c of None \<Rightarrow> ap_primary ap | Some col \<Rightarrow> if col = [] then ap_primary ap else Some col)\<rparr>"

text \<open>The page's events: typing in the two fields; the debounced handle check firing on
  the handle field; the save (the schema check and \<open>onSubmit\<close>); the theme radio group;
  an accent button with \<open>next-themes\<close>' current theme; a ringtone row; the avatar and
  ringtone uploads (\<open>None\<close> for no file or a failed upload); the preview buttons.\<close>

datatype settings_event =
    EdName string
  | EdHandle string
  | HandleDebounced
  | SaveProfile
  | PickMode theme_mode
  | PickAccent "theme_mode option" string
  | PickRingtone string
  | AvatarUpload "string option"
  | RingtoneUpload "string option"
  | Preview preview_event

text \<open>One event. A handler whose \<open>updateDoc\<close> rejects (the user's document is gone) is
  caught before its refresh and changes nothing.\<close>

fun sp_step :: "settings_event \<Rightarrow> settings_page \<times> store \<Rightarrow> settings_page \<times> store" where
  "sp_step (EdName n) (sp, s) = (sp\<lparr>sp_form := (n, snd (sp_form sp))\<rparr>, s)"
| "sp_step (EdHandle h) (sp, s) = (sp\<lparr>sp_form := (fst (sp_form sp), h)\<rparr>, s)"
| "sp_step HandleDebounced (sp, s) = (sp\<lparr>sp_settings := checkHandle (snd (sp_form sp)) (sp_settings sp, s)\<rparr>, s)"
| "sp_step SaveProfile (sp, s) =
     (let st = sp_settings sp; (dn, h) = sp_form sp in
      if \<not> profile_form_valid dn h \<or> isHandleAvailable st \<noteq> Some True \<or> map_of (users s) (st_user st) = None
      then (sp, s)
      else (let (st', s') = submit_profile dn h (st, s) in (page_refresh (sp\<lparr>sp_settings := st'\<rparr>) s', s')))"
| "sp_step (PickMode m) (sp, s) =
     (if map_of (users s) (st_user (sp_settings sp)) = None then (sp, s)
      else (let (st', s') = handleThemeChange m None (sp_settings sp, s)
            in (page_refresh (sp\<lparr>sp_settings := st', sp_appearance := theme_local m None (sp_appearance sp)\<rparr>) s', s')))"
| "sp_step (PickAccent nt c) (sp, s) =
     (if map_of (users s) (st_user (sp_settings sp)) = None then (sp, s)
      else (let m = accent_mode (st_profile (sp_settings sp)) nt; (st', s') = accent_click nt c (sp_settings sp, s)
            in (page_refresh (sp\<lparr>sp_settings := st', sp_appearance := theme_local m (Some c) (sp_appearance sp)\<rparr>) s', s')))"
| "sp_step (PickRingtone r) (sp, s) =
     (if map_of (users s) (st_user (sp_settings sp)) = None then (sp, s)
      else (let (st', s') = handleRingtoneChange r (sp_settings sp, s)
            in (page_refresh (sp\<lparr>sp_settings := st', sp_preview := playRingtone (Some r) (sp_preview sp)\<rparr>) s', s')))"
| "sp_step (AvatarUpload u) (sp, s) =
     (if u = None \<or> map_of (users s) (st_user (sp_settings sp)) = None then (sp, s)
      else (let (st', s') = handleAvatarFileChange u (sp_settings sp, s) in (page_refresh (sp\<lparr>sp_settings := st'\<rparr>) s', s')))"
| "sp_step (RingtoneUpload u) (sp, s) =
     (if u = None \<or> map_of (users s) (st_user (sp_settings sp)) = None then (sp, s)
      else (let (st', s') = handleRingtoneFileChange u (sp_settings sp, s) in (page_refresh (sp\<lparr>sp_settings := st'\<rparr>) s', s')))"
| "sp_step (Preview e) (sp, s) = (sp\<lparr>sp_preview := preview_step e (sp_preview sp)\<rparr>, s)"

definition sp_run :: "settings_event list \<Rightarrow> settings_page \<times> store \<Rightarrow> settings_page \<times> store" where
  "sp_run es ps = fold sp_step es ps"

text \<open>The page as mounted for a signed-in user whose profile is loaded: the form reset
  by the profile effect, no preview, the appearance the provider applied.\<close>

definition sp_mount :: "uid \<Rightarrow> user_doc option \<Rightarrow> appearance \<Rightarrow> settings_page" where
  "sp_mount u up ap =
     profile_effect \<lparr>sp_settings = \<lparr>st_user = u, st_profile = up, isHandleAvailable = None\<rparr>,
                     sp_form = ([], []), sp_preview = initial_preview, sp_appearance = ap\<rparr>"

section \<open>Abstraction\<close>

text \<open>The appearance a stored profile determines.\<close>

definition appearance_of :: "user_doc \<Rightarrow> appearance" where
  "appearance_of d = \<lparr>ap_theme = mode (theme d), ap_primary = primaryColor (theme d)\<rparr>"

text \<open>The page applies what its user's stored profile determines, and that profile has a
  colour.\<close>

definition appearance_ok :: "settings_page \<Rightarrow> store \<Rightarrow> bool" where
  "appearance_ok sp s \<longleftrightarrow>
     (case map_of (users s) (st_user (sp_settings sp)) of
        None \<Rightarrow> False
      | Some d \<Rightarrow> (case primaryColor (theme d) of None \<Rightarrow> False | Some c \<Rightarrow> c \<noteq> []) \<and>
                  sp_appearance sp = appearance_of d)"

section \<open>Fixtures\<close>

text \<open>alice with the default theme, alone in the store.\<close>

definition alice_profile :: user_doc where
  "alice_profile = (blank_user ''alice'')\<lparr>displayName := ''Alice'', handle := ''alice'', theme := default_theme\<rparr>"

definition settings_store :: store where
  "settings_store = profile_store\<lparr>users := [(''alice'', alice_profile)]\<rparr>"

section \<open>Lemmas\<close>

lemma or_else_nonempty: "d \<noteq> [] \<Longrightarrow> or_else x d \<noteq> []"
  by (simp add: or_else_def split: option.split)

lemma apply_theme_colour:
  "primaryColor (theme d) = Some c \<Longrightarrow> c \<noteq> [] \<Longrightarrow> apply_theme d ap = appearance_of d"
  by (cases ap) (auto simp: apply_theme_def appearance_of_def)

lemma settings_write_found:
  "map_of (users s) (st_user st) = Some d \<Longrightarrow>
     settings_write f (st, s) = (st\<lparr>st_profile := Some (f d)\<rparr>, s\<lparr>users := AList.update (st_user st) (f d) (users s)\<rparr>)"
  by (simp add: settings_write_def update_user_found update_conv')

lemma page_refresh_found:
  assumes "map_of (users s) (st_user (sp_settings sp)) = Some d" "primaryColor (theme d) = Some c" "c \<noteq> []"
  shows "sp_appearance (page_refresh sp s) = appearance_of d \<and> sp_form (page_refresh sp s) = (displayName d, handle d) \<and>
         sp_settings (page_refresh sp s) = (sp_settings sp)\<lparr>st_profile := Some d\<rparr> \<and>
         sp_preview (page_refresh sp s) = sp_preview sp"
  using assms by (simp add: page_refresh_def fetchUserProfile_def profile_effect_def apply_theme_colour appearance_of_def)


lemma ok_found:
  assumes "appearance_ok sp s"
  obtains d c where "map_of (users s) (st_user (sp_settings sp)) = Some d" "primaryColor (theme d) = Some c" "c \<noteq> []"
    "sp_appearance sp = appearance_of d"
  using assms by (auto simp: appearance_ok_def split: option.splits)

lemma ok_refresh_update:
  assumes "st_user (sp_settings sp) = u" "case primaryColor (theme d') of None \<Rightarrow> False | Some c \<Rightarrow> c \<noteq> []"
  shows "appearance_ok (page_refresh sp (s\<lparr>users := AList.update u d' (users s)\<rparr>))
                       (s\<lparr>users := AList.update u d' (users s)\<rparr>)"
proof -
  let ?s' = "s\<lparr>users := AList.update u d' (users s)\<rparr>"
  obtain c where c: "primaryColor (theme d') = Some c" "c \<noteq> []" using assms(2) by (auto split: option.splits)
  have m: "map_of (users ?s') (st_user (sp_settings sp)) = Some d'" using assms(1) by (simp add: update_conv')
  show ?thesis using page_refresh_found [OF m c] m c by (simp add: appearance_ok_def)
qed

lemma checkHandle_user [simp]: "st_user (checkHandle dh (st, s)) = st_user st"
  by (simp add: checkHandle_def)

lemma submit_found:
  "map_of (users s) (st_user st) = Some d \<Longrightarrow> profile_form_valid dn h \<Longrightarrow> isHandleAvailable st = Some True \<Longrightarrow>
     submit_profile dn h (st, s) = (st\<lparr>st_profile := Some (d\<lparr>displayName := dn, handle := h\<rparr>)\<rparr>,
                                   s\<lparr>users := AList.update (st_user st) (d\<lparr>displayName := dn, handle := h\<rparr>) (users s)\<rparr>)"
  by (simp add: submit_profile_def update_user_found update_conv')

lemma sp_step_ok: "appearance_ok sp s \<Longrightarrow> appearance_ok (fst (sp_step e (sp, s))) (snd (sp_step e (sp, s)))"
proof -
  assume ok: "appearance_ok sp s"
  then obtain d c where d: "map_of (users s) (st_user (sp_settings sp)) = Some d" and c: "primaryColor (theme d) = Some c" "c \<noteq> []"
    and a: "sp_appearance sp = appearance_of d" by (rule ok_found)
  show ?thesis
  proof (cases e)
    case (PickMode m)
    then show ?thesis using d
      by (simp add: handleThemeChange_def settings_write_found Let_def) (rule ok_refresh_update; simp add: or_else_nonempty)
  next
    case (PickAccent nt col)
    then show ?thesis using d
      by (simp add: accent_click_def handleThemeChange_def settings_write_found Let_def) (rule ok_refresh_update; simp add: or_else_nonempty)
  next
    case (PickRingtone r)
    then show ?thesis using d c
      by (simp add: handleRingtoneChange_def settings_write_found) (rule ok_refresh_update; simp)
  next
    case (AvatarUpload u)
    show ?thesis
    proof (cases u)
      case (Some url)
      then show ?thesis using AvatarUpload d c
        by (simp add: handleAvatarFileChange_def settings_write_found) (rule ok_refresh_update; simp)
    qed (use AvatarUpload ok in simp)
  next
    case (RingtoneUpload u)
    show ?thesis
    proof (cases u)
      case (Some url)
      then show ?thesis using RingtoneUpload d c
        by (simp add: handleRingtoneFileChange_def handleRingtoneChange_def settings_write_found) (rule ok_refresh_update; simp)
    qed (use RingtoneUpload ok in simp)
  next
    case SaveProfile
    obtain dn h where f: "sp_form sp = (dn, h)" by fastforce
    show ?thesis
    proof (cases "profile_form_valid dn h \<and> isHandleAvailable (sp_settings sp) = Some True")
      case True
      then show ?thesis using SaveProfile f d c
        by (simp add: submit_found Let_def) (rule ok_refresh_update; simp)
    next
      case False
      then show ?thesis using SaveProfile f ok by auto
    qed
  next
    case HandleDebounced
    then show ?thesis using d c a by (simp add: appearance_ok_def)
  qed (use d c a in \<open>simp_all add: appearance_ok_def\<close>)
qed

lemma sp_run_ok: "appearance_ok sp s \<Longrightarrow> appearance_ok (fst (sp_run es (sp, s))) (snd (sp_run es (sp, s)))"
proof (induction es arbitrary: sp s)
  case (Cons e es)
  obtain sp1 s1 where e: "sp_step e (sp, s) = (sp1, s1)" by fastforce
  have "appearance_ok sp1 s1" using sp_step_ok [OF Cons.prems, of e] e by simp
  then show ?case using Cons.IH [of sp1 s1] e by (simp add: sp_run_def)
qed (simp add: sp_run_def)


lemma settings_write_user [simp]: "st_user (fst (settings_write f (st, s))) = st_user st"
  by (simp add: settings_write_def split: prod.split option.split)

lemma page_refresh_user [simp]: "st_user (sp_settings (page_refresh sp s)) = st_user (sp_settings sp)"
  by (simp add: page_refresh_def fetchUserProfile_def profile_effect_def split: option.split)

lemma page_refresh_form:
  "map_of (users s) (st_user (sp_settings sp)) = Some d \<Longrightarrow> sp_form (page_refresh sp s) = (displayName d, handle d)"
  by (simp add: page_refresh_def fetchUserProfile_def profile_effect_def)

lemma sp_step_user: "st_user (sp_settings (fst (sp_step e (sp, s)))) = st_user (sp_settings sp)"
proof (cases e)
  case SaveProfile
  then show ?thesis
    by (auto simp: submit_profile_def Let_def split_def split: option.split)
qed (auto simp: Let_def split_def handleThemeChange_def accent_click_def handleRingtoneChange_def handleAvatarFileChange_def
      handleRingtoneFileChange_def split: option.split)

lemma sp_run_user: "st_user (sp_settings (fst (sp_run es (sp, s)))) = st_user (sp_settings sp)"
proof (induction es arbitrary: sp s)
  case (Cons e es)
  obtain sp1 s1 where e: "sp_step e (sp, s) = (sp1, s1)" by fastforce
  show ?case using Cons.IH [of sp1 s1] e sp_step_user [of e sp s] by (simp add: sp_run_def)
qed (simp add: sp_run_def)

lemma mount_ok:
  assumes "map_of (users s) u = Some d" "primaryColor (theme d) = Some c" "c \<noteq> []"
  shows "appearance_ok (sp_mount u (Some d) (apply_theme d ap)) s"
  using assms by (simp add: appearance_ok_def sp_mount_def profile_effect_def apply_theme_colour appearance_of_def)

lemma page_refresh_preview [simp]: "sp_preview (page_refresh sp s) = sp_preview sp"
  by (simp add: page_refresh_def fetchUserProfile_def profile_effect_def split: option.split)

text \<open>Picking a ringtone row saves the tone, selects its row once the profile is read
  again, and previews it (\<open>playRingtone(ringtoneFile)\<close>, line 269).\<close>

lemma ringtone_pick_saved_and_played:
  assumes "map_of (users s) (st_user (sp_settings sp)) = Some d" "r \<noteq> []"
  shows "ringtone_value (st_profile (sp_settings (fst (sp_step (PickRingtone r) (sp, s))))) = r \<and>
         playingRingtone (sp_preview (fst (sp_step (PickRingtone r) (sp, s)))) = Some r"
  using assms
  by (simp add: handleRingtoneChange_def settings_write_found page_refresh_def fetchUserProfile_def profile_effect_def
                update_conv' ringtone_value_def or_else_def playRingtone_def Let_def split: option.split)

text \<open>Signing out keeps the signed-out user's theme and colour applied on the login route.\<close>

lemma logout_keeps_appearance:
  "logout (ctx, s, ap) = ((ctx', s', ap'), r) \<Longrightarrow> needs_login ctx' \<and> ap' = ap \<and> s' = s \<and> r = ''/login''"
  by (auto simp: logout_def auth_state_changed_def onAuthStateChanged_def needs_login_def)

section \<open>Properties\<close>

text \<open>C13: After a signed-in user's profile is loaded and the settings page mounted,
  whatever the user then does on the page (edits, checks, saves, theme, accent and
  ringtone picks, uploads, previews), the theme and accent colour applied to the document
  are exactly those of the profile stored for that user: the applied appearance refines
  the stored profile through \<open>appearance_of\<close>.\<close>

theorem appearance_follows_profile:
  assumes "map_of (users s) u = Some d" "primaryColor (theme d) = Some c" "c \<noteq> []"
  shows "map_option appearance_of (map_of (users (snd (sp_run es (sp_mount u (Some d) (apply_theme d ap), s)))) u) =
           Some (sp_appearance (fst (sp_run es (sp_mount u (Some d) (apply_theme d ap), s))))"
proof -
  let ?r = "sp_run es (sp_mount u (Some d) (apply_theme d ap), s)"
  have ok: "appearance_ok (fst ?r) (snd ?r)" by (rule sp_run_ok [OF mount_ok [OF assms]])
  have "st_user (sp_settings (fst ?r)) = u" by (simp add: sp_run_user sp_mount_def profile_effect_def)
  with ok show ?thesis by (auto simp: appearance_ok_def split: option.splits)
qed

theorem appearance_follows_profile_witness:
  "map_option appearance_of (map_of (users (snd (sp_run [EdName ''Alicia'', PickAccent None ''221 83% 53%'', PickMode ThemeDark]
       (sp_mount ''alice'' (Some alice_profile) (apply_theme alice_profile initial_appearance), settings_store)))) ''alice'') =
   Some (sp_appearance (fst (sp_run [EdName ''Alicia'', PickAccent None ''221 83% 53%'', PickMode ThemeDark]
       (sp_mount ''alice'' (Some alice_profile) (apply_theme alice_profile initial_appearance), settings_store))))"
  by (rule appearance_follows_profile [where c = "''356 79% 56%''"])
     (simp_all add: settings_store_def alice_profile_def default_theme_def)

text \<open>C14: A successful write of the settings page re-reads the profile, and the page's
  profile effect then resets the profile form: a name or handle typed but not yet saved
  is replaced by the stored one when the user picks an accent colour or a ringtone or
  uploads an avatar.\<close>

theorem refresh_discards_form_edits:
  assumes "map_of (users s) (st_user (sp_settings sp)) = Some d"
  shows "sp_form (fst (sp_step (PickAccent nt c) (sp\<lparr>sp_form := (n, h)\<rparr>, s))) = (displayName d, handle d) \<and>
         sp_form (fst (sp_step (PickRingtone r) (sp\<lparr>sp_form := (n, h)\<rparr>, s))) = (displayName d, handle d) \<and>
         sp_form (fst (sp_step (AvatarUpload (Some url)) (sp\<lparr>sp_form := (n, h)\<rparr>, s))) = (displayName d, handle d)"
  using assms
  by (simp add: accent_click_def handleThemeChange_def handleRingtoneChange_def handleAvatarFileChange_def
                settings_write_found Let_def page_refresh_form update_conv')

theorem refresh_discards_form_edits_witness:
  "sp_form (fst (sp_step (PickAccent None ''221 83% 53%'')
     ((sp_mount ''alice'' (Some alice_profile) initial_appearance)\<lparr>sp_form := (''Alicia'', ''alice'')\<rparr>, settings_store))) = (''Alice'', ''alice'') \<and>
   sp_form (fst (sp_step (PickRingtone ''/sounds/chime.mp3'')
     ((sp_mount ''alice'' (Some alice_profile) initial_appearance)\<lparr>sp_form := (''Alicia'', ''alice'')\<rparr>, settings_store))) = (''Alice'', ''alice'') \<and>
   sp_form (fst (sp_step (AvatarUpload (Some ''https://img/a.png''))
     ((sp_mount ''alice'' (Some alice_profile) initial_appearance)\<lparr>sp_form := (''Alicia'', ''alice'')\<rparr>, settings_store))) = (''Alice'', ''alice'')"
proof -
  have "map_of (users settings_store) (st_user (sp_settings (sp_mount ''alice'' (Some alice_profile) initial_appearance))) = Some alice_profile"
    by (simp add: settings_store_def sp_mount_def profile_effect_def)
  from refresh_discards_form_edits [OF this, of None "''221 83% 53%''" "''Alicia''" "''alice''" "''/sounds/chime.mp3''" "''https://img/a.png''"]
  show ?thesis by (simp add: alice_profile_def)
qed

end
