(* ===== verification/HomeNav.thy ===== *)
theory HomeNav
  imports HomeView
begin

text \<open>
  Navigation on the home page (src/src/app/page.tsx): the mobile tab and the desktop
  sidebar's tab, the two chat search boxes, chat selection from either list and leaving
  a chat, as a step function over the page's navigation events; the desktop sidebar
  (\<open>DesktopSidebar\<close>, lines 562--632) and the mobile tab content
  (\<open>renderMobileContent\<close>, lines 716--743) as drawn; and the page's render
  (lines 530--549, 712--714 and 745--817) as a value of \<open>js_error + _\<close>, since
  \<open>filteredChats\<close> and the sidebar's filter evaluate \<open>chat.name.toLowerCase()\<close> on every
  render that reaches them. \<open>DesktopSidebar\<close> is a component declared inside \<open>Home\<close>:
  every render of \<open>Home\<close> gives React a new component type, so the sidebar's subtree is
  unmounted and mounted again, losing the state it holds (the people tab's search term,
  the focus of the chat search box).
\<close>

section \<open>Navigation state\<close>

text \<open>\<open>activeTab\<close>, \<open>desktopTab\<close>, \<open>chatSearchTerm\<close>, \<open>desktopChatSearchTerm\<close> (lines
  98--102), and the state held inside the desktop sidebar's subtree: the people tab's
  \<open>searchTerm\<close> (people-tab.tsx line 51) and whether the chat search box has focus.\<close>

record nav =
  nv_activeTab :: home_tab
  nv_desktopTab :: home_tab
  nv_search :: string
  nv_desktop_search :: string
  nv_people_search :: string
  nv_focus :: bool

definition initial_nav :: nav where
  "initial_nav = \<lparr>nv_activeTab = TabChats, nv_desktopTab = TabChats, nv_search = [], nv_desktop_search = [],
                  nv_people_search = [], nv_focus = False\<rparr>"

text \<open>A render of \<open>Home\<close> on a desktop mounts a new sidebar: its subtree's state is the
  initial one.\<close>

definition remount_sidebar :: "nav \<Rightarrow> nav" where
  "remount_sidebar nv = nv\<lparr>nv_people_search := [], nv_focus := False\<rparr>"

text \<open>The events: the bottom navigation (line 777), the sidebar's tab buttons (lines
  577--582), typing in the mobile search (line 770), focusing the desktop search box
  and typing in it (line 597, only while it has focus), typing in the people tab's
  search, a chat picked in the mobile list (line 719) or in the sidebar (lines
  605--612), leaving a chat (lines 755 and 792), and any other update of \<open>Home\<close>'s
  state (a listener's snapshot).\<close>

datatype nav_event =
    BottomTab home_tab
  | SidebarTab home_tab
  | MobileSearch string
  | FocusSearch
  | DesktopKey string
  | PeopleSearch string
  | PickChat chat_id
  | SidebarPick chat_id
  | ExitChat
  | HomeUpdate

text \<open>The change an event makes to \<open>Home\<close>'s own state, if any.\<close>

fun nav_home :: "bool \<Rightarrow> nav_event \<Rightarrow> nav \<times> home \<Rightarrow> (nav \<times> home) option" where
  "nav_home isMobile (BottomTab t) (nv, h) = Some (nv\<lparr>nv_activeTab := t\<rparr>, h)"
| "nav_home isMobile (SidebarTab t) (nv, h) = Some (nv\<lparr>nv_desktopTab := t\<rparr>, h)"
| "nav_home isMobile (MobileSearch q) (nv, h) = Some (nv\<lparr>nv_search := q\<rparr>, h)"
| "nav_home isMobile FocusSearch (nv, h) = None"
| "nav_home isMobile (DesktopKey q) (nv, h) = (if nv_focus nv then Some (nv\<lparr>nv_desktop_search := q\<rparr>, h) else None)"
| "nav_home isMobile (PeopleSearch q) (nv, h) = None"
| "nav_home isMobile (PickChat k) (nv, h) = Some (nv, h\<lparr>selectedChat := Some k\<rparr>)"
| "nav_home isMobile (SidebarPick k) (nv, h) =
     Some (if isMobile then nv\<lparr>nv_activeTab := TabChats\<rparr> else nv\<lparr>nv_desktopTab := TabChats\<rparr>, h\<lparr>selectedChat := Some k\<rparr>)"
| "nav_home isMobile ExitChat (nv, h) = Some (nv, h\<lparr>selectedChat := None\<rparr>)"
| "nav_home isMobile HomeUpdate (nv, h) = Some (nv, h)"

text \<open>One event: a change of \<open>Home\<close>'s state re-renders it, which on a desktop remounts
  the sidebar; on a phone the people tab keeps its state while it stays on screen and
  starts afresh when it is unmounted; focusing and the people search change only the
  state below \<open>Home\<close>.\<close>

fun nav_step :: "bool \<Rightarrow> nav_event \<Rightarrow> nav \<times> home \<Rightarrow> nav \<times> home" where
  "nav_step isMobile e (nv, h) =
     (case nav_home isMobile e (nv, h) of
        Some (nv', h') \<Rightarrow>
          (if \<not> isMobile then remount_sidebar nv'
           else if nv_activeTab nv' = TabPeoples \<and> selectedChat h' = None then nv'
           else nv'\<lparr>nv_people_search := []\<rparr>, h')
      | None \<Rightarrow> (case e of
                   FocusSearch \<Rightarrow> (nv\<lparr>nv_focus := True\<rparr>, h)
                 | PeopleSearch q \<Rightarrow> (nv\<lparr>nv_people_search := q\<rparr>, h)
                 | _ \<Rightarrow> (nv, h)))"

definition nav_run :: "bool \<Rightarrow> nav_event list \<Rightarrow> nav \<times> home \<Rightarrow> nav \<times> home" where
  "nav_run isMobile es st = fold (nav_step isMobile) es st"

section \<open>What the page draws\<close>

text \<open>\<open>DesktopSidebar\<close> (lines 562--632): the two tab buttons, each highlighted
  (\<open>secondary\<close>) on its tab; the chat search box on the chats tab; the chats whose name
  contains the desktop term (lines 569--571, evaluated on every render of the sidebar),
  or the people tab; the account menu.\<close>

datatype sidebar_content = SidebarChats "chat_row listing" | SidebarPeople people_view

record sidebar =
  sb_tabs :: "bool \<times> bool"
  sb_search :: "string option"
  sb_content :: sidebar_content
  sb_menu :: account_menu

definition DesktopSidebar :: "bool \<Rightarrow> nav \<Rightarrow> home \<Rightarrow> js_error + sidebar" where
  "DesktopSidebar creating nv h =
     (case filter_chats (nv_desktop_search nv) (chatList h) of
        Inl e \<Rightarrow> Inl e
      | Inr cs \<Rightarrow>
          Inr \<lparr>sb_tabs = (nv_desktopTab nv = TabChats, nv_desktopTab nv = TabPeoples),
               sb_search = (if nv_desktopTab nv = TabChats then Some (nv_desktop_search nv) else None),
               sb_content = (if nv_desktopTab nv = TabChats then SidebarChats (ChatList cs (selectedChat h))
                             else SidebarPeople (PeopleTab h (nv_people_search nv) creating)),
               sb_menu = account_menu h\<rparr>)"

text \<open>\<open>renderMobileContent\<close> (lines 716--743) with the already filtered chats: the chat
  list, the people tab or the settings tab.\<close>

datatype mobile_content = MobileChats "chat_row listing" | MobilePeople people_view | MobileSettings settings_tab

definition renderMobileContent :: "bool \<Rightarrow> bool \<Rightarrow> friends_panel \<Rightarrow> nav \<Rightarrow> home \<Rightarrow> chat_view list \<Rightarrow> mobile_content" where
  "renderMobileContent creating isFriendsOpen fp nv h filteredChats =
     (case nv_activeTab nv of
        TabChats \<Rightarrow> MobileChats (ChatList filteredChats (selectedChat h))
      | TabPeoples \<Rightarrow> MobilePeople (PeopleTab h (nv_people_search nv) creating)
      | TabSettings \<Rightarrow> MobileSettings (SettingsTab h isFriendsOpen fp))"

text \<open>The page as drawn: the coarse screen of \<open>HomeView\<close>, the mobile content when a
  phone shows the tabs, and the sidebar on a desktop. The loader and the call screen
  return before \<open>filteredChats\<close> (line 712) is computed; every other render computes it
  and, on a desktop, renders the sidebar, which computes its own filter.\<close>

record home_page_view =
  hv_screen :: home_screen
  hv_mobile :: "mobile_content option"
  hv_sidebar :: "sidebar option"

definition home_page :: "bool \<Rightarrow> bool \<Rightarrow> bool \<Rightarrow> bool \<Rightarrow> friends_panel \<Rightarrow> nav \<times> home \<Rightarrow> js_error + home_page_view" where
  "home_page authLoading isMobile creating isFriendsOpen fp st =
     (let (nv, h) = st;
          scr = home_render authLoading isMobile (nv_activeTab nv) (nv_desktopTab nv) (page.truncate h)
      in if authLoading \<or> (activeCall h \<noteq> None \<and> selectedChat h \<noteq> None)
         then Inr \<lparr>hv_screen = scr, hv_mobile = None, hv_sidebar = None\<rparr>
         else (case filter_chats (nv_search nv) (chatList h) of
                 Inl e \<Rightarrow> Inl e
               | Inr fc \<Rightarrow>
                   if isMobile
                   then Inr \<lparr>hv_screen = scr,
                             hv_mobile = (if selectedChat h = None
                                          then Some (renderMobileContent creating isFriendsOpen fp nv h fc) else None),
                             hv_sidebar = None\<rparr>
                   else (case DesktopSidebar creating nv h of
                           Inl e \<Rightarrow> Inl e
                         | Inr sb \<Rightarrow> Inr \<lparr>hv_screen = scr, hv_mobile = None, hv_sidebar = Some sb\<rparr>)))"

section \<open>The friends page\<close>

text \<open>\<open>FriendsPage\<close>'s render (src/src/app/friends/page.tsx lines 79--108): the loader
  while authentication loads or nobody is signed in, else the card with
  \<open>FriendsList\<close> over the friends the page loaded (lines 29--42).\<close>

datatype friends_page_view = FriendsLoader | FriendsCard "friend_row listing \<times> string option"

definition friends_page_view :: "auth_ctx \<Rightarrow> (uid \<times> user_doc) list \<Rightarrow> friends_panel \<Rightarrow> friends_page_view" where
  "friends_page_view ctx fs fp =
     (if loading ctx \<or> cur_user ctx = None then FriendsLoader else FriendsCard (FriendsList fs fp))"

section \<open>Lemmas\<close>

lemma chats_snapshot_activeCall [simp]: "activeCall (chats_snapshot docs (h, s)) = activeCall h"
  by (simp add: chats_snapshot_def Let_def)

lemma nav_step_desktop_remounts:
  "nav_home False e st = Some st' \<Longrightarrow> nav_step False e st = (remount_sidebar (fst st'), snd st')"
  by (cases st) (auto split: prod.split)

lemma filter_chats_Inl_page:
  "filter_chats (nv_search nv) (chatList h) = Inl e \<Longrightarrow> \<not> authLoading \<Longrightarrow> activeCall h = None \<Longrightarrow>
     home_page authLoading isMobile creating fo fp (nv, h) = Inl e"
  by (simp add: home_page_def Let_def)

lemma filter_chats_any_term:
  "filter_chats t cs = Inl e \<Longrightarrow> filter_chats t' cs = Inl e"
proof (induction cs)
  case (Cons c cs)
  then show ?case by (auto split: option.splits sum.splits)
qed simp

text \<open>A chat picked in the sidebar opens next to the sidebar, which turns to the chats tab.\<close>

lemma sidebar_pick_opens:
  "nav_run False [SidebarPick k] (nv, h) = (nv', h') \<Longrightarrow> activeCall h = None \<Longrightarrow>
     hs_main (home_render False False t (nv_desktopTab nv') (page.truncate h')) = HomeChat k \<and>
     hs_sidebar (home_render False False t (nv_desktopTab nv') (page.truncate h')) = Some TabChats"
  by (auto simp: nav_run_def home_render_def remount_sidebar_def page.truncate_def)

text \<open>On its chats tab the sidebar lists what the mobile chat tab lists for the same
  search term.\<close>

lemma sidebar_lists_chat_tab:
  "DesktopSidebar creating nv h = Inr sb \<Longrightarrow> nv_desktopTab nv = TabChats \<Longrightarrow>
     home_chat_tab (nv_desktop_search nv) h = Inr L \<Longrightarrow> sb_content sb = SidebarChats L"
  by (auto simp: DesktopSidebar_def home_chat_tab_def split: sum.splits)

lemma friend_docs_loaded:
  "\<forall>f \<in> set xs. map_of us f \<noteq> None \<Longrightarrow>
     friend_docs (map (\<lambda>f. (f, map_of us f)) xs) = Inr (map (\<lambda>f. (f, the (map_of us f))) xs)"
proof (induction xs)
  case (Cons x xs)
  then obtain d where "map_of us x = Some d" by auto
  with Cons show ?case by simp
qed simp

lemma friends_list_mem:
  "userProfile h = Some p \<Longrightarrow> (k, d) \<in> set (friends_list h) \<longleftrightarrow> (k, d) \<in> set (allUsers h) \<and> k \<in> set (friends p)"
  by (simp add: friends_list_def)

lemma loaded_mem:
  assumes "distinct (map fst us)" "\<forall>f \<in> set xs. map_of us f \<noteq> None"
  shows "(k, d) \<in> set (map (\<lambda>f. (f, the (map_of us f))) xs) \<longleftrightarrow> (k, d) \<in> set us \<and> k \<in> set xs"
proof
  assume "(k, d) \<in> set (map (\<lambda>f. (f, the (map_of us f))) xs)"
  then have k: "k \<in> set xs" and d: "d = the (map_of us k)" by auto
  from k assms(2) obtain d' where "map_of us k = Some d'" by auto
  with d have "map_of us k = Some d" by simp
  then have "(k, d) \<in> set us" by (rule map_of_SomeD)
  with k show "(k, d) \<in> set us \<and> k \<in> set xs" by simp
next
  assume a: "(k, d) \<in> set us \<and> k \<in> set xs"
  then have "map_of us k = Some d" using assms(1) by simp
  then show "(k, d) \<in> set (map (\<lambda>f. (f, the (map_of us f))) xs)" using a by force
qed

section \<open>Properties\<close>

text \<open>C23: The friends page and the settings tab list the same friends: when every friend's
  document exists and the users listener holds the store's user documents, the documents
  the friends page loads one by one are those the settings tab filters from all users
  (the order may differ: the page follows \<open>friends\<close>, the tab the users listener).\<close>

theorem friends_page_agrees_settings_tab:
  assumes "userProfile h = Some p" "allUsers h = users s" "distinct (map fst (users s))"
    and "\<forall>f \<in> set (friends p). map_of (users s) f \<noteq> None"
  shows "friend_docs (load_friends h s) = Inr (map (\<lambda>f. (f, the (map_of (users s) f))) (friends p)) \<and>
         set (map (\<lambda>f. (f, the (map_of (users s) f))) (friends p)) = set (friends_list h)"
proof
  show "friend_docs (load_friends h s) = Inr (map (\<lambda>f. (f, the (map_of (users s) f))) (friends p))"
    using assms(1,4) by (simp add: load_friends_def friend_docs_loaded)
  show "set (map (\<lambda>f. (f, the (map_of (users s) f))) (friends p)) = set (friends_list h)"
  proof (intro set_eqI)
    fix x :: "uid \<times> user_doc"
    obtain k d where x: "x = (k, d)" by fastforce
    show "x \<in> set (map (\<lambda>f. (f, the (map_of (users s) f))) (friends p)) \<longleftrightarrow> x \<in> set (friends_list h)"
      unfolding x friends_list_mem [OF assms(1)] loaded_mem [OF assms(3,4)] assms(2) ..
  qed
qed

text \<open>On a desktop the sidebar is mounted anew on every render of the home page: the
  chat search box loses its focus after the first keystroke, so a second keystroke does
  not reach the search term, and any update of the page clears the people tab's search.
  On a phone the search box is not remounted and keeps every keystroke.\<close>

lemma desktop_sidebar_state_lost:
  "nv_desktop_search (fst (nav_run False [FocusSearch, DesktopKey q1, DesktopKey q2] (nv, h))) = q1 \<and>
   \<not> nv_focus (fst (nav_run False [FocusSearch, DesktopKey q1] (nv, h))) \<and>
   nv_people_search (fst (nav_run False [PeopleSearch q, HomeUpdate] (nv, h))) = [] \<and>
   nv_search (fst (nav_run True [MobileSearch q1, MobileSearch q2] (nv, h))) = q2"
  by (simp add: nav_run_def remount_sidebar_def)

text \<open>C33: A chat whose other member has no profile makes the home page throw, not only
  the chat search: once the chats listener has delivered it, every render of the page
  other than the loader, without an active call, throws a TypeError, on a phone or a
  desktop, whatever the tab and the search terms.\<close>

theorem undefined_name_breaks_home:
  assumes "distinct (map chat_key docs)" and "c \<in> set docs" and "chat_type c = Direct"
    and "List.find (\<lambda>m. m \<noteq> me h) (chat_members c) = Some ou" and "map_of (users s) ou = None"
    and "activeCall h = None"
  shows "home_page False isMobile creating fo fp (nv, chats_snapshot docs (h, s)) = Inl TypeError"
proof -
  have "filter_chats [] (chatList (chats_snapshot docs (h, s))) = Inl TypeError"
    using assms(1-5) by (rule chat_search_crashes)
  then have "filter_chats (nv_search nv) (chatList (chats_snapshot docs (h, s))) = Inl TypeError"
    by (rule filter_chats_any_term)
  then show ?thesis using assms(6) by (intro filter_chats_Inl_page) simp_all
qed

theorem undefined_name_breaks_home_witness:
  "home_page False False False False \<lparr>fp_term = [], fp_target = None\<rparr> (initial_nav, chats_snapshot [carol_chat] (home_of ''alice'', social_store)) = Inl TypeError"
  using undefined_name_breaks_home [of "[carol_chat]" carol_chat "home_of ''alice''" "''carol''" social_store False False False
     "\<lparr>fp_term = [], fp_target = None\<rparr>" initial_nav]
  by (simp add: carol_chat_def new_direct_chat_def home_of_def)

theorem friends_page_agrees_settings_tab_witness:
  "friend_docs (load_friends ((home_of ''alice'')\<lparr>userProfile := Some ((blank_user ''alice'')\<lparr>friends := [''bob'']\<rparr>),
                                                 allUsers := users social_store\<rparr>) social_store) =
     Inr [(''bob'', blank_user ''bob'')] \<and>
   set [(''bob'', blank_user ''bob'')] =
     set (friends_list ((home_of ''alice'')\<lparr>userProfile := Some ((blank_user ''alice'')\<lparr>friends := [''bob'']\<rparr>),
                                          allUsers := users social_store\<rparr>))"
  using friends_page_agrees_settings_tab [of "(home_of ''alice'')\<lparr>userProfile := Some ((blank_user ''alice'')\<lparr>friends := [''bob'']\<rparr>),
                                                 allUsers := users social_store\<rparr>"
      "(blank_user ''alice'')\<lparr>friends := [''bob'']\<rparr>" social_store]
  by (simp add: social_store_def)

end
