(* ===== verification/Spec2Isabelle.thy ===== *)
theory Spec2Isabelle
  imports Orchestrator Negotiator Signaling Social Messaging Profile Widgets CallMachine Login Lists ChatScreen Waveform CallScreen HomeView SettingsView SettingsPage HomeNav
begin

text \<open>
  \<^bold>\<open>mitho_chat.\<close>
  A verification development of the repository (a Next.js/React chat client over
  Firestore and WebRTC), shallowly embedded in HOL: every handler of the sources that
  writes is a function of the local component state and the shared document store.
  The calling path (the spec's subject) is modelled in full; messaging, friends and
  profiles, which share the store with it, are modelled handler by handler.

  \<^bold>\<open>The program.\<close> Two browser clients exchange calls through one document per call in
  the store (\<open>calls/{id}\<close>, with two candidate sub-collections) and log finished calls
  as messages of the chat (\<open>chats/{id}/messages\<close>). On each client:
  \<^item> the Session Negotiator, class \<open>WebRTCManager\<close> (src/src/lib/webrtc.ts), wraps the
    browser's peer connection: offers, answers, candidates, mute, camera, hang-up;
  \<^item> the Signalling Channel and call screen, \<open>CallView\<close> (src/src/components/call-view.tsx),
    writes the offer or answer and its own candidates, subscribes to the other side's
    candidates and to the call document, and ends the call locally;
  \<^item> the Call Orchestrator, the call handlers of \<open>Home\<close> (src/src/app/page.tsx):
    incoming-call listener, accept/decline, initiate, end, ongoing-call listener;
  \<^item> the Call Log Writer, \<open>createCallMessage\<close> (page.tsx), appends the call's log entry.
  Around it: \<open>ChatView\<close> and the voice recorder send messages into the same chats; the
  friend handlers of page.tsx and friends/page.tsx create the chats and the friend
  lists; the auth provider (use-auth.tsx) and the settings page write the profiles.

  \<^bold>\<open>Theories.\<close>
  \<^item> \<open>Prelude\<close>: identifiers, the values shared across components (media kinds,
    session descriptions, candidates), the outcome type \<open>'e option \<times> 's\<close> of an
    asynchronous handler that may throw after some of its awaited writes (the writes
    done stay done), and \<open>find_idx\<close>, the position of JavaScript's \<open>Array.find\<close>.
  \<^item> \<open>Negotiator\<close>: the browser peer connection (external, from the WebRTC
    specification: signalling states, \<open>addIceCandidate\<close> needing a remote description,
    \<open>close()\<close> firing no event) and every method of \<open>WebRTCManager\<close>. Lemmas: toggling
    is an involution and reports the new disabled state; \<open>hangUp\<close> closes and stops all
    tracks and is idempotent; offer and answer on every branch; candidates delivered
    after the remote description are all applied and commute; candidates delivered
    before it are lost.
  \<^item> \<open>Store\<close>: the records of src/src/lib/data.ts and the Firestore primitives the
    handlers use (\<open>updateDoc\<close> rejects on a missing document, \<open>addDoc\<close> appends,
    \<open>deleteDoc\<close> of a chat leaves its messages, \<open>arrayUnion\<close>/\<open>arrayRemove\<close>, and
    \<open>writeBatch\<close>, all or nothing). The collections the handlers query themselves
    (\<open>users\<close>, \<open>friendRequests\<close>) are lists, so the queries compute.
  \<^item> \<open>CallLog\<close>: \<open>createCallMessage\<close>, one entry appended then the chat summary written.
  \<^item> \<open>Orchestrator\<close>: the page's call state and handlers. \<open>handleEndCall\<close> is split
    into its read (\<open>end_read\<close>, the decision) and its writes (\<open>end_write\<close>), as the
    source awaits them separately. Lemmas: ending is idempotent and logs at most once;
    each end and decline branch; the spec's 42-second video-call scenario evaluated;
    and the races the code does not guard (see below).
  \<^item> \<open>Signaling\<close>: \<open>CallView\<close>. Its state record holds the React state, the refs
    (\<open>mgr_ref\<close> for \<open>webRtcManagerRef\<close>, \<open>callEnded\<close> for \<open>callEndedRef\<close>) and what the
    WebRTC effect's closures captured when it last ran (\<open>eff_mgr\<close>, \<open>eff_start\<close>,
    \<open>eff_stream\<close>), so stale closures are explicit. \<open>cv_step\<close> dispatches the events
    (media granted or denied, effect run, document and candidate snapshots, connection
    state, buttons, unmount) and \<open>cv_run\<close> runs any sequence of them. Lemmas: every
    sequence keeps \<open>cv_inv\<close> (a manager no longer held by the ref is closed with its
    tracks stopped), so unmounting releases the hardware; \<open>onEndCall\<close> is called at
    most once; the first answer is applied once; and the stale-closure effects below.
  \<^item> \<open>Social\<close>: the friend and chat handlers of \<open>Home\<close> over its state extended with
    request statuses, profile and chat list (\<open>home\<close>): chat creation under the id of
    the sorted members, send/cancel/accept/decline of requests, unfriend, the listeners
    and search filters. Lemmas: the chat id round trip, the accept and unfriend writes,
    and the findings below.
  \<^item> \<open>Messaging\<close>: \<open>ChatView\<close>'s send, attachment, mute, clear (split at its await),
    delete and block handlers, the call-entry text, and the voice recorder as a step
    function over its events, with \<open>MediaRecorder\<close> (W3C) delivering data only after a
    stop. Lemmas: the recorder invariant \<open>vr_inv\<close>; \<open>handleDeleteChat\<close> deletes the
    chat document and keeps its messages, which a re-created chat shows again.
  \<^item> \<open>Profile\<close>: the profile created on first sign-in (\<open>generateHandle\<close>, whose
    characters are always handle characters) and the settings writes.
  \<^item> \<open>Widgets\<close>: rendering decisions with logic (when the call screen shows, the
    incoming-call dialog's actions and ringtone, timers). Lemma: a call accepted while
    its chat document is missing never shows the call screen.
  \<^item> \<open>CallMachine\<close>: the two clients of one call composed. A state \<open>sys\<close> holds the
    caller's and the callee's page state, their call screens (\<open>view\<close>) and the store;
    \<open>cm_step\<close> is the nondeterministic step relation whose rules are the handlers of
    the other theories (initiate, the incoming listener's notice, accept/decline,
    opening the chat, the ongoing-call listener, mounting and unmounting the call
    screen, hang-up), any of which may fire in any order, as the asynchronous
    listeners allow. Lemmas by rule induction over \<open>reach\<close>: the invariant \<open>cm_inv\<close>;
    every step moves the call's status along the spec's automaton \<open>spec_step\<close> or one
    of three stale transitions \<open>stale_step\<close> (refinement); a declined call is never
    connected; a prompt is only shown for a ringing or ended call; and from every
    reachable state some sequence of steps settles the call (liveness, as reachability
    by repeated \<open>cm_any\<close> steps, no fairness assumed). Deleting the chat is not a step, so an
    accept without a chat document is excluded here (see \<open>Widgets\<close>).
  \<^item> \<open>Login\<close>: the sign-in page (src/src/app/login/page.tsx): the zod schema of the
    form (\<open>zod_email\<close> is zod's e-mail regular expression as a predicate), the e-mail
    and Google handlers, the redirect effect and what the card draws. Firebase
    Authentication is a collaborator modelled from its interface (accounts, the
    signed-in user, the verification mails); whether a mail or a popup succeeds is an
    input. Lemmas: a sign-up lands signed in and unverified, and a refused
    verification mail reports a failure for an account that exists.
  \<^item> \<open>Lists\<close>: what the list components draw. \<open>MessageItem\<close> (call row or bubble, its
    parts, initials, document size as \<open>toFixed(2)\<close> computes it), the chat list and
    chat tab, the people tab and its per-user button, the friends page's loading and
    the friends panel with its unfriend dialog (\<open>fl_step\<close>). Lemmas: every message
    writer keeps the message typing \<open>msg_wf\<close> and every typed message is drawn with its
    payload; the chat tab draws each chat once with at most one highlighted row; only
    Continue in the dialog unfriends, and it unfriends the friend it names; a pending
    request to me leaves Add Friend on its sender's row.
  \<^item> \<open>ChatScreen\<close>: \<open>ChatView\<close> as a whole: its header, composer and attachment
    preview as drawn, and \<open>cs_step\<close>, every event of the screen (typing, send, file,
    preview, microphone, menu, dialog, call buttons, message listener) wired to the
    handlers of \<open>Messaging\<close> and the page's \<open>handleInitiateCall\<close>, with disabled
    controls as events that change nothing; \<open>cs_run\<close> runs a sequence. Lemma: while
    the other member is blocked, no run that does not open the block dialog adds a
    message or a call, and the member stays blocked.
  \<^item> \<open>Waveform\<close>: the voice recorder's analyser and its \<open>Waveform\<close> canvas. Samples
    are \<open>8 word\<close> bytes, bar heights rationals; the drawing loop \<open>waveform_loop\<close> is a
    \<open>function\<close> whose termination is proved with the measure \<open>numBars - i\<close>. Lemmas:
    the loop returns one bar per three pixels, all inside the canvas; with the
    recorder's 64 bins and 66 bars every bar reads bin 0.
  \<^item> \<open>CallScreen\<close>: what \<open>CallView\<close> draws from its state: ringback, fallback
    avatar, status text, timer, local preview and the controls with whether they are
    enabled. Lemma: after a refused media request only the end button is usable.
  \<^item> \<open>HomeView\<close>: which screen the home page (page.tsx) shows: the loader, the
    call screen returned early, the selected chat, the mobile tabs with the bottom
    navigation, or the desktop sidebar, and the incoming-call dialog drawn at the end
    of the page; the account menu and the settings tab; and the friends panel's two
    mountings, on the friends page and in the settings tab, each with its own unfriend
    handler; the incoming-call dialog as drawn (ringtone, caller, call type). Lemmas:
    a call the listener takes up is drawn off the call screen, with my ringtone; while a
    call is on screen a second incoming call's dialog is not drawn until the first call
    ends.
  \<^item> \<open>SettingsView\<close>: what the settings page (settings/page.tsx) keeps and draws
    besides its profile writes: the ringtone preview (\<open>playRingtone\<close>) over an explicit
    store of the audio elements it creates, the ringtone radio group with its
    \<open>Custom\<close> row, the accent grid and its click, the handle status line and the save
    button's guard; the contact sheet (user-info-sheet.tsx), the image viewer
    (image-view-dialog.tsx) and \<open>useDraggable\<close> (use-draggable.ts) as a step function
    over drag events. Lemmas: at most one preview plays and the page names it; the
    radio group selects exactly one row, the tone the incoming-call dialog plays; a
    colour click, once the profile is read again, highlights that colour alone; drag
    gestures add up; leaving the page does not stop a playing preview.
  \<^item> \<open>SettingsPage\<close>: the appearance (\<open>next-themes\<close>' theme and the \<open>--primary\<close>
    variable) from the layout's default through the auth provider's
    \<open>fetchUserProfile\<close>, \<open>refreshUserProfile\<close>, sign-in listener and \<open>logout\<close>
    (use-auth.tsx); the settings page as one state (profile state, form fields,
    preview, appearance) and \<open>sp_step\<close> over all its events, each successful write
    followed by the refresh and the page's profile effect; its redirect and loader.
    Lemmas: the applied appearance refines the stored profile over any run of the page
    (an invariant proved per event); a write refreshes the profile and resets the
    unsaved form; a ringtone pick saves, selects and previews the tone; logout keeps
    the appearance.
  \<^item> \<open>HomeNav\<close>: the home page's navigation (mobile and desktop tabs, the two chat
    search boxes, chat selection and exit) as \<open>nav_step\<close>, with the remount of
    \<open>DesktopSidebar\<close> (declared inside \<open>Home\<close>) on every render; the desktop sidebar,
    the mobile tab content and the page render \<open>home_page\<close> as \<open>js_error + _\<close>.
    Lemmas: a sidebar pick opens the chat; the sidebar lists what the chat tab lists;
    the desktop search box loses its focus after one keystroke and the people search is
    cleared by any update; a chat with an undefined name makes every render throw.
    The friends page's render, and that the documents it loads one by one are the
    friends the settings tab filters from the users listener's list.

  \<^bold>\<open>What the lemmas show about the code.\<close> The handler-level guarantees of the spec
  hold: a second end writes nothing, a decline logs exactly one missed call and never
  connects, a caller's cancel logs one missed call. Several do not, each proved as
  a theorem about the code: a call ended by the callee is never logged; a connected
  call of measured duration 0 is never logged; the terminal \<open>declined\<close> is overwritten
  by \<open>ended\<close>; an accept after a cancel writes \<open>connected\<close> over \<open>ended\<close>; a decline
  from the prompt that survives a cancel logs a second missed call; nothing enforces
  one active call; remote candidates arriving before the answer is applied are dropped.
  On the call screen: the effect re-runs when the stream arrives, so the caller's offer
  is written twice; the listeners see a stale \<open>callStartTime\<close>, so the timer restarts
  on every connected snapshot and an end caused by the connection reports 0 seconds;
  a stream granted after hang-up re-arms a live connection on the ended screen; a
  refused camera leaves the call without audio as well.
  Elsewhere: a voice message is never sent (the recorder yields no data before it
  stops); after an unfriend the same users can never befriend again; a chat with a
  member without profile makes every render of the home page throw; a deleted chat
  comes back with its history; the handle checked is not the handle saved, so handles are not unique;
  some summaries are stored as mojibake; a sign-up whose verification mail fails
  reports failure though the account exists and signs the user in, and no page checks
  that the address was verified; the people tab offers Add Friend to a user whose
  request to me is pending, and pressing it writes a second, opposite request; the
  recording waveform draws 66 equal bars from the lowest frequency bin; a ringtone
  preview keeps playing after the settings page is left; picking an accent colour,
  a ringtone or an avatar discards an unsaved name or handle in the profile form;
  signing out keeps the previous user's theme and colour; on a desktop the chat search
  box loses its focus after each keystroke and the people search is cleared by any
  update of the home page.

  \<^bold>\<open>Not modelled.\<close> The devices behind \<open>getUserMedia\<close> (its outcome is an event),
  layout and styling, locale-formatted times, the sound of ringtones and previews
  (an element plays until paused or ended; a rejected \<open>play()\<close> is not modelled), the
  timer's interval, the AI flows (prompts for an external service that no page or
  component calls), the Firebase
  initialisation, the form library's own state (\<open>react-hook-form\<close>: the fields are
  two strings and the schema a predicate), the pointer events \<open>useDrag\<close> turns into gestures (a gesture is
  its start and its moves), the network's ICE connectivity checks (the connection
  state is an input), and network failures of reads (uploads and writes that can fail
  are inputs or \<open>NotFound\<close> outcomes).
  No loop of the program is unbounded: every iteration is over a finite list
  (\<open>forEach\<close> over senders, changes, candidates) or a counted \<open>for\<close> loop (the
  waveform's, proved terminating), so no fuel is needed.
\<close>

end
